(* ===== verification/Prelude.thy ===== *)
theory Prelude
  imports Complex_Main "HOL-Library.AList" "HOL-Library.Char_ord" "HOL-Library.List_Lexorder"
begin

text \<open>
  Shared vocabulary of the development: Go maps keyed by strings, validation chains
  (``the first non-nil error wins''), the parts of the Go standard library (package
  \<open>strings\<close>, \<open>slices\<close>, \<open>strconv\<close>) that the provider uses, and the lemmas about them that
  the component theories share. The collections \<open>gmap_simps\<close> and \<open>check_simps\<close> carry the
  proofs about maps and about validation; \<open>emits_intros\<close> is filled by the theory Cluster.
\<close>

named_theorems gmap_simps
named_theorems check_simps
named_theorems emits_intros

section \<open>Go maps with string keys\<close>

text \<open>
  A Go \<open>map[string]V\<close> is an association list read with \<open>gget\<close>. A nil map and an empty map are
  both the empty list: the code never distinguishes them except to allocate before a write.
  \<open>gset\<close> overwrites in place or appends, so a map built with \<open>gset\<close> has distinct keys.
  \<open>gcopy\<close> is \<open>maps.Copy(dst, src)\<close>: Go iterates in an unspecified order, and for the distinct
  keys of a map every order gives the same lookups.
\<close>

type_synonym 'v gmap = "(string \<times> 'v) list"

definition gget :: "'v gmap \<Rightarrow> string \<Rightarrow> 'v option" where
  "gget m k = map_of m k"

definition ggetd :: "'v \<Rightarrow> 'v gmap \<Rightarrow> string \<Rightarrow> 'v" where
  "ggetd d m k = (case gget m k of None \<Rightarrow> d | Some v \<Rightarrow> v)"

definition gset :: "string \<Rightarrow> 'v \<Rightarrow> 'v gmap \<Rightarrow> 'v gmap" where
  "gset k v m = AList.update k v m"

definition gcopy :: "'v gmap \<Rightarrow> 'v gmap \<Rightarrow> 'v gmap" where
  "gcopy dst src = foldr (\<lambda>(k, v) m. gset k v m) src dst"

definition gkeys :: "'v gmap \<Rightarrow> string list" where
  "gkeys m = map fst m"

definition ghas :: "'v gmap \<Rightarrow> string \<Rightarrow> bool" where
  "ghas m k \<longleftrightarrow> gget m k \<noteq> None"

text \<open>\<open>slices.Sorted(maps.Keys(m))\<close>: each key once, in byte order.\<close>

definition sorted_keys :: "'v gmap \<Rightarrow> string list" where
  "sorted_keys m = remdups_adj (sort (gkeys m))"

lemma gget_Nil [simp, gmap_simps]: "gget [] k = None"
  by (simp add: gget_def)

lemma gget_Cons [simp, gmap_simps]:
  "gget ((k', v) # m) k = (if k = k' then Some v else gget m k)"
  by (simp add: gget_def)

lemma gget_gset [simp, gmap_simps]: "gget (gset k v m) k' = (if k' = k then Some v else gget m k')"
  by (simp add: gget_def gset_def update_conv')

lemma gget_gcopy [gmap_simps]:
  "gget (gcopy dst src) k = (case gget src k of None \<Rightarrow> gget dst k | Some v \<Rightarrow> Some v)"
  by (induction src) (auto simp: gcopy_def split: option.splits)

lemma ggetd_simps [simp, gmap_simps]:
  "ggetd d [] k = d"
  "ggetd d (gset k v m) k' = (if k' = k then v else ggetd d m k')"
  by (simp_all add: ggetd_def)

lemma gset_idem: "gget m k = Some v \<Longrightarrow> gset k v m = m"
  by (induction m) (auto simp: gset_def)

lemma gkeys_gset: "set (gkeys (gset k v m)) = insert k (set (gkeys m))"
  by (simp add: gkeys_def gset_def dom_update)

lemma distinct_gset: "distinct (gkeys m) \<Longrightarrow> distinct (gkeys (gset k v m))"
  by (simp add: gkeys_def gset_def distinct_update)

lemma gget_None_iff: "gget m k = None \<longleftrightarrow> k \<notin> set (gkeys m)"
  by (simp add: gget_def gkeys_def map_of_eq_None_iff)

lemma ghas_iff: "ghas m k \<longleftrightarrow> k \<in> set (gkeys m)"
  by (simp add: ghas_def gget_None_iff)

lemma ggetd_Some: "ggetd d m k = v \<Longrightarrow> v \<noteq> d \<Longrightarrow> gget m k = Some v"
  by (auto simp: ggetd_def split: option.splits)

lemma gget_mem: "gget m k = Some v \<Longrightarrow> (k, v) \<in> set m"
  by (simp add: gget_def map_of_SomeD)

lemma gget_distinct_mem: "distinct (gkeys m) \<Longrightarrow> (k, v) \<in> set m \<Longrightarrow> gget m k = Some v"
  by (simp add: gget_def gkeys_def)

lemma set_sorted_keys [simp]: "set (sorted_keys m) = set (gkeys m)"
  by (simp add: sorted_keys_def)

section \<open>Validation: the first error wins\<close>

text \<open>
  A Go function that returns \<open>error\<close> is \<open>'e option\<close>, None for nil. A block of guards
  \<open>if cond { return err }\<close> or \<open>if err := f(); err != nil { return err }\<close> is the list of the
  guards in the order of the code: \<open>first_error\<close> returns the first that fires.
\<close>

definition check :: "bool \<Rightarrow> 'e \<Rightarrow> 'e option" where
  "check c e = (if c then Some e else None)"

fun first_error :: "'e option list \<Rightarrow> 'e option" where
  "first_error [] = None"
| "first_error (Some e # cs) = Some e"
| "first_error (None # cs) = first_error cs"

lemma first_error_None [simp, check_simps]: "first_error cs = None \<longleftrightarrow> (\<forall>c \<in> set cs. c = None)"
  by (induction cs rule: first_error.induct) auto

lemma first_error_Some: "first_error cs = Some e \<Longrightarrow> Some e \<in> set cs"
  by (induction cs rule: first_error.induct) auto

lemma first_error_cases:
  "first_error (c # cs) = (case c of None \<Rightarrow> first_error cs | Some e \<Rightarrow> Some e)"
  by (cases c) simp_all

lemma check_None [simp, check_simps]: "check c e = None \<longleftrightarrow> \<not> c"
  by (simp add: check_def)

lemma check_Some [simp]: "check c e = Some e' \<longleftrightarrow> c \<and> e' = e"
  by (auto simp: check_def)

text \<open>
  A call that returns a value or an error is \<open>'e + 'a\<close> (Inl the error). \<open>tryR\<close> is
  \<open>x, err := f(); if err != nil { return err }; rest\<close>.
\<close>

definition tryR :: "'e + 'a \<Rightarrow> ('a \<Rightarrow> 'e + 'b) \<Rightarrow> 'e + 'b" where
  "tryR r f = (case r of Inl e \<Rightarrow> Inl e | Inr x \<Rightarrow> f x)"

lemma tryR_simps [simp]: "tryR (Inl e) f = Inl e" "tryR (Inr x) f = f x"
  by (simp_all add: tryR_def)

lemma tryR_Inr_iff: "tryR r f = Inr y \<longleftrightarrow> (\<exists>x. r = Inr x \<and> f x = Inr y)"
  by (cases r) auto

lemma tryR_Inl_iff: "tryR r f = Inl e \<longleftrightarrow> r = Inl e \<or> (\<exists>x. r = Inr x \<and> f x = Inl e)"
  by (cases r) auto

section \<open>Package strings\<close>

text \<open>Go strings are byte sequences; a \<open>char\<close> is a byte.\<close>

definition hasPrefix :: "string \<Rightarrow> string \<Rightarrow> bool" where
  "hasPrefix s p \<longleftrightarrow> take (length p) s = p"

definition hasSuffix :: "string \<Rightarrow> string \<Rightarrow> bool" where
  "hasSuffix s p \<longleftrightarrow> hasPrefix (rev s) (rev p)"

text \<open>\<open>strings.Cut\<close>: text before and after the first separator, and whether it occurs.\<close>

fun cut :: "string \<Rightarrow> string \<Rightarrow> string \<times> string \<times> bool" where
  "cut sep [] = (if sep = [] then ([], [], True) else ([], [], False))"
| "cut sep (c # cs) =
     (if hasPrefix (c # cs) sep then ([], drop (length sep) (c # cs), True)
      else (case cut sep cs of (before, after, found) \<Rightarrow> (c # before, after, found)))"

text \<open>\<open>strings.Split\<close> on a one-byte separator.\<close>

fun splitOn :: "char \<Rightarrow> string \<Rightarrow> string list" where
  "splitOn sep [] = [[]]"
| "splitOn sep (c # cs) =
     (if c = sep then [] # splitOn sep cs
      else (case splitOn sep cs of [] \<Rightarrow> [[c]] | w # ws \<Rightarrow> (c # w) # ws))"

text \<open>
  \<open>strings.TrimSpace\<close> removes Unicode white space: the ASCII spaces and the UTF-8 encodings of
  U+0085, U+00A0, U+1680, U+2000 to U+200A, U+2028, U+2029, U+202F, U+205F and U+3000.
\<close>

definition space_runes :: "string list" where
  "space_runes =
     map (map char_of)
       ([[9], [10], [11], [12], [13], [32], [194, 133], [194, 160], [225, 154, 128]]
        @ map (\<lambda>b. [226, 128, b]) ([128, 129, 130, 131, 132, 133, 134, 135, 136, 137, 138] @ [168, 169, 175])
        @ [[226, 129, 159], [227, 128, 128 :: nat]])"

function trimWith :: "string list \<Rightarrow> string \<Rightarrow> string" where
  "trimWith seps s =
     (case find (\<lambda>p. p \<noteq> [] \<and> hasPrefix s p) seps of
        None \<Rightarrow> s
      | Some p \<Rightarrow> trimWith seps (drop (length p) s))"
  by pat_completeness auto
termination
proof (relation "measure (\<lambda>(seps, s). length s)", goal_cases)
  case 1
  show ?case by simp
next
  case (2 seps s p)
  then have "p \<noteq> []" "hasPrefix s p" by (auto simp: find_Some_iff)
  then show ?case by (cases s; cases p) (auto simp: hasPrefix_def)
qed

declare trimWith.simps [simp del]

definition trimSpace :: "string \<Rightarrow> string" where
  "trimSpace s = rev (trimWith (map rev space_runes) (rev (trimWith space_runes s)))"

text \<open>
  \<open>strings.ToLower\<close> and \<open>strings.EqualFold\<close>, exact for comparison with an ASCII constant.
  Besides the ASCII capitals, the only runes whose lower case is ASCII are U+212A (the Kelvin
  sign, to k) and U+0130 (dotted capital I, to i). Case folding relates U+212A to k and U+017F
  (long s) to s, and no other rune outside ASCII to an ASCII letter.
\<close>

definition lower_char :: "char \<Rightarrow> char" where
  "lower_char c = (let n = of_char c :: nat in if 65 \<le> n \<and> n \<le> 90 then char_of (n + 32) else c)"

definition kelvin_sign :: string where "kelvin_sign = map char_of [226, 132, 170 :: nat]"
definition dotted_I :: string where "dotted_I = map char_of [196, 176 :: nat]"
definition long_s :: string where "long_s = map char_of [197, 191 :: nat]"

fun toLower :: "string \<Rightarrow> string" where
  "toLower [] = []"
| "toLower (c # cs) =
     (if hasPrefix (c # cs) kelvin_sign then CHR ''k'' # toLower (drop 2 cs)
      else if hasPrefix (c # cs) dotted_I then CHR ''i'' # toLower (drop 1 cs)
      else lower_char c # toLower cs)"

fun foldCase :: "string \<Rightarrow> string" where
  "foldCase [] = []"
| "foldCase (c # cs) =
     (if hasPrefix (c # cs) kelvin_sign then CHR ''k'' # foldCase (drop 2 cs)
      else if hasPrefix (c # cs) long_s then CHR ''s'' # foldCase (drop 1 cs)
      else lower_char c # foldCase cs)"

definition equalFold :: "string \<Rightarrow> string \<Rightarrow> bool" where
  "equalFold s t \<longleftrightarrow> foldCase s = foldCase t"

lemma hasPrefix_append [simp]: "hasPrefix (p @ s) p"
  by (simp add: hasPrefix_def)

lemma hasPrefix_iff: "hasPrefix s p \<longleftrightarrow> (\<exists>t. s = p @ t)"
  unfolding hasPrefix_def by (metis append_eq_conv_conj)

lemma hasPrefix_Nil [simp]: "hasPrefix s []"
  by (simp add: hasPrefix_def)

lemma hasPrefix_code_Cons [simp]:
  "hasPrefix [] (c # p) \<longleftrightarrow> False"
  "hasPrefix (d # s) (c # p) \<longleftrightarrow> d = c \<and> hasPrefix s p"
  by (simp_all add: hasPrefix_def)

lemma hasSuffix_iff: "hasSuffix s p \<longleftrightarrow> (\<exists>t. s = t @ p)"
  unfolding hasSuffix_def hasPrefix_iff
  by (metis rev_append rev_rev_ident)

text \<open>Text of printable ASCII characters has nothing to trim.\<close>

definition printable :: "char \<Rightarrow> bool" where
  "printable c \<longleftrightarrow> (32::nat) < of_char c \<and> (of_char c::nat) < 128"

lemma space_runes_ends:
  "list_all (\<lambda>p. p \<noteq> [] \<and> \<not> printable (hd p) \<and> \<not> printable (last p)) space_runes"
  by (simp add: space_runes_def printable_def)

lemma trimWith_none: "(\<And>p. p \<in> set seps \<Longrightarrow> p \<noteq> [] \<Longrightarrow> \<not> hasPrefix s p) \<Longrightarrow> trimWith seps s = s"
proof -
  assume "\<And>p. p \<in> set seps \<Longrightarrow> p \<noteq> [] \<Longrightarrow> \<not> hasPrefix s p"
  then have "find (\<lambda>p. p \<noteq> [] \<and> hasPrefix s p) seps = None" by (auto simp: find_None_iff)
  then show ?thesis by (subst trimWith.simps) simp
qed

lemma hasPrefix_hd: "hasPrefix s p \<Longrightarrow> p \<noteq> [] \<Longrightarrow> s \<noteq> [] \<and> hd s = hd p"
  by (cases s; cases p) auto

lemma trimSpace_printable:
  assumes "list_all printable s"
  shows "trimSpace s = s"
proof -
  have ends: "p \<in> set space_runes \<Longrightarrow> \<not> printable (hd p) \<and> \<not> printable (last p) \<and> p \<noteq> []" for p
    using space_runes_ends by (auto simp: list_all_iff)
  have "trimWith space_runes s = s"
  proof (rule trimWith_none)
    fix p assume p: "p \<in> set space_runes" "p \<noteq> []"
    show "\<not> hasPrefix s p"
      using ends [OF p(1)] hasPrefix_hd [of s p] assms by (cases s) auto
  qed
  moreover have "trimWith (map rev space_runes) (rev s) = rev s"
  proof (rule trimWith_none)
    fix p assume "p \<in> set (map rev space_runes)"
    then obtain q where q: "q \<in> set space_runes" "p = rev q" by auto
    have hd: "hd p = last q" using ends [OF q(1)] q(2) by (simp add: hd_rev)
    show "\<not> hasPrefix (rev s) p"
    proof
      assume "hasPrefix (rev s) p"
      then have s: "s \<noteq> []" "last s = last q"
        using hasPrefix_hd [of "rev s" p] ends [OF q(1)] q(2) hd by (auto simp: hd_rev)
      then have "printable (last s)" using assms last_in_set [OF s(1)] by (simp only: list_all_iff)
      then show False using ends [OF q(1)] s by simp
    qed
  qed
  ultimately show ?thesis by (simp add: trimSpace_def)
qed

text \<open>On printable ASCII the case conversions are the ASCII ones.\<close>

lemma printable_no_rune:
  assumes "printable c"
  shows "\<not> hasPrefix (c # cs) kelvin_sign" "\<not> hasPrefix (c # cs) dotted_I" "\<not> hasPrefix (c # cs) long_s"
proof -
  have neq: "c \<noteq> char_of (n :: nat)" if "128 \<le> n" "n < 256" for n
    using assms that by (auto simp: printable_def)
  show "\<not> hasPrefix (c # cs) kelvin_sign" "\<not> hasPrefix (c # cs) dotted_I" "\<not> hasPrefix (c # cs) long_s"
    using neq [of 226] neq [of 196] neq [of 197] by (auto simp: kelvin_sign_def dotted_I_def long_s_def)
qed

lemma toLower_printable: "list_all printable s \<Longrightarrow> toLower s = map lower_char s"
  by (induction s) (auto simp: printable_no_rune simp del: hasPrefix_code_Cons)

lemma foldCase_printable: "list_all printable s \<Longrightarrow> foldCase s = map lower_char s"
  by (induction s) (auto simp: printable_no_rune simp del: hasPrefix_code_Cons)

lemma equalFold_refl [simp]: "equalFold s s"
  by (simp add: equalFold_def)

lemma cut_found:
  "cut [c] s = (before, after, True) \<Longrightarrow> s = before @ c # after \<and> c \<notin> set before"
proof (induction s arbitrary: before)
  case Nil
  then show ?case by simp
next
  case (Cons d s)
  then show ?case by (auto split: if_splits prod.splits)
qed

lemma cut_not_found: "cut [c] s = (before, after, False) \<Longrightarrow> before = s \<and> c \<notin> set s"
proof (induction s arbitrary: before)
  case Nil
  then show ?case by simp
next
  case (Cons d s)
  then show ?case by (auto split: if_splits prod.splits)
qed

lemma cut_append: "c \<notin> set p \<Longrightarrow> cut [c] (p @ c # s) = (p, s, True)"
  by (induction p) auto

section \<open>Package slices\<close>

text \<open>\<open>slices.Compact\<close> after \<open>slices.Sort\<close>: the elements once each, in byte order.\<close>

definition compact :: "'a list \<Rightarrow> 'a list" where
  "compact xs = remdups_adj xs"

definition sort_compact :: "string list \<Rightarrow> string list" where
  "sort_compact xs = compact (sort xs)"

lemma set_sort_compact [simp]: "set (sort_compact xs) = set xs"
  by (simp add: sort_compact_def compact_def)

lemma sorted_remdups_adj_distinct:
  fixes xs :: "'a::linorder list"
  shows "sorted xs \<Longrightarrow> distinct (remdups_adj xs)"
  by (induction xs rule: remdups_adj.induct) (auto simp: less_le)

lemma distinct_sort_compact [simp]: "distinct (sort_compact xs)"
  by (simp add: sort_compact_def compact_def sorted_remdups_adj_distinct)

lemma sorted_sort_compact [simp]: "sorted (sort_compact xs)"
  by (simp add: sort_compact_def compact_def sorted_remdups_adj)

lemma sort_compact_Nil_iff [simp]: "sort_compact xs = [] \<longleftrightarrow> xs = []"
  by (metis set_empty set_sort_compact)

lemma sort_compact_cong: "set xs = set ys \<Longrightarrow> sort_compact xs = sort_compact ys"
  by (rule sorted_distinct_set_unique) simp_all

section \<open>Package strconv and 32-bit integers\<close>

fun digits_of :: "nat \<Rightarrow> string" where
  "digits_of n = (if n < 10 then [char_of (48 + n)] else digits_of (n div 10) @ [char_of (48 + n mod 10)])"

declare digits_of.simps [simp del]

definition itoa :: "int \<Rightarrow> string" where
  "itoa i = (if i < 0 then CHR ''-'' # digits_of (nat (- i)) else digits_of (nat i))"

text \<open>
  An \<open>int32\<close> is an \<open>int\<close> in the range \<open>int32_ok\<close>; arithmetic and conversions that can leave the
  range wrap around with \<open>wrap32\<close>.
\<close>

definition wrap32 :: "int \<Rightarrow> int" where
  "wrap32 i = (i + 2 ^ 31) mod 2 ^ 32 - 2 ^ 31"

definition int32_ok :: "int \<Rightarrow> bool" where
  "int32_ok i \<longleftrightarrow> - (2 ^ 31) \<le> i \<and> i < 2 ^ 31"

definition int32_opt :: "int option \<Rightarrow> bool" where
  "int32_opt n = (case n of None \<Rightarrow> True | Some i \<Rightarrow> int32_ok i)"

lemma wrap32_ok: "int32_ok (wrap32 i)"
  by (simp add: wrap32_def int32_ok_def)

lemma wrap32_id: "int32_ok i \<Longrightarrow> wrap32 i = i"
  by (simp add: wrap32_def int32_ok_def)

text \<open>
  \<open>strconv.Quote\<close>, which is what \<open>%q\<close> prints. Text is read as UTF-8: \<open>decodeRune\<close> is
  \<open>utf8.DecodeRuneInString\<close>, the code point and its width, and None where the bytes are not a
  valid encoding. Which code points are printable is settled below 256 and a parameter beyond.
\<close>

definition contByte :: "nat \<Rightarrow> bool" where
  "contByte b \<longleftrightarrow> 128 \<le> b \<and> b < 192"

fun decodeRune :: "nat list \<Rightarrow> (nat \<times> nat) option" where
  "decodeRune [] = None"
| "decodeRune (a # bs) =
     (if a < 128 then Some (a, 1)
      else if 194 \<le> a \<and> a < 224 then
        (case bs of
           b # _ \<Rightarrow> if contByte b then Some ((a - 192) * 64 + (b - 128), 2) else None
         | _ \<Rightarrow> None)
      else if 224 \<le> a \<and> a < 240 then
        (case bs of
           b # c # _ \<Rightarrow>
             if contByte b \<and> contByte c \<and> (a = 224 \<longrightarrow> 160 \<le> b) \<and> (a = 237 \<longrightarrow> b < 160)
             then Some (((a - 224) * 64 + (b - 128)) * 64 + (c - 128), 3) else None
         | _ \<Rightarrow> None)
      else if 240 \<le> a \<and> a < 245 then
        (case bs of
           b # c # d # _ \<Rightarrow>
             if contByte b \<and> contByte c \<and> contByte d \<and> (a = 240 \<longrightarrow> 144 \<le> b) \<and> (a = 244 \<longrightarrow> b < 144)
             then Some ((((a - 240) * 64 + (b - 128)) * 64 + (c - 128)) * 64 + (d - 128), 4) else None
         | _ \<Rightarrow> None)
      else None)"

definition isPrint :: "(nat \<Rightarrow> bool) \<Rightarrow> nat \<Rightarrow> bool" where
  "isPrint beyond r \<longleftrightarrow>
     (if r < 256 then 32 \<le> r \<and> r < 127 \<or> 161 \<le> r \<and> r \<noteq> 173 else beyond r)"

fun hexDigits :: "nat \<Rightarrow> nat \<Rightarrow> string" where
  "hexDigits 0 n = []"
| "hexDigits (Suc k) n = hexDigits k (n div 16) @ [''0123456789abcdef'' ! (n mod 16)]"

text \<open>\<open>appendEscapedRune\<close>; \<open>text\<close> is the encoding of the rune \<open>r\<close> itself.\<close>

definition escapedRune :: "(nat \<Rightarrow> bool) \<Rightarrow> nat \<Rightarrow> string \<Rightarrow> string" where
  "escapedRune beyond r text =
     (if r = 34 \<or> r = 92 then CHR 0x5C # text
      else if isPrint beyond r then text
      else CHR 0x5C #
        (if r = 7 then ''a'' else if r = 8 then ''b'' else if r = 12 then ''f'' else if r = 10 then ''n''
         else if r = 13 then ''r'' else if r = 9 then ''t'' else if r = 11 then ''v''
         else if r < 32 \<or> r = 127 then CHR ''x'' # hexDigits 2 r
         else if r < 65536 then CHR ''u'' # hexDigits 4 r
         else CHR ''U'' # hexDigits 8 r))"

fun quoteRunes :: "(nat \<Rightarrow> bool) \<Rightarrow> string \<Rightarrow> string" where
  "quoteRunes beyond [] = []"
| "quoteRunes beyond (c # cs) =
     (case decodeRune (map of_char (c # cs)) of
        None \<Rightarrow> CHR 0x5C # CHR ''x'' # hexDigits 2 (of_char c) @ quoteRunes beyond cs
      | Some (r, w) \<Rightarrow> escapedRune beyond r (take w (c # cs)) @ quoteRunes beyond (drop (w - 1) cs))"

definition goQuote :: "(nat \<Rightarrow> bool) \<Rightarrow> string \<Rightarrow> string" where
  "goQuote beyond s = CHR 0x22 # quoteRunes beyond s @ [CHR 0x22]"

text \<open>Printable ASCII without quotation marks and backslashes is quoted as it is.\<close>

lemma goQuote_plain:
  assumes "list_all (\<lambda>c. printable c \<and> c \<noteq> CHR 0x22 \<and> c \<noteq> CHR 0x5C \<and> (of_char c :: nat) < 127) s"
  shows "goQuote beyond s = CHR 0x22 # s @ [CHR 0x22]"
proof -
  have code: "(of_char c :: nat) = of_char d \<longleftrightarrow> c = d" for c d :: char by simp
  have "quoteRunes beyond s = s"
    using assms
  proof (induction s)
    case Nil
    then show ?case by simp
  next
    case (Cons c s)
    then have "(of_char c :: nat) \<noteq> 34" "(of_char c :: nat) \<noteq> 92"
      using code [of c "CHR 0x22"] code [of c "CHR 0x5C"] by auto
    with Cons show ?case by (simp add: escapedRune_def isPrint_def printable_def)
  qed
  then show ?thesis by (simp add: goQuote_def)
qed

end
