(* ===== verification/KubeTypes.thy ===== *)
theory KubeTypes
  imports Prelude
begin

text \<open>
  The Kubernetes data the provider reads and writes. The Go types of \<open>k8s.io/api\<close>, KServe and
  controller-runtime are not part of this repository; each record keeps the fields the
  provider touches, under the Go field names with a short prefix. Values the provider only
  copies (affinities, security contexts, value sources) are opaque \<open>json\<close>.
\<close>

section \<open>JSON values and unstructured objects\<close>

text \<open>
  A decoded value of Go type \<open>any\<close>. An object is an association list; a duplicate key is read at
  its first occurrence, and every object the provider builds has distinct keys.
\<close>

datatype json =
    JNull
  | JBool bool
  | JInt int
  | JFloat rat
  | JStr string
  | JArr "json list"
  | JObj "(string \<times> json) list"

text \<open>Type assertions \<open>x, _ := v.(T)\<close> yield the zero value when the type differs.\<close>

fun asObj :: "json \<Rightarrow> json gmap" where
  "asObj (JObj m) = m"
| "asObj _ = []"

fun asStr :: "json \<Rightarrow> string" where
  "asStr (JStr s) = s"
| "asStr _ = []"

text \<open>\<open>m[k]\<close> on a \<open>map[string]any\<close>: nil for a missing key.\<close>

definition jindex :: "json gmap \<Rightarrow> string \<Rightarrow> json" where
  "jindex m k = ggetd JNull m k"

text \<open>
  \<open>unstructured.NestedSlice(obj, path...)\<close>: the slice, not found (also below a null), or an error
  when a step of the path is no object or the value is no slice.
\<close>

datatype nested = NestedError | NotThere | Slice "json list"

fun nestedField :: "json \<Rightarrow> string list \<Rightarrow> unit + json option" where
  "nestedField v [] = Inr (Some v)"
| "nestedField JNull (k # ks) = Inr None"
| "nestedField (JObj m) (k # ks) =
     (case gget m k of None \<Rightarrow> Inr None | Some v \<Rightarrow> nestedField v ks)"
| "nestedField v (k # ks) = Inl ()"

definition nestedSlice :: "json \<Rightarrow> string list \<Rightarrow> nested" where
  "nestedSlice v path =
     (case nestedField v path of
        Inl _ \<Rightarrow> NestedError
      | Inr None \<Rightarrow> NotThere
      | Inr (Some (JArr xs)) \<Rightarrow> Slice xs
      | Inr (Some _) \<Rightarrow> NestedError)"

text \<open>\<open>xs, _, _ := unstructured.NestedSlice(...)\<close>: nil unless it is there.\<close>

definition sliceOrNil :: "json \<Rightarrow> string list \<Rightarrow> json list" where
  "sliceOrNil v path = (case nestedSlice v path of Slice xs \<Rightarrow> xs | _ \<Rightarrow> [])"

text \<open>A GroupVersionKind, and the API version string it is written as.\<close>

record gvk =
  gv_group :: string
  gv_version :: string
  gv_kind :: string

definition apiVersion :: "gvk \<Rightarrow> string" where
  "apiVersion g = gv_group g @ ''/'' @ gv_version g"

text \<open>The accessors of an unstructured object read its metadata.\<close>

definition metaStr :: "json \<Rightarrow> string \<Rightarrow> string" where
  "metaStr obj k = asStr (jindex (asObj (jindex (asObj obj) ''metadata'')) k)"

definition uName :: "json \<Rightarrow> string" where
  "uName obj = metaStr obj ''name''"

definition uNamespace :: "json \<Rightarrow> string" where
  "uNamespace obj = metaStr obj ''namespace''"

section \<open>Core types\<close>

text \<open>A \<open>resource.Quantity\<close> is the number it denotes; \<open>Value()\<close> rounds it up to an integer.\<close>

datatype quantity = Quantity (amount: rat)

instantiation quantity :: "{zero, linorder}"
begin

definition zero_quantity :: quantity where
  "0 = Quantity 0"

definition less_eq_quantity :: "quantity \<Rightarrow> quantity \<Rightarrow> bool" where
  "q \<le> r \<longleftrightarrow> amount q \<le> amount r"

definition less_quantity :: "quantity \<Rightarrow> quantity \<Rightarrow> bool" where
  "q < r \<longleftrightarrow> amount q < amount r"

instance
  by standard (auto simp: less_eq_quantity_def less_quantity_def quantity.expand)

end

definition newQuantity :: "int \<Rightarrow> quantity" where
  "newQuantity n = Quantity (of_int n)"

definition qValue :: "quantity \<Rightarrow> int" where
  "qValue q = \<lceil>amount q\<rceil>"

lemma qValue_newQuantity [simp]: "qValue (newQuantity n) = n"
  by (simp add: qValue_def newQuantity_def)

lemma newQuantity_zero_iff [simp]: "newQuantity n = 0 \<longleftrightarrow> n = 0"
  by (simp add: newQuantity_def zero_quantity_def)

record objmeta =
  om_name :: string
  om_namespace :: string
  om_labels :: "string gmap"
  om_annotations :: "string gmap"

record resources =
  rq_limits :: "quantity gmap"
  rq_requests :: "quantity gmap"
  rq_claims :: "json list"

definition no_resources :: resources where
  "no_resources = \<lparr>rq_limits = [], rq_requests = [], rq_claims = []\<rparr>"

record envvar =
  ev_name :: string
  ev_value :: string
  ev_valueFrom :: "json option"

definition envVar :: "string \<Rightarrow> string \<Rightarrow> envvar" where
  "envVar n v = \<lparr>ev_name = n, ev_value = v, ev_valueFrom = None\<rparr>"

record containerPort =
  cp_name :: string
  cp_port :: int
  cp_protocol :: string

record probe =
  pb_path :: string
  pb_port :: int
  pb_periodSeconds :: int

record container =
  ct_name :: string
  ct_image :: string
  ct_command :: "string list"
  ct_args :: "string list option" \<comment> \<open>None is nil: args not set\<close>
  ct_env :: "envvar list"
  ct_resources :: resources
  ct_ports :: "containerPort list"
  ct_volumeMounts :: "(string \<times> string) list" \<comment> \<open>name and mount path\<close>
  ct_securityContext :: "json option"
  ct_readinessProbe :: "probe option"

definition new_container :: "string \<Rightarrow> container" where
  "new_container n = \<lparr>ct_name = n, ct_image = [], ct_command = [], ct_args = None, ct_env = [],
     ct_resources = no_resources, ct_ports = [], ct_volumeMounts = [], ct_securityContext = None,
     ct_readinessProbe = None\<rparr>"

record toleration =
  tl_key :: string
  tl_operator :: string
  tl_value :: string
  tl_effect :: string
  tl_seconds :: "int option"

record podspec =
  ps_containers :: "container list"
  ps_initContainers :: "container list"
  ps_serviceAccountName :: string
  ps_schedulerName :: string
  ps_nodeSelector :: "string gmap"
  ps_affinity :: "json option"
  ps_tolerations :: "toleration list"
  ps_topologySpread :: "json list"
  ps_imagePullSecrets :: "string list"

definition new_podspec :: podspec where
  "new_podspec = \<lparr>ps_containers = [], ps_initContainers = [], ps_serviceAccountName = [],
     ps_schedulerName = [], ps_nodeSelector = [], ps_affinity = None, ps_tolerations = [],
     ps_topologySpread = [], ps_imagePullSecrets = []\<rparr>"

text \<open>The scheduling policy of an Instance component (OpenEverest \<open>common/v1alpha1\<close>).\<close>

record schedulingPolicy =
  sp_schedulerName :: string
  sp_nodeSelector :: "string gmap"
  sp_affinity :: "json option"
  sp_tolerations :: "toleration list"
  sp_topologySpread :: "json list"

record secret =
  se_meta :: objmeta
  se_type :: string
  se_data :: "string gmap"

definition ClusterIP :: string where "ClusterIP = ''ClusterIP''"
definition LoadBalancer :: string where "LoadBalancer = ''LoadBalancer''"
definition NodePort :: string where "NodePort = ''NodePort''"

lemmas service_types = ClusterIP_def LoadBalancer_def NodePort_def

record servicePort =
  vp_name :: string
  vp_protocol :: string
  vp_port :: int
  vp_targetPort :: int
  vp_nodePort :: int

record service =
  sv_meta :: objmeta
  sv_type :: string
  sv_selector :: "string gmap"
  sv_ports :: "servicePort list"
  sv_sourceRanges :: "string list"
  sv_ingress :: "(string \<times> string) list" \<comment> \<open>status.loadBalancer.ingress: IP and hostname\<close>

record serviceAccount =
  sa_meta :: objmeta
  sa_secrets :: "string list"

section \<open>KServe LLMInferenceService (v1alpha2)\<close>

record lora_spec =
  lo_adapters :: "(string \<times> string) list" \<comment> \<open>name and URI\<close>
  lo_maxRank :: "int option"
  lo_maxAdapters :: "int option"
  lo_maxCpuAdapters :: "int option"

record llm_model =
  mo_uri :: string
  mo_name :: "string option"
  mo_lora :: "lora_spec option"

datatype wva_actuator = WvaHPA | WvaKEDA

record scaling_spec =
  sc_minReplicas :: "int option"
  sc_maxReplicas :: int
  sc_wva :: wva_actuator

record parallelism =
  pl_tensor :: "int option"
  pl_pipeline :: "int option"
  pl_data :: "int option"
  pl_dataLocal :: "int option"
  pl_expert :: bool

record rollout =
  ro_maxSurge :: int
  ro_maxUnavailable :: int

text \<open>\<open>LLMInferenceServiceSpec\<close> embeds \<open>WorkloadSpec\<close>: the record extends it.\<close>

record workload =
  wl_labels :: "string gmap"
  wl_replicas :: "int option"
  wl_scaling :: "scaling_spec option"
  wl_parallelism :: "parallelism option"
  wl_rollout :: "rollout option"
  wl_template :: "podspec option"
  wl_worker :: "podspec option"

record llmspec = workload +
  ls_model :: llm_model
  ls_baseRefs :: "string list"
  ls_routeRefs :: "string list option" \<comment> \<open>router.route.http.refs; None without a router\<close>
  ls_storageInitializer :: "bool option"
  ls_prefill :: "workload option"
  ls_tracing :: "string option option" \<comment> \<open>tracing and its exporter endpoint\<close>

definition new_workload :: workload where
  "new_workload = \<lparr>wl_labels = [], wl_replicas = None, wl_scaling = None, wl_parallelism = None,
     wl_rollout = None, wl_template = None, wl_worker = None\<rparr>"

record condition =
  cd_isTrue :: bool
  cd_message :: string
  cd_reason :: string

record apis_url =
  ur_scheme :: string
  ur_host :: string
  ur_string :: string \<comment> \<open>URL.String()\<close>

record observed_workload =
  ow_kind :: string
  ow_name :: string
  ow_readyReplicas :: "int option"

record workload_status =
  ws_primary :: "observed_workload option"
  ws_prefill :: "observed_workload option"
  ws_service :: "string option" \<comment> \<open>name of the workload Service\<close>

record llm_status =
  lt_ready :: "condition option"
  lt_url :: "apis_url option"
  lt_workloads :: "workload_status option"

section \<open>Objects and references\<close>

datatype kobject =
    KUnstr gvk json
  | KSecret secret
  | KService service
  | KServiceAccount serviceAccount
  | KLLM objmeta llmspec llm_status
  | KLLMConfig objmeta llmspec
  | KNode "(string \<times> string) list" \<comment> \<open>status addresses: type and address\<close>

text \<open>What names an object in the API: kind, namespace (empty for cluster scope) and name.\<close>

record objref =
  or_gvk :: gvk
  or_namespace :: string
  or_name :: string

definition mkref :: "gvk \<Rightarrow> string \<Rightarrow> string \<Rightarrow> objref" where
  "mkref g ns n = \<lparr>or_gvk = g, or_namespace = ns, or_name = n\<rparr>"

definition mkgvk :: "string \<Rightarrow> string \<Rightarrow> string \<Rightarrow> gvk" where
  "mkgvk g v k = \<lparr>gv_group = g, gv_version = v, gv_kind = k\<rparr>"

definition secretGVK :: gvk where "secretGVK = mkgvk [] ''v1'' ''Secret''"
definition serviceGVK :: gvk where "serviceGVK = mkgvk [] ''v1'' ''Service''"
definition serviceAccountGVK :: gvk where "serviceAccountGVK = mkgvk [] ''v1'' ''ServiceAccount''"
definition nodeGVK :: gvk where "nodeGVK = mkgvk [] ''v1'' ''Node''"
definition llmGVK :: gvk where
  "llmGVK = mkgvk ''serving.kserve.io'' ''v1alpha2'' ''LLMInferenceService''"
definition llmConfigGVK :: gvk where
  "llmConfigGVK = mkgvk ''serving.kserve.io'' ''v1alpha2'' ''LLMInferenceServiceConfig''"

lemmas core_gvk_defs = secretGVK_def serviceGVK_def serviceAccountGVK_def nodeGVK_def
  llmGVK_def llmConfigGVK_def mkgvk_def

definition metaRef :: "gvk \<Rightarrow> objmeta \<Rightarrow> objref" where
  "metaRef g m = mkref g (om_namespace m) (om_name m)"

fun objRef :: "kobject \<Rightarrow> objref" where
  "objRef (KUnstr g j) = mkref g (uNamespace j) (uName j)"
| "objRef (KSecret s) = metaRef secretGVK (se_meta s)"
| "objRef (KService s) = metaRef serviceGVK (sv_meta s)"
| "objRef (KServiceAccount s) = metaRef serviceAccountGVK (sa_meta s)"
| "objRef (KLLM m _ _) = metaRef llmGVK m"
| "objRef (KLLMConfig m _) = metaRef llmConfigGVK m"
| "objRef (KNode _) = mkref nodeGVK [] []"

lemma mkref_simps [simp]:
  "or_gvk (mkref g ns n) = g" "or_namespace (mkref g ns n) = ns" "or_name (mkref g ns n) = n"
  by (simp_all add: mkref_def)

lemma mkref_inject [simp]: "mkref g ns n = mkref g' ns' n' \<longleftrightarrow> g = g' \<and> ns = ns' \<and> n = n'"
  by (auto simp: mkref_def)

lemma asObj_jindex_simps [simp]:
  "jindex [] k = JNull"
  "jindex ((k', v) # m) k = (if k = k' then v else jindex m k)"
  by (simp_all add: jindex_def ggetd_def)

lemma asStr_JNull: "asStr JNull = []"
  by simp

end
