(* ===== verification/Components.thy ===== *)
theory Components
  imports KubeTypes
begin

text \<open>
  The parameters of an Instance: \<open>definition/components/types.go\<close> (the vllm and modelServer
  component types) and \<open>definition/topologies/*/types.go\<close> (the two topologies), with their
  methods and their JSON decoding. Optional Go pointers are options, \<open>*int32\<close> values are ints
  (see \<open>int32_ok\<close>), a \<open>*float64\<close> is the rational it denotes.
\<close>

section \<open>Component types\<close>

record loraAdapterSpec =
  la_name :: string
  la_uri :: string

record loRASpec =
  lr_adapters :: "loraAdapterSpec list"
  lr_maxRank :: "int option"
  lr_maxAdapters :: "int option"
  lr_maxCpuAdapters :: "int option"

record vllmEngineSpec =
  en_maxModelLen :: "int option"
  en_gpuMemoryUtilization :: "rat option"
  en_maxNumSeqs :: "int option"
  en_dtype :: string
  en_quantization :: string
  en_kvCacheDtype :: string
  en_toolCallParser :: string
  en_reasoningParser :: string

record vllmCustomSpec =
  vl_modelURI :: string
  vl_modelName :: string
  vl_tensorParallelSize :: "int option"
  vl_pipelineParallelSize :: "int option"
  vl_dataParallelSize :: "int option"
  vl_expertParallel :: string
  vl_computeProfile :: string
  vl_gpuCount :: "int option"
  vl_kvCacheSpaceGi :: "int option"
  vl_engine :: "vllmEngineSpec option"
  vl_baseRefs :: "string list"
  vl_config :: string
  vl_disableStorageInitializer :: "bool option"
  vl_imagePullSecret :: string
  vl_loRA :: "loRASpec option"
  vl_loraDeployment :: string
  vl_loraSlot1 :: string
  vl_loraSlot2 :: string
  vl_loraSlot3 :: string
  vl_minReplicas :: "int option"
  vl_maxReplicas :: "int option"
  vl_scalingActuator :: string
  vl_workerCount :: "int option"
  vl_workerResources :: "resources option"

definition LoraDeploymentDisabled :: string where "LoraDeploymentDisabled = ''disabled''"
definition LoraDeploymentEnabled :: string where "LoraDeploymentEnabled = ''enabled''"
definition ScalingActuatorHPA :: string where "ScalingActuatorHPA = ''hpa''"
definition ScalingActuatorKEDA :: string where "ScalingActuatorKEDA = ''keda''"
definition ExpertParallelEnabled :: string where "ExpertParallelEnabled = ''enabled''"

record modelServerCustomSpec =
  ms_model :: string
  ms_modelFormat :: string
  ms_storageURI :: string
  ms_runtimeVersion :: string
  ms_runtime :: string
  ms_config :: string
  ms_minReplicas :: "int option"
  ms_maxReplicas :: "int option"
  ms_storageContainer :: string
  ms_env :: "envvar list"
  ms_args :: "string list"
  ms_task :: string
  ms_gpuCount :: "int option"
  ms_serviceAccountName :: string
  ms_labels :: "string gmap"
  ms_annotations :: "string gmap"
  ms_securityContext :: "json option"
  ms_containerSecurityContext :: "json option"
  ms_image :: string
  ms_command :: "string list"
  ms_port :: "int option"
  ms_healthPath :: string
  ms_openAICompatible :: bool
  ms_apiSchema :: string
  ms_backendAPIKeySecret :: string
  ms_servedModelName :: string
  ms_imagePullSecret :: string

definition CustomContainerDefaultPort :: int where "CustomContainerDefaultPort = 8080"
definition APISchemaOpenAI :: string where "APISchemaOpenAI = ''OpenAI''"
definition APISchemaTypeSafe :: string where "APISchemaTypeSafe = ''TypeSafe''"

definition ResolvedAPISchema :: "modelServerCustomSpec \<Rightarrow> string" where
  "ResolvedAPISchema s =
     (if ms_apiSchema s \<noteq> [] then ms_apiSchema s
      else if ms_openAICompatible s then APISchemaOpenAI
      else [])"

definition UsesCustomContainer :: "modelServerCustomSpec \<Rightarrow> bool" where
  "UsesCustomContainer s \<longleftrightarrow> ms_image s \<noteq> []"

definition ContainerPort :: "modelServerCustomSpec \<Rightarrow> int" where
  "ContainerPort s = (case ms_port s of Some p \<Rightarrow> p | None \<Rightarrow> CustomContainerDefaultPort)"

text \<open>The zero values of the parameter structs.\<close>

definition zero_vllm :: vllmCustomSpec where
  "zero_vllm = \<lparr>vl_modelURI = [], vl_modelName = [], vl_tensorParallelSize = None,
     vl_pipelineParallelSize = None, vl_dataParallelSize = None, vl_expertParallel = [],
     vl_computeProfile = [], vl_gpuCount = None, vl_kvCacheSpaceGi = None, vl_engine = None,
     vl_baseRefs = [], vl_config = [], vl_disableStorageInitializer = None,
     vl_imagePullSecret = [], vl_loRA = None, vl_loraDeployment = [], vl_loraSlot1 = [],
     vl_loraSlot2 = [], vl_loraSlot3 = [], vl_minReplicas = None, vl_maxReplicas = None,
     vl_scalingActuator = [], vl_workerCount = None, vl_workerResources = None\<rparr>"

definition zero_modelServer :: modelServerCustomSpec where
  "zero_modelServer = \<lparr>ms_model = [], ms_modelFormat = [], ms_storageURI = [],
     ms_runtimeVersion = [], ms_runtime = [], ms_config = [], ms_minReplicas = None,
     ms_maxReplicas = None, ms_storageContainer = [], ms_env = [], ms_args = [], ms_task = [],
     ms_gpuCount = None, ms_serviceAccountName = [], ms_labels = [], ms_annotations = [],
     ms_securityContext = None, ms_containerSecurityContext = None, ms_image = [],
     ms_command = [], ms_port = None, ms_healthPath = [], ms_openAICompatible = False,
     ms_apiSchema = [], ms_backendAPIKeySecret = [], ms_servedModelName = [],
     ms_imagePullSecret = []\<rparr>"

section \<open>Topology parameters\<close>

definition ExternalAccessEnvoyAIGateway :: string where
  "ExternalAccessEnvoyAIGateway = ''EnvoyAIGateway''"
definition ExternalAccessClusterIP :: string where "ExternalAccessClusterIP = ''ClusterIP''"
definition ExternalAccessLoadBalancer :: string where
  "ExternalAccessLoadBalancer = ''LoadBalancer''"
definition ExternalAccessNodePort :: string where "ExternalAccessNodePort = ''NodePort''"

lemmas externalAccess_defs = ExternalAccessEnvoyAIGateway_def ExternalAccessClusterIP_def
  ExternalAccessLoadBalancer_def ExternalAccessNodePort_def

record llmTopologyParameters =
  lp_externalAccess :: string
  lp_enableGatewayRouting :: bool
  lp_enableAIGateway :: bool
  lp_tokenLimitPerHour :: "int option"
  lp_enablePrefill :: bool
  lp_prefillReplicas :: "int option"
  lp_prefillMinReplicas :: "int option"
  lp_prefillMaxReplicas :: "int option"
  lp_prefillScalingActuator :: string
  lp_prefillPipelineParallelSize :: "int option"
  lp_prefillWorkerCount :: "int option"
  lp_prefillWorkerResources :: "resources option"
  lp_enableMetrics :: "bool option"
  lp_enableTracing :: bool
  lp_tracingEndpoint :: string

definition zero_llmTopology :: llmTopologyParameters where
  "zero_llmTopology = \<lparr>lp_externalAccess = [], lp_enableGatewayRouting = False,
     lp_enableAIGateway = False, lp_tokenLimitPerHour = None, lp_enablePrefill = False,
     lp_prefillReplicas = None, lp_prefillMinReplicas = None, lp_prefillMaxReplicas = None,
     lp_prefillScalingActuator = [], lp_prefillPipelineParallelSize = None,
     lp_prefillWorkerCount = None, lp_prefillWorkerResources = None, lp_enableMetrics = None,
     lp_enableTracing = False, lp_tracingEndpoint = []\<rparr>"

definition llm_MetricsEnabled :: "llmTopologyParameters \<Rightarrow> bool" where
  "llm_MetricsEnabled t = (case lp_enableMetrics t of None \<Rightarrow> True | Some b \<Rightarrow> b)"

definition llm_UsesAIGateway :: "llmTopologyParameters \<Rightarrow> bool" where
  "llm_UsesAIGateway t =
     (if lp_externalAccess t = ExternalAccessEnvoyAIGateway then True
      else if lp_externalAccess t = [] then lp_enableAIGateway t
      else False)"

definition llm_ResolvedServiceType :: "llmTopologyParameters \<Rightarrow> string" where
  "llm_ResolvedServiceType t =
     (let a = lp_externalAccess t in
      if a = ExternalAccessLoadBalancer then LoadBalancer
      else if a = ExternalAccessNodePort then NodePort
      else if a = ExternalAccessClusterIP \<or> a = ExternalAccessEnvoyAIGateway then ClusterIP
      else [])"

record predictorTopologyParameters =
  pt_externalAccess :: string
  pt_tokenLimitPerHour :: "int option"
  pt_enableMetrics :: "bool option"

definition zero_predictorTopology :: predictorTopologyParameters where
  "zero_predictorTopology =
     \<lparr>pt_externalAccess = [], pt_tokenLimitPerHour = None, pt_enableMetrics = None\<rparr>"

definition pred_MetricsEnabled :: "predictorTopologyParameters \<Rightarrow> bool" where
  "pred_MetricsEnabled t \<longleftrightarrow> pt_enableMetrics t = None \<or> pt_enableMetrics t = Some True"

definition pred_UsesAIGateway :: "predictorTopologyParameters \<Rightarrow> bool" where
  "pred_UsesAIGateway t \<longleftrightarrow> pt_externalAccess t = ExternalAccessEnvoyAIGateway"

definition pred_ResolvedServiceType :: "predictorTopologyParameters \<Rightarrow> string" where
  "pred_ResolvedServiceType t =
     (let a = pt_externalAccess t in
      if a = ExternalAccessLoadBalancer then LoadBalancer
      else if a = ExternalAccessNodePort then NodePort
      else if a = ExternalAccessClusterIP \<or> a = ExternalAccessEnvoyAIGateway then ClusterIP
      else [])"

subsection \<open>The contract both topologies keep\<close>

text \<open>
  What the rest of the provider relies on: choosing a client access path (externalAccess) also
  fixes the Service type, and the AI Gateway never comes with an external Service of its own.
\<close>

locale access_topology =
  fixes access :: "'t \<Rightarrow> string"
    and uses_gateway :: "'t \<Rightarrow> bool"
    and service_type :: "'t \<Rightarrow> string"
  assumes explicit_gateway:
      "access t = ExternalAccessEnvoyAIGateway \<Longrightarrow> uses_gateway t \<and> service_type t = ClusterIP"
    and explicit_other:
      "access t \<noteq> ExternalAccessEnvoyAIGateway \<Longrightarrow> access t \<noteq> [] \<Longrightarrow> \<not> uses_gateway t"
    and known_type:
      "access t \<in> {ClusterIP, LoadBalancer, NodePort} \<Longrightarrow> service_type t = access t"
    and deferred: "access t = [] \<Longrightarrow> service_type t = []"
begin

text \<open>An explicit request for an external Service excludes the gateway.\<close>

lemma external_not_gateway:
  assumes "service_type t = LoadBalancer \<or> service_type t = NodePort"
  shows "\<not> uses_gateway t"
proof (cases "access t = ExternalAccessEnvoyAIGateway")
  case True
  then show ?thesis using assms explicit_gateway by (simp add: service_types)
next
  case False
  with assms show ?thesis
    using explicit_other deferred by (cases "access t = []") (auto simp: service_types)
qed

end

lemma llm_access_topology:
  "access_topology lp_externalAccess llm_UsesAIGateway llm_ResolvedServiceType"
  by unfold_locales
    (auto simp: llm_UsesAIGateway_def llm_ResolvedServiceType_def Let_def externalAccess_defs
      service_types)

interpretation llm_access: access_topology lp_externalAccess llm_UsesAIGateway llm_ResolvedServiceType
  by (rule llm_access_topology)

interpretation pred_access: access_topology pt_externalAccess pred_UsesAIGateway pred_ResolvedServiceType
  by unfold_locales
    (auto simp: pred_UsesAIGateway_def pred_ResolvedServiceType_def Let_def externalAccess_defs
      service_types)

end
