(* ===== verification/InferenceTypes.thy ===== *)
theory InferenceTypes
  imports Components
begin

text \<open>
  \<open>internal/provider/inferenceservice.go\<close>: the fields of KServe's InferenceService, of its status
  and of the ClusterStorageContainer that the provider mirrors as Go types of its own.
\<close>

record modelSpec =
  md_modelFormat :: string
  md_runtime :: string
  md_storageURI :: string
  md_runtimeVersion :: string
  md_resources :: "resources option"
  md_env :: "envvar list"
  md_args :: "string list"
  md_securityContext :: "json option"

record predictorSpec =
  pd_minReplicas :: "int option"
  pd_maxReplicas :: "int option"
  pd_labels :: "string gmap"
  pd_storageContainerName :: string
  pd_serviceAccountName :: string
  pd_schedulerName :: string
  pd_nodeSelector :: "string gmap"
  pd_affinity :: "json option"
  pd_tolerations :: "toleration list"
  pd_topologySpread :: "json list"
  pd_securityContext :: "json option"
  pd_deploymentStrategy :: "rollout option" \<comment> \<open>the rolling update parameters\<close>
  pd_imagePullSecrets :: "string list"
  pd_volumes :: "(string \<times> string) list" \<comment> \<open>name and medium of an emptyDir\<close>
  pd_containers :: "container list"
  pd_model :: "modelSpec option"

definition zero_predictorSpec :: predictorSpec where
  "zero_predictorSpec = \<lparr>pd_minReplicas = None, pd_maxReplicas = None, pd_labels = [],
     pd_storageContainerName = [], pd_serviceAccountName = [], pd_schedulerName = [],
     pd_nodeSelector = [], pd_affinity = None, pd_tolerations = [], pd_topologySpread = [],
     pd_securityContext = None, pd_deploymentStrategy = None, pd_imagePullSecrets = [],
     pd_volumes = [], pd_containers = [], pd_model = None\<rparr>"

record inferenceServiceStatus =
  is_ready :: "condition option" \<comment> \<open>the condition of type Ready\<close>
  is_address :: "apis_url option" \<comment> \<open>address.url\<close>

record supportedURIFormat =
  uf_prefix :: string
  uf_regex :: string

record clusterStorageContainer =
  cs_supportedUriFormats :: "supportedURIFormat list"
  cs_workloadType :: string
  cs_disabled :: "bool option"

end
