(* ===== verification/Errors.thy ===== *)
theory Errors
  imports Prelude
begin

text \<open>
  The errors of the provider. Each \<open>fmt.Errorf\<close> of the code is a constructor of the message type
  of its file, named after the text; \<open>Err\<close> carries the interpolated values that vary and \<open>Wrap\<close>
  is a message that wraps another error with the verb \<open>%w\<close>. \<open>ApiErr\<close> is what the API server
  answered, classified the way the code classifies it (\<open>apierrors.IsNotFound\<close>,
  \<open>apierrors.IsAlreadyExists\<close>, \<open>meta.IsNoMatchError\<close>); \<open>LibErr\<close> is an error of a library call,
  and \<open>Panic\<close> a nil dereference.
\<close>

datatype api_error = NotFound | AlreadyExists | NoMatch | OtherError string

text \<open>\<open>internal/common\<close>: apply.go, spec.go.\<close>

datatype common_msg = SettingOwner | DeterminingGVK | StorageInitializerInvalid

text \<open>\<open>apikey.go\<close>\<close>

datatype key_msg =
    GeneratingKeyID | GeneratingKey | ReadingKeySecret | UpdatingKeySecret | KeySecretOwner
  | KeySecretNotCached | CreatingKeySecret

text \<open>\<open>aigateway.go\<close>\<close>

datatype gateway_msg =
    GatewayDisabledInChart | GatewayNotConfigured | ApplyingBackend | ApplyingRoute
  | ApplyingRateLimit | KeysRequireHTTPS | ListingRoutes | ModelNameTaken
  | GatewayAddressesUnreadable | GatewayAddressInvalid | ReadingGatewayKey

text \<open>\<open>gatewayauth.go\<close>\<close>

datatype auth_msg =
    ReadingGateway | ListingKeySecrets | ListingGatewayRoutes | ReadingCredentials
  | ApplyingCredentials | ApplyingPolicy | DeletingPolicy | DeletingCredentials

text \<open>\<open>vllm_engine.go\<close>, \<open>llm_model_source.go\<close> and the LoRA part of \<open>llminferenceservice.go\<close>.\<close>

datatype engine_msg =
    EngineAtLeastOne | EngineUtilization | EngineDtype | EngineFlagValue | GettingLLMConfig
  | InitializerRequiredForOCI | SchemeUnsupported | PullSecretInvalid

datatype lora_msg =
    AdapterNameRequired | AdapterNameInvalid | AdapterNameIsBase | AdapterNameDuplicate
  | AdapterURIRequired | AdapterURIInvalid | MaxRankTooSmall | MaxAdaptersTooSmall
  | MaxCpuAdaptersTooSmall | AdapterNeedsInitializer | LoraDeploymentInvalid | NoAdapterSlot
  | SlotDuplicate | SlotUnknownAdapter | UnknownAdapter | AdapterURIUnparsable

text \<open>\<open>llminferenceservice.go\<close>\<close>

datatype llm_msg =
    LlmEngineRequired | ModelURIRequired | ModelURIInvalid | ReplicasNegative
  | DataPipelineExclusive | LLMConfigInvalid | LlmServiceType | LlmExternalAccess
  | LlmGatewayNotEnabled | LlmTokenLimitNeedsGateway | LlmTokenLimitPositive
  | MaxReplicasRequired | MaxReplicasTooSmall | MinReplicasTooSmall | MinExceedsMax
  | ActuatorUnknown | PrefillScalingNeedsPrefill | ActuatorsDiffer | WorkerResourcesNeedCount
  | WorkerCountTooSmall | PipelineRequired | PipelineMismatch | GpuCountOnCPU | GpuCountTooSmall
  | TensorExceedsGPU | PrefillWorkersNeedPrefill

text \<open>\<open>inferenceservice.go\<close> and \<open>predictor_config.go\<close>.\<close>

datatype predictor_msg =
    PredictorRequired | PredictorNameInvalid | ModelNotInCatalog | MinReplicasBelowOne
  | ReplicasBelowOne | GpuCountNegative | StorageContainerInvalid | PredictorServiceType
  | PredictorExternalAccess | PredictorGatewayNotEnabled | PredictorServesNoAPI
  | BackendKeyNeedsGateway | TokenLimitNeedsGateway | TokenLimitPositive | LabelReserved
  | LabelInvalid | AnnotationReserved | AnnotationInvalid | ModelFormatRequired
  | StorageURIRequired | TaskNeedsHuggingFace | RequiresImage

datatype container_msg =
    RuntimeFieldWithImage | PortOutOfRange | HealthPathRelative | ContainerPullSecretInvalid
  | OpenAIConflicts | APISchemaUnknown | BackendKeyInvalid | StorageContainerNeedsURI
  | StorageNameInvalid | StorageNotFound | StorageGet | StorageDecode | StorageDisabled
  | StorageWorkloadType | StorageRegex | StorageUnsupported | BuildingSpec | ConfigInvalid
  | DecodingStatus

datatype config_msg =
    ConfigReadingYAML | ConfigManyDocuments | ConfigParsingYAML | ConfigNotObject
  | ConfigNotSpecBody | ConfigOwner | ConfigRejected

text \<open>\<open>definition/topologies/*/types.go\<close>: a field that cannot be decoded.\<close>

datatype topology_msg = FieldInvalid | BooleanInvalid

datatype msg =
    CommonMsg common_msg | KeyMsg key_msg | GwMsg gateway_msg | AuthMsg auth_msg
  | EngineMsg engine_msg | LoraMsg lora_msg | LlmMsg llm_msg | PredMsg predictor_msg
  | ContMsg container_msg | ConfMsg config_msg | TopoMsg topology_msg | UnsupportedTopology

datatype kerror =
    Err msg "string list"
  | Wrap msg "string list" kerror
  | ApiErr api_error
  | LibErr string
  | Panic

end
