(* ===== verification/Cluster.thy ===== *)
theory Cluster
  imports InferenceTypes Errors
begin

text \<open>
  What the provider is given: the reconcile context of the provider runtime, the library
  functions it calls, the environment variables, and the Kubernetes API. None of these is part of
  this repository, so they are parameters of every definition that uses them. A handler is a
  program over an unknown API state that records every call it makes; \<open>internal/common/apply.go\<close>
  is modelled here.
\<close>

section \<open>The context of a reconcile\<close>

record serviceSpec =
  ss_serviceType :: string
  ss_annotations :: "string gmap"
  ss_loadBalancer :: "string list option" \<comment> \<open>source ranges\<close>

text \<open>
  A component of the Instance spec together with what \<open>c.TryDecodeComponentParameters\<close> decodes
  from its parameters into each of the two parameter types.
\<close>

record component =
  co_replicas :: "int option"
  co_resources :: "resources option"
  co_service :: "serviceSpec option"
  co_scheduling :: "schedulingPolicy option"
  co_vllm :: vllmCustomSpec
  co_modelServer :: modelServerCustomSpec

record ctx =
  cx_name :: string
  cx_namespace :: string
  cx_uid :: string
  cx_topologyType :: string
  cx_components :: "component gmap"
  cx_zeroComponent :: component \<comment> \<open>what indexing a missing component yields\<close>
  cx_llmTopology :: llmTopologyParameters \<comment> \<open>decoded topology parameters\<close>
  cx_predictorTopology :: predictorTopologyParameters
  cx_objectMeta :: "string \<Rightarrow> objmeta"
  cx_podLabels :: "string \<Rightarrow> string gmap"

definition cx_component :: "ctx \<Rightarrow> string \<Rightarrow> component" where
  "cx_component c n = ggetd (cx_zeroComponent c) (cx_components c) n"

definition instanceGVK :: gvk where
  "instanceGVK = mkgvk ''core.openeverest.io'' ''v1alpha1'' ''Instance''"

definition cx_ref :: "ctx \<Rightarrow> objref" where
  "cx_ref c = mkref instanceGVK (cx_namespace c) (cx_name c)"

text \<open>\<open>os.Getenv\<close>: the empty string for an unset variable.\<close>

type_synonym env = "string \<Rightarrow> string"

text \<open>A change of an object, as a watch sees it: the object's reference and its labels.\<close>

datatype change =
    Created objref "string gmap"
  | Updated objref "string gmap" "string gmap" \<comment> \<open>labels before and after\<close>
  | Deleted objref "string gmap"

fun changedRef :: "change \<Rightarrow> objref" where
  "changedRef (Created ref _) = ref"
| "changedRef (Updated ref _ _) = ref"
| "changedRef (Deleted ref _) = ref"

text \<open>
  Library functions: knative, apimachinery, controller-runtime, sigs.k8s.io/yaml, the provider
  runtime, and the tables of package unicode.
\<close>

record lib =
  lib_childName :: "string \<Rightarrow> string \<Rightarrow> string" \<comment> \<open>knative \<open>kmeta.ChildName\<close>\<close>
  lib_parseURL :: "string \<Rightarrow> string + string option" \<comment> \<open>knative \<open>apis.ParseURL\<close>; a nil URL is None\<close>
  lib_isDNS1035Label :: "string \<Rightarrow> string list"
  lib_isDNS1123Subdomain :: "string \<Rightarrow> string list"
  lib_isQualifiedName :: "string \<Rightarrow> string list"
  lib_isValidLabelValue :: "string \<Rightarrow> string list"
  lib_regexMatch :: "string \<Rightarrow> string \<Rightarrow> string + bool" \<comment> \<open>\<open>regexp.MatchString\<close>\<close>
  lib_formatFloat :: "rat \<Rightarrow> string" \<comment> \<open>\<open>strconv.FormatFloat(f, 'f', -1, 64)\<close>\<close>
  lib_topologySpread :: "schedulingPolicy \<Rightarrow> string gmap \<Rightarrow> json list"
  lib_normalizeRanges :: "string list \<Rightarrow> string list"
  lib_parseLLMConfig :: "string \<Rightarrow> string + llmspec"
  lib_ownerError :: "objref \<Rightarrow> kobject \<Rightarrow> string option" \<comment> \<open>\<open>SetControllerReference\<close>\<close>
  lib_urlParse :: "string \<Rightarrow> (string \<times> string \<times> string \<times> string) option"
    \<comment> \<open>\<open>net/url.Parse\<close>: scheme, Host, Hostname() and Port(); None on an error\<close>
  lib_parseIP :: "string \<Rightarrow> bool" \<comment> \<open>\<open>net.ParseIP\<close> accepts the text\<close>
  lib_urlString :: "string \<Rightarrow> string \<Rightarrow> string \<Rightarrow> string" \<comment> \<open>\<open>URL.String()\<close> of scheme, host, path\<close>
  lib_gvkError :: "kobject \<Rightarrow> string option" \<comment> \<open>\<open>Scheme.ObjectKinds\<close>\<close>
  lib_decodeResources :: "json \<Rightarrow> string + resources"
    \<comment> \<open>\<open>json.Unmarshal\<close> into \<open>ResourceRequirements\<close>\<close>
  lib_parseResources :: "string \<Rightarrow> string + resources" \<comment> \<open>the same, from text\<close>
  lib_yamlRead :: "string \<Rightarrow> string + string \<times> bool"
    \<comment> \<open>\<open>YAMLReader.Read\<close>: the first document, and whether the second read returns EOF\<close>
  lib_yamlToJSON :: "string \<Rightarrow> string + string" \<comment> \<open>\<open>yaml.YAMLToJSONStrict\<close>\<close>
  lib_jsonMap :: "string \<Rightarrow> string + json gmap option"
    \<comment> \<open>\<open>json.Unmarshal\<close> into \<open>map[string]any\<close>; None is the nil map of a null\<close>
  lib_decodeStorageContainer :: "json \<Rightarrow> string + clusterStorageContainer"
    \<comment> \<open>\<open>FromUnstructured\<close>, as the next\<close>
  lib_decodeStatus :: "json \<Rightarrow> string + inferenceServiceStatus"
  lib_renderError :: "predictorSpec \<Rightarrow> string option" \<comment> \<open>\<open>ToUnstructured\<close>\<close>
  lib_containerJSON :: "container \<Rightarrow> json gmap" \<comment> \<open>the JSON form of core/v1 values\<close>
  lib_resourcesJSON :: "resources \<Rightarrow> json"
  lib_envJSON :: "envvar \<Rightarrow> json"
  lib_tolerationJSON :: "toleration \<Rightarrow> json"
  lib_isPrint :: "nat \<Rightarrow> bool" \<comment> \<open>\<open>strconv.IsPrint\<close> beyond Latin-1\<close>
  lib_NewPredicateFuncs :: "(objref \<Rightarrow> string gmap \<Rightarrow> bool) \<Rightarrow> change \<Rightarrow> bool"
    \<comment> \<open>\<open>predicate.NewPredicateFuncs\<close>\<close>
  lib_ProviderLabel :: string \<comment> \<open>label keys of the provider runtime\<close>
  lib_InstanceLabel :: string
  lib_ComponentLabel :: string

section \<open>Programs over the API\<close>

text \<open>
  The API server is a record of functions over a state of an unknown type. \<open>api_delete\<close> is the
  runtime's \<open>c.Delete\<close>; \<open>api_clientDelete\<close> is the bare client's. A create and a server-side apply
  carry the object that \<open>SetControllerReference\<close> made the controller owner. \<open>api_rand\<close> is \<open>crypto/rand.Read\<close>.
\<close>

datatype patch =
    ServerSideApply objref kobject \<comment> \<open>with the object that becomes its controller owner\<close>
  | DryRunApply kobject
  | MergePatch kobject kobject \<comment> \<open>from the existing to the desired object\<close>

record 's api =
  api_get :: "'s \<Rightarrow> objref \<Rightarrow> api_error + kobject"
  api_list :: "'s \<Rightarrow> gvk \<Rightarrow> (string \<times> string) option \<Rightarrow> api_error + kobject list"
  api_patch :: "patch \<Rightarrow> 's \<Rightarrow> api_error option \<times> 's"
  api_create :: "objref \<Rightarrow> kobject \<Rightarrow> 's \<Rightarrow> api_error option \<times> 's"
  api_delete :: "objref \<Rightarrow> 's \<Rightarrow> api_error option \<times> 's"
  api_clientDelete :: "objref \<Rightarrow> 's \<Rightarrow> api_error option \<times> 's"
  api_rand :: "nat \<Rightarrow> 's \<Rightarrow> (string + nat list) \<times> 's"

datatype event =
    EvGet objref "api_error option"
  | EvList gvk "(string \<times> string) option" "api_error option"
  | EvPatch patch "api_error option"
  | EvCreate objref kobject "api_error option"
  | EvDelete objref "api_error option"

type_synonym ('s, 'a) prog = "'s \<Rightarrow> (kerror + 'a) \<times> event list \<times> 's"

definition ret :: "'a \<Rightarrow> ('s, 'a) prog" where
  "ret x s = (Inr x, [], s)"

definition failP :: "kerror \<Rightarrow> ('s, 'a) prog" where
  "failP e s = (Inl e, [], s)"

text \<open>\<open>x, err := m(); if err != nil { return err }; f(x)\<close>\<close>

definition bindP :: "('s, 'a) prog \<Rightarrow> ('a \<Rightarrow> ('s, 'b) prog) \<Rightarrow> ('s, 'b) prog" where
  "bindP m f s =
     (case m s of
        (Inl e, es, s') \<Rightarrow> (Inl e, es, s')
      | (Inr x, es, s') \<Rightarrow> (case f x s' of (r, es', s'') \<Rightarrow> (r, es @ es', s'')))"

definition seqP :: "('s, unit) prog \<Rightarrow> ('s, 'b) prog \<Rightarrow> ('s, 'b) prog" where
  "seqP m m' = bindP m (\<lambda>_. m')"

text \<open>\<open>if err := m(); err != nil { return fmt.Errorf("...: %w", err) }\<close>\<close>

definition wrapP :: "msg \<Rightarrow> string list \<Rightarrow> ('s, 'a) prog \<Rightarrow> ('s, 'a) prog" where
  "wrapP g args m s =
     (case m s of (Inl e, es, s') \<Rightarrow> (Inl (Wrap g args e), es, s') | (Inr x, es, s') \<Rightarrow> (Inr x, es, s'))"

definition whenP :: "bool \<Rightarrow> ('s, unit) prog \<Rightarrow> ('s, unit) prog" where
  "whenP b m = (if b then m else ret ())"

definition liftR :: "kerror + 'a \<Rightarrow> ('s, 'a) prog" where
  "liftR r s = (r, [], s)"

text \<open>\<open>if err := check(); err != nil { return err }\<close>\<close>

definition failIf :: "kerror option \<Rightarrow> ('s, unit) prog" where
  "failIf e s = (case e of None \<Rightarrow> Inr () | Some e \<Rightarrow> Inl e, [], s)"

fun forP :: "('a \<Rightarrow> ('s, unit) prog) \<Rightarrow> 'a list \<Rightarrow> ('s, unit) prog" where
  "forP f [] = ret ()"
| "forP f (x # xs) = seqP (f x) (forP f xs)"

definition result :: "('s, 'a) prog \<Rightarrow> 's \<Rightarrow> kerror + 'a" where
  "result m s = fst (m s)"

definition effects :: "('s, 'a) prog \<Rightarrow> 's \<Rightarrow> event list" where
  "effects m s = fst (snd (m s))"

definition final :: "('s, 'a) prog \<Rightarrow> 's \<Rightarrow> 's" where
  "final m s = snd (snd (m s))"

subsection \<open>API calls\<close>

definition errOf :: "'e + 'a \<Rightarrow> 'e option" where
  "errOf r = (case r of Inl e \<Rightarrow> Some e | Inr _ \<Rightarrow> None)"

definition getP :: "'s api \<Rightarrow> objref \<Rightarrow> ('s, api_error + kobject) prog" where
  "getP A ref s = (Inr (api_get A s ref), [EvGet ref (errOf (api_get A s ref))], s)"

definition listP :: "'s api \<Rightarrow> gvk \<Rightarrow> (string \<times> string) option \<Rightarrow> ('s, api_error + kobject list) prog" where
  "listP A g sel s = (Inr (api_list A s g sel), [EvList g sel (errOf (api_list A s g sel))], s)"

definition patchP :: "'s api \<Rightarrow> patch \<Rightarrow> ('s, api_error option) prog" where
  "patchP A p s = (case api_patch A p s of (e, s') \<Rightarrow> (Inr e, [EvPatch p e], s'))"

definition createP :: "'s api \<Rightarrow> objref \<Rightarrow> kobject \<Rightarrow> ('s, api_error option) prog" where
  "createP A owner o' s = (case api_create A owner o' s of (e, s') \<Rightarrow> (Inr e, [EvCreate owner o' e], s'))"

definition clientDeleteP :: "'s api \<Rightarrow> objref \<Rightarrow> ('s, api_error option) prog" where
  "clientDeleteP A ref s = (case api_clientDelete A ref s of (e, s') \<Rightarrow> (Inr e, [EvDelete ref e], s'))"

text \<open>\<open>c.Delete(obj)\<close> of the runtime, whose error the caller returns.\<close>

definition deleteP :: "'s api \<Rightarrow> objref \<Rightarrow> ('s, unit) prog" where
  "deleteP A ref s =
     (case api_delete A ref s of
        (None, s') \<Rightarrow> (Inr (), [EvDelete ref None], s')
      | (Some e, s') \<Rightarrow> (Inl (ApiErr e), [EvDelete ref (Some e)], s'))"

definition randP :: "'s api \<Rightarrow> nat \<Rightarrow> ('s, nat list) prog" where
  "randP A n s =
     (case api_rand A n s of (Inl e, s') \<Rightarrow> (Inl (LibErr e), [], s') | (Inr bs, s') \<Rightarrow> (Inr bs, [], s'))"

section \<open>Apply: internal/common/apply.go\<close>

text \<open>
  Server-side apply of an object owned by \<open>owner\<close>. Setting the GroupVersionKind and clearing the
  resource version do not change the modelled fields.
\<close>

definition Apply :: "'s api \<Rightarrow> lib \<Rightarrow> objref \<Rightarrow> kobject \<Rightarrow> ('s, unit) prog" where
  "Apply A L owner obj =
     (case lib_ownerError L owner obj of
        Some e \<Rightarrow> failP (Wrap (CommonMsg SettingOwner) [] (LibErr e))
      | None \<Rightarrow>
        (case lib_gvkError L obj of
           Some e \<Rightarrow> failP (Wrap (CommonMsg DeterminingGVK) [] (LibErr e))
         | None \<Rightarrow>
           bindP (patchP A (ServerSideApply owner obj))
             (\<lambda>r. case r of None \<Rightarrow> ret () | Some e \<Rightarrow> failP (ApiErr e))))"

section \<open>Documented behaviour of the API\<close>

text \<open>
  The named hypotheses some properties need. \<open>reads_own_writes\<close>: an accepted create or merge patch
  is what a later read returns. \<open>named_reads\<close>: a read returns an object of the name it asked for.
  \<open>rand_ok\<close>: \<open>crypto/rand.Read\<close> fills the buffer with bytes. \<open>meta_ok\<close>: \<open>c.ObjectMeta(n)\<close> is named
  \<open>n\<close> in the namespace of the Instance. \<open>filters_new_object\<close>: the predicate made from a filter
  applies it to the object, and on an update to the new object only.
\<close>

definition reads_own_writes :: "'s api \<Rightarrow> bool" where
  "reads_own_writes A \<longleftrightarrow>
     (\<forall>owner ob s. fst (api_create A owner ob s) = None \<longrightarrow>
        api_get A (snd (api_create A owner ob s)) (objRef ob) = Inr ob) \<and>
     (\<forall>old new s. fst (api_patch A (MergePatch old new) s) = None \<longrightarrow>
        api_get A (snd (api_patch A (MergePatch old new) s)) (objRef new) = Inr new)"

definition named_reads :: "'s api \<Rightarrow> bool" where
  "named_reads A \<longleftrightarrow> (\<forall>s ref ob. api_get A s ref = Inr ob \<longrightarrow> objRef ob = ref)"

definition rand_ok :: "'s api \<Rightarrow> bool" where
  "rand_ok A \<longleftrightarrow>
     (\<forall>n s bs. fst (api_rand A n s) = Inr bs \<longrightarrow> length bs = n \<and> (\<forall>b \<in> set bs. b < 256))"

definition meta_ok :: "ctx \<Rightarrow> bool" where
  "meta_ok c \<longleftrightarrow> (\<forall>n. om_name (cx_objectMeta c n) = n \<and> om_namespace (cx_objectMeta c n) = cx_namespace c)"

definition filters_new_object :: "lib \<Rightarrow> bool" where
  "filters_new_object L \<longleftrightarrow>
     (\<forall>p ref labels. lib_NewPredicateFuncs L p (Created ref labels) = p ref labels) \<and>
     (\<forall>p ref before labels. lib_NewPredicateFuncs L p (Updated ref before labels) = p ref labels) \<and>
     (\<forall>p ref labels. lib_NewPredicateFuncs L p (Deleted ref labels) = p ref labels)"

section \<open>What a program may call\<close>

text \<open>\<open>emits P m\<close>: every API call of every run of \<open>m\<close>, whatever the API answers, satisfies \<open>P\<close>.\<close>

definition emits :: "(event \<Rightarrow> bool) \<Rightarrow> ('s, 'a) prog \<Rightarrow> bool" where
  "emits P m \<longleftrightarrow> (\<forall>s. \<forall>e \<in> set (effects m s). P e)"

lemma effects_simps [simp]:
  "effects (ret x) s = []"
  "effects (failP e) s = []"
  "effects (liftR r) s = []"
  by (simp_all add: effects_def ret_def failP_def liftR_def)

lemma result_simps [simp]:
  "result (ret x) s = Inr x"
  "result (failP e) s = Inl e"
  "result (liftR r) s = r"
  by (simp_all add: result_def ret_def failP_def liftR_def)

lemma final_simps [simp]:
  "final (ret x) s = s"
  "final (failP e) s = s"
  "final (liftR r) s = s"
  by (simp_all add: final_def ret_def failP_def liftR_def)

lemma failIf_simps [simp]:
  "effects (failIf e) s = []"
  "result (failIf e) s = (case e of None \<Rightarrow> Inr () | Some e \<Rightarrow> Inl e)"
  "final (failIf e) s = s"
  by (simp_all add: effects_def result_def final_def failIf_def)

lemma effects_bindP:
  "effects (bindP m f) s =
     effects m s @ (case result m s of Inl e \<Rightarrow> [] | Inr x \<Rightarrow> effects (f x) (final m s))"
  by (auto simp: effects_def result_def final_def bindP_def split: prod.splits sum.splits)

lemma result_bindP:
  "result (bindP m f) s =
     (case result m s of Inl e \<Rightarrow> Inl e | Inr x \<Rightarrow> result (f x) (final m s))"
  by (auto simp: result_def final_def bindP_def split: prod.splits sum.splits)

lemma final_bindP:
  "final (bindP m f) s =
     (case result m s of Inl e \<Rightarrow> final m s | Inr x \<Rightarrow> final (f x) (final m s))"
  by (auto simp: result_def final_def bindP_def split: prod.splits sum.splits)

lemma effects_wrapP [simp]: "effects (wrapP g a m) s = effects m s"
  by (auto simp: effects_def wrapP_def split: prod.splits sum.splits)

lemma final_wrapP [simp]: "final (wrapP g a m) s = final m s"
  by (auto simp: final_def wrapP_def split: prod.splits sum.splits)

lemma result_wrapP:
  "result (wrapP g a m) s = (case result m s of Inl e \<Rightarrow> Inl (Wrap g a e) | Inr x \<Rightarrow> Inr x)"
  by (auto simp: result_def wrapP_def split: prod.splits sum.splits)

lemmas run_bind = effects_bindP result_bindP final_bindP result_wrapP

lemma effects_calls [simp]:
  "effects (getP A ref) s = [EvGet ref (errOf (api_get A s ref))]"
  "effects (listP A g sel) s = [EvList g sel (errOf (api_list A s g sel))]"
  "effects (patchP A p) s = [EvPatch p (fst (api_patch A p s))]"
  "effects (createP A owner ob) s = [EvCreate owner ob (fst (api_create A owner ob s))]"
  "effects (clientDeleteP A ref) s = [EvDelete ref (fst (api_clientDelete A ref s))]"
  "effects (deleteP A ref) s = [EvDelete ref (fst (api_delete A ref s))]"
  "effects (randP A n) s = []"
  by (auto simp: effects_def getP_def listP_def patchP_def createP_def clientDeleteP_def deleteP_def
      randP_def split: prod.splits option.splits sum.splits)

lemma result_calls [simp]:
  "result (getP A ref) s = Inr (api_get A s ref)"
  "result (listP A g sel) s = Inr (api_list A s g sel)"
  "result (patchP A p) s = Inr (fst (api_patch A p s))"
  "result (createP A owner ob) s = Inr (fst (api_create A owner ob s))"
  "result (clientDeleteP A ref) s = Inr (fst (api_clientDelete A ref s))"
  "result (deleteP A ref) s = (case fst (api_delete A ref s) of None \<Rightarrow> Inr () | Some e \<Rightarrow> Inl (ApiErr e))"
  "result (randP A n) s = (case fst (api_rand A n s) of Inl e \<Rightarrow> Inl (LibErr e) | Inr bs \<Rightarrow> Inr bs)"
  by (auto simp: result_def getP_def listP_def patchP_def createP_def clientDeleteP_def deleteP_def
      randP_def split: prod.splits option.splits sum.splits)

lemma final_calls [simp]:
  "final (getP A ref) s = s"
  "final (listP A g sel) s = s"
  "final (patchP A p) s = snd (api_patch A p s)"
  "final (createP A owner ob) s = snd (api_create A owner ob s)"
  "final (clientDeleteP A ref) s = snd (api_clientDelete A ref s)"
  "final (deleteP A ref) s = snd (api_delete A ref s)"
  "final (randP A n) s = snd (api_rand A n s)"
  by (auto simp: final_def getP_def listP_def patchP_def createP_def clientDeleteP_def deleteP_def
      randP_def split: prod.splits option.splits sum.splits)

lemma emits_ret [emits_intros]: "emits P (ret x)"
  and emits_fail [emits_intros]: "emits P (failP e)"
  and emits_lift [emits_intros]: "emits P (liftR r)"
  and emits_rand [emits_intros]: "emits P (randP A n)"
  and emits_failIf [emits_intros]: "emits P (failIf err)"
  by (simp_all add: emits_def)

lemma emits_bind [emits_intros]:
  "emits P m \<Longrightarrow> (\<And>x. emits P (f x)) \<Longrightarrow> emits P (bindP m f)"
  by (auto simp: emits_def effects_bindP split: sum.splits)

lemma emits_seq [emits_intros]: "emits P m \<Longrightarrow> emits P m' \<Longrightarrow> emits P (seqP m m')"
  by (simp add: seqP_def emits_bind)

lemma emits_wrap [emits_intros]: "emits P m \<Longrightarrow> emits P (wrapP g a m)"
  by (simp add: emits_def)

lemma emits_when [emits_intros]: "(b \<Longrightarrow> emits P m) \<Longrightarrow> emits P (whenP b m)"
  by (simp add: whenP_def emits_ret)

lemma emits_for [emits_intros]: "(\<And>x. x \<in> set xs \<Longrightarrow> emits P (f x)) \<Longrightarrow> emits P (forP f xs)"
  by (induction xs) (auto intro: emits_intros)

lemma emits_if [emits_intros]:
  "(b \<Longrightarrow> emits P m) \<Longrightarrow> (\<not> b \<Longrightarrow> emits P m') \<Longrightarrow> emits P (if b then m else m')"
  by simp

lemma emits_case_option [emits_intros]:
  "(x = None \<Longrightarrow> emits P m) \<Longrightarrow> (\<And>y. x = Some y \<Longrightarrow> emits P (f y)) \<Longrightarrow>
     emits P (case x of None \<Rightarrow> m | Some y \<Rightarrow> f y)"
  by (cases x) simp_all

lemma emits_case_sum [emits_intros]:
  "(\<And>e. x = Inl e \<Longrightarrow> emits P (f e)) \<Longrightarrow> (\<And>y. x = Inr y \<Longrightarrow> emits P (g y)) \<Longrightarrow>
     emits P (case x of Inl e \<Rightarrow> f e | Inr y \<Rightarrow> g y)"
  by (cases x) simp_all

lemma emits_get: "(\<And>r. P (EvGet ref r)) \<Longrightarrow> emits P (getP A ref)"
  and emits_list: "(\<And>r. P (EvList g sel r)) \<Longrightarrow> emits P (listP A g sel)"
  and emits_patch: "(\<And>r. P (EvPatch p r)) \<Longrightarrow> emits P (patchP A p)"
  and emits_create: "(\<And>r. P (EvCreate owner ob r)) \<Longrightarrow> emits P (createP A owner ob)"
  and emits_clientDelete: "(\<And>r. P (EvDelete ref r)) \<Longrightarrow> emits P (clientDeleteP A ref)"
  and emits_delete: "(\<And>r. P (EvDelete ref r)) \<Longrightarrow> emits P (deleteP A ref)"
  by (simp_all add: emits_def)

lemmas emits_calls = emits_get emits_list emits_patch emits_create emits_clientDelete emits_delete

lemma emits_Apply [emits_intros]:
  "(\<And>r. P (EvPatch (ServerSideApply owner obj) r)) \<Longrightarrow> emits P (Apply A L owner obj)"
  unfolding Apply_def by (intro emits_intros emits_patch)

lemma emitsD: "emits P m \<Longrightarrow> e \<in> set (effects m s) \<Longrightarrow> P e"
  by (simp add: emits_def)

lemma result_Apply:
  "result (Apply A L owner obj) s =
     (case lib_ownerError L owner obj of
        Some e \<Rightarrow> Inl (Wrap (CommonMsg SettingOwner) [] (LibErr e))
      | None \<Rightarrow> (case lib_gvkError L obj of
           Some e \<Rightarrow> Inl (Wrap (CommonMsg DeterminingGVK) [] (LibErr e))
         | None \<Rightarrow> (case fst (api_patch A (ServerSideApply owner obj) s) of
              None \<Rightarrow> Inr () | Some e \<Rightarrow> Inl (ApiErr e))))"
  by (auto simp: Apply_def run_bind split: option.splits)

section \<open>The writes of a run\<close>

fun isWrite :: "event \<Rightarrow> bool" where
  "isWrite (EvPatch _ _) = True"
| "isWrite (EvCreate _ _ _) = True"
| "isWrite (EvDelete _ _) = True"
| "isWrite _ = False"

definition writes :: "('s, 'a) prog \<Rightarrow> 's \<Rightarrow> event list" where
  "writes m s = filter isWrite (effects m s)"

lemma writes_bindP:
  "writes (bindP m f) s =
     writes m s @ (case result m s of Inl e \<Rightarrow> [] | Inr x \<Rightarrow> writes (f x) (final m s))"
  by (simp add: writes_def effects_bindP split: sum.split)

lemma writes_simps [simp]:
  "writes (ret x) s = []" "writes (failP e) s = []" "writes (liftR r) s = []" "writes (failIf err) s = []"
  "writes (getP A ref) s = []" "writes (listP A g sel) s = []" "writes (randP A n) s = []"
  "writes (wrapP wm a m) s = writes m s"
  "writes (patchP A p) s = [EvPatch p (fst (api_patch A p s))]"
  "writes (createP A owner ob) s = [EvCreate owner ob (fst (api_create A owner ob s))]"
  "writes (clientDeleteP A ref) s = [EvDelete ref (fst (api_clientDelete A ref s))]"
  "writes (deleteP A ref) s = [EvDelete ref (fst (api_delete A ref s))]"
  by (simp_all add: writes_def)

lemma writes_seqP:
  "writes (seqP m m') s =
     writes m s @ (case result m s of Inl e \<Rightarrow> [] | Inr x \<Rightarrow> writes m' (final m s))"
  by (simp add: seqP_def writes_bindP)

lemma result_seqP:
  "result (seqP m m') s = (case result m s of Inl e \<Rightarrow> Inl e | Inr x \<Rightarrow> result m' (final m s))"
  by (simp add: seqP_def result_bindP)

lemma final_seqP:
  "final (seqP m m') s = (case result m s of Inl e \<Rightarrow> final m s | Inr x \<Rightarrow> final m' (final m s))"
  by (simp add: seqP_def final_bindP)

lemma writes_Apply:
  "writes (Apply A L owner obj) s =
     (if lib_ownerError L owner obj = None \<and> lib_gvkError L obj = None
      then [EvPatch (ServerSideApply owner obj) (fst (api_patch A (ServerSideApply owner obj) s))] else [])"
  by (auto simp: Apply_def writes_bindP split: option.splits)

lemmas run_writes = writes_bindP writes_seqP result_seqP final_seqP run_bind writes_Apply result_Apply

section \<open>Successful runs\<close>

text \<open>
  \<open>runs m s x s' ws\<close>: from \<open>s\<close> the program returns \<open>x\<close>, ends in \<open>s'\<close> and its writes are \<open>ws\<close>. The
  equations take a successful run apart into those of its parts.
\<close>

definition runs :: "('s, 'a) prog \<Rightarrow> 's \<Rightarrow> 'a \<Rightarrow> 's \<Rightarrow> event list \<Rightarrow> bool" where
  "runs m s x s' ws \<longleftrightarrow> result m s = Inr x \<and> final m s = s' \<and> writes m s = ws"

lemma runs_result: "result m s = Inr x \<Longrightarrow> runs m s x (final m s) (writes m s)"
  by (simp add: runs_def)

lemma runs_bind: "runs (bindP m f) s y s'' ws \<longleftrightarrow>
    (\<exists>x s' ws1 ws2. runs m s x s' ws1 \<and> runs (f x) s' y s'' ws2 \<and> ws = ws1 @ ws2)"
  by (auto simp: runs_def result_bindP final_bindP writes_bindP split: sum.splits)

lemma runs_seq: "runs (seqP m m') s y s'' ws \<longleftrightarrow>
    (\<exists>s' ws1 ws2. runs m s () s' ws1 \<and> runs m' s' y s'' ws2 \<and> ws = ws1 @ ws2)"
  by (simp add: seqP_def runs_bind)

lemma runs_lift: "runs (liftR r) s y s' ws \<longleftrightarrow> r = Inr y \<and> s' = s \<and> ws = []"
  by (auto simp: runs_def)

lemma runs_wrap: "runs (wrapP g a m) s y s' ws \<longleftrightarrow> runs m s y s' ws"
  by (auto simp: runs_def result_wrapP split: sum.splits)

lemma runs_when: "runs (whenP b m) s y s' ws \<longleftrightarrow> (if b then runs m s y s' ws else s' = s \<and> ws = [])"
  by (auto simp: runs_def whenP_def)

lemma runs_Apply:
  "runs (Apply A L owner ob) s y s' ws \<Longrightarrow> ws = [EvPatch (ServerSideApply owner ob) None]"
  by (auto simp: runs_def result_Apply writes_Apply split: option.splits)

lemma runs_delete: "runs (deleteP A ref) s y s' ws \<Longrightarrow> ws = [EvDelete ref None]"
  by (auto simp: runs_def split: option.splits)

lemmas runs_parts = runs_seq runs_bind runs_lift runs_wrap

end
