(* ===== verification/Config.thy ===== *)
theory Config
  imports Cluster
begin

text \<open>
  \<open>internal/common\<close>: the names of topologies and components, the environment variables the chart
  sets (spec.go), and the two operator catalogs read from the environment once per process
  (lora_catalog.go, predictor_catalog.go).
\<close>

section \<open>spec.go: constants and environment\<close>

definition ProviderName :: string where "ProviderName = ''provider-kserve''"
definition ComponentLlmEngine :: string where "ComponentLlmEngine = ''llmEngine''"
definition ComponentPredictor :: string where "ComponentPredictor = ''predictor''"
definition TopologyLLM :: string where "TopologyLLM = ''llm''"
definition TopologyPredictor :: string where "TopologyPredictor = ''predictor''"
definition DeploymentModeAnnotation :: string where
  "DeploymentModeAnnotation = ''serving.kserve.io/deploymentMode''"
definition DeploymentModeStandard :: string where "DeploymentModeStandard = ''Standard''"

definition KServeNamespace :: "env \<Rightarrow> string" where
  "KServeNamespace E = E ''KSERVE_NAMESPACE''"

definition HFTokenSecretName :: "env \<Rightarrow> string" where
  "HFTokenSecretName E = E ''HF_TOKEN_SECRET_NAME''"

definition AIGatewayName :: "env \<Rightarrow> string" where
  "AIGatewayName E = E ''AI_GATEWAY_NAME''"

definition AIGatewayEnabled :: "env \<Rightarrow> bool" where
  "AIGatewayEnabled E \<longleftrightarrow> E ''AI_GATEWAY_ENABLED'' = ''true''"

definition AIGatewayNamespace :: "env \<Rightarrow> string" where
  "AIGatewayNamespace E = E ''AI_GATEWAY_NAMESPACE''"

definition AIGatewayScheme :: "env \<Rightarrow> string" where
  "AIGatewayScheme E =
     (let scheme = E ''AI_GATEWAY_SCHEME'' in if scheme \<noteq> [] then scheme else ''http'')"

definition AIGatewayPort :: "env \<Rightarrow> string" where
  "AIGatewayPort E =
     (let port = E ''AI_GATEWAY_PORT'' in
      if port \<noteq> [] then port
      else if AIGatewayScheme E = ''https'' then ''443''
      else ''80'')"

definition AIGatewayHostname :: "env \<Rightarrow> string" where
  "AIGatewayHostname E = E ''AI_GATEWAY_HOSTNAME''"

definition AIGatewayListenerName :: "env \<Rightarrow> string" where
  "AIGatewayListenerName E = E ''AI_GATEWAY_LISTENER_NAME''"

definition RateLimitRedisURL :: "env \<Rightarrow> string" where
  "RateLimitRedisURL E = E ''AI_GATEWAY_RATE_LIMIT_REDIS_URL''"

definition AIGatewayAuthEnabled :: "env \<Rightarrow> bool" where
  "AIGatewayAuthEnabled E \<longleftrightarrow> AIGatewayEnabled E \<and> E ''AI_GATEWAY_AUTH_ENABLED'' = ''true''"

definition AIGatewayAuthAllowInsecureHTTP :: "env \<Rightarrow> bool" where
  "AIGatewayAuthAllowInsecureHTTP E \<longleftrightarrow> E ''AI_GATEWAY_AUTH_ALLOW_INSECURE_HTTP'' = ''true''"

definition PodMonitorEnabled :: "env \<Rightarrow> bool" where
  "PodMonitorEnabled E \<longleftrightarrow> E ''ENABLE_POD_MONITOR'' = ''true''"

definition PodMonitorInterval :: "env \<Rightarrow> string" where
  "PodMonitorInterval E =
     (let interval = E ''POD_MONITOR_INTERVAL'' in if interval \<noteq> [] then interval else ''30s'')"

text \<open>\<open>json.Unmarshal\<close> into \<open>ResourceRequirements\<close> is the parameter \<open>decode\<close>.\<close>

definition StorageInitializerResources ::
    "(string \<Rightarrow> string + resources) \<Rightarrow> env \<Rightarrow> kerror + resources option" where
  "StorageInitializerResources decode E =
     (let raw = E ''STORAGE_INITIALIZER_RESOURCES'' in
      if raw = [] then Inr None
      else case decode raw of
          Inl e \<Rightarrow> Inl (Wrap (CommonMsg StorageInitializerInvalid) [] (LibErr e))
        | Inr res \<Rightarrow>
            if rq_limits res = [] \<and> rq_requests res = [] then Inr None else Inr (Some res))"

lemma AIGatewayAuth_implies_enabled: "AIGatewayAuthEnabled E \<Longrightarrow> AIGatewayEnabled E"
  by (simp add: AIGatewayAuthEnabled_def)

lemma StorageInitializerResources_nonempty:
  "StorageInitializerResources d E = Inr (Some r) \<Longrightarrow> rq_limits r \<noteq> [] \<or> rq_requests r \<noteq> []"
  by (auto simp: StorageInitializerResources_def Let_def split: if_splits sum.splits)

section \<open>The catalogs\<close>

text \<open>
  Both catalogs are the same machine: on the first lookup (\<open>sync.Once\<close>) the environment variable
  is decoded and its valid entries are stored by name, a later entry replacing an earlier one
  of the same name; every later lookup reads the stored map. \<open>decode\<close> is \<open>json.Unmarshal\<close> of the
  variable into the entry list (None on an error).
\<close>

record 'e catalog_cache =
  cc_loaded :: bool \<comment> \<open>the \<open>sync.Once\<close> has run\<close>
  cc_byName :: "'e gmap"

record loRACatalogEntry =
  le_label :: string
  le_name :: string
  le_uri :: string

fun index_entries :: "('e \<Rightarrow> string) \<Rightarrow> ('e \<Rightarrow> bool) \<Rightarrow> 'e list \<Rightarrow> 'e gmap \<Rightarrow> 'e gmap" where
  "index_entries name ok [] m = m"
| "index_entries name ok (e # es) m =
     (if ok e then index_entries name ok es (gset (name e) e m) else index_entries name ok es m)"

definition loRA_entry_ok :: "loRACatalogEntry \<Rightarrow> bool" where
  "loRA_entry_ok e \<longleftrightarrow> \<not> (le_name e = [] \<or> le_uri e = [])"

definition loadLoRACatalog ::
    "(string \<Rightarrow> loRACatalogEntry list option) \<Rightarrow> env \<Rightarrow> loRACatalogEntry gmap" where
  "loadLoRACatalog decode E =
     (let raw = E ''LORA_ADAPTER_CATALOG'' in
      if raw = [] then []
      else case decode raw of
          None \<Rightarrow> []
        | Some entries \<Rightarrow> index_entries le_name loRA_entry_ok entries [])"

definition LookupLoRAAdapter ::
    "(string \<Rightarrow> loRACatalogEntry list option) \<Rightarrow> env \<Rightarrow> loRACatalogEntry catalog_cache \<Rightarrow> string \<Rightarrow>
       loRACatalogEntry option \<times> loRACatalogEntry catalog_cache" where
  "LookupLoRAAdapter decode E c name =
     (let c' = (if cc_loaded c then c
                else \<lparr>cc_loaded = True, cc_byName = loadLoRACatalog decode E\<rparr>)
      in (gget (cc_byName c') name, c'))"

record predictorModelCatalogEntry =
  pe_label :: string
  pe_name :: string
  pe_modelFormat :: string
  pe_storageURI :: string
  pe_task :: string
  pe_gpuCount :: int

definition predictor_entry_ok :: "predictorModelCatalogEntry \<Rightarrow> bool" where
  "predictor_entry_ok e \<longleftrightarrow> \<not> (pe_name e = [] \<or> pe_modelFormat e = [] \<or> pe_storageURI e = [])"

definition loadPredictorCatalog ::
    "(string \<Rightarrow> predictorModelCatalogEntry list option) \<Rightarrow> env \<Rightarrow> predictorModelCatalogEntry gmap" where
  "loadPredictorCatalog decode E =
     (case decode (E ''PREDICTOR_MODEL_CATALOG'') of
        None \<Rightarrow> []
      | Some entries \<Rightarrow> index_entries pe_name predictor_entry_ok entries [])"

definition LookupPredictorModel ::
    "(string \<Rightarrow> predictorModelCatalogEntry list option) \<Rightarrow> env \<Rightarrow>
       predictorModelCatalogEntry catalog_cache \<Rightarrow> string \<Rightarrow>
       predictorModelCatalogEntry option \<times> predictorModelCatalogEntry catalog_cache" where
  "LookupPredictorModel decode E c name =
     (let c' = (if cc_loaded c then c
                else \<lparr>cc_loaded = True, cc_byName = loadPredictorCatalog decode E\<rparr>)
      in (gget (cc_byName c') name, c'))"

text \<open>
  The contract a lookup client relies on: an entry found under a name has that name and is
  valid, and once a lookup has happened the environment no longer matters.
\<close>

locale catalog =
  fixes name :: "'e \<Rightarrow> string"
    and ok :: "'e \<Rightarrow> bool"
    and load :: "env \<Rightarrow> 'e gmap"
    and lookup :: "env \<Rightarrow> 'e catalog_cache \<Rightarrow> string \<Rightarrow> 'e option \<times> 'e catalog_cache"
  assumes load_sound: "gget (load E) n = Some e \<Longrightarrow> name e = n \<and> ok e"
    and lookup_fresh: "\<not> cc_loaded c \<Longrightarrow>
      lookup E c n = (gget (load E) n, \<lparr>cc_loaded = True, cc_byName = load E\<rparr>)"
    and lookup_cached: "cc_loaded c \<Longrightarrow> lookup E c n = (gget (cc_byName c) n, c)"
begin

lemma lookup_sound:
  assumes "\<not> cc_loaded c" and "lookup E c n = (Some e, c')"
  shows "name e = n \<and> ok e"
proof -
  have "gget (load E) n = Some e" using assms lookup_fresh [of c E n] by simp
  then show ?thesis by (rule load_sound)
qed

lemma lookup_frozen:
  assumes "lookup E c n = (r, c')"
  shows "lookup E' c' n = (r, c')"
  using assms by (cases "cc_loaded c") (auto simp: lookup_fresh lookup_cached)

end

definition indexed :: "('e \<Rightarrow> string) \<Rightarrow> ('e \<Rightarrow> bool) \<Rightarrow> 'e gmap \<Rightarrow> bool" where
  "indexed name ok m \<longleftrightarrow> (\<forall>n e. gget m n = Some e \<longrightarrow> name e = n \<and> ok e)"

lemma index_entries_indexed: "indexed name ok m \<Longrightarrow> indexed name ok (index_entries name ok es m)"
proof (induction es arbitrary: m)
  case Nil
  then show ?case by simp
next
  case (Cons x es)
  show ?case
  proof (cases "ok x")
    case True
    with Cons.prems have "indexed name ok (gset (name x) x m)" by (simp add: indexed_def)
    with True Cons.IH show ?thesis by simp
  next
    case False
    with Cons show ?thesis by simp
  qed
qed

lemma index_entries_sound: "gget (index_entries name ok es []) n = Some e \<Longrightarrow> name e = n \<and> ok e"
  using index_entries_indexed [of name ok "[]" es] by (simp add: indexed_def)

lemma index_entries_keep:
  "gget m k \<noteq> None \<Longrightarrow> gget (index_entries name ok es m) k \<noteq> None"
  by (induction es arbitrary: m) auto

lemma index_entries_complete:
  assumes "e \<in> set es" and "ok e"
  shows "gget (index_entries name ok es m) (name e) \<noteq> None"
  using assms(1)
proof (induction es arbitrary: m)
  case Nil
  then show ?case by simp
next
  case (Cons x es)
  show ?case
  proof (cases "e = x")
    case True
    with assms(2) show ?thesis using index_entries_keep [of "gset (name e) e m"] by auto
  next
    case False
    with Cons have "\<And>m. gget (index_entries name ok es m) (name e) \<noteq> None" by auto
    then show ?thesis by simp
  qed
qed

interpretation loRA_catalog: catalog le_name loRA_entry_ok "loadLoRACatalog d" "LookupLoRAAdapter d"
proof (unfold_locales, goal_cases)
  case (1 E n e)
  then show ?case
    by (auto dest: index_entries_sound simp: loadLoRACatalog_def Let_def split: if_splits option.splits)
qed (simp_all add: LookupLoRAAdapter_def)

interpretation predictor_catalog:
  catalog pe_name predictor_entry_ok "loadPredictorCatalog d" "LookupPredictorModel d"
proof (unfold_locales, goal_cases)
  case (1 E n e)
  then show ?case
    by (auto dest: index_entries_sound simp: loadPredictorCatalog_def split: option.splits)
qed (simp_all add: LookupPredictorModel_def)

text \<open>
  The two catalogs as the process sees them after their first lookup: by \<open>lookup_frozen\<close> every
  lookup returns what these maps hold. The components below take them as an argument.
\<close>

record catalogs =
  ca_lora :: "loRACatalogEntry gmap"
  ca_predictor :: "predictorModelCatalogEntry gmap"

end
