(* ===== verification/MemStore.thy ===== *)
theory MemStore
  imports Config
begin

text \<open>
  A concrete instance of every parameter of the model: an in-memory API that stores what it is
  sent, an Instance called \<open>demo\<close>, library functions that accept everything, and an environment.
  The witnesses of the properties run the provider on it; no property is about it.
\<close>

type_synonym mem_state = "(objref \<times> kobject) list \<times> nat"

fun kindOf :: "kobject \<Rightarrow> gvk" where
  "kindOf ob = or_gvk (objRef ob)"

fun hasLabel :: "(string \<times> string) option \<Rightarrow> kobject \<Rightarrow> bool" where
  "hasLabel None ob = True"
| "hasLabel (Some (k, v)) (KSecret sec) = (gget (om_labels (se_meta sec)) k = Some v)"
| "hasLabel (Some (k, v)) ob = False"

fun mem_patch :: "patch \<Rightarrow> mem_state \<Rightarrow> api_error option \<times> mem_state" where
  "mem_patch (ServerSideApply owner ob) (st, n) = (None, AList.update (objRef ob) ob st, n)"
| "mem_patch (DryRunApply ob) s = (None, s)"
| "mem_patch (MergePatch old new) (st, n) = (None, AList.update (objRef new) new st, n)"

definition mem_api :: "mem_state api" where
  "mem_api = \<lparr>
     api_get = (\<lambda>s ref. case map_of (fst s) ref of None \<Rightarrow> Inl NotFound
        | Some ob \<Rightarrow> if objRef ob = ref then Inr ob else Inl NotFound),
     api_list = (\<lambda>s g sel. Inr (filter (\<lambda>ob. kindOf ob = g \<and> hasLabel sel ob) (map snd (fst s)))),
     api_patch = mem_patch,
     api_create = (\<lambda>owner ob s. if map_of (fst s) (objRef ob) = None
        then (None, AList.update (objRef ob) ob (fst s), snd s) else (Some AlreadyExists, s)),
     api_delete = (\<lambda>ref s. (None, AList.delete ref (fst s), snd s)),
     api_clientDelete = (\<lambda>ref s. if map_of (fst s) ref = None then (Some NotFound, s)
        else (None, AList.delete ref (fst s), snd s)),
     api_rand = (\<lambda>n s. (Inr (replicate n (snd s mod 256)), fst s, Suc (snd s)))\<rparr>"

definition demo_lib :: lib where
  "demo_lib = \<lparr>
     lib_childName = (\<lambda>parent suffix. parent @ suffix),
     lib_parseURL = (\<lambda>u. Inr (if u = [] then None else Some u)),
     lib_isDNS1035Label = (\<lambda>_. []),
     lib_isDNS1123Subdomain = (\<lambda>_. []),
     lib_isQualifiedName = (\<lambda>_. []),
     lib_isValidLabelValue = (\<lambda>_. []),
     lib_regexMatch = (\<lambda>re s. Inr (re = s)),
     lib_formatFloat = (\<lambda>_. ''0.9''),
     lib_topologySpread = (\<lambda>_ _. []),
     lib_normalizeRanges = (\<lambda>rs. rs),
     lib_parseLLMConfig = (\<lambda>_. Inl ''unsupported''),
     lib_ownerError = (\<lambda>_ _. None),
     lib_urlParse = (\<lambda>_. None),
     lib_parseIP = (\<lambda>_. False),
     lib_urlString = (\<lambda>scheme host path. scheme @ ''://'' @ host @ path),
     lib_gvkError = (\<lambda>_. None),
     lib_decodeResources = (\<lambda>_. Inl ''unsupported''),
     lib_parseResources = (\<lambda>_. Inl ''unsupported''),
     lib_yamlRead = (\<lambda>t. Inr (t, True)),
     lib_yamlToJSON = (\<lambda>t. Inr t),
     lib_jsonMap = (\<lambda>t. Inr (Some [])),
     lib_decodeStorageContainer = (\<lambda>_. Inl ''unsupported''),
     lib_decodeStatus = (\<lambda>_. Inl ''unsupported''),
     lib_renderError = (\<lambda>_. None),
     lib_containerJSON = (\<lambda>ct. [(''name'', JStr (ct_name ct)),
        (''ports'', JArr (map (\<lambda>p. JObj [(''containerPort'', JInt (cp_port p))]) (ct_ports ct)))]),
     lib_resourcesJSON = (\<lambda>_. JNull),
     lib_envJSON = (\<lambda>_. JNull),
     lib_tolerationJSON = (\<lambda>_. JNull),
     lib_isPrint = (\<lambda>_. True),
     lib_NewPredicateFuncs = (\<lambda>p ch. case ch of Created ref l \<Rightarrow> p ref l | Updated ref _ l \<Rightarrow> p ref l | Deleted ref l \<Rightarrow> p ref l),
     lib_ProviderLabel = ''core.openeverest.io/provider'',
     lib_InstanceLabel = ''core.openeverest.io/instance'',
     lib_ComponentLabel = ''core.openeverest.io/component''\<rparr>"

definition zero_component :: component where
  "zero_component = \<lparr>co_replicas = None, co_resources = None, co_service = None,
     co_scheduling = None, co_vllm = zero_vllm, co_modelServer = zero_modelServer\<rparr>"

definition demo_meta :: "string \<Rightarrow> objmeta" where
  "demo_meta n = \<lparr>om_name = n, om_namespace = ''ns'', om_labels = [], om_annotations = []\<rparr>"

definition demo_ctx :: ctx where
  "demo_ctx = \<lparr>cx_name = ''demo'', cx_namespace = ''ns'', cx_uid = ''u'',
     cx_topologyType = TopologyLLM, cx_components = [], cx_zeroComponent = zero_component,
     cx_llmTopology = zero_llmTopology, cx_predictorTopology = zero_predictorTopology,
     cx_objectMeta = demo_meta, cx_podLabels = (\<lambda>comp. [(''component'', comp)])\<rparr>"

definition no_catalogs :: catalogs where
  "no_catalogs = \<lparr>ca_lora = [], ca_predictor = []\<rparr>"

text \<open>A chart with the AI Gateway enabled over HTTPS, with API keys.\<close>

definition gateway_env :: env where
  "gateway_env k =
     (if k = ''AI_GATEWAY_ENABLED'' then ''true''
      else if k = ''AI_GATEWAY_AUTH_ENABLED'' then ''true''
      else if k = ''AI_GATEWAY_SCHEME'' then ''https''
      else if k = ''AI_GATEWAY_NAME'' then ''gw''
      else if k = ''AI_GATEWAY_NAMESPACE'' then ''infra''
      else [])"

lemma mem_reads_own_writes: "reads_own_writes mem_api"
  by (auto simp: reads_own_writes_def mem_api_def update_conv' split: if_splits)

lemma mem_named_reads: "named_reads mem_api"
  by (auto simp: named_reads_def mem_api_def split: option.splits if_splits)

lemma mem_rand_ok: "rand_ok mem_api"
  by (auto simp: rand_ok_def mem_api_def)

lemma demo_filters_new_object: "filters_new_object demo_lib"
  by (simp add: filters_new_object_def demo_lib_def)

lemma demo_meta_ok: "meta_ok demo_ctx"
  by (simp add: meta_ok_def demo_ctx_def demo_meta_def)

text \<open>How the instance answers, for the witnesses.\<close>

lemma mem_patch_ok: "fst (mem_patch p s) = None"
  by (cases "(p, s)" rule: mem_patch.cases) simp_all

lemma mem_answers:
  "fst (api_patch mem_api p s) = None"
  "lib_ownerError demo_lib owner ob = None"
  "lib_gvkError demo_lib ob = None"
  "fst (api_rand mem_api n s) = Inr (replicate n (snd s mod 256))"
  "fst (api_delete mem_api ref s) = None"
  "api_get mem_api s ref = (case map_of (fst s) ref of None \<Rightarrow> Inl NotFound
     | Some ob \<Rightarrow> if objRef ob = ref then Inr ob else Inl NotFound)"
  "api_list mem_api s g sel = Inr (filter (\<lambda>ob. kindOf ob = g \<and> hasLabel sel ob) (map snd (fst s)))"
  by (simp_all add: mem_api_def demo_lib_def mem_patch_ok)

lemma demo_lib_answers:
  "lib_renderError demo_lib p = None"
  "lib_isDNS1035Label demo_lib t = []" "lib_isDNS1123Subdomain demo_lib t = []"
  "lib_isQualifiedName demo_lib t = []" "lib_isValidLabelValue demo_lib t = []"
  "lib_containerJSON demo_lib ct = [(''name'', JStr (ct_name ct)),
     (''ports'', JArr (map (\<lambda>p. JObj [(''containerPort'', JInt (cp_port p))]) (ct_ports ct)))]"
  "lib_yamlRead demo_lib t = Inr (t, True)" "lib_yamlToJSON demo_lib t = Inr t"
  "lib_childName demo_lib x y = x @ y"
  by (simp_all add: demo_lib_def)

end
