(* ===== verification/Encoding.thy ===== *)
theory Encoding
  imports Prelude
begin

text \<open>
  The text encodings of \<open>encoding/base32\<close> and \<open>encoding/base64\<close> without padding, as \<open>apikey.go\<close>
  uses them: the bits of the input, most significant first, in groups of \<open>k\<close> bits (the last one
  filled with zeros), each written as the letter of that index. \<open>decode_bits\<close> is the reference
  decoder that shows no information is lost; the code itself never decodes.
\<close>

section \<open>Bits\<close>

fun bits_of :: "nat \<Rightarrow> nat \<Rightarrow> bool list" where
  "bits_of 0 n = []"
| "bits_of (Suc k) n = bits_of k (n div 2) @ [odd n]"

definition val_of :: "bool list \<Rightarrow> nat" where
  "val_of bs = foldl (\<lambda>n b. 2 * n + of_bool b) 0 bs"

lemma length_bits_of [simp]: "length (bits_of k n) = k"
  by (induction k arbitrary: n) auto

lemma val_of_snoc [simp]: "val_of (bs @ [b]) = 2 * val_of bs + of_bool b"
  by (simp add: val_of_def)

lemma val_of_Nil [simp]: "val_of [] = 0"
  by (simp add: val_of_def)

lemma val_of_less: "val_of bs < 2 ^ length bs"
  by (induction bs rule: rev_induct) auto

lemma bits_of_val_of: "bits_of (length bs) (val_of bs) = bs"
  by (induction bs rule: rev_induct) auto

lemma val_of_bits_of: "n < 2 ^ k \<Longrightarrow> val_of (bits_of k n) = n"
  by (induction k arbitrary: n) auto

section \<open>Groups\<close>

function groups :: "nat \<Rightarrow> bool list \<Rightarrow> bool list list" where
  "groups k bs =
     (if k = 0 \<or> bs = [] then []
      else (take k bs @ replicate (k - length bs) False) # groups k (drop k bs))"
  by pat_completeness auto
termination
  by (relation "measure (\<lambda>(k, bs). length bs)") auto

declare groups.simps [simp del]

lemma groups_length: "g \<in> set (groups k bs) \<Longrightarrow> length g = k"
  by (induction k bs rule: groups.induct) (subst (asm) (2) groups.simps, auto split: if_splits)

lemma concat_groups:
  "0 < k \<Longrightarrow> \<exists>pad. pad < k \<and> concat (groups k bs) = bs @ replicate pad False"
proof (induction k bs rule: groups.induct)
  case (1 k bs)
  show ?case
  proof (cases "bs = []")
    case True
    with 1 show ?thesis by (subst groups.simps) auto
  next
    case False
    with 1 obtain pad where pad: "pad < k" "concat (groups k (drop k bs)) = drop k bs @ replicate pad False"
      by auto
    show ?thesis
    proof (cases "length bs < k")
      case True
      then have "groups k (drop k bs) = []" by (subst groups.simps) simp
      with True False 1 show ?thesis
        by (subst groups.simps) (auto intro!: exI [of _ "k - length bs"])
    next
      case ge: False
      with pad False 1 show ?thesis
        by (subst groups.simps) (auto intro!: exI [of _ pad] simp flip: append_assoc)
    qed
  qed
qed

lemma length_groups: "0 < k \<Longrightarrow> length (groups k bs) = (length bs + k - 1) div k"
proof (induction k bs rule: groups.induct)
  case (1 k bs)
  show ?case
  proof (cases "bs = []")
    case True
    with 1 show ?thesis by (subst groups.simps) auto
  next
    case False
    with 1 have ih: "length (groups k (drop k bs)) = (length bs - k + k - 1) div k" by auto
    have "Suc ((length bs - k + k - 1) div k) = (length bs + k - 1) div k"
    proof (cases "length bs < k")
      case True
      then have "(length bs - k + k - 1) div k = 0" using 1 by auto
      moreover have "(length bs + k - 1) div k = 1"
        using True False 1 by (intro div_nat_eqI) (cases bs; auto)+
      ultimately show ?thesis by simp
    next
      case ge: False
      then have "length bs + k - 1 = (length bs - k + k - 1) + k"
        using 1 False by (cases bs) auto
      then show ?thesis using 1 by (metis add.commute div_add_self1 less_not_refl plus_1_eq_Suc)
    qed
    with ih False 1 show ?thesis by (subst groups.simps) auto
  qed
qed

section \<open>Encoding and the reference decoder\<close>

definition encode_bits :: "nat \<Rightarrow> string \<Rightarrow> nat list \<Rightarrow> string" where
  "encode_bits k alphabet bytes =
     map (\<lambda>g. alphabet ! val_of g) (groups k (concat (map (bits_of 8) bytes)))"

definition index_in :: "string \<Rightarrow> char \<Rightarrow> nat" where
  "index_in alphabet c = length (takeWhile (\<lambda>d. d \<noteq> c) alphabet)"

definition decode_bits :: "nat \<Rightarrow> string \<Rightarrow> string \<Rightarrow> nat list" where
  "decode_bits k alphabet s =
     (let bits = concat (map (\<lambda>c. bits_of k (index_in alphabet c)) s)
      in map val_of (filter (\<lambda>g. length g = 8) (groups 8 (take (8 * (length bits div 8)) bits))))"

lemma index_in_nth: "distinct xs \<Longrightarrow> i < length xs \<Longrightarrow> index_in xs (xs ! i) = i"
  unfolding index_in_def
proof (induction xs arbitrary: i)
  case Nil
  then show ?case by simp
next
  case (Cons x xs)
  then show ?case by (cases i) auto
qed

lemma length_byte_bits [simp]: "length (concat (map (bits_of 8) bytes)) = 8 * length bytes"
  by (induction bytes) auto

lemma groups_bytes:
  "groups 8 (concat (map (bits_of 8) bytes)) = map (bits_of 8) bytes"
proof (induction bytes)
  case Nil
  then show ?case by (simp add: groups.simps)
next
  case (Cons b bytes)
  then show ?case
    by (subst groups.simps) (auto simp flip: length_0_conv)
qed

locale base_encoding =
  fixes k :: nat and alphabet :: string
  assumes width: "0 < k" "k \<le> 8"
    and letters: "distinct alphabet" "length alphabet = 2 ^ k"
begin

lemma encode_length: "length (encode_bits k alphabet bytes) = (8 * length bytes + k - 1) div k"
  using width by (simp add: encode_bits_def length_groups)

lemma encode_letters: "set (encode_bits k alphabet bytes) \<subseteq> set alphabet"
proof
  fix c
  assume "c \<in> set (encode_bits k alphabet bytes)"
  then obtain g where g: "g \<in> set (groups k (concat (map (bits_of 8) bytes)))"
    and c: "c = alphabet ! val_of g"
    by (auto simp: encode_bits_def)
  from g have "length g = k" by (rule groups_length)
  then have "val_of g < length alphabet" using letters val_of_less [of g] by simp
  with c show "c \<in> set alphabet" by simp
qed

lemma decoded_groups:
  "concat (map (\<lambda>c. bits_of k (index_in alphabet c)) (encode_bits k alphabet bytes)) =
     concat (groups k (concat (map (bits_of 8) bytes)))"
proof -
  have "bits_of k (index_in alphabet (alphabet ! val_of g)) = g"
    if "g \<in> set (groups k (concat (map (bits_of 8) bytes)))" for g
  proof -
    have len: "length g = k" using that by (rule groups_length)
    then have "val_of g < length alphabet" using letters val_of_less [of g] by simp
    with letters len show ?thesis by (simp add: index_in_nth) (metis bits_of_val_of)
  qed
  then have "map (\<lambda>c. bits_of k (index_in alphabet c)) (encode_bits k alphabet bytes) =
      groups k (concat (map (bits_of 8) bytes))"
    by (simp add: encode_bits_def comp_def map_idI)
  then show ?thesis by simp
qed

lemma decode_encode:
  assumes "\<forall>b \<in> set bytes. b < 256"
  shows "decode_bits k alphabet (encode_bits k alphabet bytes) = bytes"
proof -
  let ?bits = "concat (map (bits_of 8) bytes)"
  obtain pad where pad: "pad < k" "concat (groups k ?bits) = ?bits @ replicate pad False"
    using concat_groups width by blast
  have "(8 * length bytes + pad) div 8 = length bytes" using pad width by auto
  then have "take (8 * (length (?bits @ replicate pad False) div 8)) (?bits @ replicate pad False) = ?bits"
    by simp
  moreover have "map val_of (map (bits_of 8) bytes) = bytes"
    using assms by (auto simp: val_of_bits_of intro!: map_idI)
  ultimately show ?thesis
    by (simp add: decode_bits_def Let_def decoded_groups pad groups_bytes filter_True)
qed

lemma encode_inject:
  assumes "\<forall>b \<in> set xs. b < 256" "\<forall>b \<in> set ys. b < 256"
    and "encode_bits k alphabet xs = encode_bits k alphabet ys"
  shows "xs = ys"
  using assms decode_encode by metis

end

definition lowerBase32_alphabet :: string where
  "lowerBase32_alphabet = ''abcdefghijklmnopqrstuvwxyz234567''"

definition base64URL_alphabet :: string where
  "base64URL_alphabet = ''ABCDEFGHIJKLMNOPQRSTUVWXYZabcdefghijklmnopqrstuvwxyz0123456789-_''"

definition lowerBase32 :: "nat list \<Rightarrow> string" where
  "lowerBase32 bytes = encode_bits 5 lowerBase32_alphabet bytes"

definition rawURLBase64 :: "nat list \<Rightarrow> string" where
  "rawURLBase64 bytes = encode_bits 6 base64URL_alphabet bytes"

interpretation b32: base_encoding 5 lowerBase32_alphabet
  by unfold_locales (simp_all add: lowerBase32_alphabet_def)

interpretation b64: base_encoding 6 base64URL_alphabet
  by unfold_locales (simp_all add: base64URL_alphabet_def)

end
