(* ===== verification/ApiKeys.thy ===== *)
theory ApiKeys
  imports MemStore Encoding
begin

text \<open>
  \<open>internal/provider/apikey.go\<close>: the API key Secret of an Instance. The key and its identifier
  are random, generated once and never rewritten; the labels and the list of models are kept up
  to date. \<open>newAPIKeyID\<close> and the pattern \<open>validAPIKeyID\<close> of gatewayauth.go meet here, because
  the renderer there drops every key whose identifier the pattern rejects.
\<close>

section \<open>Names and constants\<close>

definition aiGatewayKeySecretSuffix :: string where "aiGatewayKeySecretSuffix = ''-ai-gateway-key''"
definition aiGatewayKeyLabel :: string where "aiGatewayKeyLabel = ''openeverest.io/ai-gateway-key''"
definition aiGatewayKeyOwnerKindLabel :: string where
  "aiGatewayKeyOwnerKindLabel = ''openeverest.io/ai-gateway-key-owner-kind''"
definition aiGatewayKeyOwnerNameLabel :: string where
  "aiGatewayKeyOwnerNameLabel = ''openeverest.io/ai-gateway-key-owner-name''"
definition aiGatewayKeyIDAnnotation :: string where
  "aiGatewayKeyIDAnnotation = ''openeverest.io/ai-gateway-key-id''"
definition aiGatewayModelsAnnotation :: string where
  "aiGatewayModelsAnnotation = ''openeverest.io/ai-gateway-models''"
definition aiGatewayKeyDataKey :: string where "aiGatewayKeyDataKey = ''api_key''"
definition aiGatewayKeyOwnerKindInstance :: string where "aiGatewayKeyOwnerKindInstance = ''instance''"
definition managedByLabel :: string where "managedByLabel = ''app.kubernetes.io/managed-by''"
definition apiKeyPrefix :: string where "apiKeyPrefix = ''oe_sk_''"
definition apiKeyIDPrefix :: string where "apiKeyIDPrefix = ''k_''"

lemmas key_annotation_defs = aiGatewayKeyIDAnnotation_def aiGatewayModelsAnnotation_def
lemmas key_label_defs = aiGatewayKeyLabel_def aiGatewayKeyOwnerKindLabel_def
  aiGatewayKeyOwnerNameLabel_def managedByLabel_def

definition aiGatewayKeySecretName :: "string \<Rightarrow> string" where
  "aiGatewayKeySecretName instance = instance @ aiGatewayKeySecretSuffix"

text \<open>\<open>obj.GetLabels()[aiGatewayKeyLabel] == "true"\<close>\<close>

definition isAIGatewayKeySecret :: "string gmap \<Rightarrow> bool" where
  "isAIGatewayKeySecret labels \<longleftrightarrow> ggetd [] labels aiGatewayKeyLabel = ''true''"

definition instanceModelRef :: "string \<Rightarrow> string \<Rightarrow> string" where
  "instanceModelRef namespace name = namespace @ ''/'' @ name"

definition newAPIKeyID :: "'s api \<Rightarrow> ('s, string) prog" where
  "newAPIKeyID A =
     bindP (wrapP (KeyMsg GeneratingKeyID) [] (randP A 10))
       (\<lambda>b. ret (apiKeyIDPrefix @ lowerBase32 b))"

definition newAPIKey :: "'s api \<Rightarrow> ('s, string) prog" where
  "newAPIKey A =
     bindP (wrapP (KeyMsg GeneratingKey) [] (randP A 32))
       (\<lambda>b. ret (apiKeyPrefix @ rawURLBase64 b))"

definition parseModelRefs :: "string \<Rightarrow> string list" where
  "parseModelRefs value =
     sort_compact (filter (\<lambda>ref. ref \<noteq> []) (map trimSpace (splitOn CHR '','' value)))"

text \<open>The pattern \<open>^k_[a-z0-9]+$\<close> of gatewayauth.go.\<close>

definition keyIDChars :: string where
  "keyIDChars = ''abcdefghijklmnopqrstuvwxyz0123456789''"

definition validAPIKeyID :: "string \<Rightarrow> bool" where
  "validAPIKeyID s \<longleftrightarrow>
     hasPrefix s ''k_'' \<and> drop 2 s \<noteq> [] \<and>
     list_all (\<lambda>c. c \<in> set keyIDChars) (drop 2 s)"

section \<open>The Secret\<close>

text \<open>
  \<open>setAIGatewayKeyFields\<close> updates a Secret in place; the model returns the updated Secret. On an
  error the callers drop the Secret.
\<close>

definition setKeyLabels :: "ctx \<Rightarrow> string gmap \<Rightarrow> string gmap" where
  "setKeyLabels c labels =
     gset managedByLabel ProviderName
       (gset aiGatewayKeyOwnerNameLabel (cx_name c)
         (gset aiGatewayKeyOwnerKindLabel aiGatewayKeyOwnerKindInstance
           (gset aiGatewayKeyLabel ''true'' labels)))"

definition secretAnnotation :: "secret \<Rightarrow> string \<Rightarrow> string" where
  "secretAnnotation sec k = ggetd [] (om_annotations (se_meta sec)) k"

definition secretData :: "secret \<Rightarrow> string \<Rightarrow> string" where
  "secretData sec k = ggetd [] (se_data sec) k"

definition withAnnotation :: "string \<Rightarrow> string \<Rightarrow> secret \<Rightarrow> secret" where
  "withAnnotation k v sec =
     sec\<lparr>se_meta := (se_meta sec)\<lparr>om_annotations := gset k v (om_annotations (se_meta sec))\<rparr>\<rparr>"

definition withData :: "string \<Rightarrow> string \<Rightarrow> secret \<Rightarrow> secret" where
  "withData k v sec = sec\<lparr>se_data := gset k v (se_data sec)\<rparr>"

definition setAIGatewayKeyFields :: "'s api \<Rightarrow> ctx \<Rightarrow> secret \<Rightarrow> ('s, secret) prog" where
  "setAIGatewayKeyFields A c secret =
     (let labelled = secret\<lparr>se_meta := (se_meta secret)\<lparr>om_labels := setKeyLabels c (om_labels (se_meta secret))\<rparr>\<rparr>;
          modelled = withAnnotation aiGatewayModelsAnnotation
                       (instanceModelRef (cx_namespace c) (cx_name c)) labelled
      in bindP
           (if secretAnnotation modelled aiGatewayKeyIDAnnotation = []
            then bindP (newAPIKeyID A) (\<lambda>kid. ret (withAnnotation aiGatewayKeyIDAnnotation kid modelled))
            else ret modelled)
           (\<lambda>identified.
              if secretData identified aiGatewayKeyDataKey = []
              then bindP (newAPIKey A) (\<lambda>key. ret (withData aiGatewayKeyDataKey key identified))
              else ret identified))"

definition keySecretRef :: "ctx \<Rightarrow> objref" where
  "keySecretRef c = mkref secretGVK (cx_namespace c) (aiGatewayKeySecretName (cx_name c))"

definition SecretTypeOpaque :: string where "SecretTypeOpaque = ''Opaque''"

text \<open>The Instance becomes the controller owner of the created Secret: the first argument of the call.\<close>

definition createAIGatewayKey :: "'s api \<Rightarrow> lib \<Rightarrow> ctx \<Rightarrow> ('s, unit) prog" where
  "createAIGatewayKey A L c =
     bindP (setAIGatewayKeyFields A c
              \<lparr>se_meta = cx_objectMeta c (aiGatewayKeySecretName (cx_name c)),
               se_type = SecretTypeOpaque, se_data = []\<rparr>)
       (\<lambda>secret.
          case lib_ownerError L (cx_ref c) (KSecret secret) of
            Some e \<Rightarrow> failP (Wrap (KeyMsg KeySecretOwner) [] (LibErr e))
          | None \<Rightarrow>
              bindP (createP A (cx_ref c) (KSecret secret))
                (\<lambda>r. case r of
                    None \<Rightarrow> ret ()
                  | Some AlreadyExists \<Rightarrow>
                      failP (Err (KeyMsg KeySecretNotCached) [om_name (se_meta secret)])
                  | Some e \<Rightarrow> failP (Wrap (KeyMsg CreatingKeySecret) [] (ApiErr e))))"

text \<open>\<open>c.Get\<close> into a \<open>Secret\<close>: the API answers a Secret reference with a Secret.\<close>

fun asSecret :: "kobject \<Rightarrow> secret option" where
  "asSecret (KSecret s) = Some s"
| "asSecret _ = None"

definition ensureAIGatewayKey :: "'s api \<Rightarrow> lib \<Rightarrow> ctx \<Rightarrow> ('s, unit) prog" where
  "ensureAIGatewayKey A L c =
     bindP (getP A (keySecretRef c))
       (\<lambda>r. case r of
           Inl NotFound \<Rightarrow> createAIGatewayKey A L c
         | Inl e \<Rightarrow> failP (Wrap (KeyMsg ReadingKeySecret) [] (ApiErr e))
         | Inr obj \<Rightarrow>
             (case asSecret obj of
                None \<Rightarrow> failP (LibErr ''not a Secret'')
              | Some existing \<Rightarrow>
                  bindP (setAIGatewayKeyFields A c existing)
                    (\<lambda>desired.
                       if existing = desired then ret ()
                       else bindP (patchP A (MergePatch (KSecret existing) (KSecret desired)))
                              (\<lambda>r. case r of
                                  None \<Rightarrow> ret ()
                                | Some e \<Rightarrow> failP (Wrap (KeyMsg UpdatingKeySecret) [] (ApiErr e))))))"

text \<open>The key ID and the key, or empty strings when the Secret does not exist yet.\<close>

definition readAIGatewayKey :: "'s api \<Rightarrow> ctx \<Rightarrow> ('s, string \<times> string) prog" where
  "readAIGatewayKey A c =
     bindP (getP A (keySecretRef c))
       (\<lambda>r. case r of
           Inl NotFound \<Rightarrow> ret ([], [])
         | Inl e \<Rightarrow> failP (ApiErr e)
         | Inr obj \<Rightarrow>
             (case asSecret obj of
                None \<Rightarrow> failP (LibErr ''not a Secret'')
              | Some secret \<Rightarrow>
                  ret (secretAnnotation secret aiGatewayKeyIDAnnotation,
                       secretData secret aiGatewayKeyDataKey)))"

section \<open>Identifiers and keys\<close>

lemma lowerBase32_letters: "set (lowerBase32 b) \<subseteq> set keyIDChars"
proof -
  have "set lowerBase32_alphabet \<subseteq> set keyIDChars"
    by (simp add: lowerBase32_alphabet_def keyIDChars_def)
  then show ?thesis using b32.encode_letters [of b] unfolding lowerBase32_def by (rule order_trans [rotated])
qed

lemma lowerBase32_length: "length (lowerBase32 b) = (8 * length b + 4) div 5"
  by (simp add: lowerBase32_def b32.encode_length)

lemma rawURLBase64_length: "length (rawURLBase64 b) = (8 * length b + 5) div 6"
  by (simp add: rawURLBase64_def b64.encode_length)

lemma validAPIKeyID_new:
  assumes "b \<noteq> []"
  shows "validAPIKeyID (apiKeyIDPrefix @ lowerBase32 b)"
proof -
  have "0 < length (lowerBase32 b)"
    using assms by (cases b) (simp_all add: lowerBase32_length)
  then have "lowerBase32 b \<noteq> []" by auto
  moreover have "list_all (\<lambda>c. c \<in> set keyIDChars) (lowerBase32 b)"
    using lowerBase32_letters by (auto simp: list_all_iff)
  ultimately show ?thesis
    by (simp add: validAPIKeyID_def apiKeyIDPrefix_def)
qed

lemma newAPIKeyID_result:
  "result (newAPIKeyID A) s = Inr kid \<Longrightarrow>
     \<exists>b. fst (api_rand A 10 s) = Inr b \<and> kid = apiKeyIDPrefix @ lowerBase32 b"
  by (auto simp: newAPIKeyID_def run_bind split: sum.splits)

lemma newAPIKey_result:
  "result (newAPIKey A) s = Inr key \<Longrightarrow>
     \<exists>b. fst (api_rand A 32 s) = Inr b \<and> key = apiKeyPrefix @ rawURLBase64 b"
  by (auto simp: newAPIKey_def run_bind split: sum.splits)

lemma effects_newKeys [simp]:
  "effects (newAPIKeyID A) s = []" "effects (newAPIKey A) s = []"
  by (auto simp: newAPIKeyID_def newAPIKey_def run_bind split: sum.splits)

lemma rand_okD:
  "rand_ok A \<Longrightarrow> fst (api_rand A n s) = Inr bs \<Longrightarrow> length bs = n \<and> (\<forall>b \<in> set bs. b < 256)"
  by (simp add: rand_ok_def)

section \<open>The life cycle of the Secret\<close>

definition secretID :: "secret \<Rightarrow> string" where
  "secretID sec = secretAnnotation sec aiGatewayKeyIDAnnotation"

definition secretKey :: "secret \<Rightarrow> string" where
  "secretKey sec = secretData sec aiGatewayKeyDataKey"

text \<open>What the provider writes on every Secret it owns: the labels and the models it may call.\<close>

definition key_metadata_ok :: "ctx \<Rightarrow> secret \<Rightarrow> bool" where
  "key_metadata_ok c sec \<longleftrightarrow>
     isAIGatewayKeySecret (om_labels (se_meta sec)) \<and>
     gget (om_labels (se_meta sec)) aiGatewayKeyOwnerKindLabel = Some aiGatewayKeyOwnerKindInstance \<and>
     gget (om_labels (se_meta sec)) aiGatewayKeyOwnerNameLabel = Some (cx_name c) \<and>
     gget (om_labels (se_meta sec)) managedByLabel = Some ProviderName \<and>
     secretAnnotation sec aiGatewayModelsAnnotation =
       instanceModelRef (cx_namespace c) (cx_name c)"

text \<open>The same Secret with its metadata brought up to date, which is all that happens to a key.\<close>

definition refreshed :: "ctx \<Rightarrow> secret \<Rightarrow> secret" where
  "refreshed c sec =
     withAnnotation aiGatewayModelsAnnotation (instanceModelRef (cx_namespace c) (cx_name c))
       (sec\<lparr>se_meta := (se_meta sec)\<lparr>om_labels := setKeyLabels c (om_labels (se_meta sec))\<rparr>\<rparr>)"

lemma secret_access [simp]:
  "secretAnnotation (withAnnotation k v sec) k' = (if k' = k then v else secretAnnotation sec k')"
  "secretData (withAnnotation k v sec) k' = secretData sec k'"
  "secretAnnotation (withData k v sec) k' = secretAnnotation sec k'"
  "secretData (withData k v sec) k' = (if k' = k then v else secretData sec k')"
  "om_labels (se_meta (withAnnotation k v sec)) = om_labels (se_meta sec)"
  "om_labels (se_meta (withData k v sec)) = om_labels (se_meta sec)"
  "se_data (withAnnotation k v sec) = se_data sec"
  "om_name (se_meta (withAnnotation k v sec)) = om_name (se_meta sec)"
  "om_namespace (se_meta (withAnnotation k v sec)) = om_namespace (se_meta sec)"
  "se_meta (withData k v sec) = se_meta sec"
  "se_type (withAnnotation k v sec) = se_type sec"
  "se_type (withData k v sec) = se_type sec"
  "secretKey (withAnnotation k v sec) = secretKey sec"
  "secretID (withData k v sec) = secretID sec"
  by (simp_all add: secretID_def secretKey_def secretAnnotation_def secretData_def withAnnotation_def withData_def)

lemma annotation_keys_distinct [simp]: "aiGatewayKeyIDAnnotation \<noteq> aiGatewayModelsAnnotation"
  "aiGatewayModelsAnnotation \<noteq> aiGatewayKeyIDAnnotation"
  by (simp_all add: key_annotation_defs)

lemma refreshed_simps [simp]:
  "secretID (refreshed c sec) = secretID sec"
  "secretKey (refreshed c sec) = secretKey sec"
  "se_data (refreshed c sec) = se_data sec"
  "se_type (refreshed c sec) = se_type sec"
  "om_name (se_meta (refreshed c sec)) = om_name (se_meta sec)"
  "om_namespace (se_meta (refreshed c sec)) = om_namespace (se_meta sec)"
  by (simp_all add: refreshed_def secretID_def secretKey_def secretAnnotation_def secretData_def
      withAnnotation_def)

lemma key_metadata_refreshed: "key_metadata_ok c (refreshed c sec)"
  by (simp add: key_metadata_ok_def refreshed_def isAIGatewayKeySecret_def setKeyLabels_def
      secretAnnotation_def withAnnotation_def key_label_defs ggetd_def)

lemma key_metadata_with:
  "key_metadata_ok c sec \<Longrightarrow> key_metadata_ok c (withAnnotation aiGatewayKeyIDAnnotation v sec)"
  "key_metadata_ok c sec \<Longrightarrow> key_metadata_ok c (withData k v sec)"
  by (simp_all add: key_metadata_ok_def)

lemma setKeyFields_unfold:
  "setAIGatewayKeyFields A c sec =
     bindP (if secretID sec = []
            then bindP (newAPIKeyID A) (\<lambda>kid. ret (withAnnotation aiGatewayKeyIDAnnotation kid (refreshed c sec)))
            else ret (refreshed c sec))
       (\<lambda>i. if secretKey i = []
            then bindP (newAPIKey A) (\<lambda>key. ret (withData aiGatewayKeyDataKey key i))
            else ret i)"
  unfolding setAIGatewayKeyFields_def Let_def secretID_def secretKey_def refreshed_def [symmetric]
  using refreshed_simps(1) [of c sec] by (simp add: secretID_def)

lemma setKeyFields_calls [simp]: "effects (setAIGatewayKeyFields A c sec) s = []"
  by (auto simp: setKeyFields_unfold run_bind split: sum.splits)

lemma setKeyFields_existing:
  "secretID sec \<noteq> [] \<Longrightarrow> secretKey sec \<noteq> [] \<Longrightarrow>
     result (setAIGatewayKeyFields A c sec) s = Inr (refreshed c sec) \<and>
     final (setAIGatewayKeyFields A c sec) s = s"
  by (simp add: setKeyFields_unfold run_bind)

text \<open>
  The outcome of a successful update: metadata current, an identifier and a key present, and
  whichever of the two was there before unchanged.
\<close>

lemma setKeyFields_spec:
  assumes "result (setAIGatewayKeyFields A c sec) s = Inr d"
  shows "key_metadata_ok c d"
    and "se_type d = se_type sec"
    and "om_name (se_meta d) = om_name (se_meta sec)"
    and "om_namespace (se_meta d) = om_namespace (se_meta sec)"
    and "secretID sec \<noteq> [] \<Longrightarrow> secretID d = secretID sec"
    and "secretKey sec \<noteq> [] \<Longrightarrow> se_data d = se_data sec"
    and "secretID sec = [] \<Longrightarrow> \<exists>b. fst (api_rand A 10 s) = Inr b \<and> secretID d = apiKeyIDPrefix @ lowerBase32 b"
    and "secretKey sec = [] \<Longrightarrow>
      \<exists>b. fst (api_rand A 32 (if secretID sec = [] then snd (api_rand A 10 s) else s)) = Inr b \<and>
        secretKey d = apiKeyPrefix @ rawURLBase64 b"
proof -
  let ?s = "if secretID sec = [] then snd (api_rand A 10 s) else s"
  let ?i = "if secretID sec = []
            then bindP (newAPIKeyID A) (\<lambda>kid. ret (withAnnotation aiGatewayKeyIDAnnotation kid (refreshed c sec)))
            else ret (refreshed c sec)"
  from assms obtain i where i: "result ?i s = Inr i"
    and d: "result (if secretKey i = []
                    then bindP (newAPIKey A) (\<lambda>key. ret (withData aiGatewayKeyDataKey key i))
                    else ret i) (final ?i s) = Inr d"
    by (auto simp: setKeyFields_unfold result_bindP split: sum.splits)
  from i have i_cases: "secretID sec \<noteq> [] \<and> i = refreshed c sec \<or>
      secretID sec = [] \<and> (\<exists>b. fst (api_rand A 10 s) = Inr b \<and>
        i = withAnnotation aiGatewayKeyIDAnnotation (apiKeyIDPrefix @ lowerBase32 b) (refreshed c sec))"
    by (auto simp: run_bind split: if_splits sum.splits dest: newAPIKeyID_result)
  then have i_facts: "key_metadata_ok c i" "secretKey i = secretKey sec" "se_data i = se_data sec"
      "se_type i = se_type sec"
      "om_name (se_meta i) = om_name (se_meta sec)" "om_namespace (se_meta i) = om_namespace (se_meta sec)"
    by (auto simp: key_metadata_refreshed key_metadata_with)
  have after: "final ?i s = ?s"
    using i by (auto simp: run_bind newAPIKeyID_def split: if_splits sum.splits)
  from d have d_cases: "secretKey i \<noteq> [] \<and> d = i \<or>
      secretKey i = [] \<and> (\<exists>b. fst (api_rand A 32 ?s) = Inr b \<and>
        d = withData aiGatewayKeyDataKey (apiKeyPrefix @ rawURLBase64 b) i)"
    unfolding after by (fastforce simp: run_bind split: if_splits sum.splits dest: newAPIKey_result)
  have did: "secretID d = secretID i" using d_cases by (auto simp: secretID_def)
  show "key_metadata_ok c d" using d_cases i_facts by (auto simp: key_metadata_with)
  show "se_type d = se_type sec" using d_cases i_facts by (auto simp: withData_def)
  show "om_name (se_meta d) = om_name (se_meta sec)"
    and "om_namespace (se_meta d) = om_namespace (se_meta sec)"
    using d_cases i_facts by auto
  show "secretID sec \<noteq> [] \<Longrightarrow> secretID d = secretID sec" using did i_cases by auto
  show "secretKey sec \<noteq> [] \<Longrightarrow> se_data d = se_data sec" using d_cases i_facts by auto
  show "secretID sec = [] \<Longrightarrow>
      \<exists>b. fst (api_rand A 10 s) = Inr b \<and> secretID d = apiKeyIDPrefix @ lowerBase32 b"
    using did i_cases by (auto simp: secretID_def)
  show "secretKey sec = [] \<Longrightarrow>
      \<exists>b. fst (api_rand A 32 ?s) = Inr b \<and> secretKey d = apiKeyPrefix @ rawURLBase64 b"
    using d_cases i_facts by (auto simp: secretKey_def)
qed


section \<open>Properties\<close>

text \<open>
  What one API call may do to a key Secret: a patch keeps an existing identifier and, when there
  is a key, all the data; nothing is deleted or applied over it; a new Secret has an identifier and
  a key. Current metadata in both cases.
\<close>

fun keeps_key :: "ctx \<Rightarrow> event \<Rightarrow> bool" where
  "keeps_key c (EvPatch (MergePatch (KSecret old) (KSecret new)) _) =
     (key_metadata_ok c new \<and> (secretID old \<noteq> [] \<longrightarrow> secretID new = secretID old) \<and>
      (secretKey old \<noteq> [] \<longrightarrow> se_data new = se_data old))"
| "keeps_key c (EvPatch _ _) = False"
| "keeps_key c (EvCreate _ (KSecret new) _) =
     (key_metadata_ok c new \<and> secretID new \<noteq> [] \<and> secretKey new \<noteq> [])"
| "keeps_key c (EvCreate _ _ _) = False"
| "keeps_key c (EvDelete _ _) = False"
| "keeps_key c (EvGet ref _) = (ref = keySecretRef c)"
| "keeps_key c (EvList _ _ _) = False"

lemma setKeyFields_present:
  assumes "result (setAIGatewayKeyFields A c sec) s = Inr d"
  shows "secretID d \<noteq> [] \<and> secretKey d \<noteq> []"
proof -
  have "secretID d \<noteq> []"
    using setKeyFields_spec(5,7) [OF assms] by (cases "secretID sec = []") (auto simp: apiKeyIDPrefix_def)
  moreover have "secretKey d \<noteq> []"
    using setKeyFields_spec(6,8) [OF assms]
    by (cases "secretKey sec = []") (auto simp: apiKeyPrefix_def secretKey_def secretData_def)
  ultimately show ?thesis ..
qed

lemma emits_setKeyFields:
  assumes "\<And>s d. result (setAIGatewayKeyFields A c sec) s = Inr d \<Longrightarrow> emits P (f d)"
  shows "emits P (bindP (setAIGatewayKeyFields A c sec) f)"
  unfolding emits_def
proof
  fix s
  show "\<forall>e \<in> set (effects (bindP (setAIGatewayKeyFields A c sec) f) s). P e"
  proof (cases "result (setAIGatewayKeyFields A c sec) s")
    case (Inl e)
    then show ?thesis by (simp add: effects_bindP)
  next
    case (Inr d)
    from assms [OF Inr] Inr show ?thesis by (simp add: effects_bindP emits_def)
  qed
qed

lemma emits_createAIGatewayKey: "emits (keeps_key c) (createAIGatewayKey A L c)"
  unfolding createAIGatewayKey_def
proof (rule emits_setKeyFields, goal_cases)
  case (1 s d)
  then have "keeps_key c (EvCreate owner (KSecret d) r)" for owner r
    using setKeyFields_present [OF 1] setKeyFields_spec(1) [OF 1] by simp
  then show ?case
    by (auto intro!: emits_intros emits_create split: option.split api_error.split)
qed

lemma ensure_key_calls: "emits (keeps_key c) (ensureAIGatewayKey A L c)"
  unfolding ensureAIGatewayKey_def
proof (rule emits_bind, goal_cases)
  case 1
  show ?case by (simp add: emits_get)
next
  case (2 r)
  have patch: "emits (keeps_key c)
      (bindP (setAIGatewayKeyFields A c old)
        (\<lambda>new. if old = new then ret ()
          else bindP (patchP A (MergePatch (KSecret old) (KSecret new)))
            (\<lambda>r. case r of None \<Rightarrow> ret ()
              | Some e \<Rightarrow> failP (Wrap (KeyMsg UpdatingKeySecret) [] (ApiErr e)))))" for old
  proof (rule emits_setKeyFields, goal_cases)
    case (1 s new)
    then have "keeps_key c (EvPatch (MergePatch (KSecret old) (KSecret new)) r)" for r
      using setKeyFields_spec(1,5,6) [OF 1] by simp
    then show ?case by (auto intro!: emits_intros emits_patch split: option.split)
  qed
  show ?case
  proof (cases r)
    case (Inl e)
    then show ?thesis
      by (cases e) (simp_all add: emits_createAIGatewayKey emits_fail)
  next
    case (Inr obj)
    then show ?thesis
      by (cases obj) (simp_all add: patch emits_fail)
  qed
qed

text \<open>
  What a run may write, given what its read of the Secret answered: nothing on an error; when the
  Secret is absent, one creation of a Secret with an identifier and a key, owned by the Instance;
  when it is there, one patch from that very Secret that keeps an identifier it has and, when it
  has a key, all its data. Both set the current metadata.
\<close>

fun key_writes :: "ctx \<Rightarrow> api_error + kobject \<Rightarrow> event list \<Rightarrow> bool" where
  "key_writes c _ [] = True"
| "key_writes c (Inl NotFound) [EvCreate owner (KSecret new) _] =
     (owner = cx_ref c \<and> objRef (KSecret new) = metaRef secretGVK (cx_objectMeta c (aiGatewayKeySecretName (cx_name c))) \<and>
      key_metadata_ok c new \<and> secretID new \<noteq> [] \<and> secretKey new \<noteq> [])"
| "key_writes c (Inr (KSecret existing)) [EvPatch (MergePatch (KSecret old) (KSecret new)) _] =
     (old = existing \<and> objRef (KSecret new) = objRef (KSecret old) \<and> key_metadata_ok c new \<and>
      secretID new \<noteq> [] \<and> (secretID old \<noteq> [] \<longrightarrow> secretID new = secretID old) \<and>
      secretKey new \<noteq> [] \<and> (secretKey old \<noteq> [] \<longrightarrow> se_data new = se_data old))"
| "key_writes c _ _ = False"

lemma created_key_writes:
  "key_writes c (Inl NotFound) (effects (createAIGatewayKey A L c) s)"
proof -
  let ?set = "setAIGatewayKeyFields A c
      \<lparr>se_meta = cx_objectMeta c (aiGatewayKeySecretName (cx_name c)), se_type = SecretTypeOpaque, se_data = []\<rparr>"
  show ?thesis
  proof (cases "result ?set s")
    case (Inl e)
    then show ?thesis by (simp add: createAIGatewayKey_def effects_bindP)
  next
    case (Inr d)
    have "effects (createAIGatewayKey A L c) s = [] \<or>
        (\<exists>err. effects (createAIGatewayKey A L c) s = [EvCreate (cx_ref c) (KSecret d) err])"
      using Inr by (auto simp: createAIGatewayKey_def effects_bindP split: option.split api_error.split)
    moreover have "objRef (KSecret d) = metaRef secretGVK (cx_objectMeta c (aiGatewayKeySecretName (cx_name c)))"
      using setKeyFields_spec(3,4) [OF Inr] by (simp add: metaRef_def)
    ultimately show ?thesis
      using setKeyFields_spec(1) [OF Inr] setKeyFields_present [OF Inr] by auto
  qed
qed

text \<open>
  C4: The API key is generated once and never rewritten. Every run of ensureAIGatewayKey reads the
  Instance's key Secret first and then makes at most one write. Only when the read found nothing
  does it create a Secret, owned by the Instance, with an identifier and a key. When the read found
  a Secret, its only write is a patch computed from that Secret, which leaves an identifier that is
  there and, when there is a key, all the data as they are. On any other answer it writes nothing;
  it never deletes or re-applies the Secret.
\<close>

theorem ensure_never_rewrites_key:
  "\<exists>ws. effects (ensureAIGatewayKey A L c) s =
       EvGet (keySecretRef c) (errOf (api_get A s (keySecretRef c))) # ws \<and>
     key_writes c (api_get A s (keySecretRef c)) ws"
proof (cases "api_get A s (keySecretRef c)")
  case (Inl e)
  then show ?thesis
    using created_key_writes [of c A L s] by (cases e) (simp_all add: ensureAIGatewayKey_def effects_bindP)
next
  case (Inr ob)
  show ?thesis
  proof (cases "asSecret ob")
    case None
    with Inr show ?thesis by (simp add: ensureAIGatewayKey_def effects_bindP)
  next
    case (Some old)
    then have ob: "ob = KSecret old" by (cases ob) simp_all
    show ?thesis
    proof (cases "result (setAIGatewayKeyFields A c old) s")
      case (Inl e)
      with Inr ob show ?thesis by (simp add: ensureAIGatewayKey_def effects_bindP)
    next
      case new: (Inr new)
      show ?thesis
        using Inr ob new setKeyFields_spec(1,3,4,5,6) [OF new] setKeyFields_present [OF new]
        by (auto simp: ensureAIGatewayKey_def effects_bindP metaRef_def split: option.split)
    qed
  qed
qed

lemma refreshed_settled:
  assumes "key_metadata_ok c sec"
  shows "refreshed c sec = sec"
proof -
  let ?l = "om_labels (se_meta sec)"
  have l: "gget ?l aiGatewayKeyLabel = Some ''true''"
    using assms by (auto simp: key_metadata_ok_def isAIGatewayKeySecret_def dest: ggetd_Some)
  have a: "gget (om_annotations (se_meta sec)) aiGatewayModelsAnnotation =
      Some (instanceModelRef (cx_namespace c) (cx_name c))"
    using assms by (auto simp: key_metadata_ok_def secretAnnotation_def instanceModelRef_def dest: ggetd_Some)
  have "setKeyLabels c ?l = ?l"
    using assms l by (simp add: setKeyLabels_def key_metadata_ok_def gset_idem)
  with a show ?thesis
    by (simp add: refreshed_def withAnnotation_def gset_idem)
qed

text \<open>A Secret that is complete and current is only read.\<close>

lemma ensure_settled:
  assumes "api_get A s (keySecretRef c) = Inr (KSecret sec)"
    and "key_metadata_ok c sec" "secretID sec \<noteq> []" "secretKey sec \<noteq> []"
  shows "effects (ensureAIGatewayKey A L c) s = [EvGet (keySecretRef c) None]"
    and "result (ensureAIGatewayKey A L c) s = Inr ()"
    and "result (readAIGatewayKey A c) s = Inr (secretID sec, secretKey sec)"
  using assms
  by (simp_all add: ensureAIGatewayKey_def readAIGatewayKey_def run_bind setKeyFields_existing
      refreshed_settled errOf_def secretID_def secretKey_def)

text \<open>What a successful run leaves in the API: a complete, current Secret.\<close>

lemma ensure_stores_key:
  assumes api: "reads_own_writes A" "named_reads A" and c: "meta_ok c"
    and ok: "result (ensureAIGatewayKey A L c) s = Inr ()"
  shows "\<exists>sec. api_get A (final (ensureAIGatewayKey A L c) s) (keySecretRef c) = Inr (KSecret sec) \<and>
     key_metadata_ok c sec \<and> secretID sec \<noteq> [] \<and> secretKey sec \<noteq> []"
proof -
  consider (absent) "api_get A s (keySecretRef c) = Inl NotFound"
    | (there) old where "api_get A s (keySecretRef c) = Inr (KSecret old)"
    using ok by (auto simp: ensureAIGatewayKey_def run_bind split: sum.splits api_error.splits
        option.splits elim!: asSecret.elims)
  then show ?thesis
  proof cases
    case absent
    let ?set = "setAIGatewayKeyFields A c
        \<lparr>se_meta = cx_objectMeta c (aiGatewayKeySecretName (cx_name c)),
         se_type = SecretTypeOpaque, se_data = []\<rparr>"
    from absent ok obtain d where d: "result ?set s = Inr d"
      and created: "fst (api_create A (cx_ref c) (KSecret d) (final ?set s)) = None"
      and fin: "final (ensureAIGatewayKey A L c) s = snd (api_create A (cx_ref c) (KSecret d) (final ?set s))"
      by (auto simp: ensureAIGatewayKey_def createAIGatewayKey_def run_bind
          split: sum.splits option.splits api_error.splits)
    have "objRef (KSecret d) = keySecretRef c"
      using setKeyFields_spec(3,4) [OF d] c by (simp add: keySecretRef_def metaRef_def meta_ok_def)
    with api(1) created fin have "api_get A (final (ensureAIGatewayKey A L c) s) (keySecretRef c) = Inr (KSecret d)"
      by (metis reads_own_writes_def)
    with setKeyFields_spec(1) [OF d] setKeyFields_present [OF d] show ?thesis by blast
  next
    case there
    let ?set = "setAIGatewayKeyFields A c old"
    from there ok obtain new where new: "result ?set s = Inr new"
      by (auto simp: ensureAIGatewayKey_def run_bind split: sum.splits)
    have ref: "objRef (KSecret old) = keySecretRef c"
      using api(2) there unfolding named_reads_def by blast
    show ?thesis
    proof (cases "old = new")
      case True
      with setKeyFields_present [OF new] there new
      have "final (ensureAIGatewayKey A L c) s = s"
        by (auto simp: ensureAIGatewayKey_def run_bind setKeyFields_existing)
      with there True setKeyFields_spec(1) [OF new] setKeyFields_present [OF new] show ?thesis by auto
    next
      case False
      with there ok new have
        patched: "fst (api_patch A (MergePatch (KSecret old) (KSecret new)) (final ?set s)) = None" and
        fin: "final (ensureAIGatewayKey A L c) s = snd (api_patch A (MergePatch (KSecret old) (KSecret new)) (final ?set s))"
        by (auto simp: ensureAIGatewayKey_def run_bind split: option.splits)
      have "objRef (KSecret new) = keySecretRef c"
        using setKeyFields_spec(3,4) [OF new] ref by (simp add: metaRef_def)
      with api(1) patched fin have
        "api_get A (final (ensureAIGatewayKey A L c) s) (keySecretRef c) = Inr (KSecret new)"
        by (metis reads_own_writes_def)
      with setKeyFields_spec(1) [OF new] setKeyFields_present [OF new] show ?thesis by blast
    qed
  qed
qed

text \<open>
  C25: Ensuring the key converges. When the API returns what it accepted and ensureAIGatewayKey
  succeeds, the next read of the key yields a non-empty identifier and key, and the next
  ensureAIGatewayKey reads the Secret and changes nothing.
\<close>

theorem ensure_key_converges:
  assumes "reads_own_writes A" "named_reads A" "meta_ok c"
    and "result (ensureAIGatewayKey A L c) s = Inr ()"
  shows "effects (ensureAIGatewayKey A L c) (final (ensureAIGatewayKey A L c) s) =
       [EvGet (keySecretRef c) None] \<and>
     (\<exists>kid key. result (readAIGatewayKey A c) (final (ensureAIGatewayKey A L c) s) = Inr (kid, key) \<and>
       kid \<noteq> [] \<and> key \<noteq> [])"
proof -
  obtain sec where "api_get A (final (ensureAIGatewayKey A L c) s) (keySecretRef c) = Inr (KSecret sec)"
    "key_metadata_ok c sec" "secretID sec \<noteq> []" "secretKey sec \<noteq> []"
    using ensure_stores_key [OF assms] by blast
  from ensure_settled [OF this] this(3,4) show ?thesis by blast
qed

theorem ensure_key_converges_witness:
  "effects (ensureAIGatewayKey mem_api demo_lib demo_ctx)
       (final (ensureAIGatewayKey mem_api demo_lib demo_ctx) ([], 0)) =
     [EvGet (keySecretRef demo_ctx) None]"
proof -
  have "result (ensureAIGatewayKey mem_api demo_lib demo_ctx) ([], 0) = Inr ()"
    by (simp add: ensureAIGatewayKey_def createAIGatewayKey_def setKeyFields_unfold newAPIKeyID_def
        newAPIKey_def run_bind mem_api_def demo_lib_def secretID_def secretKey_def secretData_def
        split: sum.split)
  then show ?thesis
    using ensure_key_converges [OF mem_reads_own_writes mem_named_reads demo_meta_ok] by blast
qed

text \<open>The Secret made by \<open>createAIGatewayKey\<close>, from the two readings of the random source.\<close>

lemma new_key_fields:
  assumes rand: "rand_ok A" and d: "result (setAIGatewayKeyFields A c sec) s = Inr d"
    and fresh: "secretID sec = []" "secretKey sec = []"
  obtains i k where "fst (api_rand A 10 s) = Inr i" "fst (api_rand A 32 (snd (api_rand A 10 s))) = Inr k"
    "validAPIKeyID (secretID d)" "length (secretID d) = 18" "length (secretKey d) = 49"
    "secretID d = apiKeyIDPrefix @ lowerBase32 i" "secretKey d = apiKeyPrefix @ rawURLBase64 k"
    "decode_bits 5 lowerBase32_alphabet (drop (length apiKeyIDPrefix) (secretID d)) = i"
    "decode_bits 6 base64URL_alphabet (drop (length apiKeyPrefix) (secretKey d)) = k"
proof -
  obtain i where i: "fst (api_rand A 10 s) = Inr i" "secretID d = apiKeyIDPrefix @ lowerBase32 i"
    using setKeyFields_spec(7) [OF d] fresh by auto
  obtain k where k: "fst (api_rand A 32 (snd (api_rand A 10 s))) = Inr k" "secretKey d = apiKeyPrefix @ rawURLBase64 k"
    using setKeyFields_spec(8) [OF d] fresh by auto
  have bytes: "length i = 10" "\<forall>x \<in> set i. x < 256" "length k = 32" "\<forall>x \<in> set k. x < 256"
    using rand_okD [OF rand i(1)] rand_okD [OF rand k(1)] by auto
  then have "i \<noteq> []" by auto
  then have "validAPIKeyID (secretID d)" using i by (simp add: validAPIKeyID_new)
  moreover have "decode_bits 5 lowerBase32_alphabet (lowerBase32 i) = i"
    using b32.decode_encode [OF bytes(2)] by (simp add: lowerBase32_def)
  moreover have "decode_bits 6 base64URL_alphabet (rawURLBase64 k) = k"
    using b64.decode_encode [OF bytes(4)] by (simp add: rawURLBase64_def)
  ultimately show thesis
    using that [OF i(1) k(1)] i(2) k(2) bytes(1,3)
    by (simp add: lowerBase32_length rawURLBase64_length apiKeyIDPrefix_def apiKeyPrefix_def)
qed

text \<open>
  C26: A new key Secret can be used and holds the random bytes. When the random source fills its
  buffer, a Secret that ensureAIGatewayKey creates has an identifier of 18 characters that the
  pattern of the gateway renderer accepts and a key of 49 characters; what the random source
  returned to this run, 10 bytes first and then 32, is read back from the identifier and the key.
\<close>

theorem created_key_usable:
  assumes "rand_ok A"
    and "ggetd [] (om_annotations (cx_objectMeta c (aiGatewayKeySecretName (cx_name c)))) aiGatewayKeyIDAnnotation = []"
    and "EvCreate owner (KSecret d) err \<in> set (effects (ensureAIGatewayKey A L c) s)"
  shows "validAPIKeyID (secretID d) \<and> length (secretID d) = 18 \<and> length (secretKey d) = 49 \<and>
     hasPrefix (secretKey d) apiKeyPrefix \<and>
     fst (api_rand A 10 s) = Inr (decode_bits 5 lowerBase32_alphabet (drop (length apiKeyIDPrefix) (secretID d))) \<and>
     fst (api_rand A 32 (snd (api_rand A 10 s))) =
       Inr (decode_bits 6 base64URL_alphabet (drop (length apiKeyPrefix) (secretKey d)))"
proof -
  let ?blank = "\<lparr>se_meta = cx_objectMeta c (aiGatewayKeySecretName (cx_name c)), se_type = SecretTypeOpaque, se_data = []\<rparr>"
  have "result (setAIGatewayKeyFields A c ?blank) s = Inr d"
    using assms(3)
    by (auto simp: ensureAIGatewayKey_def createAIGatewayKey_def effects_bindP
        split: sum.splits option.splits api_error.splits if_splits)
  moreover have "secretID ?blank = []" "secretKey ?blank = []"
    using assms(2) by (simp_all add: secretID_def secretKey_def secretAnnotation_def secretData_def)
  ultimately obtain i k where "fst (api_rand A 10 s) = Inr i" "fst (api_rand A 32 (snd (api_rand A 10 s))) = Inr k"
    "validAPIKeyID (secretID d)" "length (secretID d) = 18" "length (secretKey d) = 49"
    "secretKey d = apiKeyPrefix @ rawURLBase64 k"
    "decode_bits 5 lowerBase32_alphabet (drop (length apiKeyIDPrefix) (secretID d)) = i"
    "decode_bits 6 base64URL_alphabet (drop (length apiKeyPrefix) (secretKey d)) = k"
    using new_key_fields [OF assms(1)] by metis
  then show ?thesis by simp
qed

theorem created_key_usable_witness:
  "\<exists>d. effects (ensureAIGatewayKey mem_api demo_lib demo_ctx) ([], 0) =
       [EvGet (keySecretRef demo_ctx) (Some NotFound), EvCreate (cx_ref demo_ctx) (KSecret d) None] \<and>
     decode_bits 6 base64URL_alphabet (drop (length apiKeyPrefix) (secretKey d)) = replicate 32 1"
proof -
  have meta: "ggetd [] (om_annotations (cx_objectMeta demo_ctx (aiGatewayKeySecretName (cx_name demo_ctx))))
      aiGatewayKeyIDAnnotation = []"
    by (simp add: demo_ctx_def demo_meta_def)
  have fresh: "secretID \<lparr>se_meta = cx_objectMeta demo_ctx (aiGatewayKeySecretName (cx_name demo_ctx)), se_type = t, se_data = []\<rparr> = []"
      "secretKey \<lparr>se_meta = m, se_type = t, se_data = []\<rparr> = []" for t m
    using meta by (simp_all add: secretID_def secretKey_def secretAnnotation_def secretData_def)
  obtain d where run: "effects (ensureAIGatewayKey mem_api demo_lib demo_ctx) ([], 0) =
      [EvGet (keySecretRef demo_ctx) (Some NotFound), EvCreate (cx_ref demo_ctx) (KSecret d) None]"
    by (simp add: ensureAIGatewayKey_def createAIGatewayKey_def setKeyFields_unfold newAPIKeyID_def
        newAPIKey_def run_bind mem_api_def demo_lib_def fresh errOf_def)
  then have "EvCreate (cx_ref demo_ctx) (KSecret d) None \<in> set (effects (ensureAIGatewayKey mem_api demo_lib demo_ctx) ([], 0))"
    by simp
  from created_key_usable [OF mem_rand_ok meta this] run show ?thesis by (auto simp: mem_api_def)
qed

end
