(* ===== verification/KeyLifecycle.thy ===== *)
theory KeyLifecycle
  imports ApiKeys
begin

text \<open>
  The life of a key Secret as a transition system: runs of \<open>ensureAIGatewayKey\<close> (\<open>apikey.go\<close>),
  finished or failed, interleaved with changes by others. The key is stable along every path on
  which nobody deletes the Secret or edits the key itself: rotation takes a deletion. In a second,
  wider system others delete, create and edit the Secret too.
\<close>

section \<open>Documented behaviour of the store\<close>

text \<open>
  A write happens or it does not, whatever error the client sees (a timeout may hide a write that
  happened); reading random bytes changes no object.
\<close>

definition atomic_writes :: "'s api \<Rightarrow> bool" where
  "atomic_writes A \<longleftrightarrow>
     (\<forall>owner ob s ref. api_get A (snd (api_create A owner ob s)) ref = api_get A s ref \<or>
        ref = objRef ob \<and> api_get A s ref = Inl NotFound \<and> api_get A (snd (api_create A owner ob s)) ref = Inr ob) \<and>
     (\<forall>old new s ref. api_get A (snd (api_patch A (MergePatch old new) s)) ref = api_get A s ref \<or>
        ref = objRef new \<and> api_get A (snd (api_patch A (MergePatch old new) s)) ref = Inr new) \<and>
     (\<forall>n s ref. api_get A (snd (api_rand A n s)) ref = api_get A s ref)"

lemma mem_atomic_writes: "atomic_writes mem_api"
  by (auto simp: atomic_writes_def mem_api_def update_conv' split: option.splits if_splits)

lemma atomic_create:
  "atomic_writes A \<Longrightarrow> api_get A s ref = Inr old \<Longrightarrow> api_get A (snd (api_create A owner ob s)) ref = Inr old"
  unfolding atomic_writes_def by (metis Inl_Inr_False)

lemma atomic_patch:
  "atomic_writes A \<Longrightarrow> api_get A (snd (api_patch A (MergePatch old new) s)) ref = api_get A s ref \<or>
     ref = objRef new \<and> api_get A (snd (api_patch A (MergePatch old new) s)) ref = Inr new"
  unfolding atomic_writes_def by blast

lemma rand_get: "atomic_writes A \<Longrightarrow> api_get A (snd (api_rand A n s)) ref = api_get A s ref"
  unfolding atomic_writes_def by blast

lemma setKeyFields_get:
  assumes "atomic_writes A"
  shows "api_get A (final (setAIGatewayKeyFields A c sec) s) ref = api_get A s ref"
  by (auto simp: setKeyFields_unfold newAPIKeyID_def newAPIKey_def run_bind rand_get [OF assms] split: sum.split)

section \<open>The transition system\<close>

text \<open>One run of the provider; a change of other objects; an edit that leaves identifier and key.\<close>

inductive key_step :: "'s api \<Rightarrow> lib \<Rightarrow> ctx \<Rightarrow> 's \<Rightarrow> 's \<Rightarrow> bool" for A L c where
  sync: "key_step A L c s (final (ensureAIGatewayKey A L c) s)"
| other: "api_get A s' (keySecretRef c) = api_get A s (keySecretRef c) \<Longrightarrow> key_step A L c s s'"
| edit: "api_get A s (keySecretRef c) = Inr (KSecret old) \<Longrightarrow>
    api_get A s' (keySecretRef c) = Inr (KSecret new) \<Longrightarrow>
    secretID new = secretID old \<Longrightarrow> secretKey new = secretKey old \<Longrightarrow> key_step A L c s s'"

definition holdsKey :: "'s api \<Rightarrow> ctx \<Rightarrow> string \<Rightarrow> string \<Rightarrow> 's \<Rightarrow> bool" where
  "holdsKey A c kid key s \<longleftrightarrow>
     (case api_get A s (keySecretRef c) of
        Inr (KSecret sec) \<Rightarrow> secretID sec = kid \<and> secretKey sec = key
      | _ \<Rightarrow> False)"

lemma holdsKey_iff:
  "holdsKey A c kid key s \<longleftrightarrow>
     (\<exists>sec. api_get A s (keySecretRef c) = Inr (KSecret sec) \<and> secretID sec = kid \<and> secretKey sec = key)"
  by (auto simp: holdsKey_def split: sum.split kobject.split)

lemma sync_holds:
  assumes laws: "atomic_writes A" "named_reads A" and key: "kid \<noteq> []" "key \<noteq> []" and s: "holdsKey A c kid key s"
  shows "holdsKey A c kid key (final (ensureAIGatewayKey A L c) s)"
proof -
  let ?ref = "keySecretRef c"
  obtain old where old: "api_get A s ?ref = Inr (KSecret old)" "secretID old = kid" "secretKey old = key"
    using s by (auto simp: holdsKey_iff)
  let ?set = "setAIGatewayKeyFields A c old"
  have new: "result ?set s = Inr (refreshed c old)" "final ?set s = s"
    using setKeyFields_existing [of old A c] old key by simp_all
  have ref: "objRef (KSecret (refreshed c old)) = ?ref"
    using laws(2) old(1) unfolding named_reads_def by (force simp: metaRef_def)
  show ?thesis
  proof (cases "old = refreshed c old")
    case True
    with old new show ?thesis by (simp add: ensureAIGatewayKey_def run_bind holdsKey_iff)
  next
    case False
    then have "final (ensureAIGatewayKey A L c) s = snd (api_patch A (MergePatch (KSecret old) (KSecret (refreshed c old))) s)"
      using old new by (auto simp: ensureAIGatewayKey_def run_bind split: option.split)
    moreover have "holdsKey A c kid key (snd (api_patch A (MergePatch (KSecret old) (KSecret (refreshed c old))) s))"
      using atomic_patch [OF laws(1), of "KSecret old" "KSecret (refreshed c old)" s ?ref] old
      by (auto simp: holdsKey_iff)
    ultimately show ?thesis by simp
  qed
qed

lemma step_holds:
  assumes "key_step A L c s s'" "atomic_writes A" "named_reads A" "kid \<noteq> []" "key \<noteq> []" "holdsKey A c kid key s"
  shows "holdsKey A c kid key s'"
  using assms(1)
proof cases
  case sync
  with sync_holds [OF assms(2-6)] show ?thesis by simp
qed (use assms(6) in \<open>auto simp: holdsKey_iff\<close>)

text \<open>
  C5: A key lives until its Secret is deleted. Once the Instance's Secret holds an identifier and
  a key, every sequence of reconciles, failed or not, and of foreign changes that leave the two
  alone ends with the same identifier and key in the Secret, and a client that reads it gets them.
\<close>

theorem key_survives:
  assumes "(key_step A L c)\<^sup>*\<^sup>* s s'"
    and "atomic_writes A" "named_reads A" "kid \<noteq> []" "key \<noteq> []" "holdsKey A c kid key s"
  shows "holdsKey A c kid key s' \<and> result (readAIGatewayKey A c) s' = Inr (kid, key)"
  using assms(1)
proof (induction rule: rtranclp_induct)
  case base
  with assms(6) show ?case
    by (auto simp: holdsKey_iff readAIGatewayKey_def run_bind secretID_def secretKey_def)
next
  case (step y z)
  then have "holdsKey A c kid key z" using step_holds [OF step.hyps(2) assms(2-5)] by blast
  then show ?case
    by (auto simp: holdsKey_iff readAIGatewayKey_def run_bind secretID_def secretKey_def)
qed

definition keyed_state :: mem_state where
  "keyed_state = ([(keySecretRef demo_ctx, KSecret
     \<lparr>se_meta = \<lparr>om_name = ''demo-ai-gateway-key'', om_namespace = ''ns'', om_labels = [],
        om_annotations = [(aiGatewayKeyIDAnnotation, ''k_a'')]\<rparr>,
      se_type = SecretTypeOpaque, se_data = [(aiGatewayKeyDataKey, ''v'')]\<rparr>)], 0)"

theorem key_survives_witness:
  "holdsKey mem_api demo_ctx ''k_a'' ''v'' (final (ensureAIGatewayKey mem_api demo_lib demo_ctx) keyed_state)"
proof -
  have "holdsKey mem_api demo_ctx ''k_a'' ''v'' keyed_state"
    by (simp add: holdsKey_def mem_answers keyed_state_def keySecretRef_def metaRef_def demo_ctx_def
        aiGatewayKeySecretName_def aiGatewayKeySecretSuffix_def secretID_def secretKey_def secretAnnotation_def secretData_def ggetd_def)
  moreover have "(key_step mem_api demo_lib demo_ctx)\<^sup>*\<^sup>* keyed_state (final (ensureAIGatewayKey mem_api demo_lib demo_ctx) keyed_state)"
    by (rule r_into_rtranclp) (rule key_step.sync)
  ultimately show ?thesis using key_survives [OF _ mem_atomic_writes mem_named_reads, of demo_lib demo_ctx keyed_state _ "''k_a''" "''v''"] by simp
qed

section \<open>Reachable states\<close>

text \<open>
  The wider system, in which others may also delete the Secret, create it, and edit it: they may
  put in or take out any key, and keep, clear or replace the identifier by another well-formed one.
\<close>

definition wellIdentified :: "secret \<Rightarrow> bool" where
  "wellIdentified sec \<longleftrightarrow> secretID sec = [] \<or> validAPIKeyID (secretID sec)"

definition usableKey :: "secret \<Rightarrow> bool" where
  "usableKey sec \<longleftrightarrow> validAPIKeyID (secretID sec) \<and> secretKey sec \<noteq> []"

definition storedKey :: "'s api \<Rightarrow> ctx \<Rightarrow> (secret \<Rightarrow> bool) \<Rightarrow> 's \<Rightarrow> bool" where
  "storedKey A c p s \<longleftrightarrow> (\<exists>sec. api_get A s (keySecretRef c) = Inr (KSecret sec) \<and> p sec)"

inductive secret_step :: "'s api \<Rightarrow> lib \<Rightarrow> ctx \<Rightarrow> 's \<Rightarrow> 's \<Rightarrow> bool" for A L c where
  sync: "secret_step A L c s (final (ensureAIGatewayKey A L c) s)"
| other: "api_get A s' (keySecretRef c) = api_get A s (keySecretRef c) \<Longrightarrow> secret_step A L c s s'"
| deleted: "api_get A s' (keySecretRef c) = Inl NotFound \<Longrightarrow> secret_step A L c s s'"
| written: "api_get A s' (keySecretRef c) = Inr (KSecret new) \<Longrightarrow> wellIdentified new \<Longrightarrow> secret_step A L c s s'"

definition sound :: "'s api \<Rightarrow> ctx \<Rightarrow> 's \<Rightarrow> bool" where
  "sound A c s \<longleftrightarrow> api_get A s (keySecretRef c) = Inl NotFound \<or> storedKey A c wellIdentified s"

lemma usable_identified: "usableKey sec \<Longrightarrow> wellIdentified sec"
  by (simp add: usableKey_def wellIdentified_def)

lemma setKeyFields_usable:
  assumes "rand_ok A" "wellIdentified sec" "result (setAIGatewayKeyFields A c sec) s = Inr d"
  shows "usableKey d"
proof (cases "secretID sec = []")
  case True
  obtain i where i: "fst (api_rand A 10 s) = Inr i" "secretID d = apiKeyIDPrefix @ lowerBase32 i"
    using setKeyFields_spec(7) [OF assms(3)] True by auto
  then have "i \<noteq> []" using rand_okD [OF assms(1) i(1)] by auto
  then show ?thesis
    using i(2) setKeyFields_present [OF assms(3)] by (simp add: usableKey_def validAPIKeyID_new)
next
  case False
  then show ?thesis
    using assms(2) setKeyFields_spec(5) [OF assms(3)] setKeyFields_present [OF assms(3)]
    by (simp add: usableKey_def wellIdentified_def)
qed

text \<open>A run of the provider writes a usable Secret or leaves what is there.\<close>

lemma create_outcome:
  assumes laws: "atomic_writes A" "rand_ok A"
    and meta: "ggetd [] (om_annotations (cx_objectMeta c (aiGatewayKeySecretName (cx_name c)))) aiGatewayKeyIDAnnotation = []"
    and s: "api_get A s (keySecretRef c) = Inl NotFound"
  shows "api_get A (final (createAIGatewayKey A L c) s) (keySecretRef c) = Inl NotFound \<or>
     storedKey A c usableKey (final (createAIGatewayKey A L c) s)"
proof -
  let ?blank = "\<lparr>se_meta = cx_objectMeta c (aiGatewayKeySecretName (cx_name c)), se_type = SecretTypeOpaque, se_data = []\<rparr>"
  let ?set = "setAIGatewayKeyFields A c ?blank"
  have get: "api_get A (final ?set s) (keySecretRef c) = Inl NotFound" by (simp add: setKeyFields_get [OF laws(1)] s)
  show ?thesis
  proof (cases "result ?set s")
    case (Inl e)
    with get show ?thesis by (simp add: createAIGatewayKey_def final_bindP)
  next
    case (Inr d)
    have "wellIdentified ?blank" by (simp add: wellIdentified_def meta secretID_def secretAnnotation_def)
    then have usable: "usableKey d" by (rule setKeyFields_usable [OF laws(2) _ Inr])
    show ?thesis
    proof (cases "lib_ownerError L (cx_ref c) (KSecret d)")
      case (Some e)
      with Inr get show ?thesis by (simp add: createAIGatewayKey_def final_bindP)
    next
      case None
      let ?s' = "snd (api_create A (cx_ref c) (KSecret d) (final ?set s))"
      have "final (createAIGatewayKey A L c) s = ?s'"
        using Inr None by (auto simp: createAIGatewayKey_def run_bind split: option.split api_error.split)
      moreover have "api_get A ?s' (keySecretRef c) = Inl NotFound \<or> api_get A ?s' (keySecretRef c) = Inr (KSecret d)"
        using laws(1) get unfolding atomic_writes_def by metis
      ultimately show ?thesis using usable by (auto simp: storedKey_def)
    qed
  qed
qed

lemma patch_outcome:
  assumes laws: "atomic_writes A" "rand_ok A"
    and s: "api_get A s (keySecretRef c) = Inr (KSecret old)" "wellIdentified old"
  shows "api_get A (final (ensureAIGatewayKey A L c) s) (keySecretRef c) = Inr (KSecret old) \<or>
     storedKey A c usableKey (final (ensureAIGatewayKey A L c) s)"
proof -
  let ?set = "setAIGatewayKeyFields A c old"
  have get: "api_get A (final ?set s) (keySecretRef c) = Inr (KSecret old)" by (simp add: setKeyFields_get [OF laws(1)] s)
  show ?thesis
  proof (cases "result ?set s")
    case (Inl e)
    with s get show ?thesis by (simp add: ensureAIGatewayKey_def run_bind)
  next
    case (Inr new)
    have usable: "usableKey new" by (rule setKeyFields_usable [OF laws(2) s(2) Inr])
    let ?s' = "snd (api_patch A (MergePatch (KSecret old) (KSecret new)) (final ?set s))"
    have "final (ensureAIGatewayKey A L c) s = (if old = new then final ?set s else ?s')"
      using s(1) Inr by (auto simp: ensureAIGatewayKey_def run_bind split: option.split)
    moreover have "api_get A ?s' (keySecretRef c) = Inr (KSecret old) \<or> api_get A ?s' (keySecretRef c) = Inr (KSecret new)"
      using atomic_patch [OF laws(1), of "KSecret old" "KSecret new" "final ?set s" "keySecretRef c"] get by auto
    ultimately show ?thesis using get usable by (auto simp: storedKey_def)
  qed
qed

lemma sync_outcome:
  assumes laws: "atomic_writes A" "rand_ok A"
    and meta: "ggetd [] (om_annotations (cx_objectMeta c (aiGatewayKeySecretName (cx_name c)))) aiGatewayKeyIDAnnotation = []"
    and s: "sound A c s"
  shows "api_get A (final (ensureAIGatewayKey A L c) s) (keySecretRef c) = api_get A s (keySecretRef c) \<or>
     storedKey A c usableKey (final (ensureAIGatewayKey A L c) s)"
proof (cases "api_get A s (keySecretRef c) = Inl NotFound")
  case True
  then have "final (ensureAIGatewayKey A L c) s = final (createAIGatewayKey A L c) s"
    by (simp add: ensureAIGatewayKey_def final_bindP)
  with create_outcome [OF laws meta True, of L] True show ?thesis by simp
next
  case False
  with s obtain old where "api_get A s (keySecretRef c) = Inr (KSecret old)" "wellIdentified old"
    by (auto simp: sound_def storedKey_def)
  with patch_outcome [OF laws this, of L] show ?thesis by simp
qed

lemma sound_reachable:
  assumes "(secret_step A L c)\<^sup>*\<^sup>* s s'" and laws: "atomic_writes A" "rand_ok A"
    and meta: "ggetd [] (om_annotations (cx_objectMeta c (aiGatewayKeySecretName (cx_name c)))) aiGatewayKeyIDAnnotation = []"
    and start: "sound A c s"
  shows "sound A c s'"
  using assms(1)
proof (induction rule: rtranclp_induct)
  case base
  show ?case by (rule start)
next
  case (step y z)
  from step.hyps(2) show ?case
  proof cases
    case sync
    with sync_outcome [OF laws meta step.IH, of L] step.IH usable_identified
    show ?thesis by (auto simp: sound_def storedKey_def)
  qed (use step.IH in \<open>auto simp: sound_def storedKey_def\<close>)
qed

text \<open>
  C6: No failure leaves a half-written key, and a successful reconcile always ends with a usable
  one. Start without the Secret and let reconciles, failed or not, alternate with others who delete
  the Secret, create or edit it with any key and any identifier that is empty or well formed. In
  every state so reached the Secret is absent or its identifier is empty or well formed; the next
  reconcile, wherever it fails, leaves the Secret as it was or stores a non-empty key under an
  identifier the gateway renderer accepts; and when it succeeds such a key is stored.
\<close>

theorem reachable_key_usable:
  assumes "(secret_step A L c)\<^sup>*\<^sup>* s s'"
    and laws: "atomic_writes A" "reads_own_writes A" "named_reads A" "rand_ok A" "meta_ok c"
    and meta: "ggetd [] (om_annotations (cx_objectMeta c (aiGatewayKeySecretName (cx_name c)))) aiGatewayKeyIDAnnotation = []"
    and start: "api_get A s (keySecretRef c) = Inl NotFound"
  shows "(api_get A s' (keySecretRef c) = Inl NotFound \<or> storedKey A c wellIdentified s') \<and>
    (api_get A (final (ensureAIGatewayKey A L c) s') (keySecretRef c) = api_get A s' (keySecretRef c) \<or>
     storedKey A c usableKey (final (ensureAIGatewayKey A L c) s')) \<and>
    (result (ensureAIGatewayKey A L c) s' = Inr () \<longrightarrow>
     storedKey A c usableKey (final (ensureAIGatewayKey A L c) s'))"
proof -
  have sound: "sound A c s'"
    by (rule sound_reachable [OF assms(1) laws(1,4) meta]) (simp add: sound_def start)
  note outcome = sync_outcome [OF laws(1,4) meta sound, of L]
  have "storedKey A c usableKey (final (ensureAIGatewayKey A L c) s')"
    if "result (ensureAIGatewayKey A L c) s' = Inr ()"
    using ensure_stores_key [OF laws(2,3,5) that] outcome sound
    by (auto simp: sound_def storedKey_def wellIdentified_def usableKey_def)
  with sound outcome show ?thesis unfolding sound_def by blast
qed

text \<open>The key is deleted and made again: a second reconcile after a deletion.\<close>

theorem reachable_key_usable_witness:
  "storedKey mem_api demo_ctx usableKey (final (ensureAIGatewayKey mem_api demo_lib demo_ctx) ([], 1))"
proof -
  let ?run = "ensureAIGatewayKey mem_api demo_lib demo_ctx"
  have meta: "ggetd [] (om_annotations (cx_objectMeta demo_ctx (aiGatewayKeySecretName (cx_name demo_ctx)))) aiGatewayKeyIDAnnotation = []"
    by (simp add: demo_ctx_def demo_meta_def)
  have start: "api_get mem_api ([], n) (keySecretRef demo_ctx) = Inl NotFound" for n
    by (simp add: mem_answers)
  have path: "(secret_step mem_api demo_lib demo_ctx)\<^sup>*\<^sup>* ([], 0) ([], 1)"
  proof (rule converse_rtranclp_into_rtranclp)
    show "secret_step mem_api demo_lib demo_ctx ([], 0) (final ?run ([], 0))" by (rule secret_step.sync)
    show "(secret_step mem_api demo_lib demo_ctx)\<^sup>*\<^sup>* (final ?run ([], 0)) ([], 1)"
      by (rule r_into_rtranclp, rule secret_step.deleted, rule start)
  qed
  have "result ?run ([], 1) = Inr ()"
    by (simp add: ensureAIGatewayKey_def createAIGatewayKey_def setKeyFields_unfold newAPIKeyID_def
        newAPIKey_def run_bind mem_api_def demo_lib_def secretID_def secretKey_def secretData_def
        split: sum.split)
  then show ?thesis
    using reachable_key_usable [OF path mem_atomic_writes mem_reads_own_writes mem_named_reads mem_rand_ok demo_meta_ok meta start]
    by blast
qed

end
