(* ===== verification/Resources.thy ===== *)
theory Resources
  imports Config
begin

text \<open>
  Resource arithmetic shared by the two topologies: GPU counts, overlays, requests that mirror
  limits, and the tolerations a pod with GPUs needs (\<open>llminferenceservice.go\<close> and
  \<open>inferenceservice.go\<close>). A nil \<open>*ResourceRequirements\<close> is None; resource lists are Go maps.
\<close>

definition nvidiaGPUResource :: string where "nvidiaGPUResource = ''nvidia.com/gpu''"

section \<open>llminferenceservice.go\<close>

definition withGPUCount :: "resources option \<Rightarrow> int option \<Rightarrow> bool \<Rightarrow> resources option" where
  "withGPUCount res gpuCount cpuProfile =
     (if cpuProfile then res
      else
       let out = (case res of None \<Rightarrow> no_resources | Some r \<Rightarrow> r) in
       Some (case gpuCount of
           Some n \<Rightarrow>
             let count = (if n < 1 then 1 else n)
             in out\<lparr>rq_limits := gset nvidiaGPUResource (newQuantity count) (rq_limits out)\<rparr>
         | None \<Rightarrow>
             if ghas (rq_limits out) nvidiaGPUResource then out
             else out\<lparr>rq_limits := gset nvidiaGPUResource (newQuantity 1) (rq_limits out)\<rparr>))"

definition validateTensorGPU ::
    "resources option \<Rightarrow> int option \<Rightarrow> bool \<Rightarrow> string \<Rightarrow> kerror option" where
  "validateTensorGPU res tp cpuProfile path =
     (case (tp, res) of
        (Some t, Some r) \<Rightarrow>
          if cpuProfile \<or> t < 1 then None
          else (case gget (rq_limits r) nvidiaGPUResource of
              None \<Rightarrow> None
            | Some q \<Rightarrow> check (qValue q < t) (Err (LlmMsg TensorExceedsGPU) [path, itoa (qValue q), itoa t]))
      | _ \<Rightarrow> None)"

definition overlayResources :: "resources option \<Rightarrow> resources option \<Rightarrow> resources option" where
  "overlayResources head overlay =
     (case overlay of
        None \<Rightarrow> head
      | Some ov \<Rightarrow>
         (case head of
            None \<Rightarrow> overlay
          | Some h \<Rightarrow> Some (h\<lparr>rq_limits := gcopy (rq_limits h) (rq_limits ov),
                             rq_requests := gcopy (rq_requests h) (rq_requests ov)\<rparr>)))"

text \<open>\<open>for k, v := range src { if _, ok := dst[k]; !ok { dst[k] = v } }\<close>\<close>

definition addMissing :: "'v gmap \<Rightarrow> 'v gmap \<Rightarrow> 'v gmap" where
  "addMissing src dst = foldl (\<lambda>m (k, v). if ghas m k then m else gset k v m) dst src"

definition mirrorLimitsToRequests :: "resources \<Rightarrow> resources" where
  "mirrorLimitsToRequests res =
     (if rq_limits res = [] then res
      else res\<lparr>rq_requests := addMissing (rq_limits res) (rq_requests res)\<rparr>)"

section \<open>inferenceservice.go\<close>

definition predictorResources :: "resources option \<Rightarrow> int option \<Rightarrow> resources option" where
  "predictorResources res gpuCount =
     (let gpu = (case gpuCount of Some n \<Rightarrow> n > 0 | None \<Rightarrow> False) in
      if res = None \<and> \<not> gpu then None
      else
       let out = (case res of None \<Rightarrow> no_resources | Some r \<Rightarrow> r);
           out = (if gpu then out\<lparr>rq_limits := gset nvidiaGPUResource (newQuantity (the gpuCount)) (rq_limits out)\<rparr>
                  else out)
       in Some (out\<lparr>rq_requests := addMissing (rq_limits out) (rq_requests out)\<rparr>))"

definition isGPUResource :: "string \<Rightarrow> bool" where
  "isGPUResource name = hasSuffix name ''/gpu''"

definition requestsGPU :: "resources option \<Rightarrow> bool" where
  "requestsGPU res =
     (case res of
        None \<Rightarrow> False
      | Some r \<Rightarrow> list_ex (\<lambda>(name, qty). isGPUResource name \<and> qty \<noteq> 0) (rq_limits r @ rq_requests r))"

definition TolerationOpExists :: string where "TolerationOpExists = ''Exists''"
definition TaintEffectNoSchedule :: string where "TaintEffectNoSchedule = ''NoSchedule''"

definition coversGPU :: "string \<Rightarrow> toleration \<Rightarrow> bool" where
  "coversGPU key t \<longleftrightarrow>
     (tl_key t = key \<or> tl_key t = [] \<and> tl_operator t = TolerationOpExists) \<and>
     (tl_effect t = [] \<or> tl_effect t = TaintEffectNoSchedule)"

definition gpuToleration :: "string \<Rightarrow> toleration" where
  "gpuToleration key = \<lparr>tl_key = key, tl_operator = TolerationOpExists, tl_value = [],
     tl_effect = TaintEffectNoSchedule, tl_seconds = None\<rparr>"

definition addGPUToleration :: "string \<Rightarrow> toleration list \<Rightarrow> toleration list" where
  "addGPUToleration name out =
     (if \<not> isGPUResource name then out
      else if list_ex (coversGPU name) out then out
      else out @ [gpuToleration name])"

definition withGPUTolerations :: "toleration list \<Rightarrow> resources option \<Rightarrow> toleration list" where
  "withGPUTolerations tolerations res =
     (case res of
        None \<Rightarrow> tolerations
      | Some r \<Rightarrow> fold addGPUToleration (sorted_keys (rq_limits r)) tolerations)"

definition mergeMaps :: "string gmap \<Rightarrow> string gmap \<Rightarrow> string gmap" where
  "mergeMaps base override = gcopy (gcopy [] base) override"

section \<open>Lemmas\<close>

lemma gget_mergeMaps:
  "gget (mergeMaps base override) k = (case gget override k of None \<Rightarrow> gget base k | Some v \<Rightarrow> Some v)"
  by (simp add: mergeMaps_def gget_gcopy split: option.split)

lemma gget_addMissing:
  "gget (addMissing src dst) k = (case gget dst k of None \<Rightarrow> gget src k | Some v \<Rightarrow> Some v)"
proof (induction src arbitrary: dst)
  case Nil
  then show ?case by (simp add: addMissing_def split: option.split)
next
  case (Cons kv src)
  obtain k' v where kv: "kv = (k', v)" by (cases kv)
  have "addMissing (kv # src) dst = addMissing src (if ghas dst k' then dst else gset k' v dst)"
    by (simp add: addMissing_def kv)
  then show ?case using Cons.IH by (auto simp: kv ghas_def split: option.split)
qed

lemma gget_overlay:
  "overlayResources (Some h) (Some ov) = Some r \<Longrightarrow>
     gget (rq_limits r) k = (case gget (rq_limits ov) k of None \<Rightarrow> gget (rq_limits h) k | Some v \<Rightarrow> Some v)"
  by (auto simp: overlayResources_def gget_gcopy)

lemma coversGPU_gpuToleration [simp]: "coversGPU key (gpuToleration key)"
  by (simp add: coversGPU_def gpuToleration_def)

lemma addGPUToleration_prefix: "\<exists>ts. addGPUToleration k out = out @ ts"
  by (auto simp: addGPUToleration_def)

lemma fold_tolerations_prefix: "\<exists>ts. fold addGPUToleration ks out = out @ ts"
proof (induction ks arbitrary: out)
  case Nil
  then show ?case by simp
next
  case (Cons k ks)
  obtain ts where "addGPUToleration k out = out @ ts" using addGPUToleration_prefix [of k out] by blast
  moreover obtain us where "fold addGPUToleration ks (out @ ts) = (out @ ts) @ us" using Cons.IH [of "out @ ts"] by blast
  ultimately show ?case by simp
qed

lemma fold_tolerations_cover:
  "k \<in> set ks \<Longrightarrow> isGPUResource k \<Longrightarrow> list_ex (coversGPU k) (fold addGPUToleration ks out)"
proof (induction ks arbitrary: out)
  case Nil
  then show ?case by simp
next
  case (Cons x ks)
  show ?case
  proof (cases "x = k")
    case True
    then have "list_ex (coversGPU k) (addGPUToleration x out)"
      using Cons.prems by (auto simp: addGPUToleration_def)
    moreover obtain ts where "fold addGPUToleration ks (addGPUToleration x out) = addGPUToleration x out @ ts"
      using fold_tolerations_prefix by blast
    ultimately show ?thesis by simp
  next
    case False
    with Cons show ?thesis by simp
  qed
qed

lemma fold_tolerations_only:
  "set (fold addGPUToleration ks out) \<subseteq> set out \<union> gpuToleration ` {k \<in> set ks. isGPUResource k \<and> \<not> list_ex (coversGPU k) out}"
proof (induction ks arbitrary: out)
  case Nil
  then show ?case by simp
next
  case (Cons x ks)
  have "set (fold addGPUToleration ks (addGPUToleration x out)) \<subseteq>
      set (addGPUToleration x out) \<union>
      gpuToleration ` {k \<in> set ks. isGPUResource k \<and> \<not> list_ex (coversGPU k) (addGPUToleration x out)}"
    by (rule Cons.IH)
  also have "\<dots> \<subseteq> set out \<union> gpuToleration ` {k \<in> set (x # ks). isGPUResource k \<and> \<not> list_ex (coversGPU k) out}"
    by (auto simp: addGPUToleration_def)
  finally show ?case by simp
qed

section \<open>Properties\<close>

text \<open>
  The scheduler's side: when a toleration tolerates a taint with this key, value and effect
  (Kubernetes documentation, Taints and Tolerations). An empty effect matches every effect, an
  empty key with operator Exists every taint, and an empty operator means Equal.
\<close>

definition TolerationOpEqual :: string where "TolerationOpEqual = ''Equal''"

definition tolerates :: "toleration \<Rightarrow> string \<Rightarrow> string \<Rightarrow> string \<Rightarrow> bool" where
  "tolerates t key value effect \<longleftrightarrow>
     (tl_effect t = [] \<or> tl_effect t = effect) \<and>
     (tl_operator t = TolerationOpExists \<and> (tl_key t = [] \<or> tl_key t = key) \<or>
      (tl_operator t = [] \<or> tl_operator t = TolerationOpEqual) \<and> tl_key t = key \<and> tl_value t = value)"

definition tolerated :: "toleration list \<Rightarrow> string \<Rightarrow> string \<Rightarrow> bool" where
  "tolerated ts key value \<longleftrightarrow> (\<exists>t \<in> set ts. tolerates t key value TaintEffectNoSchedule)"

text \<open>A toleration that names the key, for this effect or for all, with whatever operator and value.\<close>

definition mentions :: "toleration list \<Rightarrow> string \<Rightarrow> bool" where
  "mentions ts key \<longleftrightarrow> (\<exists>t \<in> set ts. tl_key t = key \<and> (tl_effect t = [] \<or> tl_effect t = TaintEffectNoSchedule))"

lemma isGPUResource_iff: "isGPUResource k \<longleftrightarrow> (\<exists>vendor. k = vendor @ ''/gpu'')"
  by (simp add: isGPUResource_def hasSuffix_iff)

lemma gpuToleration_tolerates:
  assumes "k \<noteq> []"
  shows "tolerates (gpuToleration k) key value effect \<longleftrightarrow> key = k \<and> effect = TaintEffectNoSchedule"
  using assms
  by (auto simp: tolerates_def gpuToleration_def TolerationOpExists_def TolerationOpEqual_def TaintEffectNoSchedule_def)

lemma covers_mentions:
  assumes "k \<noteq> []" "\<not> mentions ts k"
  shows "list_ex (coversGPU k) ts \<longleftrightarrow> tolerated ts k v"
  using assms
  by (auto simp: list_ex_iff coversGPU_def tolerated_def tolerates_def mentions_def)

lemma tolerated_covers: "tolerated ts k v \<Longrightarrow> list_ex (coversGPU k) ts"
  by (auto simp: list_ex_iff coversGPU_def tolerated_def tolerates_def)

lemma gpu_tolerated:
  assumes "ghas (rq_limits r) k" "isGPUResource k"
  shows "tolerated (withGPUTolerations ts (Some r)) k v \<longleftrightarrow> tolerated ts k v \<or> \<not> mentions ts k"
proof -
  let ?out = "withGPUTolerations ts (Some r)"
  obtain added where added: "?out = ts @ added"
    using fold_tolerations_prefix [of "sorted_keys (rq_limits r)" ts] by (auto simp: withGPUTolerations_def)
  have k: "k \<noteq> []" using assms(2) by (auto simp: isGPUResource_iff)
  have new: "t \<in> set added \<Longrightarrow> t \<in> set ts \<or> (\<exists>k'. isGPUResource k' \<and> t = gpuToleration k' \<and> \<not> list_ex (coversGPU k') ts)" for t
    using fold_tolerations_only [of "sorted_keys (rq_limits r)" ts] added by (auto simp: withGPUTolerations_def)
  have cover: "list_ex (coversGPU k) ?out"
    using fold_tolerations_cover [of k "sorted_keys (rq_limits r)" ts] assms by (simp add: withGPUTolerations_def ghas_iff)
  show ?thesis
  proof (cases "list_ex (coversGPU k) ts")
    case True
    have "tolerated ?out k v \<Longrightarrow> tolerated ts k v"
    proof -
      assume "tolerated ?out k v"
      then obtain t where t: "t \<in> set ts \<union> set added" "tolerates t k v TaintEffectNoSchedule"
        by (auto simp: tolerated_def added)
      from t(1) new consider "t \<in> set ts" | k' where "isGPUResource k'" "t = gpuToleration k'" "\<not> list_ex (coversGPU k') ts"
        by blast
      then show ?thesis
      proof cases
        case 1
        with t(2) show ?thesis by (auto simp: tolerated_def)
      next
        case 2
        then have "k' \<noteq> []" by (auto simp: isGPUResource_iff)
        with 2 t(2) True gpuToleration_tolerates [of k' k v] show ?thesis by simp
      qed
    qed
    moreover have "tolerated ts k v \<Longrightarrow> tolerated ?out k v" by (auto simp: tolerated_def added)
    moreover have "\<not> mentions ts k \<Longrightarrow> tolerated ts k v" using covers_mentions [OF k, of ts v] True by blast
    ultimately show ?thesis by blast
  next
    case False
    then obtain t where t: "t \<in> set added" "coversGPU k t" using cover added by (auto simp: list_ex_iff)
    with new [OF t(1)] False obtain k' where k': "isGPUResource k'" "t = gpuToleration k'" by (auto simp: list_ex_iff)
    have "k' = k" using t(2) k' by (auto simp: coversGPU_def gpuToleration_def isGPUResource_iff)
    then have "tolerated ?out k v"
      using t(1) k' gpuToleration_tolerates [OF k, of k v] by (auto simp: tolerated_def added)
    moreover have "\<not> mentions ts k" using False by (auto simp: list_ex_iff coversGPU_def mentions_def)
    ultimately show ?thesis by blast
  qed
qed

lemma gpu_key [simp]: "isGPUResource (vendor @ ''/gpu'')"
  unfolding isGPUResource_iff by (intro exI) (rule refl)

lemma gpu_added:
  assumes "t \<in> set (withGPUTolerations ts (Some r))" "t \<notin> set ts"
  shows "\<exists>vendor. ghas (rq_limits r) (vendor @ ''/gpu'') \<and> (\<forall>v. \<not> tolerated ts (vendor @ ''/gpu'') v) \<and>
    (\<forall>key v effect. tolerates t key v effect \<longleftrightarrow> key = vendor @ ''/gpu'' \<and> effect = TaintEffectNoSchedule)"
proof -
  have "t \<in> gpuToleration ` {k \<in> set (sorted_keys (rq_limits r)). isGPUResource k \<and> \<not> list_ex (coversGPU k) ts}"
    using fold_tolerations_only [of "sorted_keys (rq_limits r)" ts] assms by (auto simp: withGPUTolerations_def)
  then obtain k where k: "ghas (rq_limits r) k" "isGPUResource k" "t = gpuToleration k" "\<not> list_ex (coversGPU k) ts"
    by (auto simp: ghas_iff)
  obtain vendor where vendor: "k = vendor @ ''/gpu''" using k(2) by (auto simp: isGPUResource_iff)
  then have "k \<noteq> []" by simp
  with gpuToleration_tolerates [of k] k tolerated_covers [of ts k] show ?thesis
    unfolding vendor [symmetric] by (metis vendor)
qed

text \<open>
  C40: A pod with GPUs can be scheduled where the GPUs are. By the scheduler's rules, the computed
  tolerations tolerate the NoSchedule taint of every GPU resource the pod limits, whatever the
  value of the taint, if and only if the scheduling policy tolerates it already or does not mention
  its key: a policy that names the key with another value is taken to cover it and the pod stays
  unscheduled. The policy's tolerations come first and unchanged; each added one tolerates exactly
  the NoSchedule taints of one limited GPU resource, of which the policy tolerates none.
\<close>

theorem gpu_taints_tolerated:
  "(\<exists>added. withGPUTolerations ts (Some r) = ts @ added) \<and>
   (\<forall>vendor v. ghas (rq_limits r) (vendor @ ''/gpu'') \<longrightarrow>
      (tolerated (withGPUTolerations ts (Some r)) (vendor @ ''/gpu'') v \<longleftrightarrow>
       tolerated ts (vendor @ ''/gpu'') v \<or> \<not> mentions ts (vendor @ ''/gpu''))) \<and>
   (\<forall>t \<in> set (withGPUTolerations ts (Some r)). t \<in> set ts \<or>
      (\<exists>vendor. ghas (rq_limits r) (vendor @ ''/gpu'') \<and> (\<forall>v. \<not> tolerated ts (vendor @ ''/gpu'') v) \<and>
        (\<forall>key v effect. tolerates t key v effect \<longleftrightarrow> key = vendor @ ''/gpu'' \<and> effect = TaintEffectNoSchedule)))"
proof (intro conjI)
  show "\<exists>added. withGPUTolerations ts (Some r) = ts @ added"
    using fold_tolerations_prefix [of "sorted_keys (rq_limits r)" ts] by (simp add: withGPUTolerations_def)
  show "\<forall>vendor v. ghas (rq_limits r) (vendor @ ''/gpu'') \<longrightarrow>
      (tolerated (withGPUTolerations ts (Some r)) (vendor @ ''/gpu'') v \<longleftrightarrow>
       tolerated ts (vendor @ ''/gpu'') v \<or> \<not> mentions ts (vendor @ ''/gpu''))"
    by (intro allI impI gpu_tolerated gpu_key)
  show "\<forall>t \<in> set (withGPUTolerations ts (Some r)). t \<in> set ts \<or>
      (\<exists>vendor. ghas (rq_limits r) (vendor @ ''/gpu'') \<and> (\<forall>v. \<not> tolerated ts (vendor @ ''/gpu'') v) \<and>
        (\<forall>key v effect. tolerates t key v effect \<longleftrightarrow> key = vendor @ ''/gpu'' \<and> effect = TaintEffectNoSchedule))"
    using gpu_added by (intro ballI) (rule disjCI, metis)
qed

text \<open>A GPU node taint: tolerated beside a toleration of something else, not beside one of another value.\<close>

definition gpu_limits :: "int \<Rightarrow> resources" where
  "gpu_limits n = no_resources\<lparr>rq_limits := [(nvidiaGPUResource, newQuantity n)]\<rparr>"

theorem gpu_taints_tolerated_witness:
  "tolerated (withGPUTolerations [gpuToleration ''amd.com/gpu''] (Some (gpu_limits 1))) nvidiaGPUResource ''present'' \<and>
   \<not> tolerated (withGPUTolerations [(gpuToleration nvidiaGPUResource)\<lparr>tl_operator := TolerationOpEqual, tl_value := ''a''\<rparr>]
       (Some (gpu_limits 1))) nvidiaGPUResource ''b''"
proof -
  have gpu: "nvidiaGPUResource = ''nvidia.com'' @ ''/gpu''" "ghas (rq_limits (gpu_limits 1)) (''nvidia.com'' @ ''/gpu'')"
    by (simp_all add: nvidiaGPUResource_def gpu_limits_def ghas_def)
  note all = gpu_taints_tolerated [of _ "gpu_limits 1", THEN conjunct2, THEN conjunct1, rule_format, OF gpu(2), folded gpu(1)]
  show ?thesis
    unfolding all
    by (simp add: mentions_def tolerated_def tolerates_def gpuToleration_def nvidiaGPUResource_def
        TolerationOpEqual_def TolerationOpExists_def)
qed

text \<open>
  The predictor never asks for less than a limit by accident. Whenever predictorResources
  yields resources, every limit has a request (the user's own when there is one, the limit
  otherwise), all other requests are the user's, and a positive GPU count is exactly the GPU limit.
\<close>

theorem predictor_requests_complete:
  assumes "predictorResources res gpuCount = Some r"
  shows "(\<forall>k. gget (rq_requests r) k =
       (case gget (case res of None \<Rightarrow> [] | Some u \<Rightarrow> rq_requests u) k of
          None \<Rightarrow> gget (rq_limits r) k | Some q \<Rightarrow> Some q)) \<and>
     (\<forall>k. gget (rq_limits r) k =
       (if k = nvidiaGPUResource \<and> (\<exists>n. gpuCount = Some n \<and> n > 0) then Some (newQuantity (the gpuCount))
        else gget (case res of None \<Rightarrow> [] | Some u \<Rightarrow> rq_limits u) k))"
  using assms
  by (auto simp: predictorResources_def Let_def gget_addMissing no_resources_def
      split: option.splits if_splits)

theorem predictor_requests_complete_witness:
  "\<exists>r. predictorResources None (Some 2) = Some r \<and>
     gget (rq_requests r) nvidiaGPUResource = Some (newQuantity 2)"
proof -
  obtain r where r: "predictorResources None (Some 2) = Some r"
    by (simp add: predictorResources_def Let_def)
  from predictor_requests_complete [OF this] have "gget (rq_requests r) nvidiaGPUResource = Some (newQuantity 2)"
    by simp
  with r show ?thesis by blast
qed

lemma withGPUCount_limit:
  assumes "\<not> cpuProfile"
  shows "\<exists>r q. withGPUCount res gpuCount cpuProfile = Some r \<and> gget (rq_limits r) nvidiaGPUResource = Some q \<and>
     (case gpuCount of Some n \<Rightarrow> q = newQuantity (max 1 n)
      | None \<Rightarrow> q = (case gget (case res of None \<Rightarrow> [] | Some u \<Rightarrow> rq_limits u) nvidiaGPUResource of
           None \<Rightarrow> newQuantity 1 | Some u \<Rightarrow> u))"
  using assms
  by (auto simp: withGPUCount_def Let_def ghas_def max_def no_resources_def split: option.split)

end
