(* ===== verification/VllmEngine.thy ===== *)
theory VllmEngine
  imports Resources MemStore
begin

text \<open>
  \<open>internal/provider/vllm_engine.go\<close> and the pod-template half of \<open>llm_model_source.go\<close>: the
  first-class vLLM settings, their rendering as \<open>vllm serve\<close> flags, and how the flags are appended
  to what each pod template inherits from its base configurations.
\<close>

section \<open>Validation\<close>

definition mainContainerName :: string where "mainContainerName = ''main''"

definition vllmDtypes :: "string list" where
  "vllmDtypes = [''auto'', ''half'', ''float16'', ''bfloat16'', ''float'', ''float32'']"

definition alnumChars :: string where
  "alnumChars = ''ABCDEFGHIJKLMNOPQRSTUVWXYZabcdefghijklmnopqrstuvwxyz0123456789''"

text \<open>The pattern \<open>^[A-Za-z0-9][A-Za-z0-9_.-]*$\<close>.\<close>

fun vllmFlagValue :: "string \<Rightarrow> bool" where
  "vllmFlagValue [] = False"
| "vllmFlagValue (c # cs) = (c \<in> set alnumChars \<and> list_all (\<lambda>d. d \<in> set (alnumChars @ ''_.-'')) cs)"

definition engineField :: "string \<Rightarrow> string" where
  "engineField name = ComponentLlmEngine @ ''.parameters.engine.'' @ name"

definition validateEngine :: "vllmEngineSpec option \<Rightarrow> kerror option" where
  "validateEngine eng =
     (case eng of
        None \<Rightarrow> None
      | Some e \<Rightarrow> first_error
          ([check (case en_maxModelLen e of Some n \<Rightarrow> n < 1 | None \<Rightarrow> False)
              (Err (EngineMsg EngineAtLeastOne) [engineField ''maxModelLen'']),
            check (case en_maxNumSeqs e of Some n \<Rightarrow> n < 1 | None \<Rightarrow> False)
              (Err (EngineMsg EngineAtLeastOne) [engineField ''maxNumSeqs'']),
            check (case en_gpuMemoryUtilization e of Some u \<Rightarrow> u \<le> 0 \<or> u > 1 | None \<Rightarrow> False)
              (Err (EngineMsg EngineUtilization) [engineField ''gpuMemoryUtilization'']),
            check (en_dtype e \<noteq> [] \<and> en_dtype e \<notin> set vllmDtypes)
              (Err (EngineMsg EngineDtype) [engineField ''dtype''])]
           @ map (\<lambda>(name, value). check (value \<noteq> [] \<and> \<not> vllmFlagValue value)
                    (Err (EngineMsg EngineFlagValue) [engineField name, value]))
               [(''quantization'', en_quantization e), (''kvCacheDtype'', en_kvCacheDtype e),
                (''toolCallParser'', en_toolCallParser e), (''reasoningParser'', en_reasoningParser e)]))"

section \<open>Flags\<close>

definition optFlag :: "('a \<Rightarrow> string) \<Rightarrow> string \<Rightarrow> 'a option \<Rightarrow> string list" where
  "optFlag render flag v = (case v of None \<Rightarrow> [] | Some x \<Rightarrow> [flag @ render x])"

definition strFlag :: "string \<Rightarrow> string \<Rightarrow> string list" where
  "strFlag flag v = (if v \<noteq> [] then [flag @ v] else [])"

definition engineArgs :: "lib \<Rightarrow> vllmEngineSpec option \<Rightarrow> string list" where
  "engineArgs L eng =
     (case eng of
        None \<Rightarrow> []
      | Some e \<Rightarrow>
          optFlag itoa ''--max-model-len='' (en_maxModelLen e)
          @ optFlag (lib_formatFloat L) ''--gpu-memory-utilization='' (en_gpuMemoryUtilization e)
          @ optFlag itoa ''--max-num-seqs='' (en_maxNumSeqs e)
          @ strFlag ''--dtype='' (en_dtype e)
          @ strFlag ''--quantization='' (en_quantization e)
          @ strFlag ''--kv-cache-dtype='' (en_kvCacheDtype e)
          @ (if en_toolCallParser e \<noteq> []
             then [''--enable-auto-tool-choice'', ''--tool-call-parser='' @ en_toolCallParser e] else [])
          @ strFlag ''--reasoning-parser='' (en_reasoningParser e))"

section \<open>Inherited arguments\<close>

record inheritedArgs =
  ia_template :: "string list"
  ia_worker :: "string list"
  ia_prefill :: "string list"
  ia_prefillWorker :: "string list"
  ia_hasWorker :: bool
  ia_hasPrefill :: bool
  ia_hasPrefillWorker :: bool

definition no_inheritedArgs :: inheritedArgs where
  "no_inheritedArgs = \<lparr>ia_template = [], ia_worker = [], ia_prefill = [], ia_prefillWorker = [],
     ia_hasWorker = False, ia_hasPrefill = False, ia_hasPrefillWorker = False\<rparr>"

text \<open>The arguments, and whether a main container sets them.\<close>

definition mainArgs :: "podspec option \<Rightarrow> string list option" where
  "mainArgs pod =
     (case pod of
        None \<Rightarrow> None
      | Some p \<Rightarrow>
         (case find (\<lambda>ct. ct_name ct = mainContainerName \<and> ct_args ct \<noteq> None) (ps_containers p) of
            Some ct \<Rightarrow> ct_args ct
          | None \<Rightarrow> None))"

definition orElse :: "'a option \<Rightarrow> 'a \<Rightarrow> 'a" where
  "orElse v d = (case v of Some x \<Rightarrow> x | None \<Rightarrow> d)"

definition inherit :: "llmspec \<Rightarrow> inheritedArgs \<Rightarrow> inheritedArgs" where
  "inherit spec i =
     (let i = i\<lparr>ia_template := orElse (mainArgs (wl_template spec)) (ia_template i)\<rparr>;
          i = (case wl_worker spec of
              None \<Rightarrow> i
            | Some w \<Rightarrow> i\<lparr>ia_hasWorker := True, ia_worker := orElse (mainArgs (Some w)) (ia_worker i)\<rparr>)
      in case ls_prefill spec of
          None \<Rightarrow> i
        | Some pf \<Rightarrow>
           (let i = i\<lparr>ia_hasPrefill := True, ia_prefill := orElse (mainArgs (wl_template pf)) (ia_prefill i)\<rparr>
            in case wl_worker pf of
                None \<Rightarrow> i
              | Some w \<Rightarrow> i\<lparr>ia_hasPrefillWorker := True,
                            ia_prefillWorker := orElse (mainArgs (Some w)) (ia_prefillWorker i)\<rparr>))"

definition instanceConfigSuffix :: string where "instanceConfigSuffix = ''-config''"

definition instanceConfigName :: "string \<Rightarrow> string" where
  "instanceConfigName instance = instance @ instanceConfigSuffix"

fun asLLMConfig :: "kobject \<Rightarrow> llmspec option" where
  "asLLMConfig (KLLMConfig m spec) = Some spec"
| "asLLMConfig _ = None"

text \<open>The lookup in each namespace in turn; nil when neither has the config.\<close>

fun getLLMConfigIn :: "'s api \<Rightarrow> string \<Rightarrow> string list \<Rightarrow> ('s, llmspec option) prog" where
  "getLLMConfigIn A name [] = ret None"
| "getLLMConfigIn A name (ns # nss) =
     bindP (getP A (mkref llmConfigGVK ns name))
       (\<lambda>r. case r of
           Inr obj \<Rightarrow>
             (case asLLMConfig obj of
                Some spec \<Rightarrow> ret (Some spec)
              | None \<Rightarrow> failP (LibErr ''not an LLMInferenceServiceConfig''))
         | Inl NotFound \<Rightarrow> getLLMConfigIn A name nss
         | Inl e \<Rightarrow> failP (Wrap (EngineMsg GettingLLMConfig) [ns, name] (ApiErr e)))"

definition configNamespaces :: "env \<Rightarrow> ctx \<Rightarrow> string list" where
  "configNamespaces E c =
     cx_namespace c #
       (let ns = KServeNamespace E in if ns \<noteq> [] \<and> ns \<noteq> cx_namespace c then [ns] else [])"

definition getLLMConfig :: "'s api \<Rightarrow> env \<Rightarrow> ctx \<Rightarrow> string \<Rightarrow> ('s, llmspec option) prog" where
  "getLLMConfig A E c name = getLLMConfigIn A name (configNamespaces E c)"

fun resolveInheritedArgs ::
    "'s api \<Rightarrow> env \<Rightarrow> ctx \<Rightarrow> string list \<Rightarrow> llmspec option \<Rightarrow> inheritedArgs \<Rightarrow> ('s, inheritedArgs) prog" where
  "resolveInheritedArgs A E c [] inline i = ret i"
| "resolveInheritedArgs A E c (ref # refs) inline i =
     (case (if ref = instanceConfigName (cx_name c) then inline else None) of
        Some spec \<Rightarrow> resolveInheritedArgs A E c refs inline (inherit spec i)
      | None \<Rightarrow>
          bindP (getLLMConfig A E c ref)
            (\<lambda>cfg. resolveInheritedArgs A E c refs inline
                     (case cfg of None \<Rightarrow> i | Some spec \<Rightarrow> inherit spec i)))"

section \<open>Appending the flags\<close>

fun setFirst :: "('a \<Rightarrow> bool) \<Rightarrow> ('a \<Rightarrow> 'a) \<Rightarrow> 'a list \<Rightarrow> 'a list option" where
  "setFirst p f [] = None"
| "setFirst p f (x # xs) = (if p x then Some (f x # xs) else map_option ((#) x) (setFirst p f xs))"

definition setMainArgs :: "podspec \<Rightarrow> string list \<Rightarrow> string list \<Rightarrow> podspec" where
  "setMainArgs pod inherited flags =
     (let args = inherited @ flags in
      case setFirst (\<lambda>ct. ct_name ct = mainContainerName) (\<lambda>ct. ct\<lparr>ct_args := Some args\<rparr>) (ps_containers pod) of
        Some cs \<Rightarrow> pod\<lparr>ps_containers := cs\<rparr>
      | None \<Rightarrow> pod\<lparr>ps_containers := ps_containers pod @ [(new_container mainContainerName)\<lparr>ct_args := Some args\<rparr>]\<rparr>)"

definition orNewPod :: "podspec option \<Rightarrow> podspec" where
  "orNewPod pod = (case pod of Some p \<Rightarrow> p | None \<Rightarrow> new_podspec)"

text \<open>The head and worker templates of one workload.\<close>

definition applyToTemplate :: "string list \<Rightarrow> string list \<Rightarrow> ('a) workload_scheme \<Rightarrow> ('a) workload_scheme" where
  "applyToTemplate inherited flags w =
     w\<lparr>wl_template := Some (setMainArgs (orNewPod (wl_template w)) inherited flags)\<rparr>"

definition applyToWorker :: "bool \<Rightarrow> string list \<Rightarrow> string list \<Rightarrow> ('a) workload_scheme \<Rightarrow> ('a) workload_scheme" where
  "applyToWorker present inherited flags w =
     (if wl_worker w \<noteq> None \<or> present
      then w\<lparr>wl_worker := Some (setMainArgs (orNewPod (wl_worker w)) inherited flags)\<rparr>
      else w)"

definition applyEngineArgs :: "llmspec \<Rightarrow> inheritedArgs \<Rightarrow> string list \<Rightarrow> llmspec" where
  "applyEngineArgs spec i flags =
     (let spec = applyToWorker (ia_hasWorker i) (ia_worker i) flags
                   (applyToTemplate (ia_template i) flags spec)
      in if ls_prefill spec = None \<and> \<not> ia_hasPrefill i then spec
         else
          let pf = (case ls_prefill spec of Some w \<Rightarrow> w | None \<Rightarrow> new_workload)
          in spec\<lparr>ls_prefill := Some (applyToWorker (ia_hasPrefillWorker i) (ia_prefillWorker i) flags
                     (applyToTemplate (ia_prefill i) flags pf))\<rparr>)"

section \<open>The pods KServe attaches a model to\<close>

text \<open>
  \<open>pods := []*corev1.PodSpec{spec.Template, spec.Worker, spec.Prefill.Template, spec.Prefill.Worker}\<close>
  with the templates created when nil; \<open>applyImagePullSecret\<close> and
  \<open>applyStorageInitializerResources\<close> patch each non-nil one.
\<close>

definition patchWorkload :: "(podspec \<Rightarrow> podspec) \<Rightarrow> ('a) workload_scheme \<Rightarrow> ('a) workload_scheme" where
  "patchWorkload f w =
     w\<lparr>wl_template := Some (f (orNewPod (wl_template w))), wl_worker := map_option f (wl_worker w)\<rparr>"

definition patchModelPods :: "(podspec \<Rightarrow> podspec) \<Rightarrow> llmspec \<Rightarrow> llmspec" where
  "patchModelPods f spec =
     (patchWorkload f spec)\<lparr>ls_prefill := map_option (patchWorkload f) (ls_prefill spec)\<rparr>"

definition applyImagePullSecret :: "llmspec \<Rightarrow> string \<Rightarrow> llmspec" where
  "applyImagePullSecret spec name =
     (if name = [] then spec
      else patchModelPods (\<lambda>pod. pod\<lparr>ps_imagePullSecrets := ps_imagePullSecrets pod @ [name]\<rparr>) spec)"

definition storageInitializerContainerName :: string where
  "storageInitializerContainerName = ''storage-initializer''"

definition applyStorageInitializerResources ::
    "llmspec \<Rightarrow> vllmCustomSpec \<Rightarrow> resources option \<Rightarrow> llmspec" where
  "applyStorageInitializerResources spec params res =
     (case res of
        None \<Rightarrow> spec
      | Some r \<Rightarrow>
         (if vl_disableStorageInitializer params = Some True then spec
          else if \<not> hasPrefix (vl_modelURI params) ''hf://'' \<and> \<not> hasPrefix (vl_modelURI params) ''s3://'' then spec
          else patchModelPods (\<lambda>pod. pod\<lparr>ps_initContainers := ps_initContainers pod @
                 [(new_container storageInitializerContainerName)\<lparr>ct_resources := r\<rparr>]\<rparr>) spec))"

section \<open>Shell safety\<close>

text \<open>
  The presets of the chart run the flags through a shell, so every flag must be one word: letters,
  digits and the characters that the shell leaves alone.
\<close>

definition flagChar :: "char \<Rightarrow> bool" where
  "flagChar c \<longleftrightarrow> c \<in> set (alnumChars @ ''_.-='')"

lemma flagChar_digits: "list_all (\<lambda>n. flagChar (char_of (48 + n :: nat))) [0, 1, 2, 3, 4, 5, 6, 7, 8, 9]"
  by code_simp

lemma flagChar_digit: "n < 10 \<Longrightarrow> flagChar (char_of (48 + n :: nat))"
proof -
  assume "n < 10"
  then have "n \<in> set [0, 1, 2, 3, 4, 5, 6, 7, 8, 9]" by auto
  with flagChar_digits show ?thesis unfolding list_all_iff by (rule bspec)
qed

lemma digits_flagChar: "list_all flagChar (digits_of n)"
proof (induction n rule: digits_of.induct)
  case (1 n)
  show ?case
  proof (cases "n < 10")
    case True
    then show ?thesis by (subst digits_of.simps) (simp add: flagChar_digit)
  next
    case False
    have "flagChar (char_of (48 + n mod 10 :: nat))" by (rule flagChar_digit) simp
    with False 1 show ?thesis by (subst digits_of.simps) simp
  qed
qed

lemma itoa_flagChar: "list_all flagChar (itoa i)"
proof -
  have "flagChar CHR ''-''" by (simp add: flagChar_def)
  then show ?thesis by (simp add: itoa_def digits_flagChar)
qed

lemma vllmFlagValue_flagChar: "vllmFlagValue v \<Longrightarrow> list_all flagChar v"
  by (cases v) (auto simp: flagChar_def list_all_iff)

lemma dtype_flagChar: "v \<in> set vllmDtypes \<Longrightarrow> list_all flagChar v"
  by (auto simp: vllmDtypes_def flagChar_def alnumChars_def)

definition floats_plain :: "lib \<Rightarrow> bool" where
  "floats_plain L \<longleftrightarrow> (\<forall>u. list_all flagChar (lib_formatFloat L u))"

lemma strFlag_safe:
  "list_all flagChar flag \<Longrightarrow> (v \<noteq> [] \<Longrightarrow> list_all flagChar v) \<Longrightarrow> list_all (list_all flagChar) (strFlag flag v)"
  by (auto simp: strFlag_def)

lemma optFlag_safe:
  "list_all flagChar flag \<Longrightarrow> (\<And>x. list_all flagChar (f x)) \<Longrightarrow> list_all (list_all flagChar) (optFlag f flag v)"
  by (auto simp: optFlag_def split: option.split)

lemma flag_names_safe:
  "list_all (list_all flagChar) [''--max-model-len='', ''--gpu-memory-utilization='', ''--max-num-seqs='',
     ''--dtype='', ''--quantization='', ''--kv-cache-dtype='', ''--enable-auto-tool-choice'',
     ''--tool-call-parser='', ''--reasoning-parser='']"
  by (simp add: flagChar_def alnumChars_def)

text \<open>
  C33: Validated engine settings cannot inject shell commands. If validateEngine accepts the
  settings, every flag that engineArgs renders consists of letters, digits and the characters
  underscore, dot, minus and equals only; the float formatter of the standard library is assumed
  to write such characters.
\<close>

theorem engine_flags_shell_safe:
  assumes "validateEngine eng = None" "floats_plain L"
  shows "list_all (list_all flagChar) (engineArgs L eng)"
proof (cases eng)
  case None
  then show ?thesis by (simp add: engineArgs_def)
next
  case (Some e)
  have dtype: "en_dtype e \<noteq> [] \<Longrightarrow> list_all flagChar (en_dtype e)"
    using assms(1) Some dtype_flagChar by (auto simp: validateEngine_def)
  have words: "v \<noteq> [] \<Longrightarrow> list_all flagChar v"
    if "v \<in> {en_quantization e, en_kvCacheDtype e, en_toolCallParser e, en_reasoningParser e}" for v
    using assms(1) Some that by (auto simp: validateEngine_def intro!: vllmFlagValue_flagChar)
  have float: "list_all flagChar (lib_formatFloat L u)" for u using assms(2) by (simp add: floats_plain_def)
  have names: "list_all flagChar ''--max-model-len=''" "list_all flagChar ''--gpu-memory-utilization=''"
    "list_all flagChar ''--max-num-seqs=''" "list_all flagChar ''--dtype=''" "list_all flagChar ''--quantization=''"
    "list_all flagChar ''--kv-cache-dtype=''" "list_all flagChar ''--enable-auto-tool-choice''"
    "list_all flagChar ''--tool-call-parser=''" "list_all flagChar ''--reasoning-parser=''"
    using flag_names_safe by (simp_all only: list.pred_inject simp_thms)
  have tool: "list_all (list_all flagChar) (if en_toolCallParser e \<noteq> []
      then [''--enable-auto-tool-choice'', ''--tool-call-parser='' @ en_toolCallParser e] else [])"
    using words [of "en_toolCallParser e"] names(7,8)
    by (simp only: list.pred_inject list_all_append insert_iff simp_thms split: if_split) simp
  show ?thesis
    unfolding engineArgs_def Some option.case list_all_append
    by (intro conjI strFlag_safe optFlag_safe names itoa_flagChar float dtype tool words) simp_all
qed

definition demo_engine :: vllmEngineSpec where
  "demo_engine = \<lparr>en_maxModelLen = Some 4096, en_gpuMemoryUtilization = None, en_maxNumSeqs = None,
     en_dtype = ''auto'', en_quantization = [], en_kvCacheDtype = [], en_toolCallParser = ''hermes'',
     en_reasoningParser = []\<rparr>"

lemma demo_engine_ok: "validateEngine (Some demo_engine) = None"
  by (simp add: validateEngine_def demo_engine_def vllmDtypes_def alnumChars_def)

theorem engine_flags_shell_safe_witness:
  "list_all (list_all flagChar) (engineArgs demo_lib (Some demo_engine)) \<and>
   ''--dtype=auto'' \<in> set (engineArgs demo_lib (Some demo_engine))"
proof -
  have "floats_plain demo_lib" by (simp add: floats_plain_def demo_lib_def flagChar_def alnumChars_def)
  from engine_flags_shell_safe [OF demo_engine_ok this] show ?thesis
    by (simp add: engineArgs_def demo_engine_def strFlag_def)
qed

section \<open>Every pod gets the flags\<close>

lemma setFirst_Some:
  "setFirst p f xs = Some ys \<Longrightarrow>
     \<exists>us x vs. xs = us @ x # vs \<and> p x \<and> list_all (\<lambda>u. \<not> p u) us \<and> ys = us @ f x # vs"
proof (induction xs arbitrary: ys)
  case Nil
  then show ?case by simp
next
  case (Cons a xs)
  show ?case
  proof (cases "p a")
    case True
    with Cons.prems show ?thesis by (intro exI [of _ "[]"]) auto
  next
    case False
    with Cons.prems obtain zs where zs: "setFirst p f xs = Some zs" "ys = a # zs" by auto
    from Cons.IH [OF zs(1)] obtain us x vs where
      "xs = us @ x # vs" "p x" "list_all (\<lambda>u. \<not> p u) us" "zs = us @ f x # vs" by blast
    with False zs(2) show ?thesis by (intro exI [of _ "a # us"]) auto
  qed
qed

lemma setFirst_None: "setFirst p f xs = None \<longleftrightarrow> list_all (\<lambda>x. \<not> p x) xs"
  by (induction xs) auto

lemma find_append_None: "list_all (\<lambda>x. \<not> p x) us \<Longrightarrow> find p (us @ xs) = find p xs"
  by (induction us) auto

lemma mainArgs_setMainArgs [simp]: "mainArgs (Some (setMainArgs pod inherited flags)) = Some (inherited @ flags)"
proof (cases "setFirst (\<lambda>ct. ct_name ct = mainContainerName) (\<lambda>ct. ct\<lparr>ct_args := Some (inherited @ flags)\<rparr>)
    (ps_containers pod)")
  case None
  then have none: "list_all (\<lambda>ct. \<not> (ct_name ct = mainContainerName \<and> ct_args ct \<noteq> None)) (ps_containers pod)"
    by (auto simp: setFirst_None list_all_iff)
  show ?thesis
    by (simp add: setMainArgs_def None mainArgs_def find_append_None [OF none] new_container_def
        del: not_None_eq)
next
  case (Some cs)
  from setFirst_Some [OF Some] obtain us x vs where
    cs: "ct_name x = mainContainerName" "list_all (\<lambda>u. \<not> ct_name u = mainContainerName) us"
      "cs = us @ x\<lparr>ct_args := Some (inherited @ flags)\<rparr> # vs" by blast
  have none: "list_all (\<lambda>ct. \<not> (ct_name ct = mainContainerName \<and> ct_args ct \<noteq> None)) us"
    using cs(2) by (auto simp: list_all_iff)
  show ?thesis by (simp add: setMainArgs_def Some mainArgs_def cs find_append_None [OF none] del: not_None_eq)
qed

lemma setMainArgs_others:
  "filter (\<lambda>ct. ct_name ct \<noteq> mainContainerName) (ps_containers (setMainArgs pod inherited flags)) =
     filter (\<lambda>ct. ct_name ct \<noteq> mainContainerName) (ps_containers pod)"
  by (auto simp: setMainArgs_def Let_def new_container_def dest!: setFirst_Some split: option.split)

definition gets :: "string list \<Rightarrow> podspec option \<Rightarrow> bool" where
  "gets args pod \<longleftrightarrow> mainArgs pod = Some args"

definition isSet :: "'a option \<Rightarrow> bool" where
  "isSet x \<longleftrightarrow> (case x of None \<Rightarrow> False | Some _ \<Rightarrow> True)"

definition hasPrefillWorker :: "llmspec \<Rightarrow> bool" where
  "hasPrefillWorker spec = (case ls_prefill spec of None \<Rightarrow> False | Some pf \<Rightarrow> wl_worker pf \<noteq> None)"

text \<open>
  C34: The engine settings reach every vLLM pod. After applyEngineArgs the main container of the
  head template has the inherited arguments followed by the engine flags (vLLM takes the last value
  of a repeated flag); so has the worker exactly when the Instance or an inherited config has one,
  and likewise the prefill workload's two templates.
\<close>

theorem engine_flags_reach_all_pods:
  "gets (ia_template i @ flags) (wl_template (applyEngineArgs spec i flags)) \<and>
   (if isSet (wl_worker spec) \<or> ia_hasWorker i
    then gets (ia_worker i @ flags) (wl_worker (applyEngineArgs spec i flags))
    else wl_worker (applyEngineArgs spec i flags) = None) \<and>
   isSet (ls_prefill (applyEngineArgs spec i flags)) = (isSet (ls_prefill spec) \<or> ia_hasPrefill i) \<and>
   (case ls_prefill (applyEngineArgs spec i flags) of
      None \<Rightarrow> True
    | Some pf \<Rightarrow>
        gets (ia_prefill i @ flags) (wl_template pf) \<and>
        (if hasPrefillWorker spec \<or> ia_hasPrefillWorker i
         then gets (ia_prefillWorker i @ flags) (wl_worker pf)
         else wl_worker pf = None))"
  by (auto simp: applyEngineArgs_def applyToTemplate_def applyToWorker_def gets_def Let_def new_workload_def
      isSet_def hasPrefillWorker_def split: option.split)

section \<open>Layering of the base configurations\<close>

text \<open>KServe merges configs in order; the last one that sets a list of arguments wins whole.\<close>

definition lastSet :: "'a option list \<Rightarrow> 'a option" where
  "lastSet vs = fold (\<lambda>v acc. if v = None then acc else v) vs None"

lemma lastSet_simps:
  "lastSet [] = None"
  "lastSet (vs @ [v]) = (if v = None then lastSet vs else v)"
  by (simp_all add: lastSet_def)

definition workerArgs :: "llmspec \<Rightarrow> string list option" where
  "workerArgs spec = mainArgs (wl_worker spec)"

definition prefillArgs :: "llmspec \<Rightarrow> string list option" where
  "prefillArgs spec = (case ls_prefill spec of None \<Rightarrow> None | Some pf \<Rightarrow> mainArgs (wl_template pf))"

definition prefillWorkerArgs :: "llmspec \<Rightarrow> string list option" where
  "prefillWorkerArgs spec = (case ls_prefill spec of None \<Rightarrow> None | Some pf \<Rightarrow> mainArgs (wl_worker pf))"

definition layered :: "llmspec list \<Rightarrow> inheritedArgs" where
  "layered specs =
     \<lparr>ia_template = orElse (lastSet (map (\<lambda>s. mainArgs (wl_template s)) specs)) [],
      ia_worker = orElse (lastSet (map workerArgs specs)) [],
      ia_prefill = orElse (lastSet (map prefillArgs specs)) [],
      ia_prefillWorker = orElse (lastSet (map prefillWorkerArgs specs)) [],
      ia_hasWorker = list_ex (\<lambda>s. wl_worker s \<noteq> None) specs,
      ia_hasPrefill = list_ex (\<lambda>s. ls_prefill s \<noteq> None) specs,
      ia_hasPrefillWorker = list_ex hasPrefillWorker specs\<rparr>"

lemma orElse_simps [simp]: "orElse None d = d" "orElse (Some x) d = x"
  by (simp_all add: orElse_def)

lemma orElse_lastSet:
  "orElse (lastSet (vs @ [v])) d = orElse v (orElse (lastSet vs) d)"
  by (cases v) (simp_all add: lastSet_simps)

lemma mainArgs_None [simp]: "mainArgs None = None"
  by (simp add: mainArgs_def)

lemma inherit_layered: "inherit spec (layered specs) = layered (specs @ [spec])"
  by (cases "wl_worker spec"; cases "ls_prefill spec"; cases "wl_worker (the (ls_prefill spec))")
    (simp_all add: inherit_def layered_def orElse_lastSet workerArgs_def prefillArgs_def prefillWorkerArgs_def
      hasPrefillWorker_def Let_def)

lemma fold_inherit: "fold inherit specs (layered done) = layered (done @ specs)"
  by (induction specs arbitrary: "done") (simp_all add: inherit_layered)

lemma no_inheritedArgs_layered: "no_inheritedArgs = layered []"
  by (simp add: layered_def no_inheritedArgs_def lastSet_simps)

text \<open>What a base reference stands for: the inline config, or what the API holds.\<close>

definition configOf :: "'s api \<Rightarrow> env \<Rightarrow> ctx \<Rightarrow> llmspec option \<Rightarrow> 's \<Rightarrow> string \<Rightarrow> llmspec option" where
  "configOf A E c inline s ref =
     (if ref = instanceConfigName (cx_name c) \<and> inline \<noteq> None then inline
      else case result (getLLMConfig A E c ref) s of Inr cfg \<Rightarrow> cfg | Inl _ \<Rightarrow> None)"

lemma getLLMConfigIn_final: "final (getLLMConfigIn A name nss) s = s"
  by (induction nss arbitrary: s) (auto simp: run_bind split: sum.split option.split api_error.split)

lemma resolve_fold:
  "result (resolveInheritedArgs A E c refs inline i) s = Inr r \<Longrightarrow>
     r = fold inherit (List.map_filter (configOf A E c inline s) refs) i"
proof (induction refs arbitrary: i)
  case Nil
  then show ?case by (simp add: map_filter_simps)
next
  case (Cons ref refs)
  show ?case
  proof (cases "ref = instanceConfigName (cx_name c) \<and> inline \<noteq> None")
    case True
    then obtain spec where "inline = Some spec" by auto
    moreover from this True have "configOf A E c inline s ref = Some spec" by (simp add: configOf_def)
    ultimately show ?thesis using True Cons by (simp add: map_filter_simps)
  next
    case False
    then have none: "(if ref = instanceConfigName (cx_name c) then inline else None) = None" by auto
    from Cons.prems obtain cfg where cfg: "result (getLLMConfig A E c ref) s = Inr cfg"
      by (auto simp: none run_bind split: sum.splits)
    have "final (getLLMConfig A E c ref) s = s" by (simp add: getLLMConfig_def getLLMConfigIn_final)
    moreover have "configOf A E c inline s ref = cfg" using False cfg by (auto simp: configOf_def)
    ultimately show ?thesis using Cons cfg
      by (cases cfg) (simp_all add: none run_bind map_filter_simps)
  qed
qed

text \<open>
  C35: The provider layers base configurations the way KServe does. When resolveInheritedArgs
  succeeds, what it collects is the merge of the configs the references stand for (the inline
  config for its own name, otherwise the one the API holds; missing ones skipped): for every
  template the arguments of the last config that sets them, and whether any config defines it.
\<close>

theorem inherited_args_layered:
  assumes "result (resolveInheritedArgs A E c refs inline no_inheritedArgs) s = Inr i"
  shows "i = layered (List.map_filter (configOf A E c inline s) refs)"
  using resolve_fold [OF assms] by (simp add: no_inheritedArgs_layered fold_inherit)

definition args_spec :: "string list \<Rightarrow> llmspec" where
  "args_spec args = \<lparr>wl_labels = [], wl_replicas = None, wl_scaling = None, wl_parallelism = None,
     wl_rollout = None, wl_template = Some (setMainArgs new_podspec [] args), wl_worker = None,
     ls_model = \<lparr>mo_uri = [], mo_name = None, mo_lora = None\<rparr>, ls_baseRefs = [], ls_routeRefs = None,
     ls_storageInitializer = None, ls_prefill = None, ls_tracing = None\<rparr>"

theorem inherited_args_layered_witness:
  "\<exists>i. result (resolveInheritedArgs mem_api gateway_env demo_ctx [''preset'', ''demo-config'']
       (Some (args_spec [''--new''])) no_inheritedArgs)
       ([(mkref llmConfigGVK ''ns'' ''preset'', KLLMConfig (demo_meta ''preset'') (args_spec [''--old'']))], 0) = Inr i \<and>
     ia_template i = [''--new'']"
proof -
  let ?s = "([(mkref llmConfigGVK ''ns'' ''preset'', KLLMConfig (demo_meta ''preset'') (args_spec [''--old'']))], 0) :: mem_state"
  have get: "result (getLLMConfig mem_api gateway_env demo_ctx ''preset'') ?s = Inr (Some (args_spec [''--old'']))"
    by (simp add: getLLMConfig_def configNamespaces_def run_bind mem_answers demo_ctx_def demo_meta_def metaRef_def)
  have name: "instanceConfigName (cx_name demo_ctx) = ''demo-config''"
    by (simp add: instanceConfigName_def instanceConfigSuffix_def demo_ctx_def)
  obtain i where i: "result (resolveInheritedArgs mem_api gateway_env demo_ctx [''preset'', ''demo-config'']
       (Some (args_spec [''--new''])) no_inheritedArgs) ?s = Inr i"
    using get name by (simp add: run_bind)
  have c1: "configOf mem_api gateway_env demo_ctx (Some (args_spec [''--new''])) ?s ''preset'' = Some (args_spec [''--old''])"
    using get by (simp add: configOf_def name del: split_paired_All)
  have c2: "configOf mem_api gateway_env demo_ctx (Some (args_spec [''--new''])) ?s ''demo-config'' = Some (args_spec [''--new''])"
    by (simp add: configOf_def name)
  have t: "wl_template (args_spec a) = Some (setMainArgs new_podspec [] a)" for a by (simp add: args_spec_def)
  have "ia_template i = [''--new'']"
    unfolding inherited_args_layered [OF i]
    by (simp add: layered_def c1 c2 t map_filter_simps lastSet_def)
  with i show ?thesis by blast
qed

section \<open>Patches of the model pods\<close>

text \<open>
  The contract of the two patches: they leave the containers of a pod alone. A client may then
  apply them before or after it reads or sets the arguments of the main container.
\<close>

locale pod_patch =
  fixes f :: "podspec \<Rightarrow> podspec"
  assumes containers_kept: "ps_containers (f pod) = ps_containers pod"
begin

lemma mainArgs_kept: "mainArgs (map_option f pod) = mainArgs pod"
  by (cases pod) (simp_all add: mainArgs_def containers_kept)

lemma mainArgs_new: "mainArgs (Some (f (orNewPod pod))) = mainArgs pod"
  by (cases pod) (simp_all add: mainArgs_def containers_kept orNewPod_def new_podspec_def)

lemma patch_keeps_args:
  "mainArgs (wl_template (patchWorkload f w)) = mainArgs (wl_template w)"
  "mainArgs (wl_worker (patchWorkload f w)) = mainArgs (wl_worker w)"
  by (simp_all add: patchWorkload_def mainArgs_kept mainArgs_new)

lemma patched_workers: "wl_worker (patchWorkload f w) = map_option f (wl_worker w)"
  by (simp add: patchWorkload_def)

end

interpretation pull_secret: pod_patch "\<lambda>pod. pod\<lparr>ps_imagePullSecrets := ps_imagePullSecrets pod @ [name]\<rparr>" for name
  by unfold_locales simp

interpretation storage_initializer: pod_patch
    "\<lambda>pod. pod\<lparr>ps_initContainers := ps_initContainers pod @
       [(new_container storageInitializerContainerName)\<lparr>ct_resources := r\<rparr>]\<rparr>" for r
  by unfold_locales simp

text \<open>The pods of a spec: head, worker, and those of the prefill workload.\<close>

definition modelPods :: "llmspec \<Rightarrow> podspec list" where
  "modelPods spec =
     List.map_filter (\<lambda>p. p) ([wl_template spec, wl_worker spec] @
       (case ls_prefill spec of None \<Rightarrow> [] | Some pf \<Rightarrow> [wl_template pf, wl_worker pf]))"

lemma modelPods_patched:
  "modelPods (patchModelPods f spec) = map f (orNewPod (wl_template spec) # (case wl_worker spec of None \<Rightarrow> [] | Some w \<Rightarrow> [w]) @
     (case ls_prefill spec of None \<Rightarrow> [] | Some pf \<Rightarrow> orNewPod (wl_template pf) #
        (case wl_worker pf of None \<Rightarrow> [] | Some w \<Rightarrow> [w])))"
  by (simp add: modelPods_def patchModelPods_def patchWorkload_def map_filter_simps split: option.split)

text \<open>
  A private model image can be pulled by every pod KServe attaches it to. With a pull secret,
  every pod of the spec ends up listing it after the secrets it already had, there is a head
  template to carry it, and the arguments of no main container change; without one the spec is
  untouched.
\<close>

theorem pull_secret_on_every_pod:
  "if name = [] then applyImagePullSecret spec name = spec
   else
     list_all (\<lambda>p. name \<in> set (ps_imagePullSecrets p)) (modelPods (applyImagePullSecret spec name)) \<and>
     wl_template (applyImagePullSecret spec name) \<noteq> None \<and>
     mainArgs (wl_template (applyImagePullSecret spec name)) = mainArgs (wl_template spec) \<and>
     mainArgs (wl_worker (applyImagePullSecret spec name)) = mainArgs (wl_worker spec) \<and>
     prefillArgs (applyImagePullSecret spec name) = prefillArgs spec \<and>
     prefillWorkerArgs (applyImagePullSecret spec name) = prefillWorkerArgs spec"
  using pull_secret.patch_keeps_args [of name spec]
    pull_secret.patch_keeps_args [of name "the (ls_prefill spec)"]
  by (simp add: applyImagePullSecret_def modelPods_patched list_all_iff)
    (auto simp: patchModelPods_def patchWorkload_def prefillArgs_def prefillWorkerArgs_def split: option.split)

end
