(* ===== verification/LlmModel.thy ===== *)
theory LlmModel
  imports VllmEngine
begin

text \<open>
  The parameter rules of the llm topology: the model source (\<open>llm_model_source.go\<close>), and from
  \<open>llminferenceservice.go\<close> autoscaling, worker groups and LoRA adapters, each with its validation
  and what is built from it.
\<close>

section \<open>Model source\<close>

definition ociScheme :: string where "ociScheme = ''oci''"
definition ociNativeScheme :: string where "ociNativeScheme = ''oci+native''"

definition llmModelSchemes :: "string list" where
  "llmModelSchemes = [''hf'', ''s3'', ''pvc'', ociScheme, ociNativeScheme]"

definition uriScheme :: "string \<Rightarrow> string" where
  "uriScheme uri = fst (cut ''://'' uri)"

definition schemeList :: "string list" where
  "schemeList = map (\<lambda>s. s @ ''://'') llmModelSchemes"

definition llmField :: "string \<Rightarrow> string" where
  "llmField name = ComponentLlmEngine @ ''.parameters.'' @ name"

definition storageDisabled :: "vllmCustomSpec \<Rightarrow> bool" where
  "storageDisabled params \<longleftrightarrow> vl_disableStorageInitializer params = Some True"

definition validateLLMModelSource :: "lib \<Rightarrow> vllmCustomSpec \<Rightarrow> kerror option" where
  "validateLLMModelSource L params =
     (let scheme = uriScheme (vl_modelURI params); disabled = storageDisabled params in
      first_error
        [if disabled \<and> (scheme = ociScheme \<or> scheme = ociNativeScheme)
         then Some (Err (EngineMsg InitializerRequiredForOCI) [scheme])
         else if disabled then None
         else check (scheme \<notin> set llmModelSchemes)
                (Err (EngineMsg SchemeUnsupported) ([vl_modelURI params, scheme] @ schemeList)),
         check (vl_imagePullSecret params \<noteq> [] \<and> lib_isDNS1123Subdomain L (vl_imagePullSecret params) \<noteq> [])
           (Err (EngineMsg PullSecretInvalid)
              (vl_imagePullSecret params # lib_isDNS1123Subdomain L (vl_imagePullSecret params)))])"

section \<open>Autoscaling\<close>

record workloadScaling =
  wsc_min :: "int option"
  wsc_max :: "int option"
  wsc_actuator :: string

definition scaling_enabled :: "workloadScaling \<Rightarrow> bool" where
  "scaling_enabled s \<longleftrightarrow> wsc_min s \<noteq> None \<or> wsc_max s \<noteq> None \<or> wsc_actuator s \<noteq> []"

definition decodeScaling :: "vllmCustomSpec \<Rightarrow> workloadScaling" where
  "decodeScaling params = \<lparr>wsc_min = vl_minReplicas params, wsc_max = vl_maxReplicas params,
     wsc_actuator = vl_scalingActuator params\<rparr>"

definition prefillScaling :: "llmTopologyParameters \<Rightarrow> workloadScaling" where
  "prefillScaling topo = \<lparr>wsc_min = lp_prefillMinReplicas topo, wsc_max = lp_prefillMaxReplicas topo,
     wsc_actuator = lp_prefillScalingActuator topo\<rparr>"

definition resolvedActuator :: "string \<Rightarrow> string" where
  "resolvedActuator actuator =
     (if equalFold (trimSpace actuator) ScalingActuatorHPA then ScalingActuatorHPA
      else ScalingActuatorKEDA)"

definition validateWorkloadScaling ::
    "workloadScaling \<Rightarrow> string \<Rightarrow> string \<Rightarrow> string \<Rightarrow> kerror option" where
  "validateWorkloadScaling s minField maxField actuatorField =
     (if \<not> scaling_enabled s then None
      else case wsc_max s of
          None \<Rightarrow> Some (Err (LlmMsg MaxReplicasRequired) [maxField])
        | Some mx \<Rightarrow> first_error
            [check (mx < 1) (Err (LlmMsg MaxReplicasTooSmall) [maxField]),
             check (case wsc_min s of Some mn \<Rightarrow> mn < 1 | None \<Rightarrow> False)
               (Err (LlmMsg MinReplicasTooSmall) [minField]),
             check (case wsc_min s of Some mn \<Rightarrow> mn > mx | None \<Rightarrow> False)
               (Err (LlmMsg MinExceedsMax) [minField, maxField]),
             check (toLower (trimSpace (wsc_actuator s)) \<notin> {[], ScalingActuatorHPA, ScalingActuatorKEDA})
               (Err (LlmMsg ActuatorUnknown) [actuatorField])])"

definition buildScalingSpec :: "workloadScaling \<Rightarrow> scaling_spec option" where
  "buildScalingSpec s =
     (if \<not> scaling_enabled s then None
      else case wsc_max s of
          None \<Rightarrow> None
        | Some mx \<Rightarrow> Some \<lparr>sc_minReplicas = wsc_min s, sc_maxReplicas = mx,
            sc_wva = (if resolvedActuator (wsc_actuator s) = ScalingActuatorHPA then WvaHPA else WvaKEDA)\<rparr>)"

section \<open>Worker groups\<close>

definition validateWorkerGroup ::
    "int option \<Rightarrow> int option \<Rightarrow> bool \<Rightarrow> string \<Rightarrow> string \<Rightarrow> string \<Rightarrow> kerror option" where
  "validateWorkerGroup count pipeline resourcesSet countField pipelineField resourcesField =
     (case count of
        None \<Rightarrow> check resourcesSet (Err (LlmMsg WorkerResourcesNeedCount) [resourcesField, countField])
      | Some n \<Rightarrow>
         (if n < 1 then Some (Err (LlmMsg WorkerCountTooSmall) [countField])
          else case pipeline of
              None \<Rightarrow> Some (Err (LlmMsg PipelineRequired) [pipelineField, countField])
            | Some p \<Rightarrow> check (p \<noteq> wrap32 (n + 1))
                (Err (LlmMsg PipelineMismatch) [pipelineField, countField, itoa p, itoa (wrap32 (n + 1))])))"

section \<open>LoRA adapters\<close>

definition servedModelName :: "string \<Rightarrow> string \<Rightarrow> string" where
  "servedModelName instanceName configuredName =
     (if configuredName \<noteq> [] then configuredName else instanceName)"

definition loraSlotNames :: "vllmCustomSpec \<Rightarrow> string list" where
  "loraSlotNames params =
     filter (\<lambda>n. n \<noteq> []) (map trimSpace [vl_loraSlot1 params, vl_loraSlot2 params, vl_loraSlot3 params])"

fun checkSlots :: "catalogs \<Rightarrow> string gmap \<Rightarrow> (string \<times> string) list \<Rightarrow> kerror option" where
  "checkSlots K seen [] = None"
| "checkSlots K seen ((field, raw) # rest) =
     (let name = trimSpace raw in
      if name = [] then checkSlots K seen rest
      else case gget seen name of
          Some prev \<Rightarrow> Some (Err (LoraMsg SlotDuplicate) [prev, field, name])
        | None \<Rightarrow>
            (if gget (ca_lora K) name = None then Some (Err (LoraMsg SlotUnknownAdapter) [field, name])
             else checkSlots K (gset name field seen) rest))"

definition validateLoRASlots :: "catalogs \<Rightarrow> vllmCustomSpec \<Rightarrow> kerror option" where
  "validateLoRASlots K params =
     (let deployment = trimSpace (vl_loraDeployment params) in
      if deployment = [] \<or> deployment = LoraDeploymentDisabled then None
      else if deployment \<noteq> LoraDeploymentEnabled then Some (Err (LoraMsg LoraDeploymentInvalid) [])
      else if loraSlotNames params = [] then Some (Err (LoraMsg NoAdapterSlot) [])
      else checkSlots K []
             [(''loraSlot1'', vl_loraSlot1 params), (''loraSlot2'', vl_loraSlot2 params),
              (''loraSlot3'', vl_loraSlot3 params)])"

fun catalogAdapters :: "catalogs \<Rightarrow> string list \<Rightarrow> kerror + loraAdapterSpec list" where
  "catalogAdapters K [] = Inr []"
| "catalogAdapters K (n # ns) =
     (case gget (ca_lora K) n of
        None \<Rightarrow> Inl (Err (LoraMsg UnknownAdapter) [n])
      | Some e \<Rightarrow> tryR (catalogAdapters K ns) (\<lambda>as. Inr (\<lparr>la_name = le_name e, la_uri = le_uri e\<rparr> # as)))"

definition resolvedLoRAAdapters :: "catalogs \<Rightarrow> vllmCustomSpec \<Rightarrow> kerror + loraAdapterSpec list" where
  "resolvedLoRAAdapters K params =
     (if vl_loraDeployment params = LoraDeploymentEnabled then catalogAdapters K (loraSlotNames params)
      else case vl_loRA params of
          Some l \<Rightarrow> Inr (lr_adapters l)
        | None \<Rightarrow> Inr [])"

definition adapterPath :: "nat \<Rightarrow> string" where
  "adapterPath i = ComponentLlmEngine @ ''.parameters.lora.adapters['' @ itoa (int i) @ '']''"

fun checkAdapters :: "lib \<Rightarrow> string \<Rightarrow> nat \<Rightarrow> nat gmap \<Rightarrow> loraAdapterSpec list \<Rightarrow> kerror option" where
  "checkAdapters L baseName i seen [] = None"
| "checkAdapters L baseName i seen (a # as) =
     (let path = adapterPath i; name = trimSpace (la_name a) in
      if name = [] then Some (Err (LoraMsg AdapterNameRequired) [path])
      else if name = ''.'' \<or> name = ''..'' then Some (Err (LoraMsg AdapterNameInvalid) [path, name])
      else if name = baseName then Some (Err (LoraMsg AdapterNameIsBase) [path, name, baseName])
      else case gget seen name of
          Some prev \<Rightarrow> Some (Err (LoraMsg AdapterNameDuplicate) [path, name, itoa (int prev)])
        | None \<Rightarrow>
            (if trimSpace (la_uri a) = [] then Some (Err (LoraMsg AdapterURIRequired) [path])
             else case lib_parseURL L (la_uri a) of
                 Inl e \<Rightarrow> Some (Wrap (LoraMsg AdapterURIInvalid) [path, la_uri a] (LibErr e))
               | Inr _ \<Rightarrow> checkAdapters L baseName (i + 1) (gset name i seen) as))"

definition below1 :: "int option \<Rightarrow> bool" where
  "below1 v \<longleftrightarrow> (case v of Some n \<Rightarrow> n < 1 | None \<Rightarrow> False)"

definition needsInitializer :: "string \<Rightarrow> bool" where
  "needsInitializer uri =
     (case cut ''://'' uri of (scheme, _, ok) \<Rightarrow> ok \<and> (scheme = ''hf'' \<or> scheme = ''s3''))"

fun checkInitializer :: "nat \<Rightarrow> loraAdapterSpec list \<Rightarrow> kerror option" where
  "checkInitializer i [] = None"
| "checkInitializer i (a # as) =
     (if needsInitializer (la_uri a)
      then Some (Err (LoraMsg AdapterNeedsInitializer) [adapterPath i, uriScheme (la_uri a) @ ''://''])
      else checkInitializer (i + 1) as)"

definition loraLimits :: "vllmCustomSpec \<Rightarrow> kerror option list" where
  "loraLimits params =
     (case vl_loRA params of
        None \<Rightarrow> []
      | Some l \<Rightarrow>
          [check (below1 (lr_maxRank l)) (Err (LoraMsg MaxRankTooSmall) []),
           check (below1 (lr_maxAdapters l)) (Err (LoraMsg MaxAdaptersTooSmall) []),
           check (below1 (lr_maxCpuAdapters l)) (Err (LoraMsg MaxCpuAdaptersTooSmall) [])])"

definition validateLoRAParams :: "catalogs \<Rightarrow> lib \<Rightarrow> string \<Rightarrow> vllmCustomSpec \<Rightarrow> kerror option" where
  "validateLoRAParams K L instanceName params =
     (case validateLoRASlots K params of
        Some e \<Rightarrow> Some e
      | None \<Rightarrow>
         (case resolvedLoRAAdapters K params of
            Inl e \<Rightarrow> Some e
          | Inr adapters \<Rightarrow>
             (if adapters = [] then None
              else first_error
                ([checkAdapters L (servedModelName instanceName (vl_modelName params)) 0 [] adapters]
                 @ loraLimits params
                 @ [if storageDisabled params then checkInitializer 0 adapters else None]))))"

fun parseAdapters :: "lib \<Rightarrow> loraAdapterSpec list \<Rightarrow> kerror + (string \<times> string) list" where
  "parseAdapters L [] = Inr []"
| "parseAdapters L (a # as) =
     (case lib_parseURL L (la_uri a) of
        Inl e \<Rightarrow> Inl (Wrap (LoraMsg AdapterURIUnparsable) [la_uri a] (LibErr e))
      | Inr None \<Rightarrow> Inl Panic
      | Inr (Some u) \<Rightarrow> tryR (parseAdapters L as) (\<lambda>r. Inr ((trimSpace (la_name a), u) # r)))"

definition buildModelLoRA :: "catalogs \<Rightarrow> lib \<Rightarrow> vllmCustomSpec \<Rightarrow> kerror + lora_spec option" where
  "buildModelLoRA K L params =
     tryR (resolvedLoRAAdapters K params)
       (\<lambda>adapters.
          if adapters = [] then Inr None
          else tryR (parseAdapters L adapters)
            (\<lambda>as. Inr (Some \<lparr>lo_adapters = as,
               lo_maxRank = (case vl_loRA params of Some l \<Rightarrow> lr_maxRank l | None \<Rightarrow> None),
               lo_maxAdapters = (case vl_loRA params of Some l \<Rightarrow> lr_maxAdapters l | None \<Rightarrow> None),
               lo_maxCpuAdapters = (case vl_loRA params of Some l \<Rightarrow> lr_maxCpuAdapters l | None \<Rightarrow> None)\<rparr>)))"

section \<open>Properties\<close>

text \<open>
  Validated autoscaling is applied as asked. When validateWorkloadScaling accepts an enabled
  setting, buildScalingSpec produces the KServe autoscaling with that ceiling (at least 1) and
  floor (between 1 and the ceiling), on the HPA exactly when it was named and on KEDA otherwise;
  a disabled setting produces none.
\<close>

theorem validated_scaling_is_built:
  assumes "validateWorkloadScaling s minF maxF actF = None"
  shows "if scaling_enabled s
    then \<exists>spec. buildScalingSpec s = Some spec \<and> wsc_max s = Some (sc_maxReplicas spec) \<and>
       1 \<le> sc_maxReplicas spec \<and> sc_minReplicas spec = wsc_min s \<and>
       (case sc_minReplicas spec of None \<Rightarrow> True | Some mn \<Rightarrow> 1 \<le> mn \<and> mn \<le> sc_maxReplicas spec) \<and>
       (sc_wva spec = WvaHPA \<longleftrightarrow> equalFold (trimSpace (wsc_actuator s)) ScalingActuatorHPA)
    else buildScalingSpec s = None"
  using assms
  by (auto simp: validateWorkloadScaling_def buildScalingSpec_def resolvedActuator_def
      ScalingActuatorHPA_def ScalingActuatorKEDA_def split: option.splits if_splits)

theorem validated_scaling_is_built_witness:
  "\<exists>spec. buildScalingSpec \<lparr>wsc_min = Some 1, wsc_max = Some 4, wsc_actuator = []\<rparr> = Some spec \<and>
     sc_maxReplicas spec = 4"
proof -
  have "validateWorkloadScaling \<lparr>wsc_min = Some 1, wsc_max = Some 4, wsc_actuator = []\<rparr> ''a'' ''b'' ''c'' = None"
    using trimSpace_printable [of "[]"] by (simp add: validateWorkloadScaling_def scaling_enabled_def)
  from validated_scaling_is_built [OF this] show ?thesis by (auto simp: scaling_enabled_def)
qed

text \<open>
  C36: A worker group is accepted exactly when it fills the pipeline. For 32-bit counts,
  validateWorkerGroup accepts a count if and only if it is at least 1 and the pipeline size is the
  count plus one, computed with wrap-around; worker resources need a count. The wrap-around shows
  only at the largest count, where the accepted pipeline size is negative.
\<close>

theorem worker_group_accepted_iff:
  assumes "int32_opt count" "int32_opt pipeline"
  shows "validateWorkerGroup count pipeline resourcesSet cF pF rF = None \<longleftrightarrow>
     (case count of
        None \<Rightarrow> \<not> resourcesSet
      | Some n \<Rightarrow> 1 \<le> n \<and>
          pipeline = Some (if n = 2 ^ 31 - 1 then - (2 ^ 31) else n + 1))"
proof (cases count)
  case None
  then show ?thesis by (simp add: validateWorkerGroup_def)
next
  case (Some n)
  have n: "int32_ok n" using assms(1) Some by (simp add: int32_opt_def)
  have wrap: "wrap32 (n + 1) = (if n = 2 ^ 31 - 1 then - (2 ^ 31) else n + 1)"
  proof (cases "n = 2 ^ 31 - 1")
    case True
    then show ?thesis by (simp add: wrap32_def)
  next
    case False
    with n have "int32_ok (n + 1)" by (auto simp: int32_ok_def)
    then show ?thesis using False by (simp add: wrap32_id)
  qed
  have "wrap32 2147483648 = - 2147483648" by (simp add: wrap32_def)
  with wrap show ?thesis by (auto simp: validateWorkerGroup_def Some split: option.splits if_splits)
qed

theorem worker_group_accepted_iff_witness:
  "validateWorkerGroup (Some 1) (Some 2) True ''c'' ''p'' ''r'' = None"
  using worker_group_accepted_iff [of "Some 1" "Some 2" True "''c''" "''p''" "''r''"]
  by (simp add: int32_opt_def int32_ok_def)

text \<open>A URL is nil only for the empty text (documented behaviour of \<open>apis.ParseURL\<close>).\<close>

definition urls_ok :: "lib \<Rightarrow> bool" where
  "urls_ok L \<longleftrightarrow> (\<forall>u. lib_parseURL L u = Inr None \<longrightarrow> u = [])"

definition adapterNames :: "loraAdapterSpec list \<Rightarrow> string list" where
  "adapterNames as = map (\<lambda>a. trimSpace (la_name a)) as"

lemma checkAdapters_sound:
  "checkAdapters L base i seen as = None \<Longrightarrow>
     distinct (adapterNames as) \<and> (\<forall>a \<in> set as. trimSpace (la_name a) \<noteq> [] \<and> trimSpace (la_name a) \<noteq> base \<and>
        trimSpace (la_uri a) \<noteq> [] \<and> (\<exists>u. lib_parseURL L (la_uri a) = Inr u) \<and>
        gget seen (trimSpace (la_name a)) = None)"
proof (induction as arbitrary: i seen)
  case Nil
  then show ?case by (simp add: adapterNames_def)
next
  case (Cons a as)
  from Cons.prems have head: "trimSpace (la_name a) \<noteq> []" "trimSpace (la_name a) \<noteq> base"
    "gget seen (trimSpace (la_name a)) = None" "trimSpace (la_uri a) \<noteq> []"
    and url: "\<exists>u. lib_parseURL L (la_uri a) = Inr u"
    and rest: "checkAdapters L base (i + 1) (gset (trimSpace (la_name a)) i seen) as = None"
    by (auto simp: Let_def split: if_splits option.splits sum.splits)
  from Cons.IH [OF rest] head url show ?case
    by (auto simp: adapterNames_def split: if_splits)
qed

lemma parseAdapters_ok:
  assumes "urls_ok L"
    and "\<And>a. a \<in> set as \<Longrightarrow> la_uri a \<noteq> [] \<and> (\<exists>u. lib_parseURL L (la_uri a) = Inr u)"
  shows "\<exists>r. parseAdapters L as = Inr r \<and> map fst r = adapterNames as"
  using assms(2)
proof (induction as)
  case Nil
  then show ?case by (simp add: adapterNames_def)
next
  case (Cons a as)
  obtain u where "lib_parseURL L (la_uri a) = Inr u" "la_uri a \<noteq> []" using Cons.prems by fastforce
  then obtain v where v: "lib_parseURL L (la_uri a) = Inr (Some v)"
    using assms(1) by (cases u) (auto simp: urls_ok_def)
  obtain r where "parseAdapters L as = Inr r" "map fst r = adapterNames as" using Cons by auto
  then show ?case by (simp add: v adapterNames_def)
qed

lemma trimSpace_Nil: "trimSpace [] = []"
  using trimSpace_printable [of "[]"] by simp

lemma lora_builds:
  assumes "urls_ok L" "validateLoRAParams K L inst params = None"
  shows "\<exists>l. buildModelLoRA K L params = Inr l \<and>
     (case l of None \<Rightarrow> True
      | Some spec \<Rightarrow> distinct (map fst (lo_adapters spec)) \<and> [] \<notin> set (map fst (lo_adapters spec)) \<and>
          servedModelName inst (vl_modelName params) \<notin> set (map fst (lo_adapters spec)))"
proof -
  obtain as where as: "resolvedLoRAAdapters K params = Inr as"
    using assms(2) by (auto simp: validateLoRAParams_def split: option.splits sum.splits)
  show ?thesis
  proof (cases "as = []")
    case True
    with as show ?thesis by (simp add: buildModelLoRA_def)
  next
    case False
    have check: "checkAdapters L (servedModelName inst (vl_modelName params)) 0 [] as = None"
      using assms(2) as False by (auto simp: validateLoRAParams_def split: option.splits)
    note sound = checkAdapters_sound [OF check]
    have "la_uri a \<noteq> [] \<and> (\<exists>u. lib_parseURL L (la_uri a) = Inr u)" if "a \<in> set as" for a
      using sound that trimSpace_Nil by metis
    from parseAdapters_ok [OF assms(1) this] obtain r where
      r: "parseAdapters L as = Inr r" "map fst r = adapterNames as" by blast
    have "distinct (map fst r)" "[] \<notin> set (map fst r)"
      "servedModelName inst (vl_modelName params) \<notin> set (map fst r)"
      unfolding r(2) using sound by (auto simp: adapterNames_def)
    with as False r(1) show ?thesis by (simp add: buildModelLoRA_def)
  qed
qed

text \<open>
  C37: Accepted LoRA settings build, with unambiguous names. If validateLoRAParams accepts, then
  buildModelLoRA succeeds (no error, no nil URL), and the adapters it lists have pairwise different,
  non-empty names that differ from the name the base model is served under.
\<close>

theorem accepted_lora_builds:
  assumes "urls_ok L" "validateLoRAParams K L inst params = None"
  shows "\<exists>l. buildModelLoRA K L params = Inr l \<and>
     (case l of None \<Rightarrow> True
      | Some spec \<Rightarrow> distinct (map fst (lo_adapters spec)) \<and> [] \<notin> set (map fst (lo_adapters spec)) \<and>
          servedModelName inst (vl_modelName params) \<notin> set (map fst (lo_adapters spec)))"
  using lora_builds [OF assms] .

definition demo_lora :: vllmCustomSpec where
  "demo_lora = zero_vllm\<lparr>vl_loRA := Some \<lparr>lr_adapters = [\<lparr>la_name = ''sql'', la_uri = ''hf://a/b''\<rparr>],
     lr_maxRank = None, lr_maxAdapters = None, lr_maxCpuAdapters = None\<rparr>\<rparr>"

theorem accepted_lora_builds_witness:
  "\<exists>l. buildModelLoRA \<lparr>ca_lora = [], ca_predictor = []\<rparr> demo_lib demo_lora = Inr l"
proof -
  have "urls_ok demo_lib" by (simp add: urls_ok_def demo_lib_def)
  moreover have "validateLoRAParams \<lparr>ca_lora = [], ca_predictor = []\<rparr> demo_lib ''demo'' demo_lora = None"
    by (simp add: validateLoRAParams_def validateLoRASlots_def demo_lora_def zero_vllm_def trimSpace_Nil
        resolvedLoRAAdapters_def LoraDeploymentEnabled_def trimSpace_printable printable_def
        servedModelName_def demo_lib_def loraLimits_def below1_def storageDisabled_def)
  ultimately show ?thesis using accepted_lora_builds by blast
qed

text \<open>
  The deployment switch is trimmed by the validation but not by the builder: padded with spaces it
  passes validation, and the selected slots are ignored.
\<close>

lemma padded_deployment_ignored:
  assumes "vl_loraDeployment params = '' enabled ''" "vl_loRA params = None"
  shows "buildModelLoRA K L params = Inr None"
  using assms by (simp add: buildModelLoRA_def resolvedLoRAAdapters_def LoraDeploymentEnabled_def)

end
