(* ===== verification/AIGateway.thy ===== *)
theory AIGateway
  imports ApiKeys
begin

text \<open>
  \<open>internal/provider/aigateway.go\<close>: the objects that publish an Instance on the shared Envoy AI
  Gateway (route, backends, token limit), the reading of routes back from the cluster, the check
  that a model name is free, and the connection details of a published model. Objects are
  unstructured JSON; the builders here and the readers (\<open>aiGatewayRouteModels\<close>,
  \<open>routeAttachedToGateway\<close>) are the two sides of one format.
\<close>

section \<open>Constants\<close>

definition defaultTokenLimitPerHour :: int where "defaultTokenLimitPerHour = 1000"
definition aiGatewayRouteSuffix :: string where "aiGatewayRouteSuffix = ''-ai-gateway''"
definition tokenLimitSuffix :: string where "tokenLimitSuffix = ''-token-limit''"
definition inferencePoolSuffix :: string where "inferencePoolSuffix = ''-inference-pool''"
definition aiGatewayModelHeader :: string where "aiGatewayModelHeader = ''x-ai-eg-model''"
definition aiGatewayKeyIDHeader :: string where "aiGatewayKeyIDHeader = ''x-openeverest-key-id''"
definition legacyUserIDHeader :: string where "legacyUserIDHeader = ''x-user-id''"
definition openAIBasePath :: string where "openAIBasePath = ''/v1''"
definition typeSafeBasePath :: string where "typeSafeBasePath = ''/typesafe''"
definition typeSafeAPIVersion :: string where "typeSafeAPIVersion = ''v1''"

definition aiGatewayRouteGVK :: gvk where
  "aiGatewayRouteGVK = mkgvk ''aigateway.envoyproxy.io'' ''v1beta1'' ''AIGatewayRoute''"
definition backendTrafficPolicyGVK :: gvk where
  "backendTrafficPolicyGVK = mkgvk ''gateway.envoyproxy.io'' ''v1alpha1'' ''BackendTrafficPolicy''"
definition aiServiceBackendGVK :: gvk where
  "aiServiceBackendGVK = mkgvk ''aigateway.envoyproxy.io'' ''v1beta1'' ''AIServiceBackend''"
definition backendSecurityPolicyGVK :: gvk where
  "backendSecurityPolicyGVK = mkgvk ''aigateway.envoyproxy.io'' ''v1beta1'' ''BackendSecurityPolicy''"
definition envoyBackendGVK :: gvk where
  "envoyBackendGVK = mkgvk ''gateway.envoyproxy.io'' ''v1alpha1'' ''Backend''"
definition gatewayGVK :: gvk where
  "gatewayGVK = mkgvk ''gateway.networking.k8s.io'' ''v1'' ''Gateway''"

lemmas gateway_gvk_defs = aiGatewayRouteGVK_def backendTrafficPolicyGVK_def aiServiceBackendGVK_def
  backendSecurityPolicyGVK_def envoyBackendGVK_def gatewayGVK_def mkgvk_def

definition aiGatewayRouteName :: "lib \<Rightarrow> string \<Rightarrow> string" where
  "aiGatewayRouteName L instance = lib_childName L instance aiGatewayRouteSuffix"

text \<open>An unstructured object with its GroupVersionKind, metadata and spec.\<close>

definition unstrObject :: "gvk \<Rightarrow> (string \<times> json) list \<Rightarrow> (string \<times> json) list \<Rightarrow> json" where
  "unstrObject g metadata spec =
     JObj [(''apiVersion'', JStr (apiVersion g)), (''kind'', JStr (gv_kind g)),
           (''metadata'', JObj metadata), (''spec'', JObj spec)]"

definition nameMeta :: "string \<Rightarrow> string \<Rightarrow> (string \<times> json) list" where
  "nameMeta name namespace = [(''name'', JStr name), (''namespace'', JStr namespace)]"

section \<open>Building the gateway objects\<close>

definition inferencePoolBackendRef :: "lib \<Rightarrow> string \<Rightarrow> json" where
  "inferencePoolBackendRef L instance =
     JObj [(''group'', JStr ''inference.networking.k8s.io''),
           (''kind'', JStr ''InferencePool''),
           (''name'', JStr (lib_childName L instance inferencePoolSuffix))]"

record aiGatewaySchema =
  as_name :: string
  as_prefix :: string

definition schemaSpec :: "aiGatewaySchema \<Rightarrow> json" where
  "schemaSpec s =
     (if as_name s = APISchemaTypeSafe
      then JObj [(''name'', JStr (as_name s)), (''version'', JStr typeSafeAPIVersion)]
      else JObj [(''name'', JStr (as_name s)), (''prefix'', JStr (as_prefix s))])"

definition clientBasePath :: "aiGatewaySchema \<Rightarrow> string" where
  "clientBasePath s = (if as_name s = APISchemaTypeSafe then typeSafeBasePath else openAIBasePath)"

definition buildServiceBackends ::
    "lib \<Rightarrow> string \<Rightarrow> string \<Rightarrow> string \<Rightarrow> int \<Rightarrow> aiGatewaySchema \<Rightarrow> json \<times> json" where
  "buildServiceBackends L instanceName namespace host port apiSchema =
     (let name = aiGatewayRouteName L instanceName in
      (unstrObject envoyBackendGVK (nameMeta name namespace)
         [(''endpoints'', JArr [JObj [(''fqdn'', JObj [(''hostname'', JStr host), (''port'', JInt port)])]])],
       unstrObject aiServiceBackendGVK (nameMeta name namespace)
         [(''schema'', schemaSpec apiSchema),
          (''backendRef'', JObj [(''group'', JStr (gv_group envoyBackendGVK)),
                                (''kind'', JStr (gv_kind envoyBackendGVK)),
                                (''name'', JStr name)])]))"

definition buildBackendAPIKeyPolicy :: "lib \<Rightarrow> string \<Rightarrow> string \<Rightarrow> string \<Rightarrow> json" where
  "buildBackendAPIKeyPolicy L instanceName namespace secretName =
     (let name = aiGatewayRouteName L instanceName in
      unstrObject backendSecurityPolicyGVK (nameMeta name namespace)
        [(''targetRefs'', JArr [JObj [(''group'', JStr (gv_group aiServiceBackendGVK)),
                                     (''kind'', JStr (gv_kind aiServiceBackendGVK)),
                                     (''name'', JStr name)]]),
         (''type'', JStr ''APIKey''),
         (''apiKey'', JObj [(''secretRef'', JObj [(''name'', JStr secretName)])])])"

definition buildAIGatewayRoute ::
    "env \<Rightarrow> lib \<Rightarrow> string \<Rightarrow> string \<Rightarrow> string \<Rightarrow> string \<Rightarrow> string \<Rightarrow> json \<Rightarrow> json" where
  "buildAIGatewayRoute E L instanceName namespace modelName gatewayName gatewayNamespace backendRef =
     (let name = lib_childName L instanceName aiGatewayRouteSuffix;
          parent =
            [(''name'', JStr gatewayName), (''namespace'', JStr gatewayNamespace),
             (''kind'', JStr ''Gateway''), (''group'', JStr (gv_group gatewayGVK))]
            @ (if AIGatewayListenerName E \<noteq> []
               then [(''sectionName'', JStr (AIGatewayListenerName E))] else [])
      in unstrObject aiGatewayRouteGVK (nameMeta name namespace)
           [(''parentRefs'', JArr [JObj parent]),
            (''rules'', JArr [JObj
               [(''matches'', JArr [JObj
                  [(''headers'', JArr [JObj [(''type'', JStr ''Exact''),
                                            (''name'', JStr aiGatewayModelHeader),
                                            (''value'', JStr modelName)]])]]),
                (''backendRefs'', JArr [backendRef]),
                (''timeouts'', JObj [(''request'', JStr ''60s'')])]]),
            (''llmRequestCosts'', JArr
               [JObj [(''metadataKey'', JStr ''llm_input_token''), (''type'', JStr ''InputToken'')],
                JObj [(''metadataKey'', JStr ''llm_output_token''), (''type'', JStr ''OutputToken'')],
                JObj [(''metadataKey'', JStr ''llm_total_token''), (''type'', JStr ''TotalToken'')]])])"

definition buildTokenRateLimitPolicy ::
    "env \<Rightarrow> lib \<Rightarrow> string \<Rightarrow> string \<Rightarrow> string \<Rightarrow> int option \<Rightarrow> json" where
  "buildTokenRateLimitPolicy E L instanceName namespace modelName configuredLimit =
     (let limit = (case configuredLimit of None \<Rightarrow> defaultTokenLimitPerHour | Some l \<Rightarrow> l);
          name = lib_childName L instanceName aiGatewayRouteSuffix;
          quotaBucketHeader =
            (if AIGatewayAuthEnabled E then aiGatewayKeyIDHeader else legacyUserIDHeader)
      in unstrObject backendTrafficPolicyGVK
           (nameMeta (lib_childName L instanceName tokenLimitSuffix) namespace)
           [(''targetRefs'', JArr [JObj [(''name'', JStr name), (''kind'', JStr ''HTTPRoute''),
                                        (''group'', JStr (gv_group gatewayGVK))]]),
            (''rateLimit'', JObj
               [(''type'', JStr ''Global''),
                (''global'', JObj [(''rules'', JArr [JObj
                   [(''clientSelectors'', JArr [JObj [(''headers'', JArr
                       [JObj [(''name'', JStr quotaBucketHeader), (''type'', JStr ''Distinct'')],
                        JObj [(''name'', JStr aiGatewayModelHeader), (''type'', JStr ''Exact''),
                              (''value'', JStr modelName)]])]]),
                    (''limit'', JObj [(''requests'', JInt limit), (''unit'', JStr ''Hour'')]),
                    (''cost'', JObj
                       [(''request'', JObj [(''from'', JStr ''Number''), (''number'', JInt 0)]),
                        (''response'', JObj
                          [(''from'', JStr ''Metadata''),
                           (''metadata'', JObj [(''namespace'', JStr ''io.envoy.ai_gateway''),
                                               (''key'', JStr ''llm_total_token'')])])])]])])])])"

section \<open>Reading routes\<close>

definition headerModel :: "json \<Rightarrow> string list" where
  "headerModel rawHeader =
     (let header = asObj rawHeader;
          name = asStr (jindex header ''name'');
          matchType = asStr (jindex header ''type'');
          value = asStr (jindex header ''value'')
      in if equalFold name aiGatewayModelHeader \<and> (matchType = [] \<or> matchType = ''Exact'') \<and> value \<noteq> []
         then [value] else [])"

text \<open>A raw item that is no object is read as an empty one.\<close>

definition itemSlice :: "json \<Rightarrow> string \<Rightarrow> json list" where
  "itemSlice raw field = sliceOrNil (JObj (asObj raw)) [field]"

definition aiGatewayRouteModels :: "json \<Rightarrow> string list" where
  "aiGatewayRouteModels route =
     concat (map (\<lambda>rule. concat (map (\<lambda>match. concat (map headerModel (itemSlice match ''headers'')))
                   (itemSlice rule ''matches'')))
       (sliceOrNil route [''spec'', ''rules'']))"

definition routeAttachedToGateway :: "json \<Rightarrow> string \<Rightarrow> string \<Rightarrow> bool" where
  "routeAttachedToGateway route gatewayName gatewayNamespace =
     list_ex (\<lambda>rawParent.
         let parent = asObj rawParent;
             name = asStr (jindex parent ''name'');
             ns = asStr (jindex parent ''namespace'');
             kind = asStr (jindex parent ''kind'');
             namespace = (if ns = [] then uNamespace route else ns)
         in name = gatewayName \<and> namespace = gatewayNamespace \<and>
            (kind = [] \<or> kind = gv_kind gatewayGVK))
       (sliceOrNil route [''spec'', ''parentRefs''])"

fun acceptanceOf :: "json list \<Rightarrow> bool \<times> string" where
  "acceptanceOf [] = (False, ''Waiting for Envoy AI Gateway route acceptance'')"
| "acceptanceOf (JObj condition # rest) =
     (if jindex condition ''type'' \<noteq> JStr ''Accepted'' then acceptanceOf rest
      else if jindex condition ''status'' = JStr ''True'' then (True, [])
      else case jindex condition ''message'' of
          JStr message \<Rightarrow> if message \<noteq> [] then (False, message) else acceptanceOf rest
        | _ \<Rightarrow> acceptanceOf rest)"
| "acceptanceOf (_ # rest) = acceptanceOf rest"

definition routeAcceptance :: "json \<Rightarrow> bool \<times> string" where
  "routeAcceptance route =
     (case nestedSlice route [''status'', ''conditions''] of
        Slice (c # cs) \<Rightarrow> acceptanceOf (c # cs)
      | _ \<Rightarrow> (False, ''Waiting for Envoy AI Gateway route''))"

section \<open>Registering and removing an Instance\<close>

definition deleteAIGatewayObject :: "'s api \<Rightarrow> lib \<Rightarrow> ctx \<Rightarrow> gvk \<Rightarrow> string \<Rightarrow> ('s, unit) prog" where
  "deleteAIGatewayObject A L c g suffix =
     deleteP A (mkref g (cx_namespace c) (lib_childName L (cx_name c) suffix))"

definition syncAIGateway ::
    "'s api \<Rightarrow> env \<Rightarrow> lib \<Rightarrow> ctx \<Rightarrow> string \<Rightarrow> int option \<Rightarrow> json \<Rightarrow> (gvk \<times> json) list \<Rightarrow> ('s, unit) prog" where
  "syncAIGateway A E L c modelName tokenLimit backendRef backends =
     (if \<not> AIGatewayEnabled E then failP (Err (GwMsg GatewayDisabledInChart) [])
      else if AIGatewayName E = [] \<or> AIGatewayNamespace E = []
      then failP (Err (GwMsg GatewayNotConfigured) [])
      else
        seqP (whenP (AIGatewayAuthEnabled E) (ensureAIGatewayKey A L c))
        (seqP (forP (\<lambda>(g, backend). wrapP (GwMsg ApplyingBackend) [gv_kind g]
                       (Apply A L (cx_ref c) (KUnstr g backend))) backends)
        (seqP (wrapP (GwMsg ApplyingRoute) []
                 (Apply A L (cx_ref c) (KUnstr aiGatewayRouteGVK
                    (buildAIGatewayRoute E L (cx_name c) (cx_namespace c) modelName
                       (AIGatewayName E) (AIGatewayNamespace E) backendRef))))
          (if RateLimitRedisURL E = []
           then deleteAIGatewayObject A L c backendTrafficPolicyGVK tokenLimitSuffix
           else wrapP (GwMsg ApplyingRateLimit) []
                  (Apply A L (cx_ref c) (KUnstr backendTrafficPolicyGVK
                     (buildTokenRateLimitPolicy E L (cx_name c) (cx_namespace c) modelName tokenLimit)))))))"

definition cleanupAIGateway :: "'s api \<Rightarrow> lib \<Rightarrow> ctx \<Rightarrow> ('s, unit) prog" where
  "cleanupAIGateway A L c =
     seqP (deleteAIGatewayObject A L c aiGatewayRouteGVK aiGatewayRouteSuffix)
          (deleteAIGatewayObject A L c backendTrafficPolicyGVK tokenLimitSuffix)"

fun unstrOf :: "kobject \<Rightarrow> json" where
  "unstrOf (KUnstr g j) = j"
| "unstrOf _ = JNull"

text \<open>The first route of another Instance on the gateway that already serves the model name.\<close>

definition routeTaking :: "env \<Rightarrow> lib \<Rightarrow> ctx \<Rightarrow> string \<Rightarrow> json list \<Rightarrow> json option" where
  "routeTaking E L c modelName routes =
     find (\<lambda>route.
        \<not> (uNamespace route = cx_namespace c \<and> uName route = aiGatewayRouteName L (cx_name c)) \<and>
        routeAttachedToGateway route (AIGatewayName E) (AIGatewayNamespace E) \<and>
        modelName \<in> set (aiGatewayRouteModels route)) routes"

definition validateAIGatewayAccess ::
    "'s api \<Rightarrow> env \<Rightarrow> lib \<Rightarrow> ctx \<Rightarrow> string \<Rightarrow> string \<Rightarrow> ('s, unit) prog" where
  "validateAIGatewayAccess A E L c modelName fix =
     (if AIGatewayAuthEnabled E \<and> AIGatewayScheme E \<noteq> ''https'' \<and> \<not> AIGatewayAuthAllowInsecureHTTP E
      then failP (Err (GwMsg KeysRequireHTTPS) [])
      else bindP (listP A aiGatewayRouteGVK None)
        (\<lambda>r. case r of
            Inl e \<Rightarrow> failP (Wrap (GwMsg ListingRoutes) [] (ApiErr e))
          | Inr items \<Rightarrow>
              (case routeTaking E L c modelName (map unstrOf items) of
                 None \<Rightarrow> ret ()
               | Some route \<Rightarrow> failP (Err (GwMsg ModelNameTaken)
                   [modelName, uNamespace route, uName route, fix]))))"

section \<open>Connection details\<close>

record connectionDetails =
  cn_type :: string
  cn_provider :: string
  cn_host :: string
  cn_port :: string
  cn_uri :: string
  cn_username :: string
  cn_password :: string
  cn_additional :: "string gmap"

definition no_details :: connectionDetails where
  "no_details = \<lparr>cn_type = [], cn_provider = [], cn_host = [], cn_port = [], cn_uri = [],
     cn_username = [], cn_password = [], cn_additional = []\<rparr>"

definition defaultPortForScheme :: "string \<Rightarrow> string" where
  "defaultPortForScheme scheme = (if scheme = ''https'' then itoa 443 else itoa 80)"

text \<open>\<open>net.SplitHostPort\<close>: host and port, with the brackets of an IPv6 host removed.\<close>

definition lastIndex :: "char \<Rightarrow> string \<Rightarrow> nat option" where
  "lastIndex ch s =
     (if ch \<in> set s then Some (length s - 1 - length (takeWhile (\<lambda>d. d \<noteq> ch) (rev s))) else None)"

definition firstIndex :: "char \<Rightarrow> string \<Rightarrow> nat option" where
  "firstIndex ch s = (if ch \<in> set s then Some (length (takeWhile (\<lambda>d. d \<noteq> ch) s)) else None)"

definition splitHostPort :: "string \<Rightarrow> (string \<times> string) option" where
  "splitHostPort hp =
     (case lastIndex CHR '':'' hp of
        None \<Rightarrow> None
      | Some i \<Rightarrow>
          (if take 1 hp = ''['' then
             (case firstIndex CHR '']'' hp of
                None \<Rightarrow> None
              | Some close \<Rightarrow>
                  if close + 1 = i \<and> CHR ''['' \<notin> set (drop 1 hp) \<and> CHR '']'' \<notin> set (drop (close + 1) hp)
                  then Some (take (close - 1) (drop 1 hp), drop (i + 1) hp)
                  else None)
           else if CHR '':'' \<in> set (take i hp) \<or> CHR ''['' \<in> set hp \<or> CHR '']'' \<in> set hp then None
           else Some (take i hp, drop (i + 1) hp)))"

definition joinHostPort :: "string \<Rightarrow> string \<Rightarrow> string" where
  "joinHostPort host port =
     (if CHR '':'' \<in> set host then ''['' @ host @ '']:'' @ port else host @ '':'' @ port)"

definition gatewayConnectionDetails :: "env \<Rightarrow> lib \<Rightarrow> string \<Rightarrow> string \<Rightarrow> connectionDetails" where
  "gatewayConnectionDetails E L address basePath =
     (let (scheme, port1, host1) =
            (case lib_urlParse L address of
               Some (sch, hst, hostname, prt) \<Rightarrow>
                 if hst \<noteq> [] then (sch, if prt \<noteq> [] then prt else AIGatewayPort E, hostname)
                 else (AIGatewayScheme E, AIGatewayPort E, address)
             | None \<Rightarrow> (AIGatewayScheme E, AIGatewayPort E, address));
          (host2, port) =
            (case splitHostPort address of Some (h, p) \<Rightarrow> (h, p) | None \<Rightarrow> (host1, port1));
          host = (if AIGatewayHostname E \<noteq> [] then AIGatewayHostname E else host2);
          uriHost1 = (if lib_parseIP L host \<and> CHR '':'' \<in> set host then ''['' @ host @ '']'' else host);
          uriHost = (if port \<noteq> defaultPortForScheme scheme then joinHostPort host port else uriHost1)
      in no_details\<lparr>cn_type := ''kserve-ai-gateway'', cn_provider := ProviderName, cn_host := host,
           cn_port := port, cn_uri := lib_urlString L scheme uriHost basePath\<rparr>)"

text \<open>The details, or a non-empty text saying what is awaited.\<close>

definition aiGatewayConnectionDetails ::
    "'s api \<Rightarrow> env \<Rightarrow> lib \<Rightarrow> ctx \<Rightarrow> string \<Rightarrow> string \<Rightarrow> ('s, connectionDetails \<times> string) prog" where
  "aiGatewayConnectionDetails A E L c modelName basePath =
     bindP (getP A (mkref aiGatewayRouteGVK (cx_namespace c) (aiGatewayRouteName L (cx_name c))))
      (\<lambda>r. case r of
         Inl _ \<Rightarrow> ret (no_details, ''Waiting for Envoy AI Gateway route'')
       | Inr route \<Rightarrow>
        (case routeAcceptance (unstrOf route) of (accepted, message) \<Rightarrow>
         if \<not> accepted then ret (no_details, message)
         else bindP (getP A (mkref gatewayGVK (AIGatewayNamespace E) (AIGatewayName E)))
          (\<lambda>r. case r of
             Inl _ \<Rightarrow> ret (no_details, ''Waiting for Envoy AI Gateway'')
           | Inr gateway \<Rightarrow>
            (case nestedSlice (unstrOf gateway) [''status'', ''addresses''] of
               NestedError \<Rightarrow> failP (Err (GwMsg GatewayAddressesUnreadable) [])
             | Slice (JObj first # _) \<Rightarrow>
                 (let address = asStr (jindex first ''value'') in
                  if address = [] then ret (no_details, ''Waiting for Envoy AI Gateway address'')
                  else
                   (let details = (gatewayConnectionDetails E L address basePath)
                          \<lparr>cn_additional := [(''model'', modelName)]\<rparr>
                    in if AIGatewayAuthEnabled E
                       then bindP (wrapP (GwMsg ReadingGatewayKey) [] (readAIGatewayKey A c))
                         (\<lambda>(keyID, key).
                            if key = [] then ret (no_details, ''Waiting for Envoy AI Gateway API key'')
                            else ret (details\<lparr>cn_username := keyID, cn_password := key\<rparr>, []))
                       else ret (details, [])))
             | Slice (_ # _) \<Rightarrow> failP (Err (GwMsg GatewayAddressInvalid) [])
             | _ \<Rightarrow> ret (no_details, ''Waiting for Envoy AI Gateway address'')))))"

section \<open>Builders and readers agree\<close>

lemma unstrObject_reads [simp]:
  "sliceOrNil (unstrObject g md spec) [''spec'', k] =
     (case gget spec k of Some (JArr xs) \<Rightarrow> xs | _ \<Rightarrow> [])"
  "uName (unstrObject g md spec) = asStr (jindex md ''name'')"
  "uNamespace (unstrObject g md spec) = asStr (jindex md ''namespace'')"
  by (simp_all add: sliceOrNil_def nestedSlice_def unstrObject_def uName_def uNamespace_def metaStr_def
      split: option.splits json.splits)

lemma nameMeta_reads [simp]:
  "jindex (nameMeta n ns) ''name'' = JStr n"
  "jindex (nameMeta n ns) ''namespace'' = JStr ns"
  by (simp_all add: nameMeta_def)

lemma itemSlice_JObj [simp]:
  "itemSlice (JObj m) k = (case gget m k of Some (JArr xs) \<Rightarrow> xs | _ \<Rightarrow> [])"
  by (simp add: itemSlice_def sliceOrNil_def nestedSlice_def split: option.splits json.splits)

lemma built_route_models:
  "aiGatewayRouteModels (buildAIGatewayRoute E L i ns m gw gns b) = (if m = [] then [] else [m])"
  by (simp add: aiGatewayRouteModels_def buildAIGatewayRoute_def Let_def headerModel_def)

lemma built_route_attached:
  "routeAttachedToGateway (buildAIGatewayRoute E L i ns m gw gns b) gw' gns' \<longleftrightarrow>
     gw' = gw \<and> gns' = (if gns = [] then ns else gns)"
  by (auto simp: routeAttachedToGateway_def buildAIGatewayRoute_def Let_def gatewayGVK_def mkgvk_def)

lemma built_route_name:
  "uName (buildAIGatewayRoute E L i ns m gw gns b) = aiGatewayRouteName L i"
  "uNamespace (buildAIGatewayRoute E L i ns m gw gns b) = ns"
  by (simp_all add: buildAIGatewayRoute_def aiGatewayRouteName_def Let_def)

text \<open>
  C29: What the provider publishes is what it reads back. For every Instance, namespace, model and
  gateway, the route that buildAIGatewayRoute writes is read by aiGatewayRouteModels as exactly
  that model, by routeAttachedToGateway as attached to that gateway and no other, and has the
  name that the uniqueness check and the key renderer look it up by.
\<close>

theorem route_round_trip:
  "aiGatewayRouteModels (buildAIGatewayRoute E L i ns m gw gns b) = (if m = [] then [] else [m]) \<and>
   (routeAttachedToGateway (buildAIGatewayRoute E L i ns m gw gns b) gw' gns' \<longleftrightarrow>
      gw' = gw \<and> gns' = (if gns = [] then ns else gns)) \<and>
   uName (buildAIGatewayRoute E L i ns m gw gns b) = aiGatewayRouteName L i \<and>
   uNamespace (buildAIGatewayRoute E L i ns m gw gns b) = ns"
  by (simp only: built_route_models built_route_attached built_route_name simp_thms)

section \<open>Registration order\<close>

definition backendPatch :: "ctx \<Rightarrow> gvk \<times> json \<Rightarrow> patch" where
  "backendPatch c gb = ServerSideApply (cx_ref c) (KUnstr (fst gb) (snd gb))"

definition routePatch :: "env \<Rightarrow> lib \<Rightarrow> ctx \<Rightarrow> string \<Rightarrow> json \<Rightarrow> patch" where
  "routePatch E L c modelName backendRef =
     ServerSideApply (cx_ref c) (KUnstr aiGatewayRouteGVK
       (buildAIGatewayRoute E L (cx_name c) (cx_namespace c) modelName (AIGatewayName E)
          (AIGatewayNamespace E) backendRef))"

definition limitEvent :: "env \<Rightarrow> lib \<Rightarrow> ctx \<Rightarrow> string \<Rightarrow> int option \<Rightarrow> event" where
  "limitEvent E L c modelName limit =
     (if RateLimitRedisURL E = []
      then EvDelete (mkref backendTrafficPolicyGVK (cx_namespace c) (lib_childName L (cx_name c) tokenLimitSuffix)) None
      else EvPatch (ServerSideApply (cx_ref c) (KUnstr backendTrafficPolicyGVK
             (buildTokenRateLimitPolicy E L (cx_name c) (cx_namespace c) modelName limit))) None)"

lemma Apply_success:
  "result (Apply A L owner ob) s = Inr () \<Longrightarrow>
     writes (Apply A L owner ob) s = [EvPatch (ServerSideApply owner ob) None]"
  by (auto simp: result_Apply writes_Apply split: option.splits)

lemma backends_success:
  "result (forP (\<lambda>(g, b). wrapP (GwMsg ApplyingBackend) [gv_kind g] (Apply A L owner (KUnstr g b))) bs) s = Inr () \<Longrightarrow>
     writes (forP (\<lambda>(g, b). wrapP (GwMsg ApplyingBackend) [gv_kind g] (Apply A L owner (KUnstr g b))) bs) s =
       map (\<lambda>(g, b). EvPatch (ServerSideApply owner (KUnstr g b)) None) bs"
proof (induction bs arbitrary: s)
  case Nil
  then show ?case by simp
next
  case (Cons b bs)
  then show ?case
    by (cases b) (simp add: writes_seqP result_seqP result_wrapP Apply_success split: sum.splits)
qed

text \<open>
  C31: A published Instance has its key first. When syncAIGateway succeeds, the gateway is enabled
  and configured, and its writes are, in this order: those of ensureAIGatewayKey when
  authentication is on (which succeeded), every backend, the route, and the token limit, applied
  or removed. All of them were accepted.
\<close>

theorem sync_publishes_in_order:
  assumes "result (syncAIGateway A E L c m limit b bs) s = Inr ()"
  shows "AIGatewayEnabled E \<and> AIGatewayName E \<noteq> [] \<and> AIGatewayNamespace E \<noteq> [] \<and>
    (AIGatewayAuthEnabled E \<longrightarrow> result (ensureAIGatewayKey A L c) s = Inr ()) \<and>
    writes (syncAIGateway A E L c m limit b bs) s =
      (if AIGatewayAuthEnabled E then writes (ensureAIGatewayKey A L c) s else []) @
      map (\<lambda>gb. EvPatch (backendPatch c gb) None) bs @
      [EvPatch (routePatch E L c m b) None, limitEvent E L c m limit]"
proof -
  have on: "AIGatewayEnabled E" "AIGatewayName E \<noteq> []" "AIGatewayNamespace E \<noteq> []"
    using assms by (auto simp: syncAIGateway_def split: if_splits)
  let ?limit = "if RateLimitRedisURL E = [] then deleteAIGatewayObject A L c backendTrafficPolicyGVK tokenLimitSuffix
      else wrapP (GwMsg ApplyingRateLimit) [] (Apply A L (cx_ref c) (KUnstr backendTrafficPolicyGVK
             (buildTokenRateLimitPolicy E L (cx_name c) (cx_namespace c) m limit)))"
  from runs_result [OF assms] on obtain s1 s2 s3 w1 w2 w3 w4 where
    steps: "runs (whenP (AIGatewayAuthEnabled E) (ensureAIGatewayKey A L c)) s () s1 w1"
      "runs (forP (\<lambda>(g, b). wrapP (GwMsg ApplyingBackend) [gv_kind g] (Apply A L (cx_ref c) (KUnstr g b))) bs) s1 () s2 w2"
      "runs (Apply A L (cx_ref c) (KUnstr aiGatewayRouteGVK
         (buildAIGatewayRoute E L (cx_name c) (cx_namespace c) m (AIGatewayName E) (AIGatewayNamespace E) b))) s2 () s3 w3"
      "runs ?limit s3 () (final (syncAIGateway A E L c m limit b bs) s) w4"
    and w: "writes (syncAIGateway A E L c m limit b bs) s = w1 @ w2 @ w3 @ w4"
    unfolding syncAIGateway_def by (auto simp only: runs_parts if_False simp_thms)
  have "w2 = map (\<lambda>gb. EvPatch (backendPatch c gb) None) bs"
    using steps(2) backends_success by (auto simp: runs_def backendPatch_def case_prod_unfold)
  moreover have "w4 = [limitEvent E L c m limit]"
    using steps(4) by (auto simp: limitEvent_def deleteAIGatewayObject_def runs_wrap dest: runs_Apply runs_delete split: if_splits)
  ultimately show ?thesis
    using on w steps(1) [unfolded runs_when] runs_Apply [OF steps(3)] by (auto simp: routePatch_def runs_def split: if_splits)
qed

lemma gateway_env_settings:
  "AIGatewayEnabled gateway_env" "AIGatewayAuthEnabled gateway_env" "AIGatewayName gateway_env = ''gw''"
  "AIGatewayNamespace gateway_env = ''infra''" "AIGatewayScheme gateway_env = ''https''"
  "RateLimitRedisURL gateway_env = []"
  by (simp_all add: AIGatewayEnabled_def AIGatewayAuthEnabled_def AIGatewayName_def AIGatewayNamespace_def
      AIGatewayScheme_def RateLimitRedisURL_def gateway_env_def Let_def)

lemma demo_ensure_ok: "result (ensureAIGatewayKey mem_api demo_lib demo_ctx) ([], 0) = Inr ()"
  by (simp add: ensureAIGatewayKey_def createAIGatewayKey_def setKeyFields_unfold newAPIKeyID_def
      newAPIKey_def run_bind mem_api_def demo_lib_def secretID_def secretKey_def secretData_def
      split: sum.split)

theorem sync_publishes_in_order_witness:
  "\<exists>ws. writes (syncAIGateway mem_api gateway_env demo_lib demo_ctx ''m'' None JNull []) ([], 0) =
     ws @ [EvPatch (routePatch gateway_env demo_lib demo_ctx ''m'' JNull) None,
           limitEvent gateway_env demo_lib demo_ctx ''m'' None]"
proof -
  have "result (syncAIGateway mem_api gateway_env demo_lib demo_ctx ''m'' None JNull []) ([], 0) = Inr ()"
    by (simp add: syncAIGateway_def gateway_env_settings whenP_def result_seqP demo_ensure_ok result_wrapP
        result_Apply mem_answers deleteAIGatewayObject_def)
  from sync_publishes_in_order [OF this] show ?thesis by auto
qed

section \<open>Access check and connection details\<close>

text \<open>The route of another Instance that already serves the model on this gateway.\<close>

definition foreignServer :: "env \<Rightarrow> lib \<Rightarrow> ctx \<Rightarrow> string \<Rightarrow> json \<Rightarrow> bool" where
  "foreignServer E L c m route \<longleftrightarrow>
     \<not> (uNamespace route = cx_namespace c \<and> uName route = aiGatewayRouteName L (cx_name c)) \<and>
     routeAttachedToGateway route (AIGatewayName E) (AIGatewayNamespace E) \<and>
     m \<in> set (aiGatewayRouteModels route)"

lemma routeTaking_None: "routeTaking E L c m routes = None \<longleftrightarrow> \<not> list_ex (foreignServer E L c m) routes"
  by (auto simp: routeTaking_def find_None_iff list_ex_iff foreignServer_def)

text \<open>
  C30: A model name is accepted exactly when it is free. validateAIGatewayAccess succeeds if and
  only if keys do not travel in clear text (authentication is off, or the scheme is https, or the
  chart allows plain HTTP), the routes could be listed, and no route of another Instance attached
  to this gateway serves the name; it never writes.
\<close>

theorem access_check_exact:
  "(result (validateAIGatewayAccess A E L c m fix) s = Inr () \<longleftrightarrow>
      (AIGatewayAuthEnabled E \<and> AIGatewayScheme E \<noteq> ''https'' \<longrightarrow> AIGatewayAuthAllowInsecureHTTP E) \<and>
      (\<exists>items. api_list A s aiGatewayRouteGVK None = Inr items \<and>
         \<not> list_ex (foreignServer E L c m) (map unstrOf items))) \<and>
   writes (validateAIGatewayAccess A E L c m fix) s = []"
  by (auto simp: validateAIGatewayAccess_def run_writes routeTaking_None [symmetric]
      split: sum.splits option.splits)

theorem access_check_exact_witness:
  "result (validateAIGatewayAccess mem_api gateway_env demo_lib demo_ctx ''m'' ''rename'') ([], 0) = Inr ()"
  using access_check_exact [of mem_api gateway_env demo_lib demo_ctx "''m''" "''rename''" "([], 0)"]
  by (simp add: mem_answers gateway_env_settings)

lemma acceptanceOf_message: "acceptanceOf cs = (ok, msg) \<Longrightarrow> msg = [] \<longleftrightarrow> ok"
  by (induction cs rule: acceptanceOf.induct) (auto split: if_splits json.splits)

lemma routeAcceptance_message: "routeAcceptance r = (ok, msg) \<Longrightarrow> msg = [] \<longleftrightarrow> ok"
  by (auto simp: routeAcceptance_def acceptanceOf_message split: nested.splits list.splits)

lemma gatewayConnectionDetails_no_login:
  "cn_username (gatewayConnectionDetails E L a base) = [] \<and> cn_password (gatewayConnectionDetails E L a base) = []"
  by (simp add: gatewayConnectionDetails_def no_details_def Let_def split_beta)

text \<open>
  What the details of a published model promise: its route was read and is accepted, the details
  name the model, and they carry the Instance's login exactly when the gateway asks for one.
\<close>

definition published :: "'s api \<Rightarrow> env \<Rightarrow> lib \<Rightarrow> ctx \<Rightarrow> string \<Rightarrow> 's \<Rightarrow> connectionDetails \<Rightarrow> bool" where
  "published A E L c m s d \<longleftrightarrow>
     (case api_get A s (mkref aiGatewayRouteGVK (cx_namespace c) (aiGatewayRouteName L (cx_name c))) of
        Inl _ \<Rightarrow> False | Inr route \<Rightarrow> fst (routeAcceptance (unstrOf route))) \<and>
     gget (cn_additional d) ''model'' = Some m \<and>
     (if AIGatewayAuthEnabled E
      then cn_password d \<noteq> [] \<and> result (readAIGatewayKey A c) s = Inr (cn_username d, cn_password d)
      else cn_username d = [] \<and> cn_password d = [])"

lemma details_published:
  assumes "result (aiGatewayConnectionDetails A E L c m base) s = Inr (d, waiting)"
  shows "if waiting \<noteq> [] then d = no_details else published A E L c m s d"
  using assms
  by (auto simp: published_def aiGatewayConnectionDetails_def run_bind gatewayConnectionDetails_no_login Let_def
      dest: routeAcceptance_message split: sum.splits prod.splits if_splits nested.splits list.splits json.splits)

text \<open>
  Connection details are complete or absent. When aiGatewayConnectionDetails returns details
  without a waiting message, the Instance's route was read and accepted, the details name the
  model, and with authentication on they carry the identifier and the non-empty key stored in the
  Instance's Secret, without it no login. With a waiting message nothing is disclosed.
\<close>

theorem connection_details_complete:
  assumes "result (aiGatewayConnectionDetails A E L c m base) s = Inr (d, waiting)"
  shows "if waiting \<noteq> [] then d = no_details else published A E L c m s d"
  using assms by (rule details_published)

definition demo_published :: mem_state where
  "demo_published =
     ([(mkref aiGatewayRouteGVK ''ns'' ''demo-ai-gateway'', KUnstr aiGatewayRouteGVK (JObj
          [(''metadata'', JObj (nameMeta ''demo-ai-gateway'' ''ns'')),
           (''status'', JObj [(''conditions'', JArr [JObj [(''type'', JStr ''Accepted''),
              (''status'', JStr ''True'')]])])])),
       (mkref gatewayGVK ''infra'' ''gw'', KUnstr gatewayGVK (JObj
          [(''metadata'', JObj (nameMeta ''gw'' ''infra'')),
           (''status'', JObj [(''addresses'', JArr [JObj [(''value'', JStr ''10.0.0.1'')]])])])),
       (mkref secretGVK ''ns'' ''demo-ai-gateway-key'', KSecret
          \<lparr>se_meta = \<lparr>om_name = ''demo-ai-gateway-key'', om_namespace = ''ns'', om_labels = [],
             om_annotations = [(aiGatewayKeyIDAnnotation, ''k_a'')]\<rparr>,
           se_type = SecretTypeOpaque, se_data = [(aiGatewayKeyDataKey, ''v'')]\<rparr>)], 0)"

theorem connection_details_complete_witness:
  "\<exists>d. result (aiGatewayConnectionDetails mem_api gateway_env demo_lib demo_ctx ''m'' openAIBasePath)
         demo_published = Inr (d, []) \<and>
     gget (cn_additional d) ''model'' = Some ''m'' \<and> cn_password d \<noteq> []"
proof -
  let ?d = "(gatewayConnectionDetails gateway_env demo_lib ''10.0.0.1'' openAIBasePath)
     \<lparr>cn_additional := [(''model'', ''m'')], cn_username := ''k_a'', cn_password := ''v''\<rparr>"
  have run: "result (aiGatewayConnectionDetails mem_api gateway_env demo_lib demo_ctx ''m'' openAIBasePath)
      demo_published = Inr (?d, [])"
    by (simp add: aiGatewayConnectionDetails_def readAIGatewayKey_def run_bind mem_answers demo_published_def
        gateway_env_settings demo_ctx_def demo_lib_def aiGatewayRouteName_def aiGatewayRouteSuffix_def
        gateway_gvk_defs core_gvk_defs routeAcceptance_def nestedSlice_def nameMeta_def uName_def
        uNamespace_def metaStr_def keySecretRef_def aiGatewayKeySecretName_def aiGatewayKeySecretSuffix_def
        metaRef_def secretAnnotation_def secretData_def ggetd_def Let_def)
  show ?thesis
    using connection_details_complete [OF run] run gateway_env_settings by (auto simp: published_def)
qed

end
