(* ===== verification/ExternalService.thy ===== *)
theory ExternalService
  imports AIGateway
begin

text \<open>
  \<open>internal/provider/externalservice.go\<close>: the LoadBalancer or NodePort Service the provider owns,
  its removal when the Instance is reached inside the cluster, and the address clients use.
\<close>

definition externalServiceSuffix :: string where "externalServiceSuffix = ''-external''"

definition externalServiceName :: "string \<Rightarrow> string" where
  "externalServiceName instance = instance @ externalServiceSuffix"

definition resolveServiceType :: "string \<Rightarrow> serviceSpec option \<Rightarrow> string" where
  "resolveServiceType topologyType spec =
     (if topologyType \<noteq> [] then topologyType
      else case spec of
          Some sp \<Rightarrow> if ss_serviceType sp \<noteq> [] then ss_serviceType sp else ClusterIP
        | None \<Rightarrow> ClusterIP)"

definition buildExternalService ::
    "lib \<Rightarrow> ctx \<Rightarrow> serviceSpec option \<Rightarrow> string \<Rightarrow> string gmap \<Rightarrow> int \<Rightarrow> int \<Rightarrow> service" where
  "buildExternalService L c spec svcType selector port targetPort =
     (let meta = cx_objectMeta c (externalServiceName (cx_name c));
          meta = (case spec of
              Some sp \<Rightarrow> meta\<lparr>om_annotations := gcopy (om_annotations meta) (ss_annotations sp)\<rparr>
            | None \<Rightarrow> meta);
          ranges = (if svcType = LoadBalancer
            then (case spec of
                Some sp \<Rightarrow> (case ss_loadBalancer sp of Some rs \<Rightarrow> lib_normalizeRanges L rs | None \<Rightarrow> [])
              | None \<Rightarrow> [])
            else [])
      in \<lparr>sv_meta = meta, sv_type = svcType, sv_selector = selector,
          sv_ports = [\<lparr>vp_name = ''http'', vp_protocol = ''TCP'', vp_port = port,
                       vp_targetPort = targetPort, vp_nodePort = 0\<rparr>],
          sv_sourceRanges = ranges, sv_ingress = []\<rparr>)"

definition externalServiceRef :: "ctx \<Rightarrow> objref" where
  "externalServiceRef c = metaRef serviceGVK (cx_objectMeta c (externalServiceName (cx_name c)))"

definition deleteExternalService :: "'s api \<Rightarrow> ctx \<Rightarrow> ('s, unit) prog" where
  "deleteExternalService A c = deleteP A (externalServiceRef c)"

definition reconcileExternalService ::
    "'s api \<Rightarrow> lib \<Rightarrow> ctx \<Rightarrow> serviceSpec option \<Rightarrow> string \<Rightarrow> string gmap \<Rightarrow> int \<Rightarrow> int \<Rightarrow> ('s, unit) prog" where
  "reconcileExternalService A L c spec svcType selector port targetPort =
     (if svcType = ClusterIP then deleteExternalService A c
      else Apply A L (cx_ref c)
             (KService (buildExternalService L c spec svcType selector port targetPort)))"

section \<open>Addresses\<close>

definition NodeExternalIP :: string where "NodeExternalIP = ''ExternalIP''"
definition NodeInternalIP :: string where "NodeInternalIP = ''InternalIP''"

text \<open>The two nested loops run over the addresses of all nodes; \<open>internal\<close> is the variable.\<close>

fun nodeAddress :: "string \<Rightarrow> (string \<times> string) list \<Rightarrow> string" where
  "nodeAddress internal [] = internal"
| "nodeAddress internal ((type, address) # rest) =
     (if type = NodeExternalIP then
        (if address \<noteq> [] then address else nodeAddress internal rest)
      else if type = NodeInternalIP then
        nodeAddress (if internal = [] then address else internal) rest
      else nodeAddress internal rest)"

fun nodeAddresses :: "kobject \<Rightarrow> (string \<times> string) list" where
  "nodeAddresses (KNode as) = as"
| "nodeAddresses _ = []"

definition firstNodeAddress :: "'s api \<Rightarrow> ('s, string) prog" where
  "firstNodeAddress A =
     bindP (listP A nodeGVK None)
       (\<lambda>r. case r of
           Inl _ \<Rightarrow> ret []
         | Inr nodes \<Rightarrow> ret (nodeAddress [] (concat (map nodeAddresses nodes))))"

definition kserveConnectionDetails :: "string \<Rightarrow> string \<Rightarrow> connectionDetails" where
  "kserveConnectionDetails host port =
     no_details\<lparr>cn_type := ''kserve'', cn_provider := ProviderName, cn_host := host, cn_port := port,
       cn_uri := ''http://'' @ host @ '':'' @ port\<rparr>"

definition ingressHost :: "string \<times> string \<Rightarrow> string" where
  "ingressHost ing = (if fst ing = [] then snd ing else fst ing)"

definition firstIngressHost :: "(string \<times> string) list \<Rightarrow> string option" where
  "firstIngressHost ings = find (\<lambda>h. h \<noteq> []) (map ingressHost ings)"

definition firstNodePort :: "servicePort list \<Rightarrow> int" where
  "firstNodePort ports =
     (case find (\<lambda>p. vp_nodePort p \<noteq> 0) ports of Some p \<Rightarrow> vp_nodePort p | None \<Rightarrow> 0)"

fun asService :: "kobject \<Rightarrow> service option" where
  "asService (KService s) = Some s"
| "asService _ = None"

definition externalServiceConnectionDetails ::
    "'s api \<Rightarrow> ctx \<Rightarrow> string \<Rightarrow> int \<Rightarrow> ('s, connectionDetails option) prog" where
  "externalServiceConnectionDetails A c svcType port =
     bindP (getP A (mkref serviceGVK (cx_namespace c) (externalServiceName (cx_name c))))
       (\<lambda>r. case (case r of Inl _ \<Rightarrow> None | Inr obj \<Rightarrow> asService obj) of
           None \<Rightarrow> ret None
         | Some svc \<Rightarrow>
           (if svcType = LoadBalancer
            then ret (map_option (\<lambda>host. kserveConnectionDetails host (itoa port))
                        (firstIngressHost (sv_ingress svc)))
            else
             (let nodePort = firstNodePort (sv_ports svc) in
              if nodePort = 0 then ret None
              else bindP (firstNodeAddress A)
                     (\<lambda>host. if host = [] then ret None
                        else ret (Some (kserveConnectionDetails host (itoa nodePort)))))))"

section \<open>Properties\<close>

definition addressesOf :: "string \<Rightarrow> (string \<times> string) list \<Rightarrow> string list" where
  "addressesOf type as = filter (\<lambda>a. a \<noteq> []) (map snd (filter (\<lambda>(t, a). t = type) as))"

lemma addressesOf_simps [simp]:
  "addressesOf type [] = []"
  "addressesOf type ((t, a) # as) = (if t = type \<and> a \<noteq> [] then a # addressesOf type as else addressesOf type as)"
  by (simp_all add: addressesOf_def)

lemma node_kinds [simp]: "NodeInternalIP \<noteq> NodeExternalIP"
  by (simp add: NodeExternalIP_def NodeInternalIP_def)

lemma nodeAddress_eq:
  "nodeAddress i as = hd (addressesOf NodeExternalIP as @ (if i \<noteq> [] then [i] else []) @
     addressesOf NodeInternalIP as @ [[]])"
proof (induction i as rule: nodeAddress.induct)
  case (1 i)
  then show ?case by simp
next
  case (2 i t a as)
  then show ?case
    by (cases "addressesOf NodeExternalIP as"; cases "a = []"; cases "i = []") auto
qed

text \<open>
  A NodePort Service is published under an address clients can reach. firstNodeAddress
  returns the first non-empty external address of the nodes, else the first non-empty internal
  one, else nothing; an unreadable node list counts as no address, and nothing is written.
\<close>

theorem node_address_preference:
  "result (firstNodeAddress A) s =
     (case api_list A s nodeGVK None of
        Inl e \<Rightarrow> Inr []
      | Inr nodes \<Rightarrow>
          let as = concat (map nodeAddresses nodes)
          in Inr (hd (addressesOf NodeExternalIP as @ addressesOf NodeInternalIP as @ [[]]))) \<and>
   writes (firstNodeAddress A) s = []"
  by (simp add: firstNodeAddress_def run_writes nodeAddress_eq Let_def split: sum.split)

text \<open>
  The exposed Service follows the access path. Reconciling removes exactly the external
  Service when the resolved type is ClusterIP, and otherwise applies exactly the Service built for
  that type; nothing else is written. It forwards the given port to the target port and selects
  the given pods, and source ranges are set for load balancers only.
\<close>

theorem external_service_follows_type:
  "(if svcType = ClusterIP
    then writes (reconcileExternalService A L c spec svcType sel port tgt) s =
           [EvDelete (externalServiceRef c) (fst (api_delete A (externalServiceRef c) s))]
    else list_all (\<lambda>e. \<exists>r. e = EvPatch (ServerSideApply (cx_ref c)
             (KService (buildExternalService L c spec svcType sel port tgt))) r)
           (writes (reconcileExternalService A L c spec svcType sel port tgt) s)) \<and>
   sv_type (buildExternalService L c spec svcType sel port tgt) = svcType \<and>
   sv_selector (buildExternalService L c spec svcType sel port tgt) = sel \<and>
   map (\<lambda>p. (vp_port p, vp_targetPort p)) (sv_ports (buildExternalService L c spec svcType sel port tgt)) = [(port, tgt)] \<and>
   (svcType = LoadBalancer \<or> sv_sourceRanges (buildExternalService L c spec svcType sel port tgt) = []) \<and>
   metaRef serviceGVK (sv_meta (buildExternalService L c spec svcType sel port tgt)) = externalServiceRef c"
  by (simp add: reconcileExternalService_def deleteExternalService_def writes_Apply buildExternalService_def
      Let_def externalServiceRef_def metaRef_def split: option.split)

end
