(* ===== verification/PodMonitor.thy ===== *)
theory PodMonitor
  imports AIGateway
begin

text \<open>
  \<open>internal/provider/podmonitor.go\<close>: the Prometheus PodMonitor of an Instance, applied or removed
  by the chart and Instance flags, on clusters with and without the Prometheus Operator.
\<close>

definition podMonitorSuffix :: string where "podMonitorSuffix = ''-metrics''"

definition podMonitorGVK :: gvk where
  "podMonitorGVK = mkgvk ''monitoring.coreos.com'' ''v1'' ''PodMonitor''"

definition newPodMonitor :: "lib \<Rightarrow> string \<Rightarrow> string \<Rightarrow> string gmap \<Rightarrow> (string \<times> json) list \<Rightarrow> json" where
  "newPodMonitor L instanceName namespace selector endpoint =
     unstrObject podMonitorGVK
       (nameMeta (lib_childName L instanceName podMonitorSuffix) namespace
        @ [(''labels'', JObj [(lib_InstanceLabel L, JStr instanceName)])])
       [(''selector'', JObj [(''matchLabels'', JObj (map (\<lambda>(k, v). (k, JStr v)) selector))]),
        (''podMetricsEndpoints'', JArr [JObj endpoint])]"

definition buildPodMonitor ::
    "lib \<Rightarrow> string \<Rightarrow> string \<Rightarrow> string gmap \<Rightarrow> int \<Rightarrow> string \<Rightarrow> string \<Rightarrow> json" where
  "buildPodMonitor L instanceName namespace selector targetPort path interval =
     newPodMonitor L instanceName namespace selector
       [(''targetPort'', JInt targetPort), (''path'', JStr path), (''interval'', JStr interval)]"

definition predictorContainerPort :: int where "predictorContainerPort = 8080"

text \<open>The regular expression class of a digit: a backslash and a d.\<close>

definition digitClass :: string where "digitClass = [CHR 0x5C, CHR ''d'']"

definition buildPredictorPodMonitor :: "lib \<Rightarrow> string \<Rightarrow> string \<Rightarrow> string gmap \<Rightarrow> string \<Rightarrow> json" where
  "buildPredictorPodMonitor L instanceName namespace selector interval =
     newPodMonitor L instanceName namespace selector
       [(''path'', JStr ''/metrics''),
        (''interval'', JStr interval),
        (''relabelings'', JArr
          [JObj [(''sourceLabels'', JArr [JStr ''__meta_kubernetes_pod_container_name'']),
                 (''regex'', JStr ''kserve-container''),
                 (''action'', JStr ''keep'')],
           JObj [(''sourceLabels'', JArr [JStr ''__address__'']),
                 (''regex'', JStr (''([^:]+)(?::'' @ digitClass @ ''+)?'')),
                 (''replacement'', JStr (''$1:'' @ itoa predictorContainerPort)),
                 (''targetLabel'', JStr ''__address__'')],
           JObj [(''sourceLabels'', JArr [JStr ''__address__'',
                    JStr ''__meta_kubernetes_pod_annotation_prometheus_kserve_io_port'']),
                 (''regex'', JStr (''([^:]+):'' @ digitClass @ ''+;('' @ digitClass @ ''+)'')),
                 (''replacement'', JStr ''$1:$2''),
                 (''targetLabel'', JStr ''__address__'')],
           JObj [(''sourceLabels'', JArr [JStr ''__meta_kubernetes_pod_annotation_prometheus_kserve_io_path'']),
                 (''regex'', JStr ''(.+)''),
                 (''targetLabel'', JStr ''__metrics_path__'')]])]"

definition podMonitorRef :: "lib \<Rightarrow> ctx \<Rightarrow> objref" where
  "podMonitorRef L c = mkref podMonitorGVK (cx_namespace c) (lib_childName L (cx_name c) podMonitorSuffix)"

text \<open>\<open>meta.IsNoMatchError(err)\<close>\<close>

fun isNoMatch :: "kerror \<Rightarrow> bool" where
  "isNoMatch (ApiErr NoMatch) = True"
| "isNoMatch _ = False"

definition applyPodMonitor :: "'s api \<Rightarrow> lib \<Rightarrow> ctx \<Rightarrow> json \<Rightarrow> ('s, unit) prog" where
  "applyPodMonitor A L c pm s =
     (case Apply A L (cx_ref c) (KUnstr podMonitorGVK pm) s of
        (Inl e, es, s') \<Rightarrow> (if isNoMatch e then Inr () else Inl e, es, s')
      | (Inr u, es, s') \<Rightarrow> (Inr u, es, s'))"

definition deletePodMonitor :: "'s api \<Rightarrow> lib \<Rightarrow> ctx \<Rightarrow> ('s, unit) prog" where
  "deletePodMonitor A L c s =
     (case deleteP A (podMonitorRef L c) s of
        (Inl e, es, s') \<Rightarrow>
          (if isNoMatch e \<or> e = ApiErr NotFound then Inr () else Inl e, es, s')
      | (Inr u, es, s') \<Rightarrow> (Inr u, es, s'))"

definition syncPodMonitor :: "'s api \<Rightarrow> env \<Rightarrow> lib \<Rightarrow> ctx \<Rightarrow> bool \<Rightarrow> json \<Rightarrow> ('s, unit) prog" where
  "syncPodMonitor A E L c enabled pm =
     (if \<not> PodMonitorEnabled E \<or> \<not> enabled then deletePodMonitor A L c
      else applyPodMonitor A L c pm)"

section \<open>Runs\<close>

lemma applyPodMonitor_run [simp]:
  "writes (applyPodMonitor A L c pm) s = writes (Apply A L (cx_ref c) (KUnstr podMonitorGVK pm)) s"
  "effects (applyPodMonitor A L c pm) s = effects (Apply A L (cx_ref c) (KUnstr podMonitorGVK pm)) s"
  "final (applyPodMonitor A L c pm) s = final (Apply A L (cx_ref c) (KUnstr podMonitorGVK pm)) s"
  "result (applyPodMonitor A L c pm) s =
     (case result (Apply A L (cx_ref c) (KUnstr podMonitorGVK pm)) s of
        Inl e \<Rightarrow> if isNoMatch e then Inr () else Inl e | Inr u \<Rightarrow> Inr u)"
  by (auto simp: applyPodMonitor_def writes_def effects_def final_def result_def split: prod.splits sum.splits)

lemma deletePodMonitor_run [simp]:
  "writes (deletePodMonitor A L c) s = [EvDelete (podMonitorRef L c) (fst (api_delete A (podMonitorRef L c) s))]"
  "effects (deletePodMonitor A L c) s = [EvDelete (podMonitorRef L c) (fst (api_delete A (podMonitorRef L c) s))]"
  "final (deletePodMonitor A L c) s = snd (api_delete A (podMonitorRef L c) s)"
  "result (deletePodMonitor A L c) s =
     (case fst (api_delete A (podMonitorRef L c) s) of
        None \<Rightarrow> Inr () | Some NoMatch \<Rightarrow> Inr () | Some NotFound \<Rightarrow> Inr () | Some e \<Rightarrow> Inl (ApiErr e))"
  by (auto simp: deletePodMonitor_def deleteP_def writes_def effects_def final_def result_def
      split: prod.splits option.splits api_error.splits)

text \<open>
  Metrics never break a cluster without the Prometheus Operator. If the API answers every
  call on the PodMonitor with ``no such kind'', syncPodMonitor still succeeds, whatever the flags;
  and that error is never what it fails with, whatever the API does.
\<close>

theorem missing_operator_is_harmless:
  assumes "fst (api_patch A (ServerSideApply (cx_ref c) (KUnstr podMonitorGVK pm)) s) = Some NoMatch"
    and "fst (api_delete A (podMonitorRef L c) s) = Some NoMatch"
    and "lib_ownerError L (cx_ref c) (KUnstr podMonitorGVK pm) = None"
    and "lib_gvkError L (KUnstr podMonitorGVK pm) = None"
  shows "result (syncPodMonitor A E L c enabled pm) s = Inr () \<and>
    (\<forall>A' s'. result (syncPodMonitor A' E L c enabled pm) s' \<noteq> Inl (ApiErr NoMatch))"
  using assms by (auto simp: syncPodMonitor_def result_Apply split: option.split api_error.split)

definition bare_api :: "mem_state api" where
  "bare_api = mem_api\<lparr>api_patch := (\<lambda>p s. (Some NoMatch, s)), api_delete := (\<lambda>r s. (Some NoMatch, s))\<rparr>"

theorem missing_operator_is_harmless_witness:
  "result (syncPodMonitor bare_api (\<lambda>_. ''true'') demo_lib demo_ctx True JNull) ([], 0) = Inr ()"
  by (rule missing_operator_is_harmless [THEN conjunct1]) (simp_all add: bare_api_def mem_answers)

end
