(* ===== verification/Shared.thy ===== *)
theory Shared
  imports ExternalService PodMonitor
begin

text \<open>
  What the two topologies share besides resources: the status the runtime is told, connection
  details from a KServe URL and the text of a condition (\<open>inferenceservice.go\<close>), and the
  ServiceAccount that carries the Hugging Face token (\<open>llminferenceservice.go\<close>).
\<close>

text \<open>The constructors of the runtime's \<open>controller.Status\<close> that the provider uses.\<close>

datatype status =
    Provisioning string
  | Ready
  | ReadyWith connectionDetails
  | FailedStatus string

definition urlConnectionDetails :: "apis_url \<Rightarrow> connectionDetails" where
  "urlConnectionDetails u =
     (let (host, port) =
        (case cut '':'' (ur_host u) of
           (h, p, True) \<Rightarrow> (h, p)
         | _ \<Rightarrow> (ur_host u, if ur_scheme u = ''https'' then ''443'' else ''80''))
      in no_details\<lparr>cn_type := ''kserve'', cn_provider := ProviderName, cn_host := host, cn_port := port,
           cn_uri := ur_string u\<rparr>)"

definition conditionMessage :: "condition option \<Rightarrow> string \<Rightarrow> string" where
  "conditionMessage cond fallback =
     (case cond of
        None \<Rightarrow> fallback
      | Some cd \<Rightarrow>
          if cd_message cd \<noteq> [] then cd_message cd
          else if cd_reason cd \<noteq> [] then cd_reason cd
          else fallback)"

definition condTrue :: "condition option \<Rightarrow> bool" where
  "condTrue cond \<longleftrightarrow> (case cond of None \<Rightarrow> False | Some cd \<Rightarrow> cd_isTrue cd)"

definition modelPullerSAName :: "string \<Rightarrow> string" where
  "modelPullerSAName instance = instance @ ''-model-puller''"

definition modelPullerServiceAccount :: "env \<Rightarrow> ctx \<Rightarrow> serviceAccount" where
  "modelPullerServiceAccount E c =
     \<lparr>sa_meta = cx_objectMeta c (modelPullerSAName (cx_name c)), sa_secrets = [HFTokenSecretName E]\<rparr>"

definition ensureModelPullerServiceAccount :: "'s api \<Rightarrow> env \<Rightarrow> lib \<Rightarrow> ctx \<Rightarrow> ('s, unit) prog" where
  "ensureModelPullerServiceAccount A E L c =
     Apply A L (cx_ref c) (KServiceAccount (modelPullerServiceAccount E c))"

text \<open>
  The address of a URL is read back when it has a host without a colon; a bracketed IPv6 host is
  cut at its first colon.
\<close>

lemma urlConnectionDetails_host:
  assumes "CHR '':'' \<notin> set h"
  shows "cn_host (urlConnectionDetails \<lparr>ur_scheme = sch, ur_host = h @ CHR '':'' # p, ur_string = u\<rparr>) = h"
    and "cn_port (urlConnectionDetails \<lparr>ur_scheme = sch, ur_host = h @ CHR '':'' # p, ur_string = u\<rparr>) = p"
  using cut_append [OF assms, of p] by (simp_all add: urlConnectionDetails_def)

lemma ipv6_url_truncated:
  "cn_host (urlConnectionDetails \<lparr>ur_scheme = ''http'', ur_host = ''[fd00::1]:8080'',
     ur_string = ''http://[fd00::1]:8080''\<rparr>) = ''[fd00''"
  by (simp add: urlConnectionDetails_def)

section \<open>Programs that only read\<close>

definition readOnly :: "('s, 'a) prog \<Rightarrow> bool" where
  "readOnly m = emits (\<lambda>e. \<not> isWrite e) m"

lemma readOnly_writes: "readOnly m \<Longrightarrow> writes m s = []"
  by (auto simp: readOnly_def emits_def writes_def filter_empty_conv)

lemma readOnly_get [emits_intros]: "emits (\<lambda>e. \<not> isWrite e) (getP A ref)"
  and readOnly_list [emits_intros]: "emits (\<lambda>e. \<not> isWrite e) (listP A g sel)"
  by (simp_all add: emits_get emits_list)

lemma readOnly_readKey [emits_intros]: "emits (\<lambda>e. \<not> isWrite e) (readAIGatewayKey A c)"
  unfolding readAIGatewayKey_def by (intro emits_intros) (auto intro!: emits_intros split: kobject.split api_error.split)

lemma gatewayDetails_readOnly: "readOnly (aiGatewayConnectionDetails A E L c m base)"
  by (auto simp: readOnly_def aiGatewayConnectionDetails_def Let_def intro!: emits_intros
      split: sum.split prod.split nested.split list.split json.split)

lemma serviceDetails_readOnly: "readOnly (externalServiceConnectionDetails A c t port)"
  by (auto simp: readOnly_def externalServiceConnectionDetails_def firstNodeAddress_def Let_def
      intro!: emits_intros split: sum.split option.split)

section \<open>Access paths\<close>

text \<open>The writes that open a path to a model: a Service of the provider, a route on the gateway.\<close>

fun opensService :: "event \<Rightarrow> bool" where
  "opensService (EvPatch (ServerSideApply _ (KService _)) _) = True"
| "opensService (EvCreate _ (KService _) _) = True"
| "opensService _ = False"

fun opensRoute :: "event \<Rightarrow> bool" where
  "opensRoute (EvPatch (ServerSideApply _ (KUnstr g _)) _) = (g = aiGatewayRouteGVK)"
| "opensRoute (EvCreate _ (KUnstr g _) _) = (g = aiGatewayRouteGVK)"
| "opensRoute _ = False"

lemma podMonitor_not_route [simp]: "podMonitorGVK \<noteq> aiGatewayRouteGVK" "aiGatewayRouteGVK \<noteq> podMonitorGVK"
  by (simp_all add: podMonitorGVK_def aiGatewayRouteGVK_def mkgvk_def)

text \<open>\<open>opens gw e\<close>: the write opens the path that an Instance with (or without) the gateway must not have.\<close>

definition opens_wrong :: "bool \<Rightarrow> event \<Rightarrow> bool" where
  "opens_wrong gw e \<longleftrightarrow> (if gw then opensService e else opensRoute e)"

lemma keeps_key_opens: "keeps_key c e \<Longrightarrow> \<not> opensService e"
  by (cases e rule: opensService.cases) simp_all

lemma opens_ensureKey: "emits (\<lambda>e. \<not> opens_wrong True e) (ensureAIGatewayKey A L c)"
  using ensure_key_calls keeps_key_opens unfolding emits_def opens_wrong_def by metis

lemma opens_syncAIGateway: "emits (\<lambda>e. \<not> opens_wrong True e) (syncAIGateway A E L c m quota ref backends)"
  unfolding syncAIGateway_def deleteAIGatewayObject_def
  by (intro emits_intros emits_delete opens_ensureKey)
    (auto simp: opens_wrong_def intro!: emits_intros split: prod.split)

lemma opens_cleanup: "emits (\<lambda>e. \<not> opens_wrong gw e) (cleanupAIGateway A L c)"
  unfolding cleanupAIGateway_def deleteAIGatewayObject_def
  by (intro emits_intros emits_delete) (simp_all add: opens_wrong_def)

lemma opens_deleteService: "emits (\<lambda>e. \<not> opens_wrong gw e) (deleteExternalService A c)"
  by (simp add: deleteExternalService_def emits_delete opens_wrong_def)

lemma opens_reconcileService: "emits (\<lambda>e. \<not> opens_wrong False e) (reconcileExternalService A L c spec t sel p tp)"
  unfolding reconcileExternalService_def
  by (intro emits_intros opens_deleteService) (simp_all add: opens_wrong_def)

lemma opens_readOnly: "readOnly m \<Longrightarrow> emits (\<lambda>e. \<not> opens_wrong gw e) m"
proof -
  have "\<not> isWrite e \<Longrightarrow> \<not> opens_wrong gw e" for e
    by (cases e rule: isWrite.cases) (simp_all add: opens_wrong_def)
  then show "readOnly m \<Longrightarrow> ?thesis" unfolding readOnly_def emits_def by blast
qed

lemma opens_syncPodMonitor: "emits (\<lambda>e. \<not> opens_wrong gw e) (syncPodMonitor A E L c en pm)"
  using emits_Apply [of "\<lambda>e. \<not> opens_wrong gw e" "cx_ref c" "KUnstr podMonitorGVK pm" A L]
  by (simp add: emits_def syncPodMonitor_def opens_wrong_def)

lemma opens_serviceAccount: "emits (\<lambda>e. \<not> opens_wrong gw e) (ensureModelPullerServiceAccount A E L c)"
  unfolding ensureModelPullerServiceAccount_def
  by (intro emits_intros) (simp add: opens_wrong_def)

lemmas opens_intros = opens_ensureKey opens_syncAIGateway opens_cleanup opens_deleteService
  opens_reconcileService opens_syncPodMonitor opens_serviceAccount

end
