(* ===== verification/LlmService.thy ===== *)
theory LlmService
  imports LlmModel Shared
begin

text \<open>
  \<open>internal/provider/llminferenceservice.go\<close>: the validation of an Instance of the llm topology and
  its translation into an LLMInferenceService. \<open>llmSpec\<close> is the part of the translation that reads
  only the Instance; the engine flags, which depend on configurations in the cluster, follow it.
\<close>

section \<open>Constants\<close>

definition computeProfileCPU :: string where "computeProfileCPU = ''cpu''"
definition cpuProfileConfigName :: string where "cpuProfileConfigName = ''kserve-config-llm-cpu''"
definition cpuKVCacheEnvVar :: string where "cpuKVCacheEnvVar = ''VLLM_CPU_KVCACHE_SPACE''"
definition vllmServingPort :: int where "vllmServingPort = 8000"
definition gpuLibraryPathEnvVar :: string where "gpuLibraryPathEnvVar = ''LIBRARY_PATH''"
definition gpuLibraryPathValue :: string where
  "gpuLibraryPathValue = ''/usr/lib/x86_64-linux-gnu:/usr/local/cuda/lib64''"

definition gpuLibraryPathEnv :: envvar where
  "gpuLibraryPathEnv = envVar gpuLibraryPathEnvVar gpuLibraryPathValue"

definition workloadPodSelector :: "string \<Rightarrow> string gmap" where
  "workloadPodSelector instance =
     [(''app.kubernetes.io/name'', instance),
      (''app.kubernetes.io/part-of'', ''llminferenceservice''),
      (''kserve.io/component'', ''workload'')]"

section \<open>Validation\<close>

definition isCPUProfile :: "vllmCustomSpec \<Rightarrow> bool" where
  "isCPUProfile params = equalFold (vl_computeProfile params) computeProfileCPU"

definition llmEffectiveResources :: "component \<Rightarrow> resources option" where
  "llmEffectiveResources cmp =
     withGPUCount (co_resources cmp) (vl_gpuCount (co_vllm cmp)) (isCPUProfile (co_vllm cmp))"

definition above1 :: "int option \<Rightarrow> bool" where
  "above1 v \<longleftrightarrow> (case v of Some n \<Rightarrow> n > 1 | None \<Rightarrow> False)"

definition configGiven :: "vllmCustomSpec \<Rightarrow> bool" where
  "configGiven params \<longleftrightarrow> trimSpace (vl_config params) \<noteq> []"

definition parseLLMConfigSpec :: "lib \<Rightarrow> string \<Rightarrow> kerror + llmspec" where
  "parseLLMConfigSpec L raw =
     (case lib_parseLLMConfig L raw of
        Inl e \<Rightarrow> Inl (Wrap (LlmMsg LLMConfigInvalid) [] (LibErr e))
      | Inr spec \<Rightarrow> Inr spec)"

text \<open>The guards before the AI Gateway check, in order.\<close>

definition llmChecks :: "env \<Rightarrow> lib \<Rightarrow> component \<Rightarrow> llmTopologyParameters \<Rightarrow> kerror option" where
  "llmChecks E L cmp topo =
     (let params = co_vllm cmp in
      first_error
       [check (vl_modelURI params = []) (Err (LlmMsg ModelURIRequired) []),
        (case lib_parseURL L (vl_modelURI params) of
           Inl e \<Rightarrow> Some (Wrap (LlmMsg ModelURIInvalid) [vl_modelURI params] (LibErr e))
         | Inr _ \<Rightarrow> None),
        validateLLMModelSource L params,
        check (case co_replicas cmp of Some n \<Rightarrow> n < 0 | None \<Rightarrow> False) (Err (LlmMsg ReplicasNegative) []),
        check (above1 (vl_dataParallelSize params) \<and> above1 (vl_pipelineParallelSize params))
          (Err (LlmMsg DataPipelineExclusive) []),
        (if configGiven params
         then (case parseLLMConfigSpec L (vl_config params) of Inl e \<Rightarrow> Some e | Inr _ \<Rightarrow> None)
         else None),
        validateEngine (vl_engine params),
        check (case co_service cmp of
             Some sp \<Rightarrow> ss_serviceType sp \<notin> {[], ClusterIP, LoadBalancer, NodePort} | None \<Rightarrow> False)
          (Err (LlmMsg LlmServiceType) []),
        check (lp_externalAccess topo \<notin> {[], ExternalAccessClusterIP, ExternalAccessLoadBalancer,
             ExternalAccessNodePort, ExternalAccessEnvoyAIGateway})
          (Err (LlmMsg LlmExternalAccess) []),
        check (llm_UsesAIGateway topo \<and> \<not> AIGatewayEnabled E) (Err (LlmMsg LlmGatewayNotEnabled) [])])"

text \<open>The guards after it. The field names of the messages are those of the code.\<close>

definition llmWorkloadChecks ::
    "catalogs \<Rightarrow> lib \<Rightarrow> string \<Rightarrow> component \<Rightarrow> llmTopologyParameters \<Rightarrow> kerror option" where
  "llmWorkloadChecks K L name cmp topo =
     (let params = co_vllm cmp;
          decode = decodeScaling params;
          prefill = prefillScaling topo;
          cpu = isCPUProfile params;
          effRes = llmEffectiveResources cmp;
          topoField = (\<lambda>f. ''topology.parameters.'' @ f)
      in first_error
       [(case lp_tokenLimitPerHour topo of
           None \<Rightarrow> None
         | Some n \<Rightarrow> first_error
             [check (\<not> llm_UsesAIGateway topo) (Err (LlmMsg LlmTokenLimitNeedsGateway) []),
              check (n < 1) (Err (LlmMsg LlmTokenLimitPositive) [])]),
        validateWorkloadScaling decode (llmField ''minReplicas'') (llmField ''maxReplicas'')
          (llmField ''scalingActuator''),
        check (scaling_enabled prefill \<and> \<not> lp_enablePrefill topo) (Err (LlmMsg PrefillScalingNeedsPrefill) []),
        validateWorkloadScaling prefill (topoField ''prefillMinReplicas'') (topoField ''prefillMaxReplicas'')
          (topoField ''prefillScalingActuator''),
        check (scaling_enabled decode \<and> scaling_enabled prefill \<and>
            resolvedActuator (wsc_actuator decode) \<noteq> resolvedActuator (wsc_actuator prefill))
          (Err (LlmMsg ActuatorsDiffer) []),
        validateWorkerGroup (vl_workerCount params) (vl_pipelineParallelSize params)
          (vl_workerResources params \<noteq> None)
          (llmField ''workerCount'') (llmField ''pipelineParallelSize'') (llmField ''workerResources''),
        (case vl_gpuCount params of
           None \<Rightarrow> None
         | Some n \<Rightarrow> first_error
             [check cpu (Err (LlmMsg GpuCountOnCPU) []), check (n < 1) (Err (LlmMsg GpuCountTooSmall) [])]),
        validateTensorGPU effRes (vl_tensorParallelSize params) cpu (ComponentLlmEngine @ ''.resources''),
        (if vl_workerCount params \<noteq> None
         then validateTensorGPU (overlayResources effRes (vl_workerResources params))
                (vl_tensorParallelSize params) cpu (llmField ''workerResources'')
         else None),
        check ((lp_prefillWorkerCount topo \<noteq> None \<or> lp_prefillWorkerResources topo \<noteq> None) \<and> \<not> lp_enablePrefill topo)
          (Err (LlmMsg PrefillWorkersNeedPrefill) []),
        validateWorkerGroup (lp_prefillWorkerCount topo) (lp_prefillPipelineParallelSize topo)
          (lp_prefillWorkerResources topo \<noteq> None)
          (topoField ''prefillWorkerCount'') (topoField ''prefillPipelineParallelSize'')
          (topoField ''prefillWorkerResources''),
        (if lp_prefillWorkerCount topo \<noteq> None
         then validateTensorGPU (overlayResources effRes (lp_prefillWorkerResources topo))
                (vl_tensorParallelSize params) cpu (topoField ''prefillWorkerResources'')
         else None),
        validateLoRAParams K L name params])"

definition validateLLM :: "'s api \<Rightarrow> env \<Rightarrow> lib \<Rightarrow> catalogs \<Rightarrow> ctx \<Rightarrow> ('s, unit) prog" where
  "validateLLM A E L K c =
     (case gget (cx_components c) ComponentLlmEngine of
        None \<Rightarrow> failP (Err (LlmMsg LlmEngineRequired) [ComponentLlmEngine, TopologyLLM])
      | Some cmp \<Rightarrow>
         (let params = co_vllm cmp; topo = cx_llmTopology c in
          seqP (failIf (llmChecks E L cmp topo))
          (seqP (whenP (llm_UsesAIGateway topo)
                  (validateAIGatewayAccess A E L c (servedModelName (cx_name c) (vl_modelName params))
                     (''set a different '' @ llmField ''modelName'')))
                (failIf (llmWorkloadChecks K L (cx_name c) cmp topo)))))"

section \<open>Building the LLMInferenceService\<close>

definition gatewayRoutingEnabled :: "llmTopologyParameters \<Rightarrow> bool" where
  "gatewayRoutingEnabled topo \<longleftrightarrow> lp_enableGatewayRouting topo \<or> llm_UsesAIGateway topo"

definition routingConfigRefs :: "llmTopologyParameters \<Rightarrow> string list" where
  "routingConfigRefs topo =
     (if \<not> gatewayRoutingEnabled topo then []
      else ''kserve-config-llm-scheduler'' #
        (if lp_enableGatewayRouting topo then [''kserve-config-llm-router-route''] else []))"

definition gpuRolloutStrategy :: rollout where
  "gpuRolloutStrategy = \<lparr>ro_maxSurge = 0, ro_maxUnavailable = 1\<rparr>"

definition buildWorkerPodSpec :: "resources option \<Rightarrow> bool \<Rightarrow> podspec" where
  "buildWorkerPodSpec res gpu =
     (let ct = new_container ''main'';
          ct = (case res of Some r \<Rightarrow> ct\<lparr>ct_resources := r\<rparr> | None \<Rightarrow> ct);
          ct = (if gpu then ct\<lparr>ct_env := ct_env ct @ [gpuLibraryPathEnv]\<rparr> else ct)
      in new_podspec\<lparr>ps_containers := [ct]\<rparr>)"

definition applyLLMScheduling ::
    "lib \<Rightarrow> podspec \<Rightarrow> schedulingPolicy option \<Rightarrow> string gmap \<Rightarrow> resources option \<Rightarrow> podspec" where
  "applyLLMScheduling L pod policy podLabels res =
     (let pod = (case policy of
            None \<Rightarrow> pod
          | Some sp \<Rightarrow> pod\<lparr>ps_schedulerName := sp_schedulerName sp, ps_nodeSelector := sp_nodeSelector sp,
              ps_affinity := sp_affinity sp, ps_tolerations := sp_tolerations sp,
              ps_topologySpread := lib_topologySpread L sp podLabels\<rparr>)
      in if requestsGPU res then pod\<lparr>ps_tolerations := withGPUTolerations (ps_tolerations pod) res\<rparr> else pod)"

definition llmParallelism :: "vllmCustomSpec \<Rightarrow> parallelism option" where
  "llmParallelism params =
     (let expert = equalFold (vl_expertParallel params) ExpertParallelEnabled;
          dataParallel = above1 (vl_dataParallelSize params)
      in if vl_tensorParallelSize params \<noteq> None \<or> vl_pipelineParallelSize params \<noteq> None \<or> dataParallel \<or> expert
         then Some \<lparr>pl_tensor = vl_tensorParallelSize params,
                pl_pipeline = (if dataParallel then None else vl_pipelineParallelSize params),
                pl_data = (if dataParallel then vl_dataParallelSize params else None),
                pl_dataLocal = (if dataParallel then vl_dataParallelSize params else None),
                pl_expert = expert\<rparr>
         else None)"

text \<open>The resources and environment the Instance sets on a main container; None when it sets none.\<close>

definition mainResources :: "bool \<Rightarrow> resources \<Rightarrow> resources" where
  "mainResources cpu res = (if cpu then mirrorLimitsToRequests res else res)"

definition mainOverride :: "bool \<Rightarrow> resources option \<Rightarrow> int option \<Rightarrow> podspec option" where
  "mainOverride cpu effRes kvCacheSpaceGi =
     (let ct = new_container ''main'';
          ct = (case effRes of Some r \<Rightarrow> ct\<lparr>ct_resources := mainResources cpu r\<rparr> | None \<Rightarrow> ct);
          kv = (if cpu then kvCacheSpaceGi else None);
          ct = (case kv of
              Some n \<Rightarrow> ct\<lparr>ct_env := ct_env ct @ [envVar cpuKVCacheEnvVar (itoa (if n < 1 then 1 else n))]\<rparr>
            | None \<Rightarrow> ct);
          ct = (if \<not> cpu then ct\<lparr>ct_env := ct_env ct @ [gpuLibraryPathEnv]\<rparr> else ct)
      in if effRes \<noteq> None \<or> kv \<noteq> None \<or> \<not> cpu then Some (new_podspec\<lparr>ps_containers := [ct]\<rparr>) else None)"

text \<open>The head template: override, ServiceAccount of the Hugging Face token, scheduling.\<close>

definition scheduleTemplate ::
    "lib \<Rightarrow> schedulingPolicy option \<Rightarrow> string gmap \<Rightarrow> resources option \<Rightarrow> podspec option \<Rightarrow> podspec option" where
  "scheduleTemplate L policy labels effRes template =
     (if policy \<noteq> None \<or> requestsGPU effRes
      then Some (applyLLMScheduling L (orNewPod template) policy labels effRes)
      else template)"

definition llmTemplate :: "env \<Rightarrow> lib \<Rightarrow> ctx \<Rightarrow> component \<Rightarrow> podspec option" where
  "llmTemplate E L c cmp =
     (let params = co_vllm cmp; cpu = isCPUProfile params; effRes = llmEffectiveResources cmp;
          template = mainOverride cpu effRes (vl_kvCacheSpaceGi params);
          template = (if HFTokenSecretName E \<noteq> []
            then Some ((orNewPod template)\<lparr>ps_serviceAccountName := modelPullerSAName (cx_name c)\<rparr>)
            else template)
      in scheduleTemplate L (co_scheduling cmp) (cx_podLabels c ComponentLlmEngine) effRes template)"

definition workerTemplate ::
    "lib \<Rightarrow> ctx \<Rightarrow> component \<Rightarrow> int option \<Rightarrow> resources option \<Rightarrow> podspec option" where
  "workerTemplate L c cmp workerCount workerResources =
     (case workerCount of
        None \<Rightarrow> None
      | Some _ \<Rightarrow>
         (let res = overlayResources (llmEffectiveResources cmp) workerResources
          in Some (applyLLMScheduling L
                (buildWorkerPodSpec res (\<not> isCPUProfile (co_vllm cmp)))
                (co_scheduling cmp) (cx_podLabels c ComponentLlmEngine) res)))"

definition llmBaseRefs :: "ctx \<Rightarrow> component \<Rightarrow> llmTopologyParameters \<Rightarrow> string list" where
  "llmBaseRefs c cmp topo =
     (let params = co_vllm cmp in
      (if isCPUProfile params then [cpuProfileConfigName] else [])
      @ routingConfigRefs topo
      @ vl_baseRefs params
      @ (if configGiven params then [instanceConfigName (cx_name c)] else []))"

definition llmPrefill :: "lib \<Rightarrow> ctx \<Rightarrow> component \<Rightarrow> llmTopologyParameters \<Rightarrow> workload" where
  "llmPrefill L c cmp topo =
     (let cpu = isCPUProfile (co_vllm cmp); effRes = llmEffectiveResources cmp;
          labels = cx_podLabels c ComponentLlmEngine; scale = prefillScaling topo
      in \<lparr>wl_labels = labels,
          wl_replicas = (if scaling_enabled scale then None else lp_prefillReplicas topo),
          wl_scaling = (if scaling_enabled scale then buildScalingSpec scale else None),
          wl_parallelism = (case lp_prefillPipelineParallelSize topo of
              None \<Rightarrow> None
            | Some p \<Rightarrow> Some \<lparr>pl_tensor = None, pl_pipeline = Some p, pl_data = None,
                pl_dataLocal = None, pl_expert = False\<rparr>),
          wl_rollout = (if cpu then None else Some gpuRolloutStrategy),
          wl_template = scheduleTemplate L (co_scheduling cmp) labels effRes (mainOverride cpu effRes None),
          wl_worker = workerTemplate L c cmp (lp_prefillWorkerCount topo) (lp_prefillWorkerResources topo)\<rparr>)"

definition llmSpecBase :: "env \<Rightarrow> lib \<Rightarrow> ctx \<Rightarrow> component \<Rightarrow> string \<Rightarrow> lora_spec option \<Rightarrow> llmspec" where
  "llmSpecBase E L c cmp uri lora =
     (let params = co_vllm cmp; topo = cx_llmTopology c; decode = decodeScaling params
      in \<lparr>wl_labels = cx_podLabels c ComponentLlmEngine,
            wl_replicas = (if scaling_enabled decode then None else co_replicas cmp),
            wl_scaling = (if scaling_enabled decode then buildScalingSpec decode else None),
            wl_parallelism = llmParallelism params,
            wl_rollout = (if isCPUProfile params then None else Some gpuRolloutStrategy),
            wl_template = llmTemplate E L c cmp,
            wl_worker = workerTemplate L c cmp (vl_workerCount params) (vl_workerResources params),
            ls_model = \<lparr>mo_uri = uri, mo_name = Some (servedModelName (cx_name c) (vl_modelName params)),
                        mo_lora = lora\<rparr>,
            ls_baseRefs = llmBaseRefs c cmp topo,
            ls_routeRefs = (if llm_UsesAIGateway topo then Some [aiGatewayRouteName L (cx_name c)] else None),
            ls_storageInitializer = map_option Not (vl_disableStorageInitializer params),
            ls_prefill = (if lp_enablePrefill topo then Some (llmPrefill L c cmp topo) else None),
            ls_tracing = None\<rparr>)"

definition llmSpec ::
    "env \<Rightarrow> lib \<Rightarrow> ctx \<Rightarrow> component \<Rightarrow> string \<Rightarrow> lora_spec option \<Rightarrow> resources option \<Rightarrow> llmspec" where
  "llmSpec E L c cmp uri lora storageInitResources =
     applyImagePullSecret
       (applyStorageInitializerResources (llmSpecBase E L c cmp uri lora) (co_vllm cmp) storageInitResources)
       (vl_imagePullSecret (co_vllm cmp))"

definition applyTracing :: "llmTopologyParameters \<Rightarrow> llmspec \<Rightarrow> llmspec" where
  "applyTracing topo spec =
     (if lp_enableTracing topo
      then let ep = trimSpace (lp_tracingEndpoint topo)
           in spec\<lparr>ls_tracing := Some (if ep \<noteq> [] then Some ep else None)\<rparr>
      else spec)"

definition new_llm_status :: llm_status where
  "new_llm_status = \<lparr>lt_ready = None, lt_url = None, lt_workloads = None\<rparr>"

definition buildLLMInferenceService ::
    "'s api \<Rightarrow> env \<Rightarrow> lib \<Rightarrow> catalogs \<Rightarrow> ctx \<Rightarrow> ('s, kobject) prog" where
  "buildLLMInferenceService A E L K c =
     (let cmp = cx_component c ComponentLlmEngine; params = co_vllm cmp; topo = cx_llmTopology c in
      if vl_modelURI params = [] then failP (Err (LlmMsg ModelURIRequired) [])
      else case lib_parseURL L (vl_modelURI params) of
          Inl e \<Rightarrow> failP (Wrap (LlmMsg ModelURIInvalid) [vl_modelURI params] (LibErr e))
        | Inr None \<Rightarrow> failP Panic
        | Inr (Some uri) \<Rightarrow>
          bindP (liftR (buildModelLoRA K L params)) (\<lambda>lora.
          bindP (liftR (StorageInitializerResources (lib_parseResources L) E)) (\<lambda>storageInit.
           (let spec = llmSpec E L c cmp uri lora storageInit;
                flags = engineArgs L (vl_engine params)
            in bindP
                (if flags = [] then ret spec
                 else
                  bindP (if configGiven params
                         then bindP (liftR (parseLLMConfigSpec L (vl_config params))) (\<lambda>p. ret (Some p))
                         else ret None) (\<lambda>inline.
                  bindP (resolveInheritedArgs A E c (ls_baseRefs spec) inline no_inheritedArgs) (\<lambda>inherited.
                    ret (applyEngineArgs spec inherited flags))))
                (\<lambda>spec. ret (KLLM (cx_objectMeta c (cx_name c)) (applyTracing topo spec) new_llm_status))))))"

section \<open>What KServe admits\<close>

text \<open>
  Rules of KServe's webhook the builder has to respect: static replicas or autoscaling, data or
  pipeline parallelism, and a local size with every data-parallel size.
\<close>

definition admissible :: "('a) workload_scheme \<Rightarrow> bool" where
  "admissible w \<longleftrightarrow>
     (wl_replicas w = None \<or> wl_scaling w = None) \<and>
     (case wl_parallelism w of
        None \<Rightarrow> True
      | Some p \<Rightarrow> (pl_data p = None \<or> pl_pipeline p = None) \<and> pl_dataLocal p = pl_data p \<and>
          (case pl_data p of None \<Rightarrow> True | Some d \<Rightarrow> d > 1))"

lemma patchWorkload_keeps [simp]:
  "wl_replicas (patchWorkload f w) = wl_replicas w" "wl_scaling (patchWorkload f w) = wl_scaling w"
  "wl_parallelism (patchWorkload f w) = wl_parallelism w" "wl_labels (patchWorkload f w) = wl_labels w"
  "wl_rollout (patchWorkload f w) = wl_rollout w"
  by (simp_all add: patchWorkload_def)

lemma patchModelPods_keeps [simp]:
  "wl_replicas (patchModelPods f s) = wl_replicas s" "wl_scaling (patchModelPods f s) = wl_scaling s"
  "wl_parallelism (patchModelPods f s) = wl_parallelism s" "wl_labels (patchModelPods f s) = wl_labels s"
  "wl_rollout (patchModelPods f s) = wl_rollout s"
  "ls_prefill (patchModelPods f s) = map_option (patchWorkload f) (ls_prefill s)"
  by (simp_all add: patchModelPods_def)

lemma admissible_patch [simp]:
  "admissible (patchWorkload f w) = admissible w" "admissible (patchModelPods f s) = admissible s"
  by (simp_all add: admissible_def)

text \<open>The two patches at the end of \<open>llmSpec\<close>, as one list of patches.\<close>

lemma llmSpec_patches:
  "\<exists>fs. (\<forall>f \<in> set fs. \<forall>pod. ps_containers (f pod) = ps_containers pod \<and> ps_tolerations (f pod) = ps_tolerations pod) \<and>
     applyImagePullSecret (applyStorageInitializerResources spec params res) name = foldr patchModelPods fs spec"
proof -
  have "\<exists>fs. (\<forall>f \<in> set fs. \<forall>pod. ps_containers (f pod) = ps_containers pod \<and> ps_tolerations (f pod) = ps_tolerations pod) \<and>
      applyStorageInitializerResources spec params res = foldr patchModelPods fs spec"
  proof (cases "applyStorageInitializerResources spec params res = spec")
    case True
    then show ?thesis by (intro exI [of _ "[]"]) simp
  next
    case False
    then obtain r where "applyStorageInitializerResources spec params res =
        patchModelPods (\<lambda>pod. pod\<lparr>ps_initContainers := ps_initContainers pod @
           [(new_container storageInitializerContainerName)\<lparr>ct_resources := r\<rparr>]\<rparr>) spec"
      by (auto simp: applyStorageInitializerResources_def split: option.splits if_splits)
    then show ?thesis
      by (intro exI [of _ "[\<lambda>pod. pod\<lparr>ps_initContainers := ps_initContainers pod @
           [(new_container storageInitializerContainerName)\<lparr>ct_resources := r\<rparr>]\<rparr>]"]) simp
  qed
  then obtain fs where fs: "\<forall>f \<in> set fs. \<forall>pod. ps_containers (f pod) = ps_containers pod \<and> ps_tolerations (f pod) = ps_tolerations pod"
    "applyStorageInitializerResources spec params res = foldr patchModelPods fs spec" by blast
  show ?thesis
  proof (cases "name = []")
    case True
    with fs show ?thesis by (auto simp: applyImagePullSecret_def)
  next
    case False
    with fs show ?thesis
      by (intro exI [of _ "(\<lambda>pod. pod\<lparr>ps_imagePullSecrets := ps_imagePullSecrets pod @ [name]\<rparr>) # fs"])
        (simp add: applyImagePullSecret_def)
  qed
qed

lemma foldr_patches_keep:
  "admissible (foldr patchModelPods fs spec) = admissible spec"
  "(case ls_prefill (foldr patchModelPods fs spec) of None \<Rightarrow> True | Some pf \<Rightarrow> admissible pf) =
     (case ls_prefill spec of None \<Rightarrow> True | Some pf \<Rightarrow> admissible pf)"
  by (induction fs) (auto split: option.splits)

text \<open>
  C14: KServe's admission rules hold by construction. Whatever the Instance says, the generated
  spec and its prefill workload never combine static replicas with autoscaling, nor data with
  pipeline parallelism, and set the local data-parallel size exactly when they set the global one,
  which is then greater than 1.
\<close>

theorem built_spec_admissible:
  "admissible (llmSpec E L c cmp uri lora res) \<and>
   (case ls_prefill (llmSpec E L c cmp uri lora res) of None \<Rightarrow> True | Some pf \<Rightarrow> admissible pf)"
proof -
  let ?base = "llmSpecBase E L c cmp uri lora"
  obtain fs where fs: "llmSpec E L c cmp uri lora res = foldr patchModelPods fs ?base"
    unfolding llmSpec_def using llmSpec_patches by blast
  have "admissible ?base"
    by (simp add: admissible_def llmSpecBase_def llmParallelism_def above1_def Let_def split: option.split)
  moreover have "case ls_prefill ?base of None \<Rightarrow> True | Some pf \<Rightarrow> admissible pf"
    by (simp add: admissible_def llmSpecBase_def llmPrefill_def Let_def split: option.split)
  ultimately show ?thesis unfolding fs foldr_patches_keep by simp
qed

section \<open>GPUs\<close>

text \<open>
  A pod that can run a model split over \<open>t\<close> GPUs: a main container, the limit, and the taint of the
  GPU nodes tolerated for every value, as far as the tolerations \<open>ts\<close> of the scheduling policy do
  not mention the key themselves.
\<close>

definition policyTolerations :: "schedulingPolicy option \<Rightarrow> toleration list" where
  "policyTolerations policy = (case policy of None \<Rightarrow> [] | Some sp \<Rightarrow> sp_tolerations sp)"

definition gpu_ready :: "int \<Rightarrow> toleration list \<Rightarrow> podspec \<Rightarrow> bool" where
  "gpu_ready t ts pod \<longleftrightarrow>
     list_ex (\<lambda>ct. ct_name ct = mainContainerName) (ps_containers pod) \<and>
     list_all (\<lambda>ct. case gget (rq_limits (ct_resources ct)) nvidiaGPUResource of None \<Rightarrow> False | Some q \<Rightarrow> t \<le> qValue q)
       (ps_containers pod) \<and>
     (\<forall>v. tolerated (ps_tolerations pod) nvidiaGPUResource v \<longleftrightarrow>
        tolerated ts nvidiaGPUResource v \<or> \<not> mentions ts nvidiaGPUResource)"

definition podReady :: "int \<Rightarrow> toleration list \<Rightarrow> podspec option \<Rightarrow> bool" where
  "podReady t ts pod \<longleftrightarrow> (case pod of None \<Rightarrow> False | Some p \<Rightarrow> gpu_ready t ts p)"

text \<open>The templates an Instance configures: one pod for the head and, where it asks for them, the others.\<close>

definition prefillSlot :: "(workload \<Rightarrow> podspec option) \<Rightarrow> llmspec \<Rightarrow> podspec option" where
  "prefillSlot f spec = Option.bind (ls_prefill spec) f"

definition instancePods :: "llmTopologyParameters \<Rightarrow> vllmCustomSpec \<Rightarrow> llmspec \<Rightarrow> podspec option list" where
  "instancePods topo params spec =
     wl_template spec #
     (if vl_workerCount params = None then [] else [wl_worker spec]) @
     (if lp_enablePrefill topo
      then prefillSlot wl_template spec #
        (if lp_prefillWorkerCount topo = None then [] else [prefillSlot wl_worker spec])
      else [])"

definition enough_gpus :: "int \<Rightarrow> resources option \<Rightarrow> bool" where
  "enough_gpus t res \<longleftrightarrow>
     (case res of None \<Rightarrow> False
      | Some r \<Rightarrow> (case gget (rq_limits r) nvidiaGPUResource of None \<Rightarrow> False | Some q \<Rightarrow> t \<le> qValue q))"

lemma nvidia_is_gpu [simp]: "isGPUResource nvidiaGPUResource"
  by (simp add: isGPUResource_def hasSuffix_def nvidiaGPUResource_def)

lemma qValue_zero [simp]: "qValue 0 = 0"
  by (simp add: qValue_def zero_quantity_def)

lemma enough_requests:
  assumes "enough_gpus t res" "1 \<le> t"
  shows "requestsGPU res"
proof -
  obtain r q where r: "res = Some r" "gget (rq_limits r) nvidiaGPUResource = Some q" "t \<le> qValue q"
    using assms(1) by (auto simp: enough_gpus_def split: option.splits)
  then have "q \<noteq> 0" using assms(2) by auto
  then show ?thesis
    using gget_mem [OF r(2)] by (auto simp: requestsGPU_def r(1) list_ex_iff intro!: bexI [of _ "(nvidiaGPUResource, q)"])
qed

lemma withGPUTolerations_nvidia:
  assumes "enough_gpus t res"
  shows "tolerated (withGPUTolerations ts res) nvidiaGPUResource v \<longleftrightarrow>
    tolerated ts nvidiaGPUResource v \<or> \<not> mentions ts nvidiaGPUResource"
proof -
  obtain r q where "res = Some r" "gget (rq_limits r) nvidiaGPUResource = Some q"
    using assms by (auto simp: enough_gpus_def split: option.splits)
  then show ?thesis using gpu_tolerated [of r nvidiaGPUResource ts v] by (simp add: ghas_def)
qed

lemma scheduling_containers [simp]: "ps_containers (applyLLMScheduling L pod policy labels res) = ps_containers pod"
  by (simp add: applyLLMScheduling_def Let_def split: option.split)

lemma scheduling_tolerates:
  assumes "enough_gpus t res" "1 \<le> t" "ps_tolerations pod = []"
  shows "tolerated (ps_tolerations (applyLLMScheduling L pod policy labels res)) nvidiaGPUResource v \<longleftrightarrow>
    tolerated (policyTolerations policy) nvidiaGPUResource v \<or> \<not> mentions (policyTolerations policy) nvidiaGPUResource"
  using enough_requests [OF assms(1,2)] assms(3)
  by (simp add: applyLLMScheduling_def policyTolerations_def withGPUTolerations_nvidia [OF assms(1)] Let_def
      split: option.split)

lemma overlay_enough:
  assumes "enough_gpus 1 head" "validateTensorGPU (overlayResources head ov) (Some t) False path = None" "1 \<le> t"
  shows "enough_gpus t (overlayResources head ov)"
proof -
  obtain h q where h: "head = Some h" "gget (rq_limits h) nvidiaGPUResource = Some q"
    using assms(1) by (auto simp: enough_gpus_def split: option.splits)
  obtain r q' where r: "overlayResources head ov = Some r" "gget (rq_limits r) nvidiaGPUResource = Some q'"
  proof (cases ov)
    case None
    then show ?thesis using h that by (simp add: overlayResources_def)
  next
    case (Some a)
    let ?r = "h\<lparr>rq_limits := gcopy (rq_limits h) (rq_limits a), rq_requests := gcopy (rq_requests h) (rq_requests a)\<rparr>"
    have "\<exists>q'. gget (rq_limits ?r) nvidiaGPUResource = Some q'"
      using h(2) by (simp add: gget_gcopy split: option.split)
    then show ?thesis using that [of ?r] Some h(1) by (auto simp: overlayResources_def)
  qed
  then show ?thesis using assms(2,3) by (simp add: validateTensorGPU_def enough_gpus_def)
qed

lemma effective_enough:
  assumes "\<not> isCPUProfile (co_vllm cmp)" "1 \<le> t"
    and "validateTensorGPU (llmEffectiveResources cmp) (Some t) False path = None"
  shows "enough_gpus t (llmEffectiveResources cmp)"
proof -
  obtain r q where "llmEffectiveResources cmp = Some r" "gget (rq_limits r) nvidiaGPUResource = Some q"
    using withGPUCount_limit [OF assms(1)] unfolding llmEffectiveResources_def by blast
  then show ?thesis using assms(2,3) by (simp add: validateTensorGPU_def enough_gpus_def)
qed

lemma enough_mono: "enough_gpus t res \<Longrightarrow> u \<le> t \<Longrightarrow> enough_gpus u res"
  by (auto simp: enough_gpus_def split: option.splits)

lemma worker_ready:
  assumes "enough_gpus t (overlayResources (llmEffectiveResources cmp) wr)" "1 \<le> t"
    and "\<not> isCPUProfile (co_vllm cmp)" "workerTemplate L c cmp n wr = Some pod"
  shows "gpu_ready t (policyTolerations (co_scheduling cmp)) pod"
proof -
  let ?res = "overlayResources (llmEffectiveResources cmp) wr"
  have pod: "pod = applyLLMScheduling L (buildWorkerPodSpec ?res True) (co_scheduling cmp)
      (cx_podLabels c ComponentLlmEngine) ?res"
    using assms(3,4) by (simp add: workerTemplate_def Let_def split: option.splits)
  have "ps_tolerations (buildWorkerPodSpec ?res True) = []"
    by (simp add: buildWorkerPodSpec_def Let_def new_podspec_def)
  moreover obtain r where "?res = Some r" using assms(1) by (auto simp: enough_gpus_def split: option.splits)
  ultimately show ?thesis
    using assms(1) scheduling_tolerates [OF assms(1,2)]
    by (auto simp: gpu_ready_def pod buildWorkerPodSpec_def Let_def new_container_def mainContainerName_def
        enough_gpus_def split: option.splits)
qed

lemma head_ready:
  assumes "enough_gpus t res" "1 \<le> t"
    and "ps_containers (orNewPod tmpl) = ps_containers (orNewPod (mainOverride False res kv))"
    and "ps_tolerations (orNewPod tmpl) = []"
  shows "\<exists>pod. scheduleTemplate L policy labels res tmpl = Some pod \<and> gpu_ready t (policyTolerations policy) pod"
proof -
  obtain r where r: "res = Some r" using assms(1) by (auto simp: enough_gpus_def split: option.splits)
  have "scheduleTemplate L policy labels res tmpl = Some (applyLLMScheduling L (orNewPod tmpl) policy labels res)"
    using enough_requests [OF assms(1,2)] by (simp add: scheduleTemplate_def)
  moreover have "gpu_ready t (policyTolerations policy) (applyLLMScheduling L (orNewPod tmpl) policy labels res)"
    using assms(1) scheduling_tolerates [OF assms(1,2,4)] assms(3)
    by (auto simp: gpu_ready_def r mainOverride_def mainResources_def orNewPod_def Let_def new_container_def
        mainContainerName_def enough_gpus_def split: option.splits)
  ultimately show ?thesis by blast
qed

text \<open>What later steps keep: the patches of the builder, and the engine flags appended to main.\<close>

lemma patched_slots:
  "podReady t ts (wl_template spec) \<Longrightarrow> podReady t ts (wl_template (patchModelPods f spec))"
  "podReady t ts (wl_worker spec) \<Longrightarrow> podReady t ts (wl_worker (patchModelPods f spec))"
  "podReady t ts (prefillSlot wl_template spec) \<Longrightarrow> podReady t ts (prefillSlot wl_template (patchModelPods f spec))"
  "podReady t ts (prefillSlot wl_worker spec) \<Longrightarrow> podReady t ts (prefillSlot wl_worker (patchModelPods f spec))"
  "wl_worker (patchModelPods f spec) = None \<longleftrightarrow> wl_worker spec = None"
  "ls_prefill (patchModelPods f spec) = None \<longleftrightarrow> ls_prefill spec = None"
  "prefillSlot wl_worker (patchModelPods f spec) = None \<longleftrightarrow> prefillSlot wl_worker spec = None"
  if "\<And>pod. ps_containers (f pod) = ps_containers pod \<and> ps_tolerations (f pod) = ps_tolerations pod"
proof -
  have f: "gpu_ready t ts (f pod) = gpu_ready t ts pod" for pod using that by (simp add: gpu_ready_def)
  show "podReady t ts (wl_template spec) \<Longrightarrow> podReady t ts (wl_template (patchModelPods f spec))"
    "podReady t ts (wl_worker spec) \<Longrightarrow> podReady t ts (wl_worker (patchModelPods f spec))"
    "podReady t ts (prefillSlot wl_template spec) \<Longrightarrow> podReady t ts (prefillSlot wl_template (patchModelPods f spec))"
    "podReady t ts (prefillSlot wl_worker spec) \<Longrightarrow> podReady t ts (prefillSlot wl_worker (patchModelPods f spec))"
    "wl_worker (patchModelPods f spec) = None \<longleftrightarrow> wl_worker spec = None"
    "ls_prefill (patchModelPods f spec) = None \<longleftrightarrow> ls_prefill spec = None"
    "prefillSlot wl_worker (patchModelPods f spec) = None \<longleftrightarrow> prefillSlot wl_worker spec = None"
    by (cases "ls_prefill spec"; auto simp: podReady_def prefillSlot_def patchModelPods_def patchWorkload_def
        orNewPod_def f split: option.splits)+
qed

definition slotsReady :: "int \<Rightarrow> toleration list \<Rightarrow> llmTopologyParameters \<Rightarrow> vllmCustomSpec \<Rightarrow> llmspec \<Rightarrow> bool" where
  "slotsReady t ts topo params spec \<longleftrightarrow>
     list_all (podReady t ts) (instancePods topo params spec) \<and>
     (vl_workerCount params = None \<longrightarrow> wl_worker spec = None) \<and>
     (\<not> lp_enablePrefill topo \<longrightarrow> ls_prefill spec = None) \<and>
     (lp_prefillWorkerCount topo = None \<longrightarrow> prefillSlot wl_worker spec = None)"

lemma patches_keep_slots:
  assumes "\<forall>f \<in> set fs. \<forall>pod. ps_containers (f pod) = ps_containers pod \<and> ps_tolerations (f pod) = ps_tolerations pod"
    and "slotsReady t ts topo params spec"
  shows "slotsReady t ts topo params (foldr patchModelPods fs spec)"
  using assms(1)
proof (induction fs)
  case Nil
  then show ?case using assms(2) by simp
next
  case (Cons f fs)
  then have f: "\<And>pod. ps_containers (f pod) = ps_containers pod \<and> ps_tolerations (f pod) = ps_tolerations pod"
    and IH: "slotsReady t ts topo params (foldr patchModelPods fs spec)" by simp_all
  from IH show ?case
    by (simp add: slotsReady_def instancePods_def patched_slots [OF f] split: if_splits)
qed

lemma slots_all_pods:
  assumes "slotsReady t ts topo params spec"
  shows "list_all (gpu_ready t ts) (modelPods spec)"
  using assms
  by (auto simp: slotsReady_def instancePods_def podReady_def prefillSlot_def modelPods_def map_filter_simps
      split: option.splits if_splits)

lemma setMainArgs_ready:
  assumes "gpu_ready t ts pod"
  shows "gpu_ready t ts (setMainArgs pod inherited flags)"
proof -
  let ?set = "setFirst (\<lambda>ct. ct_name ct = mainContainerName) (\<lambda>ct. ct\<lparr>ct_args := Some (inherited @ flags)\<rparr>) (ps_containers pod)"
  have "?set \<noteq> None" using assms by (auto simp: setFirst_None gpu_ready_def list_all_iff list_ex_iff)
  then obtain cs where cs: "?set = Some cs" by blast
  from setFirst_Some [OF cs] assms cs show ?thesis
    by (auto simp: setMainArgs_def Let_def gpu_ready_def)
qed

lemma engine_keeps_slots:
  assumes "list_all (podReady t ts) (instancePods topo params spec)"
  shows "list_all (podReady t ts) (instancePods topo params (applyEngineArgs spec i flags))"
proof -
  have some: "podReady t ts pod \<Longrightarrow> gpu_ready t ts (setMainArgs (orNewPod pod) inherited flags)" for pod inherited
    by (auto simp: podReady_def orNewPod_def setMainArgs_ready split: option.splits)
  have "podReady t ts (wl_template spec) \<Longrightarrow> podReady t ts (wl_template (applyEngineArgs spec i flags))"
    "podReady t ts (wl_worker spec) \<Longrightarrow> podReady t ts (wl_worker (applyEngineArgs spec i flags))"
    "podReady t ts (prefillSlot wl_template spec) \<Longrightarrow> podReady t ts (prefillSlot wl_template (applyEngineArgs spec i flags))"
    "podReady t ts (prefillSlot wl_worker spec) \<Longrightarrow> podReady t ts (prefillSlot wl_worker (applyEngineArgs spec i flags))"
    using some [of "wl_template spec"] some [of "wl_worker spec"]
      some [of "prefillSlot wl_template spec"] some [of "prefillSlot wl_worker spec"]
    by (auto simp: podReady_def prefillSlot_def applyEngineArgs_def applyToTemplate_def applyToWorker_def Let_def
        split: option.splits)
  with assms show ?thesis by (simp add: instancePods_def split: if_splits)
qed

lemma llmSpec_slots:
  assumes "llmWorkloadChecks K L name cmp (cx_llmTopology c) = None"
    and "\<not> isCPUProfile (co_vllm cmp)"
    and "vl_tensorParallelSize (co_vllm cmp) = Some t" "1 \<le> t"
  shows "slotsReady t (policyTolerations (co_scheduling cmp)) (cx_llmTopology c) (co_vllm cmp)
    (llmSpec E L c cmp uri lora res)"
proof -
  let ?params = "co_vllm cmp" and ?topo = "cx_llmTopology c" and ?eff = "llmEffectiveResources cmp"
    and ?ts = "policyTolerations (co_scheduling cmp)"
  let ?base = "llmSpecBase E L c cmp uri lora"
  have eff: "enough_gpus t ?eff"
    using assms by (auto intro!: effective_enough simp: llmWorkloadChecks_def Let_def)
  have eff1: "enough_gpus 1 ?eff" using enough_mono [OF eff assms(4)] .
  have worker: "enough_gpus t (overlayResources ?eff (vl_workerResources ?params))" if "vl_workerCount ?params \<noteq> None"
    using assms that by (auto intro!: overlay_enough [OF eff1] simp: llmWorkloadChecks_def Let_def)
  have pworker: "enough_gpus t (overlayResources ?eff (lp_prefillWorkerResources ?topo))" if "lp_prefillWorkerCount ?topo \<noteq> None"
    using assms that by (auto intro!: overlay_enough [OF eff1] simp: llmWorkloadChecks_def Let_def)
  have head: "\<exists>pod. llmTemplate E L c cmp = Some pod \<and> gpu_ready t ?ts pod"
    unfolding llmTemplate_def Let_def
    by (rule head_ready [OF eff assms(4), where kv = "vl_kvCacheSpaceGi ?params"])
      (auto simp: assms(2) orNewPod_def mainOverride_def Let_def new_podspec_def)
  have phead: "\<exists>pod. wl_template (llmPrefill L c cmp ?topo) = Some pod \<and> gpu_ready t ?ts pod"
    unfolding llmPrefill_def Let_def workload.select_convs
    by (rule head_ready [OF eff assms(4), where kv = None])
      (auto simp: assms(2) orNewPod_def mainOverride_def Let_def new_podspec_def)
  have ready_worker: "podReady t ?ts (workerTemplate L c cmp (vl_workerCount ?params) (vl_workerResources ?params))"
    if "vl_workerCount ?params \<noteq> None"
    using worker [OF that] that worker_ready [OF _ assms(4,2)]
    by (auto simp: podReady_def workerTemplate_def Let_def split: option.split)
  have ready_pworker: "podReady t ?ts (workerTemplate L c cmp (lp_prefillWorkerCount ?topo) (lp_prefillWorkerResources ?topo))"
    if "lp_prefillWorkerCount ?topo \<noteq> None"
    using pworker [OF that] that worker_ready [OF _ assms(4,2)]
    by (auto simp: podReady_def workerTemplate_def Let_def split: option.split)
  have base: "wl_template ?base = llmTemplate E L c cmp"
    "wl_worker ?base = workerTemplate L c cmp (vl_workerCount ?params) (vl_workerResources ?params)"
    "ls_prefill ?base = (if lp_enablePrefill ?topo then Some (llmPrefill L c cmp ?topo) else None)"
    "wl_worker (llmPrefill L c cmp ?topo) = workerTemplate L c cmp (lp_prefillWorkerCount ?topo) (lp_prefillWorkerResources ?topo)"
    by (simp_all add: llmSpecBase_def llmPrefill_def Let_def)
  have ready_head: "podReady t ?ts (llmTemplate E L c cmp)" "podReady t ?ts (wl_template (llmPrefill L c cmp ?topo))"
    using head phead by (auto simp: podReady_def)
  have none: "workerTemplate L c cmp None r = None" for r by (simp add: workerTemplate_def)
  have slots: "slotsReady t ?ts ?topo ?params ?base"
    using ready_head ready_worker ready_pworker
    by (simp add: slotsReady_def instancePods_def prefillSlot_def base none)
  obtain fs where fs: "\<forall>f \<in> set fs. \<forall>pod. ps_containers (f pod) = ps_containers pod \<and> ps_tolerations (f pod) = ps_tolerations pod"
    "llmSpec E L c cmp uri lora res = foldr patchModelPods fs ?base"
    unfolding llmSpec_def using llmSpec_patches by blast
  from patches_keep_slots [OF fs(1) slots] show ?thesis unfolding fs(2) .
qed

text \<open>A built service: the spec, the engine flags on its templates, tracing.\<close>

lemma built_llm_spec:
  assumes "result (buildLLMInferenceService A E L K c) s = Inr (KLLM m spec st)"
  shows "\<exists>url lora res i.
    spec = applyTracing (cx_llmTopology c)
      (if engineArgs L (vl_engine (co_vllm (cx_component c ComponentLlmEngine))) = []
       then llmSpec E L c (cx_component c ComponentLlmEngine) url lora res
       else applyEngineArgs (llmSpec E L c (cx_component c ComponentLlmEngine) url lora res) i
         (engineArgs L (vl_engine (co_vllm (cx_component c ComponentLlmEngine)))))"
  using assms
  by (auto simp: buildLLMInferenceService_def run_bind Let_def split: if_splits sum.splits option.splits)

lemma tracing_pods:
  "instancePods topo params (applyTracing topo' spec) = instancePods topo params spec"
  "modelPods (applyTracing topo' spec) = modelPods spec"
proof -
  have "wl_template (applyTracing topo' spec) = wl_template spec" "wl_worker (applyTracing topo' spec) = wl_worker spec"
    "ls_prefill (applyTracing topo' spec) = ls_prefill spec"
    by (simp_all add: applyTracing_def Let_def)
  then show "instancePods topo params (applyTracing topo' spec) = instancePods topo params spec"
    "modelPods (applyTracing topo' spec) = modelPods spec"
    by (simp_all only: instancePods_def modelPods_def prefillSlot_def)
qed

lemma validateLLM_facts:
  assumes "result (validateLLM A E L K c) s = Inr ()"
  shows "\<exists>cmp. gget (cx_components c) ComponentLlmEngine = Some cmp \<and>
     llmChecks E L cmp (cx_llmTopology c) = None \<and>
     llmWorkloadChecks K L (cx_name c) cmp (cx_llmTopology c) = None"
  using assms
  by (auto simp: validateLLM_def Let_def result_seqP simp del: first_error_None split: option.splits sum.splits)


definition demo_component :: component where
  "demo_component = zero_component\<lparr>co_vllm := zero_vllm\<lparr>vl_modelURI := ''hf://m'',
     vl_tensorParallelSize := Some 2, vl_gpuCount := Some 2\<rparr>\<rparr>"

definition demo_llm_ctx :: ctx where
  "demo_llm_ctx = demo_ctx\<lparr>cx_components := [(ComponentLlmEngine, demo_component)]\<rparr>"

lemma demo_profile: "\<not> isCPUProfile (co_vllm demo_component)"
  by (simp add: isCPUProfile_def demo_component_def zero_vllm_def equalFold_def computeProfileCPU_def
      kelvin_sign_def long_s_def)

lemma demo_workload_ok: "llmWorkloadChecks no_catalogs demo_lib ''demo'' demo_component (cx_llmTopology demo_llm_ctx) = None"
proof -
  have eff: "gget (rq_limits (the (llmEffectiveResources demo_component))) nvidiaGPUResource = Some (newQuantity 2)"
    using demo_profile by (simp add: llmEffectiveResources_def withGPUCount_def Let_def demo_component_def zero_vllm_def)
  show ?thesis
    using eff demo_profile
    by (auto simp: llmWorkloadChecks_def demo_llm_ctx_def demo_ctx_def zero_llmTopology_def demo_component_def
        zero_vllm_def zero_component_def validateWorkloadScaling_def scaling_enabled_def decodeScaling_def
        prefillScaling_def validateWorkerGroup_def validateTensorGPU_def validateLoRAParams_def
        validateLoRASlots_def trimSpace_Nil resolvedLoRAAdapters_def LoraDeploymentEnabled_def Let_def
        split: option.split)
qed

section \<open>Validated Instances build\<close>

definition configs_readable :: "'s api \<Rightarrow> env \<Rightarrow> ctx \<Rightarrow> 's \<Rightarrow> bool" where
  "configs_readable A E c s \<longleftrightarrow> (\<forall>ref. \<exists>cfg. result (getLLMConfig A E c ref) s = Inr cfg)"

lemma resolve_total:
  assumes "configs_readable A E c s"
  shows "\<exists>i'. result (resolveInheritedArgs A E c refs inline i) s = Inr i'"
proof (induction refs arbitrary: i)
  case Nil
  then show ?case by simp
next
  case (Cons ref refs)
  obtain cfg where cfg: "result (getLLMConfig A E c ref) s = Inr cfg"
    using assms unfolding configs_readable_def by blast
  have "final (getLLMConfig A E c ref) s = s" by (simp add: getLLMConfig_def getLLMConfigIn_final)
  with cfg Cons.IH show ?case by (auto simp: run_bind split: option.split)
qed

lemma checked_llm_builds:
  assumes "result (validateLLM A E L K c) s = Inr ()"
    and "urls_ok L" "configs_readable A E c s'"
    and "StorageInitializerResources (lib_parseResources L) E = Inr res"
  shows "\<exists>spec. result (buildLLMInferenceService A E L K c) s' =
     Inr (KLLM (cx_objectMeta c (cx_name c)) spec new_llm_status)"
proof -
  obtain cmp where cmp: "gget (cx_components c) ComponentLlmEngine = Some cmp"
    and checks: "llmChecks E L cmp (cx_llmTopology c) = None"
    and work: "llmWorkloadChecks K L (cx_name c) cmp (cx_llmTopology c) = None"
    using validateLLM_facts [OF assms(1)] by blast
  let ?params = "co_vllm cmp"
  have component: "cx_component c ComponentLlmEngine = cmp" by (simp add: cx_component_def ggetd_def cmp)
  have uri: "vl_modelURI ?params \<noteq> []" using checks by (auto simp: llmChecks_def Let_def)
  obtain u where "lib_parseURL L (vl_modelURI ?params) = Inr u"
    using checks by (auto simp: llmChecks_def Let_def split: sum.splits)
  with uri assms(2) obtain url where url: "lib_parseURL L (vl_modelURI ?params) = Inr (Some url)"
    by (cases u) (auto simp: urls_ok_def)
  have "validateLoRAParams K L (cx_name c) ?params = None"
    using work by (simp add: llmWorkloadChecks_def Let_def)
  from lora_builds [OF assms(2) this] obtain lora where lora: "buildModelLoRA K L ?params = Inr lora" by blast
  have config: "configGiven ?params \<Longrightarrow> \<exists>p. parseLLMConfigSpec L (vl_config ?params) = Inr p"
    using checks by (auto simp: llmChecks_def Let_def split: sum.splits)
  have total: "\<exists>i'. result (resolveInheritedArgs A E c refs inline i) s' = Inr i'" for refs inline i
    by (rule resolve_total [OF assms(3)])
  show ?thesis
  proof (cases "configGiven ?params")
    case True
    then obtain p where p: "parseLLMConfigSpec L (vl_config ?params) = Inr p" using config by blast
    obtain i where "result (resolveInheritedArgs A E c
        (ls_baseRefs (llmSpec E L c cmp url lora res)) (Some p) no_inheritedArgs) s' = Inr i"
      using total by blast
    then show ?thesis
      by (simp add: buildLLMInferenceService_def Let_def component uri url lora assms(4) True p run_bind)
  next
    case False
    obtain i where "result (resolveInheritedArgs A E c
        (ls_baseRefs (llmSpec E L c cmp url lora res)) None no_inheritedArgs) s' = Inr i"
      using total by blast
    then show ?thesis
      by (simp add: buildLLMInferenceService_def Let_def component uri url lora assms(4) False run_bind)
  qed
qed

text \<open>
  C7: What validation accepts can be built. If validateLLM accepts an Instance, the chart's
  storage-initializer setting is valid and the base configurations can be read (a missing one is
  fine), then buildLLMInferenceService returns an LLMInferenceService of the Instance's name:
  validation leaves no parse error, no LoRA error and no nil URL to the builder.
\<close>

theorem validated_llm_builds:
  assumes "result (validateLLM A E L K c) s = Inr ()"
    and "urls_ok L" "configs_readable A E c s'"
    and "StorageInitializerResources (lib_parseResources L) E = Inr res"
  shows "\<exists>spec. result (buildLLMInferenceService A E L K c) s' =
     Inr (KLLM (cx_objectMeta c (cx_name c)) spec new_llm_status)"
  using assms by (rule checked_llm_builds)

lemma demo_checks_ok: "llmChecks (\<lambda>_. []) demo_lib demo_component (cx_llmTopology demo_llm_ctx) = None"
  by (simp add: llmChecks_def demo_component_def zero_component_def zero_vllm_def demo_lib_def
      validateLLMModelSource_def uriScheme_def llmModelSchemes_def storageDisabled_def above1_def configGiven_def
      trimSpace_Nil validateEngine_def demo_llm_ctx_def demo_ctx_def zero_llmTopology_def llm_UsesAIGateway_def
      externalAccess_defs Let_def)

lemma demo_llm_valid: "result (validateLLM A (\<lambda>_. []) demo_lib no_catalogs demo_llm_ctx) s = Inr ()"
  using demo_checks_ok demo_workload_ok
  by (simp add: validateLLM_def demo_llm_ctx_def demo_ctx_def zero_llmTopology_def llm_UsesAIGateway_def
      externalAccess_defs result_seqP whenP_def Let_def)

lemma demo_llm_parameters:
  "urls_ok demo_lib"
  "configs_readable mem_api (\<lambda>_. []) demo_llm_ctx ([], 0)"
  "StorageInitializerResources (lib_parseResources demo_lib) (\<lambda>_. []) = Inr None"
  by (simp_all add: urls_ok_def demo_lib_def StorageInitializerResources_def)
    (simp add: configs_readable_def getLLMConfig_def configNamespaces_def run_bind mem_answers
      KServeNamespace_def demo_llm_ctx_def demo_ctx_def)

lemma demo_build:
  "\<exists>spec. result (buildLLMInferenceService mem_api (\<lambda>_. []) demo_lib no_catalogs demo_llm_ctx) ([], 0) =
     Inr (KLLM (demo_meta ''demo'') spec new_llm_status)"
  using checked_llm_builds [OF demo_llm_valid demo_llm_parameters]
  by (simp add: demo_llm_ctx_def demo_ctx_def)


theorem validated_llm_builds_witness:
  "\<exists>spec. result (buildLLMInferenceService mem_api (\<lambda>_. []) demo_lib no_catalogs demo_llm_ctx) ([], 0) =
     Inr (KLLM (cx_objectMeta demo_llm_ctx (cx_name demo_llm_ctx)) spec new_llm_status)"
  by (rule validated_llm_builds [OF demo_llm_valid demo_llm_parameters])

end
