(* ===== verification/LlmSync.thy ===== *)
theory LlmSync
  imports LlmService
begin

text \<open>
  \<open>internal/provider/llminferenceservice.go\<close>, continued: the reconcile of an Instance of the llm
  topology and the translation of the LLMInferenceService's status.
\<close>

section \<open>Sync\<close>

definition llmConfigMeta :: "ctx \<Rightarrow> objmeta" where
  "llmConfigMeta c = cx_objectMeta c (instanceConfigName (cx_name c))"

definition ensureLLMConfig :: "'s api \<Rightarrow> lib \<Rightarrow> ctx \<Rightarrow> ('s, unit) prog" where
  "ensureLLMConfig A L c =
     (let params = co_vllm (cx_component c ComponentLlmEngine) in
      if \<not> configGiven params then ret ()
      else bindP (liftR (parseLLMConfigSpec L (vl_config params)))
             (\<lambda>spec. Apply A L (cx_ref c) (KLLMConfig (llmConfigMeta c) spec)))"

definition ensureExternalService :: "'s api \<Rightarrow> lib \<Rightarrow> ctx \<Rightarrow> ('s, unit) prog" where
  "ensureExternalService A L c =
     (let cmp = cx_component c ComponentLlmEngine;
          svcType = resolveServiceType (llm_ResolvedServiceType (cx_llmTopology c)) (co_service cmp)
      in reconcileExternalService A L c (co_service cmp) svcType (workloadPodSelector (cx_name c))
           vllmServingPort vllmServingPort)"

text \<open>The end of \<open>syncLLM\<close>: how the model is published.\<close>

definition llmAccess :: "'s api \<Rightarrow> env \<Rightarrow> lib \<Rightarrow> ctx \<Rightarrow> ('s, unit) prog" where
  "llmAccess A E L c =
     (let topo = cx_llmTopology c in
      if llm_UsesAIGateway topo
      then seqP (deleteExternalService A c)
             (syncAIGateway A E L c
                (servedModelName (cx_name c) (vl_modelName (co_vllm (cx_component c ComponentLlmEngine))))
                (lp_tokenLimitPerHour topo) (inferencePoolBackendRef L (cx_name c)) [])
      else seqP (whenP (AIGatewayEnabled E) (cleanupAIGateway A L c)) (ensureExternalService A L c))"

definition llmPodMonitor :: "env \<Rightarrow> lib \<Rightarrow> ctx \<Rightarrow> json" where
  "llmPodMonitor E L c =
     buildPodMonitor L (cx_name c) (cx_namespace c) (workloadPodSelector (cx_name c)) vllmServingPort
       ''/metrics'' (PodMonitorInterval E)"

definition syncLLM :: "'s api \<Rightarrow> env \<Rightarrow> lib \<Rightarrow> catalogs \<Rightarrow> ctx \<Rightarrow> ('s, unit) prog" where
  "syncLLM A E L K c =
     seqP (whenP (HFTokenSecretName E \<noteq> []) (ensureModelPullerServiceAccount A E L c))
     (seqP (ensureLLMConfig A L c)
     (bindP (buildLLMInferenceService A E L K c) (\<lambda>llmisvc.
      seqP (Apply A L (cx_ref c) llmisvc)
      (seqP (syncPodMonitor A E L c (llm_MetricsEnabled (cx_llmTopology c)) (llmPodMonitor E L c))
            (llmAccess A E L c)))))"

section \<open>Status\<close>

definition unservedWorkload :: "workload_status option \<Rightarrow> string" where
  "unservedWorkload ws =
     (case ws of
        None \<Rightarrow> []
      | Some w \<Rightarrow>
         (case find (\<lambda>o'. ow_readyReplicas o' = None \<or> ow_readyReplicas o' = Some 0)
                 (List.map_filter (\<lambda>x. x) [ws_primary w, ws_prefill w]) of
            Some o' \<Rightarrow> ''Waiting for '' @ ow_kind o' @ '' '' @ ow_name o' @ '' to have a ready pod''
          | None \<Rightarrow> []))"

fun asLLM :: "kobject \<Rightarrow> llm_status option" where
  "asLLM (KLLM m spec st) = Some st"
| "asLLM _ = None"

definition workloadServiceHost :: "ctx \<Rightarrow> llm_status \<Rightarrow> string" where
  "workloadServiceHost c st =
     (let name = (case lt_workloads st of
            Some ws \<Rightarrow> (case ws_service ws of
                Some n \<Rightarrow> if n \<noteq> [] then n else cx_name c @ ''-kserve-workload-svc''
              | None \<Rightarrow> cx_name c @ ''-kserve-workload-svc'')
          | None \<Rightarrow> cx_name c @ ''-kserve-workload-svc'')
      in name @ ''.'' @ cx_namespace c @ ''.svc.cluster.local'')"

definition llmConnectionDetails :: "'s api \<Rightarrow> ctx \<Rightarrow> llm_status \<Rightarrow> ('s, connectionDetails option) prog" where
  "llmConnectionDetails A c st =
     (case lt_url st of
        Some u \<Rightarrow> ret (Some (urlConnectionDetails u))
      | None \<Rightarrow>
         (let cmp = cx_component c ComponentLlmEngine;
              svcType = resolveServiceType (llm_ResolvedServiceType (cx_llmTopology c)) (co_service cmp)
          in if svcType = LoadBalancer \<or> svcType = NodePort
             then externalServiceConnectionDetails A c svcType vllmServingPort
             else ret (Some (kserveConnectionDetails (workloadServiceHost c st) (itoa vllmServingPort)))))"

definition statusLLM :: "'s api \<Rightarrow> env \<Rightarrow> lib \<Rightarrow> ctx \<Rightarrow> ('s, status) prog" where
  "statusLLM A E L c =
     bindP (getP A (metaRef llmGVK (cx_objectMeta c (cx_name c))))
       (\<lambda>r. case (case r of Inl _ \<Rightarrow> None | Inr obj \<Rightarrow> asLLM obj) of
           None \<Rightarrow> ret (Provisioning ''Waiting for LLMInferenceService'')
         | Some st \<Rightarrow>
           (if condTrue (lt_ready st)
            then let waiting = unservedWorkload (lt_workloads st) in
              if waiting \<noteq> [] then ret (Provisioning waiting)
              else if llm_UsesAIGateway (cx_llmTopology c)
              then bindP (aiGatewayConnectionDetails A E L c
                     (servedModelName (cx_name c) (vl_modelName (co_vllm (cx_component c ComponentLlmEngine))))
                     openAIBasePath)
                   (\<lambda>(details, waiting).
                      if waiting \<noteq> [] then ret (Provisioning waiting) else ret (ReadyWith details))
              else bindP (llmConnectionDetails A c st)
                   (\<lambda>d. case d of Some details \<Rightarrow> ret (ReadyWith details) | None \<Rightarrow> ret Ready)
            else ret (Provisioning (conditionMessage (lt_ready st) ''LLMInferenceService is being created''))))"

section \<open>Properties of Sync\<close>

definition saEvents :: "env \<Rightarrow> ctx \<Rightarrow> event list" where
  "saEvents E c =
     (if HFTokenSecretName E = [] then []
      else [EvPatch (ServerSideApply (cx_ref c) (KServiceAccount (modelPullerServiceAccount E c))) None])"

definition configEvents :: "lib \<Rightarrow> ctx \<Rightarrow> event list" where
  "configEvents L c =
     (let params = co_vllm (cx_component c ComponentLlmEngine) in
      if \<not> configGiven params then []
      else case parseLLMConfigSpec L (vl_config params) of
          Inl e \<Rightarrow> []
        | Inr spec \<Rightarrow> [EvPatch (ServerSideApply (cx_ref c) (KLLMConfig (llmConfigMeta c) spec)) None])"

lemma resolve_readOnly: "readOnly (resolveInheritedArgs A E c refs inline i)"
  unfolding readOnly_def
proof (induction refs arbitrary: i)
  case Nil
  then show ?case by (simp add: emits_ret)
next
  case (Cons ref refs)
  have "emits (\<lambda>e. \<not> isWrite e) (getLLMConfigIn A name nss)" for name nss
    by (induction nss) (auto intro!: emits_intros split: api_error.split)
  with Cons.IH show ?case by (auto simp: getLLMConfig_def intro!: emits_intros split: option.split)
qed

lemma buildLLM_readOnly: "readOnly (buildLLMInferenceService A E L K c)"
  using resolve_readOnly [of A E c]
  by (auto simp: buildLLMInferenceService_def Let_def readOnly_def intro!: emits_intros split: sum.split option.split)

lemma whenP_success:
  assumes "b \<Longrightarrow> result m s = Inr () \<Longrightarrow> writes m s = es" "result (whenP b m) s = Inr ()"
  shows "writes (whenP b m) s = (if b then es else [])"
  using assms by (simp add: whenP_def split: if_splits)

lemma ensureLLMConfig_success:
  assumes "result (ensureLLMConfig A L c) s = Inr ()"
  shows "writes (ensureLLMConfig A L c) s = configEvents L c"
proof (cases "configGiven (co_vllm (cx_component c ComponentLlmEngine))")
  case False
  then show ?thesis by (simp add: ensureLLMConfig_def configEvents_def)
next
  case True
  with assms obtain spec where spec: "parseLLMConfigSpec L (vl_config (co_vllm (cx_component c ComponentLlmEngine))) = Inr spec"
    by (auto simp: ensureLLMConfig_def result_bindP split: sum.splits)
  with assms True have "result (Apply A L (cx_ref c) (KLLMConfig (llmConfigMeta c) spec)) s = Inr ()"
    by (simp add: ensureLLMConfig_def result_bindP)
  from Apply_success [OF this] show ?thesis
    by (simp add: ensureLLMConfig_def configEvents_def True spec writes_bindP)
qed

lemma ensureSA_success:
  assumes "result (whenP (HFTokenSecretName E \<noteq> []) (ensureModelPullerServiceAccount A E L c)) s = Inr ()"
  shows "writes (whenP (HFTokenSecretName E \<noteq> []) (ensureModelPullerServiceAccount A E L c)) s = saEvents E c"
  using assms Apply_success
  by (auto simp: whenP_def saEvents_def ensureModelPullerServiceAccount_def split: if_splits)

text \<open>
  C9: The workload is applied after what it depends on, and published last. When syncLLM succeeds,
  its writes are, in this order: the ServiceAccount with the Hugging Face token (when the chart has
  one), the inline configuration (when the Instance has one), the LLMInferenceService that was
  built, the PodMonitor, and the access path; the first three were accepted.
\<close>

theorem llm_sync_order:
  assumes "result (syncLLM A E L K c) s = Inr ()"
  shows "\<exists>llm s1 s2 s3.
     result (buildLLMInferenceService A E L K c) s1 = Inr llm \<and>
     result (llmAccess A E L c) s3 = Inr () \<and>
     writes (syncLLM A E L K c) s =
       saEvents E c @ configEvents L c @ [EvPatch (ServerSideApply (cx_ref c) llm) None] @
       writes (syncPodMonitor A E L c (llm_MetricsEnabled (cx_llmTopology c)) (llmPodMonitor E L c)) s2 @
       writes (llmAccess A E L c) s3"
proof -
  from runs_result [OF assms] obtain llm sa sb sc sd se w1 w2 w3 w4 w5 w6 where
    steps: "runs (whenP (HFTokenSecretName E \<noteq> []) (ensureModelPullerServiceAccount A E L c)) s () sa w1"
      "runs (ensureLLMConfig A L c) sa () sb w2" "runs (buildLLMInferenceService A E L K c) sb llm sc w3"
      "runs (Apply A L (cx_ref c) llm) sc () sd w4"
      "runs (syncPodMonitor A E L c (llm_MetricsEnabled (cx_llmTopology c)) (llmPodMonitor E L c)) sd () se w5"
      "runs (llmAccess A E L c) se () (final (syncLLM A E L K c) s) w6"
    and w: "writes (syncLLM A E L K c) s = w1 @ w2 @ w3 @ w4 @ w5 @ w6"
    unfolding syncLLM_def by (auto simp only: runs_parts)
  have "w1 = saEvents E c" "w2 = configEvents L c" "w3 = []" "w4 = [EvPatch (ServerSideApply (cx_ref c) llm) None]"
    using steps(1-3) ensureSA_success ensureLLMConfig_success readOnly_writes [OF buildLLM_readOnly] runs_Apply [OF steps(4)]
    by (auto simp: runs_def)
  with w steps(3,5,6) show ?thesis
    by (intro exI [of _ llm] exI [of _ sb] exI [of _ sd] exI [of _ se]) (simp add: runs_def)
qed

lemma demo_params: "co_vllm (cx_component demo_llm_ctx ComponentLlmEngine) =
    zero_vllm\<lparr>vl_modelURI := ''hf://m'', vl_tensorParallelSize := Some 2, vl_gpuCount := Some 2\<rparr>"
  by (simp add: demo_llm_ctx_def cx_component_def ggetd_def demo_component_def)

lemma resolve_final: "final (resolveInheritedArgs A E c refs inline i) s = s"
proof (induction refs arbitrary: i)
  case Nil
  then show ?case by simp
next
  case (Cons ref refs)
  have "final (getLLMConfig A E c r) s = s" for r by (simp add: getLLMConfig_def getLLMConfigIn_final)
  with Cons.IH show ?case by (cases inline) (auto simp: run_bind split: sum.split option.split)
qed

lemma buildLLM_final: "final (buildLLMInferenceService A E L K c) s = s"
  by (auto simp: buildLLMInferenceService_def Let_def run_bind resolve_final split: sum.split option.split)

lemma demo_sync: "result (syncLLM mem_api (\<lambda>_. []) demo_lib no_catalogs demo_llm_ctx) ([], 0) = Inr ()"
proof -
  obtain spec where build: "result (buildLLMInferenceService mem_api (\<lambda>_. []) demo_lib no_catalogs demo_llm_ctx) ([], 0) =
      Inr (KLLM (demo_meta ''demo'') spec new_llm_status)"
    using demo_build by blast
  have config: "ensureLLMConfig mem_api demo_lib demo_llm_ctx = ret ()"
    by (simp add: ensureLLMConfig_def demo_params configGiven_def zero_vllm_def trimSpace_Nil)
  have "result (llmAccess mem_api (\<lambda>_. []) demo_lib demo_llm_ctx) s = Inr ()" for s
    by (simp add: llmAccess_def demo_llm_ctx_def demo_ctx_def zero_llmTopology_def llm_UsesAIGateway_def
        externalAccess_defs AIGatewayEnabled_def ensureExternalService_def llm_ResolvedServiceType_def
        resolveServiceType_def cx_component_def ggetd_def demo_component_def zero_component_def
        reconcileExternalService_def deleteExternalService_def mem_answers run_writes whenP_def)
  then show ?thesis
    by (simp add: syncLLM_def whenP_def HFTokenSecretName_def config run_writes build mem_answers
        syncPodMonitor_def PodMonitorEnabled_def buildLLM_final)
qed

theorem llm_sync_order_witness:
  "\<exists>llm. EvPatch (ServerSideApply (cx_ref demo_llm_ctx) llm) None \<in>
     set (writes (syncLLM mem_api (\<lambda>_. []) demo_lib no_catalogs demo_llm_ctx) ([], 0))"
  using llm_sync_order [OF demo_sync] by force

section \<open>One access path\<close>

lemma opens_llmAccess: "emits (\<lambda>e. \<not> opens_wrong (llm_UsesAIGateway (cx_llmTopology c)) e) (llmAccess A E L c)"
  by (auto simp: llmAccess_def ensureExternalService_def Let_def intro!: emits_intros opens_intros
      dest: sym)

lemma opens_config: "emits (\<lambda>e. \<not> opens_wrong gw e) (ensureLLMConfig A L c)"
  by (auto simp: ensureLLMConfig_def opens_wrong_def Let_def intro!: emits_intros)

lemma buildLLM_kind:
  "result (buildLLMInferenceService A E L K c) s = Inr x \<Longrightarrow> \<exists>spec. x = KLLM (cx_objectMeta c (cx_name c)) spec new_llm_status"
  by (auto simp: buildLLMInferenceService_def Let_def run_bind split: sum.splits option.splits if_splits)

lemma opens_applyLLM:
  assumes "emits (\<lambda>e. \<not> opens_wrong gw e) m"
  shows "emits (\<lambda>e. \<not> opens_wrong gw e)
     (bindP (buildLLMInferenceService A E L K c) (\<lambda>llmisvc. seqP (Apply A L (cx_ref c) llmisvc) m))"
proof -
  have llm: "emits (\<lambda>e. \<not> opens_wrong gw e) (seqP (Apply A L (cx_ref c) (KLLM meta spec st)) m)" for meta spec st
    using assms by (intro emits_intros) (simp_all add: opens_wrong_def)
  show ?thesis
    unfolding emits_def
  proof
    fix s
    show "\<forall>e \<in> set (effects (bindP (buildLLMInferenceService A E L K c)
        (\<lambda>llmisvc. seqP (Apply A L (cx_ref c) llmisvc) m)) s). \<not> opens_wrong gw e"
      using opens_readOnly [OF buildLLM_readOnly, of gw A E L K c] llm
      by (cases "result (buildLLMInferenceService A E L K c) s")
        (auto simp: emits_def effects_bindP dest: buildLLM_kind)
  qed
qed

lemma opens_syncLLM: "emits (\<lambda>e. \<not> opens_wrong (llm_UsesAIGateway (cx_llmTopology c)) e) (syncLLM A E L K c)"
  unfolding syncLLM_def
  by (intro emits_seq emits_when opens_applyLLM opens_llmAccess opens_config opens_syncPodMonitor opens_serviceAccount)

text \<open>
  C17: An Instance has one access path. Whatever the API answers, syncLLM of an Instance behind
  the AI Gateway never creates or applies a Service, and syncLLM of one without the gateway never
  creates or applies a gateway route; and when the access step succeeds, the other path has been
  asked to be removed: the external Service, or (with a gateway in the chart) the route.
\<close>

theorem llm_one_access_path:
  "emits (\<lambda>e. if llm_UsesAIGateway (cx_llmTopology c) then \<not> opensService e else \<not> opensRoute e)
     (syncLLM A E L K c) \<and>
   (result (llmAccess A E L c) s = Inr () \<longrightarrow>
      (if llm_UsesAIGateway (cx_llmTopology c)
       then EvDelete (externalServiceRef c) None \<in> set (writes (llmAccess A E L c) s)
       else AIGatewayEnabled E \<longrightarrow>
         EvDelete (mkref aiGatewayRouteGVK (cx_namespace c) (aiGatewayRouteName L (cx_name c))) None
           \<in> set (writes (llmAccess A E L c) s)))"
proof
  show "emits (\<lambda>e. if llm_UsesAIGateway (cx_llmTopology c) then \<not> opensService e else \<not> opensRoute e)
     (syncLLM A E L K c)"
    using opens_syncLLM [of c A E L K] by (cases "llm_UsesAIGateway (cx_llmTopology c)") (simp_all add: opens_wrong_def)
  show "result (llmAccess A E L c) s = Inr () \<longrightarrow>
      (if llm_UsesAIGateway (cx_llmTopology c)
       then EvDelete (externalServiceRef c) None \<in> set (writes (llmAccess A E L c) s)
       else AIGatewayEnabled E \<longrightarrow>
         EvDelete (mkref aiGatewayRouteGVK (cx_namespace c) (aiGatewayRouteName L (cx_name c))) None
           \<in> set (writes (llmAccess A E L c) s))"
    by (auto simp: llmAccess_def Let_def writes_seqP result_seqP deleteExternalService_def whenP_def
        cleanupAIGateway_def deleteAIGatewayObject_def aiGatewayRouteName_def split: option.splits sum.splits)
qed

theorem llm_one_access_path_witness:
  "EvDelete (mkref aiGatewayRouteGVK ''ns'' (aiGatewayRouteName demo_lib ''demo'')) None \<in>
     set (writes (llmAccess mem_api gateway_env demo_lib demo_llm_ctx) ([], 0))"
proof -
  have gw: "\<not> llm_UsesAIGateway (cx_llmTopology demo_llm_ctx)" "AIGatewayEnabled gateway_env"
    by (simp_all add: demo_llm_ctx_def demo_ctx_def zero_llmTopology_def llm_UsesAIGateway_def externalAccess_defs
        AIGatewayEnabled_def gateway_env_def)
  moreover have "result (llmAccess mem_api gateway_env demo_lib demo_llm_ctx) ([], 0) = Inr ()"
    using gw by (simp add: llmAccess_def ensureExternalService_def reconcileExternalService_def
        deleteExternalService_def cleanupAIGateway_def deleteAIGatewayObject_def mem_answers run_writes whenP_def Let_def)
  moreover have "cx_namespace demo_llm_ctx = ''ns''" "cx_name demo_llm_ctx = ''demo''"
    by (simp_all add: demo_llm_ctx_def demo_ctx_def)
  ultimately show ?thesis
    using llm_one_access_path [of demo_llm_ctx mem_api gateway_env demo_lib no_catalogs "([], 0)"] by simp
qed

section \<open>Status\<close>

definition workloadReady :: "observed_workload \<Rightarrow> bool" where
  "workloadReady w \<longleftrightarrow> (case ow_readyReplicas w of None \<Rightarrow> False | Some n \<Rightarrow> n \<noteq> 0)"

definition servingWorkloads :: "llm_status \<Rightarrow> observed_workload list" where
  "servingWorkloads st =
     (case lt_workloads st of None \<Rightarrow> []
      | Some w \<Rightarrow> List.map_filter (\<lambda>x. x) [ws_primary w, ws_prefill w])"

lemma unserved_iff: "unservedWorkload (lt_workloads st) = [] \<longleftrightarrow> list_all workloadReady (servingWorkloads st)"
proof (cases "lt_workloads st")
  case None
  then show ?thesis by (simp add: unservedWorkload_def servingWorkloads_def)
next
  case (Some w)
  let ?p = "\<lambda>o'. ow_readyReplicas o' = None \<or> ow_readyReplicas o' = Some 0"
  have "workloadReady o' \<longleftrightarrow> \<not> ?p o'" for o'
    by (cases "ow_readyReplicas o'") (simp_all add: workloadReady_def)
  then have "list_all workloadReady xs \<longleftrightarrow> find ?p xs = None" for xs
    by (induction xs) auto
  then show ?thesis
    by (simp add: unservedWorkload_def servingWorkloads_def Some split: option.split)
qed

lemma statusLLM_readOnly: "readOnly (statusLLM A E L c)"
  using gatewayDetails_readOnly [of A E L c] serviceDetails_readOnly [of A c]
  by (auto simp: statusLLM_def readOnly_def llmConnectionDetails_def Let_def intro!: emits_intros split: option.split prod.split)

definition llmRef :: "ctx \<Rightarrow> objref" where
  "llmRef c = metaRef llmGVK (cx_objectMeta c (cx_name c))"

definition llmServedName :: "ctx \<Rightarrow> string" where
  "llmServedName c = servedModelName (cx_name c) (vl_modelName (co_vllm (cx_component c ComponentLlmEngine)))"

text \<open>
  C18: Ready means serving. When statusLLM reports Ready, with or without connection details, the
  LLMInferenceService was read, its Ready condition is true, every workload it reports has a ready
  replica, and behind the AI Gateway the details are the published ones for the served model name;
  without the gateway a URL in the status is what the details come from. Status writes nothing.
\<close>

theorem llm_ready_means_serving:
  assumes "result (statusLLM A E L c) s = Inr st" and "st = Ready \<or> (\<exists>d. st = ReadyWith d)"
  shows "(\<exists>obj ls. api_get A s (llmRef c) = Inr obj \<and> asLLM obj = Some ls \<and>
      condTrue (lt_ready ls) \<and> list_all workloadReady (servingWorkloads ls) \<and>
      (if llm_UsesAIGateway (cx_llmTopology c)
       then \<exists>d. st = ReadyWith d \<and> published A E L c (llmServedName c) s d
       else \<forall>u. lt_url ls = Some u \<longrightarrow> st = ReadyWith (urlConnectionDetails u))) \<and>
    writes (statusLLM A E L c) s = []"
proof
  obtain obj ls where get: "api_get A s (llmRef c) = Inr obj" "asLLM obj = Some ls"
    using assms by (auto simp: statusLLM_def run_bind llmRef_def split: sum.splits option.splits)
  then have run: "result (statusLLM A E L c) s =
     result (if condTrue (lt_ready ls)
            then let waiting = unservedWorkload (lt_workloads ls) in
              if waiting \<noteq> [] then ret (Provisioning waiting)
              else if llm_UsesAIGateway (cx_llmTopology c)
              then bindP (aiGatewayConnectionDetails A E L c (llmServedName c) openAIBasePath)
                   (\<lambda>(details, waiting).
                      if waiting \<noteq> [] then ret (Provisioning waiting) else ret (ReadyWith details))
              else bindP (llmConnectionDetails A c ls)
                   (\<lambda>d. case d of Some details \<Rightarrow> ret (ReadyWith details) | None \<Rightarrow> ret Ready)
            else ret (Provisioning (conditionMessage (lt_ready ls) ''LLMInferenceService is being created''))) s"
    by (simp add: statusLLM_def run_bind llmRef_def llmServedName_def Let_def)
  have ready: "condTrue (lt_ready ls)" "unservedWorkload (lt_workloads ls) = []"
    using assms run by (auto simp: Let_def split: if_splits)
  have "if llm_UsesAIGateway (cx_llmTopology c)
       then \<exists>d. st = ReadyWith d \<and> published A E L c (llmServedName c) s d
       else \<forall>u. lt_url ls = Some u \<longrightarrow> st = ReadyWith (urlConnectionDetails u)"
    using assms run ready details_published [of A E L c "llmServedName c" openAIBasePath s]
    by (auto simp: run_bind llmConnectionDetails_def split: sum.splits prod.splits if_splits)
  with get ready show "\<exists>obj ls. api_get A s (llmRef c) = Inr obj \<and> asLLM obj = Some ls \<and>
      condTrue (lt_ready ls) \<and> list_all workloadReady (servingWorkloads ls) \<and>
      (if llm_UsesAIGateway (cx_llmTopology c)
       then \<exists>d. st = ReadyWith d \<and> published A E L c (llmServedName c) s d
       else \<forall>u. lt_url ls = Some u \<longrightarrow> st = ReadyWith (urlConnectionDetails u))"
    unfolding unserved_iff by blast
  show "writes (statusLLM A E L c) s = []" by (rule readOnly_writes [OF statusLLM_readOnly])
qed

definition demo_llm_status :: llm_status where
  "demo_llm_status = \<lparr>lt_ready = Some \<lparr>cd_isTrue = True, cd_message = [], cd_reason = []\<rparr>,
     lt_url = Some \<lparr>ur_scheme = ''http'', ur_host = ''h'', ur_string = ''http://h''\<rparr>,
     lt_workloads = Some \<lparr>ws_primary = Some \<lparr>ow_kind = ''Deployment'', ow_name = ''w'', ow_readyReplicas = Some 1\<rparr>,
       ws_prefill = None, ws_service = None\<rparr>\<rparr>"

theorem llm_ready_means_serving_witness:
  "\<exists>obj ls. api_get mem_api ([(llmRef demo_llm_ctx, KLLM (demo_meta ''demo'')
       (llmSpec gateway_env demo_lib demo_llm_ctx demo_component ''hf://m'' None None) demo_llm_status)], 0) (llmRef demo_llm_ctx) =
     Inr obj \<and> asLLM obj = Some ls \<and> list_all workloadReady (servingWorkloads ls)"
proof -
  let ?s = "([(llmRef demo_llm_ctx, KLLM (demo_meta ''demo'')
       (llmSpec gateway_env demo_lib demo_llm_ctx demo_component ''hf://m'' None None) demo_llm_status)], 0) :: mem_state"
  have ref: "metaRef llmGVK (demo_meta ''demo'') = llmRef demo_llm_ctx"
    by (simp add: llmRef_def demo_llm_ctx_def demo_ctx_def)
  have "\<not> llm_UsesAIGateway (cx_llmTopology demo_llm_ctx)"
    by (simp add: demo_llm_ctx_def demo_ctx_def zero_llmTopology_def llm_UsesAIGateway_def externalAccess_defs)
  then have "result (statusLLM mem_api gateway_env demo_lib demo_llm_ctx) ?s =
      Inr (ReadyWith (urlConnectionDetails \<lparr>ur_scheme = ''http'', ur_host = ''h'', ur_string = ''http://h''\<rparr>))"
    by (simp add: statusLLM_def run_bind mem_answers ref flip: llmRef_def)
      (simp add: demo_llm_status_def condTrue_def unservedWorkload_def map_filter_simps llmConnectionDetails_def run_bind)
  from llm_ready_means_serving [OF this] show ?thesis by blast
qed

end
