(* ===== verification/PredictorConfig.thy ===== *)
theory PredictorConfig
  imports MemStore
begin

text \<open>
  \<open>internal/provider/predictor_config.go\<close>: the inline configuration of a predictor, a YAML
  document the generated InferenceService spec is merged into. Objects are Go maps with distinct
  keys; the loop over a map visits each key once, and every order of visits gives the same lookups
  (\<open>gget_mergeSpecMaps\<close>).
\<close>

section \<open>Merging\<close>

definition namedLists :: "string \<Rightarrow> bool" where
  "namedLists key \<longleftrightarrow> key \<in> set [''containers'', ''volumes'', ''volumeMounts'', ''imagePullSecrets'']"

text \<open>\<open>name\<close> is the value of the generated item's \<open>name\<close>; a missing or empty name matches nothing.\<close>

definition indexByName :: "json list \<Rightarrow> bool list \<Rightarrow> json \<Rightarrow> nat option" where
  "indexByName items used name =
     (if asStr name = [] then None
      else find (\<lambda>i. case items ! i of JObj m \<Rightarrow> \<not> used ! i \<and> jindex m ''name'' = name | _ \<Rightarrow> False)
             [0..<length items])"

lemma asObj_size: "size_list (size_prod (\<lambda>_. 0) size) (asObj item) \<le> size item"
  by (cases item) simp_all

lemma asObj_size_le: "2 * size_list (size_prod (\<lambda>_. 0) size) (asObj item) \<le> Suc (2 * size item + n)"
  using asObj_size [of item] by linarith

text \<open>
  \<open>mergeSpecMaps config generated\<close> is the config map after the in-place overlay; \<open>mergeField\<close> is
  the value stored under one key, and \<open>mergeItems\<close> the loop of \<open>mergeNamedLists\<close> over the generated
  items, which also returns the used marks.
\<close>

function mergeSpecMaps :: "json gmap \<Rightarrow> json gmap \<Rightarrow> json gmap"
  and mergeField :: "string \<Rightarrow> json option \<Rightarrow> json \<Rightarrow> json"
  and mergeItems :: "json list \<Rightarrow> bool list \<Rightarrow> json list \<Rightarrow> json list \<times> bool list" where
  "mergeSpecMaps config [] = config"
| "mergeSpecMaps config ((key, v) # generated) =
     mergeSpecMaps (gset key (mergeField key (gget config key) v) config) generated"
| "mergeField key old v =
     (case (old, v) of
        (Some (JObj base), JObj override) \<Rightarrow> JObj (mergeSpecMaps base override)
      | (Some (JArr base), JArr override) \<Rightarrow>
          if namedLists key
          then (case mergeItems base (replicate (length base) False) override of (out, used) \<Rightarrow>
                  JArr (out @ map fst (filter (\<lambda>(item, u). \<not> u) (zip base used))))
          else v
      | _ \<Rightarrow> v)"
| "mergeItems base used [] = ([], used)"
| "mergeItems base used (item # items) =
     (case indexByName base used (jindex (asObj item) ''name'') of
        None \<Rightarrow> (case mergeItems base used items of (out, u) \<Rightarrow> (item # out, u))
      | Some i \<Rightarrow>
          (case mergeItems base (used[i := True]) items of
             (out, u) \<Rightarrow> (JObj (mergeSpecMaps (asObj (base ! i)) (asObj item)) # out, u)))"
  by pat_completeness auto

termination
proof (relation "measure (\<lambda>x. case x of
    Inl (c, g) \<Rightarrow> 2 * size_list (size_prod (\<lambda>_. 0) size) g
  | Inr (Inl (k, old, v)) \<Rightarrow> 2 * size v + 1
  | Inr (Inr (b, u, items)) \<Rightarrow> 2 * size_list size items)", goal_cases)
qed (auto simp: less_Suc_eq_le asObj_size_le)

declare mergeField.simps [simp del]

definition mergeNamedLists :: "json list \<Rightarrow> json list \<Rightarrow> json list" where
  "mergeNamedLists config generated =
     (case mergeItems config (replicate (length config) False) generated of (out, used) \<Rightarrow>
        out @ map fst (filter (\<lambda>(item, u). \<not> u) (zip config used)))"

lemma mergeField_simps:
  "mergeField key (Some (JObj base)) (JObj override) = JObj (mergeSpecMaps base override)"
  "mergeField key (Some (JArr items)) (JArr generated) =
     (if namedLists key then JArr (mergeNamedLists items generated) else JArr generated)"
  by (simp_all add: mergeField.simps mergeNamedLists_def split: prod.split)

lemma mergeField_cases:
  "mergeField key old v = v \<or>
   (\<exists>base override. old = Some (JObj base) \<and> v = JObj override \<and> mergeField key old v = JObj (mergeSpecMaps base override)) \<or>
   (\<exists>items generated. old = Some (JArr items) \<and> v = JArr generated \<and> namedLists key \<and>
      mergeField key old v = JArr (mergeNamedLists items generated))"
  by (auto simp: mergeField.simps mergeNamedLists_def split: option.split json.split prod.split)

section \<open>The document\<close>

definition reservedConfigKeys :: "string list" where
  "reservedConfigKeys = [''apiVersion'', ''kind'', ''metadata'', ''spec'', ''status'']"

definition mergePredictorConfig :: "lib \<Rightarrow> string \<Rightarrow> json gmap \<Rightarrow> kerror + json gmap" where
  "mergePredictorConfig L raw generated =
     (case lib_yamlRead L raw of
        Inl e \<Rightarrow> Inl (Wrap (ConfMsg ConfigReadingYAML) [] (LibErr e))
      | Inr (doc, eof) \<Rightarrow>
        if \<not> eof then Inl (Err (ConfMsg ConfigManyDocuments) [])
        else case lib_yamlToJSON L doc of
            Inl e \<Rightarrow> Inl (Wrap (ConfMsg ConfigParsingYAML) [] (LibErr e))
          | Inr data \<Rightarrow>
            (case lib_jsonMap L data of
               Inl e \<Rightarrow> Inl (Wrap (ConfMsg ConfigNotObject) [] (LibErr e))
             | Inr None \<Rightarrow> Inl (Err (ConfMsg ConfigNotObject) [])
             | Inr (Some config) \<Rightarrow>
               (case find (ghas config) reservedConfigKeys of
                  Some key \<Rightarrow> Inl (Err (ConfMsg ConfigNotSpecBody) [key])
                | None \<Rightarrow> Inr (mergeSpecMaps config generated))))"

section \<open>Lookups after a merge\<close>

lemma gget_mergeSpecMaps:
  "distinct (gkeys generated) \<Longrightarrow>
     gget (mergeSpecMaps config generated) k =
       (case gget generated k of None \<Rightarrow> gget config k | Some v \<Rightarrow> Some (mergeField k (gget config k) v))"
proof (induction generated arbitrary: config)
  case Nil
  then show ?case by simp
next
  case (Cons kv generated)
  obtain key v where kv: "kv = (key, v)" by (cases kv)
  have fresh: "gget generated key = None"
    using Cons.prems by (simp add: kv gkeys_def gget_None_iff)
  have "distinct (gkeys generated)" using Cons.prems by (simp add: gkeys_def)
  from Cons.IH [OF this] fresh show ?case by (auto simp: kv split: option.split)
qed

lemma distinct_mergeSpecMaps:
  "distinct (gkeys config) \<Longrightarrow> distinct (gkeys (mergeSpecMaps config generated))"
proof (induction generated arbitrary: config)
  case Nil
  then show ?case by simp
next
  case (Cons kv generated)
  then show ?case by (cases kv) (simp add: distinct_gset)
qed

lemma findSomeD: "find P xs = Some x \<Longrightarrow> x \<in> set xs \<and> P x"
  by (auto simp: find_Some_iff)

lemma indexByName_Some:
  "indexByName items used name = Some i \<Longrightarrow>
     i < length items \<and> \<not> used ! i \<and> (\<exists>m. items ! i = JObj m \<and> jindex m ''name'' = name) \<and> asStr name \<noteq> []"
proof -
  let ?p = "\<lambda>i. case items ! i of JObj m \<Rightarrow> \<not> used ! i \<and> jindex m ''name'' = name | _ \<Rightarrow> False"
  assume i: "indexByName items used name = Some i"
  then have name: "asStr name \<noteq> []" unfolding indexByName_def by (metis option.distinct(1))
  with i have "find ?p [0..<length items] = Some i" unfolding indexByName_def by (simp only: if_False)
  from findSomeD [OF this] have "i < length items" "?p i" by simp_all
  with name show ?thesis by (cases "items ! i") simp_all
qed

lemma mergeItems_lengths:
  "mergeItems base used items = (out, u) \<Longrightarrow> length out = length items \<and> length u = length used"
proof (induction items arbitrary: used out u)
  case Nil
  then show ?case by simp
next
  case (Cons item items)
  show ?case
  proof (cases "indexByName base used (jindex (asObj item) ''name'')")
    case None
    then obtain out' where "mergeItems base used items = (out', u)" "out = item # out'"
      using Cons.prems by (cases "mergeItems base used items") simp
    with Cons.IH show ?thesis by fastforce
  next
    case (Some i)
    then obtain out' x where "mergeItems base (used[i := True]) items = (out', u)" "out = x # out'"
      using Cons.prems by (cases "mergeItems base (used[i := True]) items") auto
    with Cons.IH show ?thesis by fastforce
  qed
qed

lemma mergeItems_length: "length (fst (mergeItems base used items)) = length items"
  by (cases "mergeItems base used items") (simp add: mergeItems_lengths)

text \<open>Each generated item keeps its position, alone or merged into an unused item of its name.\<close>

lemma mergeItems_nth:
  "j < length items \<Longrightarrow>
     fst (mergeItems base used items) ! j = items ! j \<or>
     (\<exists>m g. JObj m \<in> set base \<and> items ! j = JObj g \<and> jindex m ''name'' = jindex g ''name'' \<and>
        fst (mergeItems base used items) ! j = JObj (mergeSpecMaps m g))"
proof (induction items arbitrary: used j)
  case Nil
  then show ?case by simp
next
  case (Cons item items)
  show ?case
  proof (cases "indexByName base used (jindex (asObj item) ''name'')")
    case None
    then show ?thesis
      using Cons.IH [of "j - 1" used] Cons.prems by (cases j) (auto split: prod.split)
  next
    case (Some i)
    then obtain m where m: "i < length base" "base ! i = JObj m" "jindex m ''name'' = jindex (asObj item) ''name''"
      "asStr (jindex (asObj item) ''name'') \<noteq> []"
      using indexByName_Some [OF Some] by blast
    then obtain g where g: "item = JObj g" by (cases item) (auto simp: jindex_def)
    have "JObj m \<in> set base" using m(1,2) by (metis nth_mem)
    then show ?thesis
      using Cons.IH [of "j - 1" "used[i := True]"] Cons.prems Some m g
      by (cases j) (auto split: prod.split)
  qed
qed

section \<open>What the merge preserves\<close>

text \<open>
  \<open>kept g m\<close>: the generated value \<open>g\<close> survives in \<open>m\<close>. Every field of an object is there with a
  value that keeps it; a list is the beginning of the merged list, item by item.
\<close>

inductive kept :: "json \<Rightarrow> json \<Rightarrow> bool" where
  kept_same: "kept v v"
| kept_obj: "(\<And>k v. gget g k = Some v \<Longrightarrow> \<exists>w. gget m k = Some w \<and> kept v w) \<Longrightarrow> kept (JObj g) (JObj m)"
| kept_list: "length gs \<le> length ms \<Longrightarrow> (\<And>i. i < length gs \<Longrightarrow> kept (gs ! i) (ms ! i)) \<Longrightarrow>
     kept (JArr gs) (JArr ms)"

inductive_cases kept_JStr [elim!]: "kept (JStr s) w"
inductive_cases kept_JInt [elim!]: "kept (JInt i) w"
inductive_cases kept_JObj: "kept (JObj g) w"
inductive_cases kept_JArr: "kept (JArr gs) w"

lemma kept_get:
  "kept (JObj g) (JObj m) \<Longrightarrow> gget g k = Some v \<Longrightarrow> \<exists>w. gget m k = Some w \<and> kept v w"
  by (erule kept_JObj) (auto intro: kept_same)

lemma kept_object: "kept (JObj g) w \<Longrightarrow> \<exists>m. w = JObj m"
  by (erule kept_JObj) auto

text \<open>Objects with distinct keys at every level, as Go maps have them.\<close>

fun proper :: "json \<Rightarrow> bool" where
  "proper (JObj m) = (distinct (gkeys m) \<and> list_all (\<lambda>(k, v). proper v) m)"
| "proper (JArr xs) = list_all proper xs"
| "proper _ = True"

lemma proper_get: "proper (JObj m) \<Longrightarrow> gget m k = Some v \<Longrightarrow> proper v"
  by (auto simp: list_all_iff dest: gget_mem)

lemma merged_obj_kept:
  assumes "proper (JObj g)"
    and "\<And>k v old. gget g k = Some v \<Longrightarrow> kept v (mergeField k old v)"
  shows "kept (JObj g) (JObj (mergeSpecMaps config g))"
  using assms by (intro kept_obj) (simp add: gget_mergeSpecMaps)

lemma mergeField_kept: "proper v \<Longrightarrow> kept v (mergeField key old v)"
proof (induction "size v" arbitrary: v key old rule: less_induct)
  case less
  have obj: "kept (JObj g) (JObj (mergeSpecMaps config g))" if "proper (JObj g)" "size (JObj g) \<le> size v" for g config
  proof (rule merged_obj_kept [OF that(1)])
    fix k w old'
    assume w: "gget g k = Some w"
    then have "(k, w) \<in> set g" by (rule gget_mem)
    then have "size w < size (JObj g)"
      by (induction g) auto
    with that(2) have "size w < size v" by simp
    then show "kept w (mergeField k old' w)" by (rule less.hyps) (rule proper_get [OF that(1) w])
  qed
  consider (same) "mergeField key old v = v"
    | (map) base g where "v = JObj g" "mergeField key old v = JObj (mergeSpecMaps base g)"
    | (list) items gs where "v = JArr gs" "mergeField key old v = JArr (mergeNamedLists items gs)"
    using mergeField_cases [of key old v] by blast
  then show ?case
  proof cases
    case same
    then show ?thesis by (simp add: kept_same)
  next
    case map
    then show ?thesis using obj [of g base] less.prems by simp
  next
    case list
    let ?out = "fst (mergeItems items (replicate (length items) False) gs)"
    have out: "mergeNamedLists items gs = ?out @ drop (length ?out) (mergeNamedLists items gs)"
      by (simp add: mergeNamedLists_def split: prod.split)
    have len: "length ?out = length gs" by (rule mergeItems_length)
    have "kept (JArr gs) (JArr (mergeNamedLists items gs))"
    proof (rule kept_list)
      show "length gs \<le> length (mergeNamedLists items gs)"
        using out len by (metis length_append le_add1)
      fix i
      assume i: "i < length gs"
      have nth: "mergeNamedLists items gs ! i = ?out ! i"
        using out len i by (metis nth_append)
      have item: "proper (gs ! i)" using less.prems list(1) i by (simp add: list_all_length)
      have small: "size (gs ! i) \<le> size v"
        using i list(1) size_list_estimation' [of "gs ! i" gs "size (gs ! i)" size] by simp
      from mergeItems_nth [OF i, of items "replicate (length items) False"]
      show "kept (gs ! i) (mergeNamedLists items gs ! i)"
        unfolding nth using obj item small by (auto intro: kept_same)
    qed
    with list show ?thesis by simp
  qed
qed

section \<open>What the merge is\<close>

text \<open>
  The merge as a relation between a configuration, generated fields and the result, without the
  loops of the code. A key the provider does not generate has the value of the configuration. Two
  objects are merged, two named lists item by item, and otherwise the generated value replaces the
  other. In a list each generated item takes the first configuration item of its name out of those
  left; the items nobody took follow at the end.
\<close>

definition called :: "string \<Rightarrow> json \<Rightarrow> bool" where
  "called n item \<longleftrightarrow> (case item of JObj m \<Rightarrow> gget m ''name'' = Some (JStr n) | _ \<Rightarrow> False)"

inductive objectMerged :: "json gmap \<Rightarrow> json gmap \<Rightarrow> json gmap \<Rightarrow> bool"
  and fieldMerged :: "string \<Rightarrow> json option \<Rightarrow> json \<Rightarrow> json \<Rightarrow> bool"
  and listMerged :: "json list \<Rightarrow> json list \<Rightarrow> json list \<Rightarrow> json list \<Rightarrow> bool" where
  object: "(\<And>k. gget g k = None \<Longrightarrow> gget m k = gget c k) \<Longrightarrow>
     (\<And>k v. gget g k = Some v \<Longrightarrow> \<exists>w. gget m k = Some w \<and> fieldMerged k (gget c k) v w) \<Longrightarrow> objectMerged c g m"
| objects: "objectMerged c g m \<Longrightarrow> fieldMerged k (Some (JObj c)) (JObj g) (JObj m)"
| lists: "k \<in> {''containers'', ''volumes'', ''volumeMounts'', ''imagePullSecrets''} \<Longrightarrow> listMerged cs gs ws rest \<Longrightarrow>
     fieldMerged k (Some (JArr cs)) (JArr gs) (JArr (ws @ rest))"
| replaced: "(\<And>c g. \<not> (old = Some (JObj c) \<and> v = JObj g)) \<Longrightarrow>
     (\<And>cs gs. old = Some (JArr cs) \<Longrightarrow> v = JArr gs \<Longrightarrow> k \<notin> {''containers'', ''volumes'', ''volumeMounts'', ''imagePullSecrets''}) \<Longrightarrow>
     fieldMerged k old v v"
| finished: "listMerged cs [] [] cs"
| taken: "n \<noteq> [] \<Longrightarrow> gget g ''name'' = Some (JStr n) \<Longrightarrow> called n (JObj c) \<Longrightarrow>
     (\<And>item. item \<in> set before \<Longrightarrow> \<not> called n item) \<Longrightarrow> objectMerged c g m \<Longrightarrow> listMerged (before @ after) gs ws rest \<Longrightarrow>
     listMerged (before @ JObj c # after) (JObj g # gs) (JObj m # ws) rest"
| alone: "(\<And>n item. n \<noteq> [] \<Longrightarrow> called n x \<Longrightarrow> item \<in> set cs \<Longrightarrow> \<not> called n item) \<Longrightarrow> listMerged cs gs ws rest \<Longrightarrow>
     listMerged cs (x # gs) (x # ws) rest"

definition unused :: "json list \<Rightarrow> bool list \<Rightarrow> json list" where
  "unused items used = map fst (filter (\<lambda>(item, u). \<not> u) (zip items used))"

lemma unused_append:
  "length used = length items \<Longrightarrow> unused (items @ items') (used @ used') = unused items used @ unused items' used'"
  by (simp add: unused_def)

lemma unused_mem:
  "x \<in> set (unused items used) \<Longrightarrow> \<exists>i < length items. i < length used \<and> items ! i = x \<and> \<not> used ! i"
  by (auto simp: unused_def set_zip)

lemma called_iff:
  "n \<noteq> [] \<Longrightarrow> (case item of JObj m \<Rightarrow> jindex m ''name'' = JStr n | _ \<Rightarrow> False) = called n item"
  by (auto simp: called_def jindex_def ggetd_def split: json.split option.split)

lemma indexByName_named:
  assumes "n \<noteq> []"
  shows "indexByName items used (JStr n) = find (\<lambda>i. \<not> used ! i \<and> called n (items ! i)) [0..<length items]"
proof -
  have "(case items ! i of JObj m \<Rightarrow> \<not> used ! i \<and> jindex m ''name'' = JStr n | _ \<Rightarrow> False) =
      (\<not> used ! i \<and> called n (items ! i))" for i
    using called_iff [OF assms, of "items ! i"] by (auto split: json.split)
  then show ?thesis using assms by (simp add: indexByName_def)
qed

lemma index_none:
  assumes "n \<noteq> []" "indexByName items used (JStr n) = None" "x \<in> set (unused items used)"
  shows "\<not> called n x"
  using assms(2,3) unused_mem [of x items used] by (auto simp: indexByName_named [OF assms(1)] find_None_iff)

lemma index_some:
  assumes "n \<noteq> []" "indexByName items used (JStr n) = Some i" "length used = length items"
  obtains before c after where "unused items used = before @ JObj c # after" "items ! i = JObj c" "called n (JObj c)"
    "\<And>item. item \<in> set before \<Longrightarrow> \<not> called n item" "unused items (used[i := True]) = before @ after"
proof -
  have i: "i < length items" "\<not> used ! i" "called n (items ! i)"
    and first: "\<And>j. j < i \<Longrightarrow> \<not> (\<not> used ! j \<and> called n (items ! j))"
    using assms(2) by (auto simp: indexByName_named [OF assms(1)] find_Some_iff)
  obtain c where c: "items ! i = JObj c" using i(3) by (auto simp: called_def split: json.splits)
  let ?before = "unused (take i items) (take i used)" and ?after = "unused (drop (Suc i) items) (drop (Suc i) used)"
  have items: "items = take i items @ items ! i # drop (Suc i) items" using i(1) by (rule id_take_nth_drop)
  have used: "used = take i used @ used ! i # drop (Suc i) used" using i(1) assms(3) by (simp add: id_take_nth_drop)
  have set: "used[i := True] = take i used @ True # drop (Suc i) used" using i(1) assms(3) by (simp add: upd_conv_take_nth_drop)
  have len: "length (take i used) = length (take i items)" using assms(3) by simp
  have "unused items used = ?before @ JObj c # ?after"
    by (subst items, subst used) (simp add: unused_append [OF len], simp add: unused_def i(2) c)
  moreover have "unused items (used[i := True]) = ?before @ ?after"
    unfolding set by (subst items) (simp add: unused_append [OF len], simp add: unused_def)
  moreover have "\<not> called n item" if item: "item \<in> set ?before" for item
    using unused_mem [OF item] first by fastforce
  ultimately show thesis using that [of ?before c ?after] c i(3) by simp
qed

lemma mergeItems_merged:
  assumes "mergeItems base used items = (out, u)" "length used = length base"
    and "\<And>c g. JObj g \<in> set items \<Longrightarrow> objectMerged c g (mergeSpecMaps c g)"
  shows "listMerged (unused base used) items out (unused base u)"
  using assms
proof (induction items arbitrary: used out u)
  case Nil
  then show ?case by (simp add: finished)
next
  case (Cons item items)
  show ?case
  proof (cases "indexByName base used (jindex (asObj item) ''name'')")
    case None
    then obtain out' where out: "mergeItems base used items = (out', u)" "out = item # out'"
      using Cons.prems(1) by (cases "mergeItems base used items") simp
    have "\<not> called n x" if "n \<noteq> []" "called n item" "x \<in> set (unused base used)" for n x
    proof -
      have "jindex (asObj item) ''name'' = JStr n"
        using that(1,2) called_iff [OF that(1), of item] by (cases item) simp_all
      with None index_none [OF that(1) _ that(3)] show ?thesis by simp
    qed
    moreover have "listMerged (unused base used) items out' (unused base u)"
      using Cons.IH [OF out(1) Cons.prems(2)] Cons.prems(3) by simp
    ultimately show ?thesis unfolding out(2) by (intro alone)
  next
    case (Some i)
    obtain n where n: "jindex (asObj item) ''name'' = JStr n" "n \<noteq> []"
      using indexByName_Some [OF Some] by (cases "jindex (asObj item) ''name''") auto
    then obtain g where g: "item = JObj g" by (cases item) (auto simp: jindex_def)
    obtain before c after where split: "unused base used = before @ JObj c # after" "base ! i = JObj c" "called n (JObj c)"
      "\<And>item. item \<in> set before \<Longrightarrow> \<not> called n item" "unused base (used[i := True]) = before @ after"
      using index_some [OF n(2) Some [unfolded n(1)] Cons.prems(2)] by blast
    obtain out' where out: "mergeItems base (used[i := True]) items = (out', u)" "out = JObj (mergeSpecMaps c g) # out'"
      using Cons.prems(1) Some split(2) g by (cases "mergeItems base (used[i := True]) items") simp
    have "listMerged (before @ after) items out' (unused base u)"
      using Cons.IH [OF out(1)] Cons.prems(2,3) split(5) by simp
    moreover have "gget g ''name'' = Some (JStr n)"
      using n(1) g by (simp add: jindex_def ggetd_def split: option.splits)
    moreover have "objectMerged c g (mergeSpecMaps c g)" using Cons.prems(3) g by simp
    ultimately show ?thesis
      unfolding split(1) out(2) g using n(2) split(3,4) by (intro taken)
  qed
qed

lemma mergeNamedLists_merged:
  assumes "\<And>c g. JObj g \<in> set gs \<Longrightarrow> objectMerged c g (mergeSpecMaps c g)"
  shows "\<exists>ws rest. mergeNamedLists cs gs = ws @ rest \<and> listMerged cs gs ws rest"
proof -
  obtain ws u where m: "mergeItems cs (replicate (length cs) False) gs = (ws, u)"
    by (cases "mergeItems cs (replicate (length cs) False) gs")
  have all: "unused cs (replicate (length cs) False) = cs" by (induction cs) (simp_all add: unused_def)
  from mergeItems_merged [OF m _ assms] all have "listMerged cs gs ws (unused cs u)" by simp
  then show ?thesis using m by (auto simp: mergeNamedLists_def unused_def)
qed

lemma mergeSpecMaps_merged:
  assumes "proper (JObj g)" "\<And>k v old. gget g k = Some v \<Longrightarrow> fieldMerged k old v (mergeField k old v)"
  shows "objectMerged c g (mergeSpecMaps c g)"
  using assms by (intro object) (simp_all add: gget_mergeSpecMaps)

lemma mergeField_merged: "proper v \<Longrightarrow> fieldMerged key old v (mergeField key old v)"
proof (induction "size v" arbitrary: v key old rule: less_induct)
  case less
  have obj: "objectMerged c g (mergeSpecMaps c g)" if "proper (JObj g)" "size (JObj g) \<le> size v" for g c
  proof (rule mergeSpecMaps_merged [OF that(1)])
    fix k w old'
    assume w: "gget g k = Some w"
    then have "(k, w) \<in> set g" by (rule gget_mem)
    then have "size w < size (JObj g)" by (induction g) auto
    with that(2) have "size w < size v" by simp
    then show "fieldMerged k old' w (mergeField k old' w)" by (rule less.hyps) (rule proper_get [OF that(1) w])
  qed
  consider (map) base g where "old = Some (JObj base)" "v = JObj g"
    | (list) items gs where "old = Some (JArr items)" "v = JArr gs" "namedLists key"
    | (other) "\<And>c g. \<not> (old = Some (JObj c) \<and> v = JObj g)"
        "\<And>cs gs. old = Some (JArr cs) \<Longrightarrow> v = JArr gs \<Longrightarrow> \<not> namedLists key"
    by blast
  then show ?case
  proof cases
    case map
    with obj [of g base] less.prems show ?thesis by (simp add: mergeField_simps objects)
  next
    case list
    have "objectMerged c g (mergeSpecMaps c g)" if g: "JObj g \<in> set gs" for c g
    proof (rule obj)
      from less.prems list(2) have "\<forall>x \<in> set gs. proper x" by (simp add: list_all_iff)
      with g show "proper (JObj g)" by blast
      show "size (JObj g) \<le> size v" using size_list_estimation' [OF g, of "size (JObj g)" size] list(2) by simp
    qed
    from mergeNamedLists_merged [OF this, of gs items] obtain ws rest where
      ws: "mergeNamedLists items gs = ws @ rest" "listMerged items gs ws rest" by blast
    from list(3) have "key \<in> {''containers'', ''volumes'', ''volumeMounts'', ''imagePullSecrets''}"
      by (simp add: namedLists_def)
    from lists [OF this ws(2)] list ws(1) show ?thesis by (simp add: mergeField_simps)
  next
    case other
    then have "mergeField key old v = v" using mergeField_cases [of key old v] by blast
    moreover have "fieldMerged key old v v"
      using other by (intro replaced) (auto simp: namedLists_def)
    ultimately show ?thesis by simp
  qed
qed

text \<open>
  C21: An inline configuration adds to what the provider generates and takes nothing away. When
  mergePredictorConfig accepts a text, the text is one YAML document, an object without the fields a
  spec body must not have, and the result is the merge of that document with the generated fields:
  at every depth a field the provider does not generate is the document's, objects are merged field
  by field and named lists item by item, generated items first and in order (KServe takes the first
  container for the model server) and the document's other items after them, in order; every
  generated value survives.
\<close>

theorem config_keeps_generated:
  assumes "mergePredictorConfig L raw generated = Inr spec" and "proper (JObj generated)"
  shows "kept (JObj generated) (JObj spec) \<and>
    (\<exists>doc data config. lib_yamlRead L raw = Inr (doc, True) \<and> lib_yamlToJSON L doc = Inr data \<and>
       lib_jsonMap L data = Inr (Some config) \<and>
       (\<forall>k \<in> {''apiVersion'', ''kind'', ''metadata'', ''spec'', ''status''}. gget config k = None) \<and>
       objectMerged config generated spec)"
proof -
  obtain doc data config where doc: "lib_yamlRead L raw = Inr (doc, True)" "lib_yamlToJSON L doc = Inr data"
      "lib_jsonMap L data = Inr (Some config)"
    and config: "spec = mergeSpecMaps config generated" "find (ghas config) reservedConfigKeys = None"
    using assms(1) by (auto simp: mergePredictorConfig_def split: sum.splits if_splits option.splits)
  have "kept (JObj generated) (JObj spec)"
    unfolding config(1) by (rule merged_obj_kept [OF assms(2)]) (rule mergeField_kept, rule proper_get [OF assms(2)])
  moreover have "objectMerged config generated spec"
    unfolding config(1)
    by (rule mergeSpecMaps_merged [OF assms(2)]) (rule mergeField_merged, rule proper_get [OF assms(2)])
  moreover have "\<forall>k \<in> {''apiVersion'', ''kind'', ''metadata'', ''spec'', ''status''}. gget config k = None"
    using config(2) unfolding find_None_iff by (auto simp: ghas_def reservedConfigKeys_def)
  ultimately show ?thesis using doc by blast
qed

text \<open>A sidecar and a new field next to a generated container.\<close>

definition sidecar_config :: "json gmap" where
  "sidecar_config = [(''transformer'', JObj []), (''predictor'', JObj [(''containers'', JArr [JObj [(''name'', JStr ''sidecar'')]]),
     (''minReplicas'', JInt 5)])]"

definition demo_generated :: "json gmap" where
  "demo_generated = [(''predictor'', JObj [(''containers'', JArr [JObj [(''name'', JStr ''kserve-container'')]]),
     (''minReplicas'', JInt 1)])]"

inductive_cases objectMergedE: "objectMerged c g m"

theorem config_keeps_generated_witness:
  "\<exists>spec. mergePredictorConfig (demo_lib\<lparr>lib_jsonMap := (\<lambda>_. Inr (Some sidecar_config))\<rparr>) ''x'' demo_generated =
      Inr spec \<and> kept (JObj demo_generated) (JObj spec) \<and> gget spec ''transformer'' = Some (JObj [])"
proof -
  let ?L = "demo_lib\<lparr>lib_jsonMap := (\<lambda>_. Inr (Some sidecar_config))\<rparr>"
  have merged: "mergePredictorConfig ?L ''x'' demo_generated = Inr (mergeSpecMaps sidecar_config demo_generated)"
    by (simp add: mergePredictorConfig_def demo_lib_def reservedConfigKeys_def ghas_def sidecar_config_def)
  have "proper (JObj demo_generated)" by (simp add: demo_generated_def gkeys_def)
  from config_keeps_generated [OF merged this]
  have "kept (JObj demo_generated) (JObj (mergeSpecMaps sidecar_config demo_generated))"
    "objectMerged sidecar_config demo_generated (mergeSpecMaps sidecar_config demo_generated)"
    by (auto simp: demo_lib_def)
  moreover from this(2) have "gget (mergeSpecMaps sidecar_config demo_generated) ''transformer'' = Some (JObj [])"
    by (rule objectMergedE) (simp add: demo_generated_def sidecar_config_def)
  ultimately show ?thesis using merged by blast
qed

text \<open>A replica floor of the document survives when the provider generates none.\<close>

lemma inline_scale_to_zero:
  "mergeSpecMaps [(''predictor'', JObj [(''minReplicas'', JInt 0)])] [(''predictor'', JObj [(''maxReplicas'', JInt 3)])] =
     [(''predictor'', JObj [(''minReplicas'', JInt 0), (''maxReplicas'', JInt 3)])]"
  by code_simp

lemma sidecar_merged:
  "mergeSpecMaps sidecar_config demo_generated =
     [(''transformer'', JObj []),
      (''predictor'', JObj [(''containers'', JArr [JObj [(''name'', JStr ''kserve-container'')],
          JObj [(''name'', JStr ''sidecar'')]]), (''minReplicas'', JInt 1)])]"
  by code_simp

end
