(* ===== verification/JsonFields.thy ===== *)
theory JsonFields
  imports KubeTypes
begin

text \<open>
  Go structs as JSON objects: the \<open>omitempty\<close> tags. A struct is rendered as the list of its JSON
  names with the value, or None when the field is empty and left out.
\<close>

definition optFields :: "(string \<times> json option) list \<Rightarrow> json gmap" where
  "optFields fs = List.map_filter (\<lambda>(k, v). map_option (Pair k) v) fs"

definition omitStr :: "string \<Rightarrow> json option" where
  "omitStr s = (if s = [] then None else Some (JStr s))"

definition omitFalse :: "bool \<Rightarrow> json option" where
  "omitFalse b = (if b then Some (JBool True) else None)"

definition omitList :: "('a \<Rightarrow> json) \<Rightarrow> 'a list \<Rightarrow> json option" where
  "omitList f xs = (if xs = [] then None else Some (JArr (map f xs)))"

definition omitMap :: "string gmap \<Rightarrow> json option" where
  "omitMap m = (if m = [] then None else Some (JObj (map (\<lambda>(k, v). (k, JStr v)) m)))"

lemma optFields_simps [simp]:
  "optFields [] = []"
  "optFields ((k, None) # fs) = optFields fs"
  "optFields ((k, Some v) # fs) = (k, v) # optFields fs"
  by (simp_all add: optFields_def map_filter_simps)

lemma gkeys_optFields: "set (gkeys (optFields fs)) \<subseteq> set (map fst fs)"
  by (force simp: optFields_def gkeys_def List.map_filter_def)

lemma gget_optFields:
  "distinct (map fst fs) \<Longrightarrow>
     gget (optFields fs) key = (case map_of fs key of Some v \<Rightarrow> v | None \<Rightarrow> None)"
proof (induction fs)
  case Nil
  then show ?case by simp
next
  case (Cons kv fs)
  obtain k v where kv: "kv = (k, v)" by (cases kv)
  show ?case
  proof (cases v)
    case None
    have "gget (optFields fs) k = None"
      using Cons.prems gkeys_optFields [of fs] by (auto simp: kv gget_None_iff)
    moreover have "map_of fs k = None" using Cons.prems kv by (simp add: map_of_eq_None_iff)
    ultimately show ?thesis using Cons kv None by simp
  next
    case (Some x)
    with Cons kv show ?thesis by simp
  qed
qed

end
