(* ===== verification/Predictor.thy ===== *)
theory Predictor
  imports PredictorConfig JsonFields Resources Shared
begin

text \<open>
  \<open>internal/provider/inferenceservice.go\<close>: the predictor topology. What a valid Instance is, and its
  translation into an InferenceService, which is applied as an unstructured object; the dry run of
  \<open>predictor_config.go\<close> is here too because it builds that object.
\<close>

definition inferenceServiceGVK :: gvk where
  "inferenceServiceGVK = mkgvk ''serving.kserve.io'' ''v1beta1'' ''InferenceService''"
definition clusterStorageContainerGVK :: gvk where
  "clusterStorageContainerGVK = mkgvk ''serving.kserve.io'' ''v1alpha1'' ''ClusterStorageContainer''"
definition predictorServicePort :: int where "predictorServicePort = 80"
definition huggingFaceModelFormat :: string where "huggingFaceModelFormat = ''huggingface''"
definition textEmbeddingTask :: string where "textEmbeddingTask = ''text_embedding''"
definition kserveContainerName :: string where "kserveContainerName = ''kserve-container''"
definition transformerContainerName :: string where "transformerContainerName = ''transformer-container''"
definition storageURIEnvVar :: string where "storageURIEnvVar = ''STORAGE_URI''"
definition sharedMemoryVolume :: string where "sharedMemoryVolume = ''dshm''"
definition metricsPortAnnotation :: string where "metricsPortAnnotation = ''prometheus.kserve.io/port''"
definition metricsPathAnnotation :: string where "metricsPathAnnotation = ''prometheus.kserve.io/path''"
definition storageContainerWorkloadInitContainer :: string where
  "storageContainerWorkloadInitContainer = ''initContainer''"
definition kserveOpenAIPrefix :: string where "kserveOpenAIPrefix = ''/openai/v1''"
definition openAIPrefix :: string where "openAIPrefix = ''/v1''"

section \<open>Storage containers\<close>

fun supports :: "lib \<Rightarrow> supportedURIFormat list \<Rightarrow> string \<Rightarrow> string + bool" where
  "supports L [] uri = Inr False"
| "supports L (f # fs) uri =
     (if uf_prefix f \<noteq> [] then (if hasPrefix uri (uf_prefix f) then Inr True else supports L fs uri)
      else if uf_regex f \<noteq> [] then
        (case lib_regexMatch L (uf_regex f) uri of
           Inl e \<Rightarrow> Inl e
         | Inr match \<Rightarrow> if match then Inr True else supports L fs uri)
      else supports L fs uri)"

definition storageContainerRef :: "string \<Rightarrow> objref" where
  "storageContainerRef name = mkref clusterStorageContainerGVK [] name"

definition checkStorageContainer :: "lib \<Rightarrow> string \<Rightarrow> string \<Rightarrow> json \<Rightarrow> kerror option" where
  "checkStorageContainer L name storageURI obj =
     (case lib_decodeStorageContainer L obj of
        Inl e \<Rightarrow> Some (Wrap (ContMsg StorageDecode) [name] (LibErr e))
      | Inr csc \<Rightarrow>
        if cs_disabled csc = Some True then Some (Err (ContMsg StorageDisabled) [name])
        else if cs_workloadType csc \<noteq> [] \<and> cs_workloadType csc \<noteq> storageContainerWorkloadInitContainer
        then Some (Err (ContMsg StorageWorkloadType) [name, cs_workloadType csc])
        else case supports L (cs_supportedUriFormats csc) storageURI of
            Inl e \<Rightarrow> Some (Wrap (ContMsg StorageRegex) [name] (LibErr e))
          | Inr supported \<Rightarrow> check (\<not> supported) (Err (ContMsg StorageUnsupported) [name, storageURI]))"

definition validateStorageContainer :: "'s api \<Rightarrow> lib \<Rightarrow> string \<Rightarrow> string \<Rightarrow> ('s, unit) prog" where
  "validateStorageContainer A L name storageURI =
     (if lib_isDNS1123Subdomain L name \<noteq> []
      then failP (Err (ContMsg StorageNameInvalid) (name # lib_isDNS1123Subdomain L name))
      else bindP (getP A (storageContainerRef name))
        (\<lambda>r. case r of
           Inl NotFound \<Rightarrow> failP (Err (ContMsg StorageNotFound) [name])
         | Inl e \<Rightarrow> failP (Wrap (ContMsg StorageGet) [name] (ApiErr e))
         | Inr obj \<Rightarrow> failIf (checkStorageContainer L name storageURI (unstrOf obj))))"

section \<open>Parameters\<close>

definition resolveCatalogModel :: "catalogs \<Rightarrow> modelServerCustomSpec \<Rightarrow> kerror + modelServerCustomSpec" where
  "resolveCatalogModel K params =
     (if ms_model params = [] \<or> ms_modelFormat params \<noteq> [] \<or> ms_storageURI params \<noteq> [] \<or> UsesCustomContainer params
      then Inr params
      else case gget (ca_predictor K) (ms_model params) of
          None \<Rightarrow> Inl (Err (PredMsg ModelNotInCatalog) [ms_model params])
        | Some entry \<Rightarrow> Inr (params\<lparr>
            ms_modelFormat := pe_modelFormat entry,
            ms_storageURI := pe_storageURI entry,
            ms_task := (if ms_task params = [] then pe_task entry else ms_task params),
            ms_gpuCount := (if ms_gpuCount params = None \<and> pe_gpuCount entry > 0
                            then Some (pe_gpuCount entry) else ms_gpuCount params)\<rparr>))"

text \<open>The two maps of field names are visited in sorted order.\<close>

definition imageOnlyFields :: "modelServerCustomSpec \<Rightarrow> bool gmap" where
  "imageOnlyFields params =
     [(''command'', ms_command params \<noteq> []),
      (''port'', ms_port params \<noteq> None),
      (''healthPath'', ms_healthPath params \<noteq> []),
      (''openAICompatible'', ms_openAICompatible params),
      (''apiSchema'', ms_apiSchema params \<noteq> []),
      (''backendAPIKeySecret'', ms_backendAPIKeySecret params \<noteq> []),
      (''servedModelName'', ms_servedModelName params \<noteq> []),
      (''imagePullSecret'', ms_imagePullSecret params \<noteq> [])]"

definition validateRuntimeModel :: "modelServerCustomSpec \<Rightarrow> kerror option" where
  "validateRuntimeModel params = first_error
     ([check (ms_modelFormat params = []) (Err (PredMsg ModelFormatRequired) []),
       check (ms_storageURI params = []) (Err (PredMsg StorageURIRequired) []),
       check (ms_task params \<noteq> [] \<and> \<not> equalFold (ms_modelFormat params) huggingFaceModelFormat)
         (Err (PredMsg TaskNeedsHuggingFace) [])] @
      map (\<lambda>field. check (ggetd False (imageOnlyFields params) field) (Err (PredMsg RequiresImage) [field]))
        (sorted_keys (imageOnlyFields params)))"

definition runtimeOnlyFields :: "modelServerCustomSpec \<Rightarrow> string gmap" where
  "runtimeOnlyFields params =
     [(''modelFormat'', ms_modelFormat params), (''runtime'', ms_runtime params),
      (''runtimeVersion'', ms_runtimeVersion params), (''task'', ms_task params)]"

definition validateCustomContainer :: "lib \<Rightarrow> modelServerCustomSpec \<Rightarrow> kerror option" where
  "validateCustomContainer L params = first_error
     (map (\<lambda>field. check (ggetd [] (runtimeOnlyFields params) field \<noteq> []) (Err (ContMsg RuntimeFieldWithImage) [field]))
        (sorted_keys (runtimeOnlyFields params)) @
      [check (ContainerPort params < 1 \<or> ContainerPort params > 65535) (Err (ContMsg PortOutOfRange) []),
       check (ms_healthPath params \<noteq> [] \<and> \<not> hasPrefix (ms_healthPath params) ''/'')
         (Err (ContMsg HealthPathRelative) []),
       check (ms_imagePullSecret params \<noteq> [] \<and> lib_isDNS1123Subdomain L (ms_imagePullSecret params) \<noteq> [])
         (Err (ContMsg ContainerPullSecretInvalid) (lib_isDNS1123Subdomain L (ms_imagePullSecret params))),
       (if ms_apiSchema params = [] \<or> ms_apiSchema params = APISchemaOpenAI then None
        else if ms_apiSchema params = APISchemaTypeSafe
        then check (ms_openAICompatible params) (Err (ContMsg OpenAIConflicts) [ms_apiSchema params])
        else Some (Err (ContMsg APISchemaUnknown) [])),
       check (ms_backendAPIKeySecret params \<noteq> [] \<and> lib_isDNS1123Subdomain L (ms_backendAPIKeySecret params) \<noteq> [])
         (Err (ContMsg BackendKeyInvalid) (lib_isDNS1123Subdomain L (ms_backendAPIKeySecret params))),
       check (ms_storageContainer params \<noteq> [] \<and> ms_storageURI params = [])
         (Err (ContMsg StorageContainerNeedsURI) [])])"

definition providerLabelKeys :: "lib \<Rightarrow> ctx \<Rightarrow> string list" where
  "providerLabelKeys L c =
     [lib_ProviderLabel L, lib_InstanceLabel L, lib_ComponentLabel L] @
     gkeys (om_labels (cx_objectMeta c (cx_name c)))"

definition validatePredictorMetadata :: "lib \<Rightarrow> ctx \<Rightarrow> modelServerCustomSpec \<Rightarrow> kerror option" where
  "validatePredictorMetadata L c params = first_error
     (map (\<lambda>k. if k \<in> set (providerLabelKeys L c) then Some (Err (PredMsg LabelReserved) [k])
              else (let errs = lib_isQualifiedName L k @ lib_isValidLabelValue L (ggetd [] (ms_labels params) k)
                    in check (errs \<noteq> []) (Err (PredMsg LabelInvalid) (k # errs))))
        (sorted_keys (ms_labels params)) @
      map (\<lambda>k. if k = DeploymentModeAnnotation then Some (Err (PredMsg AnnotationReserved) [k])
              else check (lib_isQualifiedName L k \<noteq> []) (Err (PredMsg AnnotationInvalid) (k # lib_isQualifiedName L k)))
        (sorted_keys (ms_annotations params)))"

definition predictorGatewaySchema :: "modelServerCustomSpec \<Rightarrow> aiGatewaySchema option" where
  "predictorGatewaySchema params =
     (if UsesCustomContainer params then
        (if ResolvedAPISchema params = APISchemaOpenAI
         then Some \<lparr>as_name = APISchemaOpenAI, as_prefix = openAIPrefix\<rparr>
         else if ResolvedAPISchema params = APISchemaTypeSafe
         then Some \<lparr>as_name = APISchemaTypeSafe, as_prefix = []\<rparr>
         else None)
      else if equalFold (ms_modelFormat params) huggingFaceModelFormat \<and> ms_task params = textEmbeddingTask
      then Some \<lparr>as_name = APISchemaOpenAI, as_prefix = kserveOpenAIPrefix\<rparr>
      else None)"

section \<open>Building the InferenceService\<close>

definition hasFlag :: "string list \<Rightarrow> string \<Rightarrow> bool" where
  "hasFlag args flag \<longleftrightarrow> list_ex (\<lambda>a. a = flag \<or> hasPrefix a (flag @ ''='')) args"

definition predictorArgs :: "modelServerCustomSpec \<Rightarrow> resources option \<Rightarrow> string list" where
  "predictorArgs params res =
     (if \<not> equalFold (ms_modelFormat params) huggingFaceModelFormat then ms_args params
      else
       let setTask = ms_task params \<noteq> [] \<and> \<not> hasFlag (ms_args params) ''--task'';
           args = (if setTask then (''--task='' @ ms_task params) # ms_args params else ms_args params);
           embedding = setTask \<and> ms_task params = textEmbeddingTask;
           gpu = requestsGPU res;
           args = (if \<not> gpu \<and> \<not> hasFlag args ''--backend'' then args @ [''--backend=huggingface''] else args)
       in if gpu \<and> embedding \<and> \<not> hasFlag args ''--runner'' then args @ [''--runner=pooling''] else args)"

definition customPredictorContainer :: "modelServerCustomSpec \<Rightarrow> resources option \<Rightarrow> container" where
  "customPredictorContainer params resources =
     (let port = ContainerPort params in
      \<lparr>ct_name = kserveContainerName, ct_image = ms_image params, ct_command = ms_command params,
       ct_args = (if ms_args params = [] then None else Some (ms_args params)),
       ct_env = (if ms_storageURI params \<noteq> []
                 then ms_env params @ [envVar storageURIEnvVar (ms_storageURI params)] else ms_env params),
       ct_resources = (case resources of Some r \<Rightarrow> r | None \<Rightarrow> no_resources),
       ct_ports = [\<lparr>cp_name = ''http'', cp_port = port, cp_protocol = ''TCP''\<rparr>],
       ct_volumeMounts = [(sharedMemoryVolume, ''/dev/shm'')],
       ct_securityContext = ms_containerSecurityContext params,
       ct_readinessProbe = (if ms_healthPath params \<noteq> []
          then Some \<lparr>pb_path = ms_healthPath params, pb_port = port, pb_periodSeconds = 10\<rparr> else None)\<rparr>)"

definition gpuDeploymentStrategy :: rollout where
  "gpuDeploymentStrategy = \<lparr>ro_maxSurge = 0, ro_maxUnavailable = 1\<rparr>"

definition usesHFTokenServiceAccount :: "env \<Rightarrow> modelServerCustomSpec \<Rightarrow> bool" where
  "usesHFTokenServiceAccount E params \<longleftrightarrow>
     ms_serviceAccountName params = [] \<and> HFTokenSecretName E \<noteq> [] \<and> hasPrefix (ms_storageURI params) ''hf://''"

definition predictorOf ::
    "env \<Rightarrow> lib \<Rightarrow> ctx \<Rightarrow> component \<Rightarrow> modelServerCustomSpec \<Rightarrow> predictorSpec" where
  "predictorOf E L c cmp params =
     (let resources = predictorResources (co_resources cmp) (ms_gpuCount params);
          labels = cx_podLabels c ComponentPredictor;
          p = zero_predictorSpec\<lparr>
            pd_serviceAccountName := (if usesHFTokenServiceAccount E params then modelPullerSAName (cx_name c)
                                      else ms_serviceAccountName params),
            pd_securityContext := ms_securityContext params,
            pd_labels := labels,
            pd_minReplicas := (if ms_minReplicas params \<noteq> None then ms_minReplicas params else co_replicas cmp),
            pd_maxReplicas := ms_maxReplicas params,
            pd_storageContainerName := ms_storageContainer params\<rparr>;
          p = (if UsesCustomContainer params
               then p\<lparr>pd_containers := [customPredictorContainer params resources],
                      pd_volumes := [(sharedMemoryVolume, ''Memory'')],
                      pd_imagePullSecrets := (if ms_imagePullSecret params \<noteq> [] then [ms_imagePullSecret params] else [])\<rparr>
               else p\<lparr>pd_model := Some \<lparr>md_modelFormat = ms_modelFormat params, md_runtime = ms_runtime params,
                        md_storageURI = ms_storageURI params, md_runtimeVersion = ms_runtimeVersion params,
                        md_resources = resources, md_env = ms_env params, md_args = predictorArgs params resources,
                        md_securityContext = ms_containerSecurityContext params\<rparr>\<rparr>);
          p = (case co_scheduling cmp of
                 None \<Rightarrow> p
               | Some policy \<Rightarrow> p\<lparr>pd_schedulerName := sp_schedulerName policy, pd_nodeSelector := sp_nodeSelector policy,
                   pd_affinity := sp_affinity policy, pd_tolerations := sp_tolerations policy,
                   pd_topologySpread := lib_topologySpread L policy labels\<rparr>)
      in if requestsGPU resources
         then p\<lparr>pd_tolerations := withGPUTolerations (pd_tolerations p) resources,
                pd_deploymentStrategy := Some gpuDeploymentStrategy\<rparr>
         else p)"

text \<open>The JSON form of the mirrored types (\<open>runtime.DefaultUnstructuredConverter.ToUnstructured\<close>).\<close>

definition strategyJSON :: "rollout \<Rightarrow> json" where
  "strategyJSON r = JObj [(''type'', JStr ''RollingUpdate''),
     (''rollingUpdate'', JObj [(''maxUnavailable'', JInt (ro_maxUnavailable r)), (''maxSurge'', JInt (ro_maxSurge r))])]"

definition modelJSON :: "lib \<Rightarrow> modelSpec \<Rightarrow> json gmap" where
  "modelJSON L m = optFields
     [(''modelFormat'', Some (JObj [(''name'', JStr (md_modelFormat m))])),
      (''runtime'', omitStr (md_runtime m)),
      (''storageUri'', omitStr (md_storageURI m)),
      (''runtimeVersion'', omitStr (md_runtimeVersion m)),
      (''resources'', map_option (lib_resourcesJSON L) (md_resources m)),
      (''env'', omitList (lib_envJSON L) (md_env m)),
      (''args'', omitList JStr (md_args m)),
      (''securityContext'', md_securityContext m)]"

definition predictorFields :: "lib \<Rightarrow> predictorSpec \<Rightarrow> (string \<times> json option) list" where
  "predictorFields L p =
     [(''minReplicas'', map_option JInt (pd_minReplicas p)),
      (''maxReplicas'', map_option JInt (pd_maxReplicas p)),
      (''labels'', omitMap (pd_labels p)),
      (''storageContainerName'', omitStr (pd_storageContainerName p)),
      (''serviceAccountName'', omitStr (pd_serviceAccountName p)),
      (''schedulerName'', omitStr (pd_schedulerName p)),
      (''nodeSelector'', omitMap (pd_nodeSelector p)),
      (''affinity'', pd_affinity p),
      (''tolerations'', omitList (lib_tolerationJSON L) (pd_tolerations p)),
      (''topologySpreadConstraints'', omitList (\<lambda>j. j) (pd_topologySpread p)),
      (''securityContext'', pd_securityContext p),
      (''deploymentStrategy'', map_option strategyJSON (pd_deploymentStrategy p)),
      (''imagePullSecrets'', omitList (\<lambda>n. JObj (optFields [(''name'', omitStr n)])) (pd_imagePullSecrets p)),
      (''volumes'', omitList (\<lambda>(n, medium). JObj [(''name'', JStr n),
          (''emptyDir'', JObj (optFields [(''medium'', omitStr medium)]))]) (pd_volumes p)),
      (''containers'', omitList (\<lambda>ct. JObj (lib_containerJSON L ct)) (pd_containers p)),
      (''model'', map_option (\<lambda>m. JObj (modelJSON L m)) (pd_model p))]"

definition predictorJSON :: "lib \<Rightarrow> predictorSpec \<Rightarrow> json gmap" where
  "predictorJSON L p = optFields (predictorFields L p)"

definition inferenceServiceMeta :: "ctx \<Rightarrow> modelServerCustomSpec \<Rightarrow> objmeta" where
  "inferenceServiceMeta c params =
     (let meta = cx_objectMeta c (cx_name c);
          annotations = (if UsesCustomContainer params
            then mergeMaps [(metricsPortAnnotation, itoa (ContainerPort params)), (metricsPathAnnotation, ''/metrics'')]
                   (ms_annotations params)
            else ms_annotations params)
      in meta\<lparr>om_labels := mergeMaps (ms_labels params) (om_labels meta),
              om_annotations := mergeMaps annotations [(DeploymentModeAnnotation, DeploymentModeStandard)]\<rparr>)"

definition strMap :: "string gmap \<Rightarrow> json" where
  "strMap m = JObj (map (\<lambda>(k, v). (k, JStr v)) m)"

definition inferenceServiceObject :: "objmeta \<Rightarrow> json gmap \<Rightarrow> json" where
  "inferenceServiceObject meta spec =
     unstrObject inferenceServiceGVK
       (nameMeta (om_name meta) (om_namespace meta) @
        [(''labels'', strMap (om_labels meta)), (''annotations'', strMap (om_annotations meta))]) spec"

definition buildInferenceService :: "env \<Rightarrow> lib \<Rightarrow> catalogs \<Rightarrow> ctx \<Rightarrow> kerror + json" where
  "buildInferenceService E L K c =
     (let cmp = cx_component c ComponentPredictor in
      tryR (resolveCatalogModel K (co_modelServer cmp)) (\<lambda>params.
        if \<not> UsesCustomContainer params \<and> ms_modelFormat params = []
        then Inl (Err (PredMsg ModelFormatRequired) [])
        else let predictor = predictorOf E L c cmp params in
          case lib_renderError L predictor of
            Some e \<Rightarrow> Inl (Wrap (ContMsg BuildingSpec) [] (LibErr e))
          | None \<Rightarrow>
             let spec = [(''predictor'', JObj (predictorJSON L predictor))] in
             tryR (if ms_config params = [] then Inr spec
                   else case mergePredictorConfig L (ms_config params) spec of
                       Inl e \<Rightarrow> Inl (Wrap (ContMsg ConfigInvalid) [] e)
                     | Inr merged \<Rightarrow> Inr merged)
               (\<lambda>spec. Inr (inferenceServiceObject (inferenceServiceMeta c params) spec))))"

section \<open>Validation\<close>

definition validatePredictorConfig :: "'s api \<Rightarrow> env \<Rightarrow> lib \<Rightarrow> catalogs \<Rightarrow> ctx \<Rightarrow> ('s, unit) prog" where
  "validatePredictorConfig A E L K c =
     bindP (liftR (buildInferenceService E L K c)) (\<lambda>isvc.
       let obj = KUnstr inferenceServiceGVK isvc in
       seqP (failIf (if cx_uid c \<noteq> []
                then (case lib_ownerError L (cx_ref c) obj of
                        Some e \<Rightarrow> Some (Wrap (ConfMsg ConfigOwner) [] (LibErr e)) | None \<Rightarrow> None)
                else None))
         (bindP (patchP A (DryRunApply obj)) (\<lambda>r. case r of
            None \<Rightarrow> ret () | Some e \<Rightarrow> failP (Wrap (ConfMsg ConfigRejected) [] (ApiErr e)))))"

definition predictorModelChecks :: "lib \<Rightarrow> component \<Rightarrow> modelServerCustomSpec \<Rightarrow> kerror option" where
  "predictorModelChecks L cmp params = first_error
     [(if UsesCustomContainer params then validateCustomContainer L params else validateRuntimeModel params),
      check (case ms_minReplicas params of Some n \<Rightarrow> n < 1 | None \<Rightarrow> False) (Err (PredMsg MinReplicasBelowOne) []),
      check (ms_minReplicas params = None \<and> (case co_replicas cmp of Some n \<Rightarrow> n < 1 | None \<Rightarrow> False))
        (Err (PredMsg ReplicasBelowOne) []),
      check (case ms_gpuCount params of Some n \<Rightarrow> n < 0 | None \<Rightarrow> False) (Err (PredMsg GpuCountNegative) [])]"

definition predictorAccessChecks ::
    "env \<Rightarrow> component \<Rightarrow> predictorTopologyParameters \<Rightarrow> modelServerCustomSpec \<Rightarrow> kerror option" where
  "predictorAccessChecks E cmp topo params = first_error
     [check (case co_service cmp of
          Some sp \<Rightarrow> ss_serviceType sp \<notin> {[], ClusterIP, LoadBalancer, NodePort} | None \<Rightarrow> False)
        (Err (PredMsg PredictorServiceType) []),
      check (pt_externalAccess topo \<notin> {[], ExternalAccessClusterIP, ExternalAccessLoadBalancer,
           ExternalAccessNodePort, ExternalAccessEnvoyAIGateway}) (Err (PredMsg PredictorExternalAccess) []),
      check (pred_UsesAIGateway topo \<and> \<not> AIGatewayEnabled E) (Err (PredMsg PredictorGatewayNotEnabled) []),
      check (pred_UsesAIGateway topo \<and> predictorGatewaySchema params = None) (Err (PredMsg PredictorServesNoAPI) [])]"

definition predictorFinalChecks ::
    "lib \<Rightarrow> ctx \<Rightarrow> predictorTopologyParameters \<Rightarrow> modelServerCustomSpec \<Rightarrow> kerror option" where
  "predictorFinalChecks L c topo params = first_error
     [check (\<not> pred_UsesAIGateway topo \<and> ms_backendAPIKeySecret params \<noteq> []) (Err (PredMsg BackendKeyNeedsGateway) []),
      (case pt_tokenLimitPerHour topo of
         None \<Rightarrow> None
       | Some n \<Rightarrow> first_error
           [check (\<not> pred_UsesAIGateway topo) (Err (PredMsg TokenLimitNeedsGateway) []),
            check (n < 1) (Err (PredMsg TokenLimitPositive) [])]),
      validatePredictorMetadata L c params]"

definition validatePredictor :: "'s api \<Rightarrow> env \<Rightarrow> lib \<Rightarrow> catalogs \<Rightarrow> ctx \<Rightarrow> ('s, unit) prog" where
  "validatePredictor A E L K c =
     (case gget (cx_components c) ComponentPredictor of
        None \<Rightarrow> failP (Err (PredMsg PredictorRequired) [])
      | Some cmp \<Rightarrow>
        let topo = cx_predictorTopology c in
        seqP (failIf (check (lib_isDNS1035Label L (cx_name c) \<noteq> [])
                (Err (PredMsg PredictorNameInvalid) (cx_name c # lib_isDNS1035Label L (cx_name c)))))
        (bindP (liftR (resolveCatalogModel K (co_modelServer cmp))) (\<lambda>params.
         seqP (failIf (predictorModelChecks L cmp params))
         (seqP (whenP (ms_storageContainer params \<noteq> [])
                  (wrapP (PredMsg StorageContainerInvalid) []
                     (validateStorageContainer A L (ms_storageContainer params) (ms_storageURI params))))
         (seqP (failIf (predictorAccessChecks E cmp topo params))
         (seqP (whenP (pred_UsesAIGateway topo)
                  (validateAIGatewayAccess A E L c (cx_name c)
                     ''the predictor serves the model under the Instance name, so use another Instance name''))
         (seqP (failIf (predictorFinalChecks L c topo params))
           (whenP (ms_config params \<noteq> []) (validatePredictorConfig A E L K c)))))))))"

section \<open>Where the Service sends traffic\<close>

text \<open>
  \<open>int32(p)\<close> of a \<open>float64\<close> truncates towards zero; KServe ports are small, and a number outside
  64 bits, where Go leaves the result to the implementation, wraps here.
\<close>

definition portOf :: "json \<Rightarrow> int" where
  "portOf v = (case v of JInt p \<Rightarrow> wrap32 p
     | JFloat f \<Rightarrow> wrap32 (if f < 0 then \<lceil>f\<rceil> else \<lfloor>f\<rfloor>)
     | _ \<Rightarrow> predictorContainerPort)"

definition predictorTargetPort :: "json \<Rightarrow> int" where
  "predictorTargetPort isvc =
     (case sliceOrNil isvc [''spec'', ''predictor'', ''containers''] of
        [] \<Rightarrow> predictorContainerPort
      | first # rest \<Rightarrow>
         (let container = (case find (\<lambda>raw. jindex (asObj raw) ''name'' = JStr transformerContainerName) (first # rest) of
               Some transformer \<Rightarrow> asObj transformer | None \<Rightarrow> asObj first)
          in case sliceOrNil (JObj container) [''ports''] of
               [] \<Rightarrow> predictorContainerPort
             | port # _ \<Rightarrow> portOf (jindex (asObj port) ''containerPort'')))"

section \<open>Properties of the translation\<close>

lemma tryR_build:
  assumes "buildInferenceService E L K c = Inr isvc"
  shows "\<exists>params spec config. resolveCatalogModel K (co_modelServer (cx_component c ComponentPredictor)) = Inr params \<and>
     isvc = inferenceServiceObject (inferenceServiceMeta c params) spec \<and>
     spec = mergeSpecMaps config
        [(''predictor'', JObj (predictorJSON L (predictorOf E L c (cx_component c ComponentPredictor) params)))]"
proof -
  obtain params where params: "resolveCatalogModel K (co_modelServer (cx_component c ComponentPredictor)) = Inr params"
    using assms by (auto simp: buildInferenceService_def Let_def tryR_Inr_iff)
  let ?gen = "[(''predictor'', JObj (predictorJSON L (predictorOf E L c (cx_component c ComponentPredictor) params)))]"
  obtain spec where spec: "isvc = inferenceServiceObject (inferenceServiceMeta c params) spec"
    "(if ms_config params = [] then Inr ?gen
      else case mergePredictorConfig L (ms_config params) ?gen of
          Inl e \<Rightarrow> Inl (Wrap (ContMsg ConfigInvalid) [] e) | Inr merged \<Rightarrow> Inr merged) = Inr spec"
    using assms params by (auto simp: buildInferenceService_def Let_def tryR_Inr_iff split: if_splits option.splits)
  have "\<exists>config. spec = mergeSpecMaps config ?gen"
  proof (cases "ms_config params = []")
    case True
    then have "spec = mergeSpecMaps [] ?gen" using spec(2) by (auto simp: mergeField.simps gset_def)
    then show ?thesis by blast
  next
    case False
    then have "mergePredictorConfig L (ms_config params) ?gen = Inr spec"
      using spec(2) by (simp split: sum.splits)
    then show ?thesis
      unfolding mergePredictorConfig_def by (auto split: sum.splits if_splits option.splits)
  qed
  with params spec(1) show ?thesis by blast
qed

lemma predictorFields_distinct: "distinct (map fst (predictorFields L p))"
  by (simp add: predictorFields_def)

lemma predictorJSON_get:
  "gget (predictorJSON L p) k = (case map_of (predictorFields L p) k of Some v \<Rightarrow> v | None \<Rightarrow> None)"
  unfolding predictorJSON_def by (rule gget_optFields [OF predictorFields_distinct])

lemma predictorJSON_distinct: "distinct (gkeys (predictorJSON L p))"
proof -
  have "distinct (map fst fs) \<Longrightarrow> distinct (gkeys (optFields fs))" for fs :: "(string \<times> json option) list"
  proof (induction fs)
    case Nil
    then show ?case by (simp add: gkeys_def)
  next
    case (Cons f fs)
    obtain k v where f: "f = (k, v)" by (cases f)
    have "k \<notin> set (gkeys (optFields fs))" using Cons.prems gkeys_optFields [of fs] by (auto simp: f)
    then show ?case using Cons by (cases v) (auto simp: f gkeys_def)
  qed
  then show ?thesis unfolding predictorJSON_def using predictorFields_distinct by blast
qed

lemma nestedField_append: "nestedField v ks = Inr (Some w) \<Longrightarrow> nestedField v (ks @ ls) = nestedField w ls"
  by (induction v ks rule: nestedField.induct) (auto split: option.splits)

text \<open>A field the provider generates is in the object it builds, whatever the configuration says.\<close>

lemma built_field:
  assumes "buildInferenceService E L K c = Inr isvc"
    and "resolveCatalogModel K (co_modelServer (cx_component c ComponentPredictor)) = Inr params"
    and "gget (predictorJSON L (predictorOf E L c (cx_component c ComponentPredictor) params)) k = Some v"
    and "proper v"
  shows "\<exists>w. nestedField isvc [''spec'', ''predictor'', k] = Inr (Some w) \<and> kept v w"
proof -
  let ?P = "predictorJSON L (predictorOf E L c (cx_component c ComponentPredictor) params)"
  obtain spec config where isvc: "isvc = inferenceServiceObject (inferenceServiceMeta c params) spec"
    "spec = mergeSpecMaps config [(''predictor'', JObj ?P)]"
    using tryR_build [OF assms(1)] assms(2) by force
  have "\<exists>m w. gget spec ''predictor'' = Some (JObj m) \<and> gget m k = Some w \<and> kept v w"
  proof (cases "\<exists>base. gget config ''predictor'' = Some (JObj base)")
    case True
    then obtain base where "gget config ''predictor'' = Some (JObj base)" by blast
    then have "gget spec ''predictor'' = Some (JObj (mergeSpecMaps base ?P))"
      by (simp add: isvc(2) mergeField_simps)
    moreover have "gget (mergeSpecMaps base ?P) k = Some (mergeField k (gget base k) v)"
      by (simp add: gget_mergeSpecMaps [OF predictorJSON_distinct] assms(3))
    ultimately show ?thesis using mergeField_kept [OF assms(4)] by blast
  next
    case False
    then have "mergeField ''predictor'' (gget config ''predictor'') (JObj ?P) = JObj ?P"
      using mergeField_cases [of "''predictor''" "gget config ''predictor''" "JObj ?P"] by auto
    then have "gget spec ''predictor'' = Some (JObj ?P)"
      by (simp add: isvc(2))
    then show ?thesis using assms(3) kept_same by blast
  qed
  then show ?thesis
    by (auto simp: isvc(1) inferenceServiceObject_def unstrObject_def)
qed

lemma predictorOf_labels: "pd_labels (predictorOf E L c cmp params) = cx_podLabels c ComponentPredictor"
  by (simp add: predictorOf_def Let_def zero_predictorSpec_def split: option.split)

lemma gget_strMap: "gget (map (\<lambda>(k, v). (k, JStr v)) m) k = map_option JStr (gget m k)"
  by (induction m) auto

lemma proper_strMap: "distinct (gkeys m) \<Longrightarrow> proper (strMap m)"
  by (auto simp: strMap_def gkeys_def list_all_iff comp_def case_prod_unfold)

text \<open>
  C10: The user cannot unhook the provider. Whatever labels, annotations and inline configuration
  an Instance has, in the InferenceService that buildInferenceService returns every label of the
  provider and the Standard deployment mode have the provider's values, and the pod labels, which
  its Services and PodMonitor select on, are those of the Instance.
\<close>

theorem managed_fields_survive:
  assumes "buildInferenceService E L K c = Inr isvc"
    and "distinct (gkeys (cx_podLabels c ComponentPredictor))"
  shows "(\<forall>k v. gget (om_labels (cx_objectMeta c (cx_name c))) k = Some v \<longrightarrow>
       nestedField isvc [''metadata'', ''labels'', k] = Inr (Some (JStr v))) \<and>
    nestedField isvc [''metadata'', ''annotations'', DeploymentModeAnnotation] =
       Inr (Some (JStr DeploymentModeStandard)) \<and>
    (\<forall>k v. gget (cx_podLabels c ComponentPredictor) k = Some v \<longrightarrow>
       nestedField isvc [''spec'', ''predictor'', ''labels'', k] = Inr (Some (JStr v)))"
proof -
  obtain params spec where isvc: "resolveCatalogModel K (co_modelServer (cx_component c ComponentPredictor)) = Inr params"
    "isvc = inferenceServiceObject (inferenceServiceMeta c params) spec"
    using tryR_build [OF assms(1)] by blast
  have pods: "nestedField isvc [''spec'', ''predictor'', ''labels'', k] = Inr (Some (JStr v))"
    if k: "gget (cx_podLabels c ComponentPredictor) k = Some v" for k v
  proof -
    let ?p = "predictorOf E L c (cx_component c ComponentPredictor) params"
    have "cx_podLabels c ComponentPredictor \<noteq> []" using k by auto
    then have "gget (predictorJSON L ?p) ''labels'' = Some (strMap (cx_podLabels c ComponentPredictor))"
      by (simp add: predictorJSON_get predictorFields_def omitMap_def predictorOf_labels strMap_def)
    from built_field [OF assms(1) isvc(1) this proper_strMap [OF assms(2)]]
    obtain w where w: "nestedField isvc [''spec'', ''predictor'', ''labels''] = Inr (Some w)"
      "kept (strMap (cx_podLabels c ComponentPredictor)) w" by blast
    then obtain m where m: "w = JObj m" using kept_object [of _ w] by (auto simp: strMap_def)
    have "gget m k = Some (JStr v)"
      using kept_get [OF w(2) [unfolded m strMap_def], of k "JStr v"] k by (auto simp: gget_strMap)
    with nestedField_append [OF w(1), of "[k]"] m show ?thesis by simp
  qed
  show ?thesis
    using pods
    by (auto simp: isvc(2) inferenceServiceObject_def unstrObject_def nameMeta_def strMap_def gget_strMap
        inferenceServiceMeta_def Let_def gget_mergeMaps)
qed

text \<open>An Instance that serves an image of its own on port 9000.\<close>

definition demo_image :: component where
  "demo_image = zero_component\<lparr>co_modelServer := zero_modelServer\<lparr>ms_image := ''img'', ms_port := Some 9000,
     ms_apiSchema := APISchemaOpenAI\<rparr>\<rparr>"

definition demo_image_ctx :: ctx where
  "demo_image_ctx = demo_ctx\<lparr>cx_topologyType := TopologyPredictor, cx_components := [(ComponentPredictor, demo_image)]\<rparr>"

lemma demo_image_component: "cx_component demo_image_ctx ComponentPredictor = demo_image"
  by (simp add: cx_component_def demo_image_ctx_def ggetd_def)

lemma demo_image_params:
  "resolveCatalogModel K (co_modelServer demo_image) = Inr (co_modelServer demo_image)"
  "UsesCustomContainer (co_modelServer demo_image)"
  "ContainerPort (co_modelServer demo_image) = 9000"
  "ms_config (co_modelServer demo_image) = []"
  by (simp_all add: resolveCatalogModel_def demo_image_def zero_modelServer_def UsesCustomContainer_def ContainerPort_def)

lemma demo_isvc: "\<exists>isvc. buildInferenceService E demo_lib no_catalogs demo_image_ctx = Inr isvc"
  by (simp add: buildInferenceService_def Let_def demo_image_component demo_image_params demo_lib_answers)

lemma demo_pod_labels: "cx_podLabels demo_image_ctx n = [(''component'', n)]"
  by (simp add: demo_image_ctx_def demo_ctx_def)

theorem managed_fields_survive_witness:
  "\<exists>isvc. buildInferenceService (\<lambda>_. []) demo_lib no_catalogs demo_image_ctx = Inr isvc \<and>
     nestedField isvc [''metadata'', ''annotations'', DeploymentModeAnnotation] = Inr (Some (JStr DeploymentModeStandard)) \<and>
     nestedField isvc [''spec'', ''predictor'', ''labels'', ''component''] = Inr (Some (JStr ComponentPredictor))"
proof -
  obtain isvc where isvc: "buildInferenceService (\<lambda>_. []) demo_lib no_catalogs demo_image_ctx = Inr isvc"
    using demo_isvc by blast
  have "distinct (gkeys (cx_podLabels demo_image_ctx ComponentPredictor))"
    by (simp add: demo_pod_labels gkeys_def)
  from managed_fields_survive [OF isvc this] isvc show ?thesis by (simp add: demo_pod_labels)
qed

text \<open>The JSON form of a core/v1 container: its name, and its ports as integers.\<close>

definition container_json_ok :: "lib \<Rightarrow> bool" where
  "container_json_ok L \<longleftrightarrow>
     (\<forall>ct. proper (JObj (lib_containerJSON L ct)) \<and>
        gget (lib_containerJSON L ct) ''name'' = Some (JStr (ct_name ct)) \<and>
        (\<forall>p ps. ct_ports ct = p # ps \<longrightarrow> (\<exists>m js. gget (lib_containerJSON L ct) ''ports'' = Some (JArr (JObj m # js)) \<and>
           gget m ''containerPort'' = Some (JInt (cp_port p)))))"

lemma custom_port_range:
  "predictorModelChecks L cmp params = None \<Longrightarrow> UsesCustomContainer params \<Longrightarrow>
     1 \<le> ContainerPort params \<and> ContainerPort params \<le> 65535"
  by (auto simp: predictorModelChecks_def validateCustomContainer_def)

text \<open>The first item of a generated list stays the first.\<close>

lemma kept_Cons: "kept (JArr (g # gs)) w \<Longrightarrow> \<exists>x xs. w = JArr (x # xs) \<and> kept g x"
proof (erule kept_JArr)
  show "w = JArr (g # gs) \<Longrightarrow> \<exists>x xs. w = JArr (x # xs) \<and> kept g x" by (simp add: kept_same)
next
  fix ms
  assume ms: "w = JArr ms" "length (g # gs) \<le> length ms" "\<And>i. i < length (g # gs) \<Longrightarrow> kept ((g # gs) ! i) (ms ! i)"
  then obtain x xs where "ms = x # xs" by (cases ms) auto
  with ms(1) ms(3) [of 0] show "\<exists>x xs. w = JArr (x # xs) \<and> kept g x" by simp
qed

lemma built_container:
  assumes "buildInferenceService E L K c = Inr isvc"
    and "resolveCatalogModel K (co_modelServer (cx_component c ComponentPredictor)) = Inr params"
    and "UsesCustomContainer params" "container_json_ok L"
  shows "\<exists>m rest ports port. nestedField isvc [''spec'', ''predictor'', ''containers''] = Inr (Some (JArr (JObj m # rest))) \<and>
     gget m ''name'' = Some (JStr kserveContainerName) \<and> gget m ''ports'' = Some (JArr (JObj port # ports)) \<and>
     gget port ''containerPort'' = Some (JInt (ContainerPort params))"
proof -
  let ?p = "predictorOf E L c (cx_component c ComponentPredictor) params"
  let ?ct = "customPredictorContainer params (predictorResources (co_resources (cx_component c ComponentPredictor)) (ms_gpuCount params))"
  have ct: "pd_containers ?p = [?ct]" using assms(3)
    by (simp add: predictorOf_def Let_def zero_predictorSpec_def split: option.split)
  have name: "ct_name ?ct = kserveContainerName" "ct_ports ?ct = [\<lparr>cp_name = ''http'', cp_port = ContainerPort params, cp_protocol = ''TCP''\<rparr>]"
    by (simp_all add: customPredictorContainer_def Let_def)
  let ?g = "JObj (lib_containerJSON L ?ct)"
  have "gget (predictorJSON L ?p) ''containers'' = Some (JArr [?g])"
    by (simp add: predictorJSON_get predictorFields_def omitList_def ct)
  moreover have "proper (JArr [?g])" using assms(4) by (simp add: container_json_ok_def)
  ultimately obtain w where w: "nestedField isvc [''spec'', ''predictor'', ''containers''] = Inr (Some w)" "kept (JArr [?g]) w"
    using built_field [OF assms(1,2)] by blast
  then obtain x rest where x: "w = JArr (x # rest)" "kept ?g x" using kept_Cons by blast
  then obtain m where m: "x = JObj m" using kept_object by blast
  have "gget (lib_containerJSON L ?ct) ''name'' = Some (JStr kserveContainerName)"
    using assms(4) by (simp add: container_json_ok_def name)
  then have nm: "gget m ''name'' = Some (JStr kserveContainerName)"
    using kept_get [OF x(2) [unfolded m]] by blast
  obtain pm js where ports: "gget (lib_containerJSON L ?ct) ''ports'' = Some (JArr (JObj pm # js))"
    "gget pm ''containerPort'' = Some (JInt (ContainerPort params))"
    using assms(4) name(2) unfolding container_json_ok_def by fastforce
  then obtain wp where wp: "gget m ''ports'' = Some wp" "kept (JArr (JObj pm # js)) wp"
    using kept_get [OF x(2) [unfolded m]] by blast
  then obtain y ys where y: "wp = JArr (y # ys)" "kept (JObj pm) y" using kept_Cons by blast
  then obtain port where port: "y = JObj port" using kept_object by blast
  have "gget port ''containerPort'' = Some (JInt (ContainerPort params))"
    using kept_get [OF y(2) [unfolded port] ports(2)] by blast
  with w(1) x(1) m nm wp(1) y(1) port show ?thesis by blast
qed

text \<open>
  C23: Traffic reaches the model server of a custom image. If the parameters pass the model checks
  and the InferenceService is built, whatever the inline configuration adds, the first container
  of the pod is the generated one, the port that predictorTargetPort gives the external Service is
  the container's port, between 1 and 65535, unless the pod has a transformer container, which
  KServe routes to instead.
\<close>

theorem custom_image_receives_traffic:
  assumes "buildInferenceService E L K c = Inr isvc"
    and "resolveCatalogModel K (co_modelServer (cx_component c ComponentPredictor)) = Inr params"
    and "UsesCustomContainer params" "predictorModelChecks L (cx_component c ComponentPredictor) params = None"
    and "container_json_ok L"
    and "list_all (\<lambda>raw. jindex (asObj raw) ''name'' \<noteq> JStr transformerContainerName)
       (sliceOrNil isvc [''spec'', ''predictor'', ''containers''])"
  shows "predictorTargetPort isvc = ContainerPort params \<and> 1 \<le> ContainerPort params \<and> ContainerPort params \<le> 65535 \<and>
    jindex (asObj (hd (sliceOrNil isvc [''spec'', ''predictor'', ''containers'']))) ''name'' = JStr kserveContainerName"
proof -
  obtain m rest ports port where built:
    "nestedField isvc [''spec'', ''predictor'', ''containers''] = Inr (Some (JArr (JObj m # rest)))"
    "gget m ''name'' = Some (JStr kserveContainerName)" "gget m ''ports'' = Some (JArr (JObj port # ports))"
    "gget port ''containerPort'' = Some (JInt (ContainerPort params))"
    using built_container [OF assms(1,2,3,5)] by blast
  have slice: "sliceOrNil isvc [''spec'', ''predictor'', ''containers''] = JObj m # rest"
    by (simp add: sliceOrNil_def nestedSlice_def built(1))
  have "find (\<lambda>raw. jindex (asObj raw) ''name'' = JStr transformerContainerName) (JObj m # rest) = None"
    using assms(6) unfolding slice by (auto simp: find_None_iff list_all_iff)
  moreover have "sliceOrNil (JObj m) [''ports''] = JObj port # ports"
    by (simp add: sliceOrNil_def nestedSlice_def built(3))
  moreover have range: "1 \<le> ContainerPort params \<and> ContainerPort params \<le> 65535"
    by (rule custom_port_range [OF assms(4,3)])
  moreover have "wrap32 (ContainerPort params) = ContainerPort params"
    by (rule wrap32_id) (use range in \<open>simp add: int32_ok_def\<close>)
  ultimately show ?thesis
    unfolding predictorTargetPort_def slice
    by (simp add: Let_def portOf_def jindex_def ggetd_def built(2,4))
qed

theorem custom_image_receives_traffic_witness:
  "\<exists>isvc. buildInferenceService (\<lambda>_. []) demo_lib no_catalogs demo_image_ctx = Inr isvc \<and>
     predictorTargetPort isvc = 9000"
proof -
  let ?p = "co_modelServer demo_image"
  obtain isvc where isvc: "buildInferenceService (\<lambda>_. []) demo_lib no_catalogs demo_image_ctx = Inr isvc"
    using demo_isvc by blast
  have params: "resolveCatalogModel no_catalogs (co_modelServer (cx_component demo_image_ctx ComponentPredictor)) = Inr ?p"
    by (simp add: demo_image_component demo_image_params)
  have checks: "predictorModelChecks demo_lib (cx_component demo_image_ctx ComponentPredictor) ?p = None"
    by (simp add: predictorModelChecks_def demo_image_component validateCustomContainer_def demo_image_params demo_lib_answers)
      (simp add: demo_image_def zero_modelServer_def zero_component_def runtimeOnlyFields_def ggetd_def gkeys_def)
  have json: "container_json_ok demo_lib"
    by (auto simp: container_json_ok_def demo_lib_answers gkeys_def list_all_iff)
  have spec: "isvc = inferenceServiceObject (inferenceServiceMeta demo_image_ctx ?p)
      [(''predictor'', JObj (predictorJSON demo_lib (predictorOf (\<lambda>_. []) demo_lib demo_image_ctx demo_image ?p)))]"
    using isvc by (simp add: buildInferenceService_def Let_def demo_image_component demo_image_params demo_lib_answers)
  have "pd_containers (predictorOf (\<lambda>_. []) demo_lib demo_image_ctx demo_image ?p) =
      [customPredictorContainer ?p (predictorResources (co_resources demo_image) (ms_gpuCount ?p))]"
    by (simp add: predictorOf_def Let_def demo_image_params zero_predictorSpec_def split: option.split)
  then have "sliceOrNil isvc [''spec'', ''predictor'', ''containers''] =
      [JObj [(''name'', JStr kserveContainerName), (''ports'', JArr [JObj [(''containerPort'', JInt 9000)]])]]"
    by (simp add: spec sliceOrNil_def nestedSlice_def inferenceServiceObject_def unstrObject_def predictorJSON_get
        predictorFields_def omitList_def demo_lib_answers customPredictorContainer_def Let_def demo_image_params)
  then have "list_all (\<lambda>raw. jindex (asObj raw) ''name'' \<noteq> JStr transformerContainerName)
      (sliceOrNil isvc [''spec'', ''predictor'', ''containers''])"
    by (simp add: jindex_def ggetd_def kserveContainerName_def transformerContainerName_def)
  from custom_image_receives_traffic [OF isvc params demo_image_params(2) checks json this] isvc
  show ?thesis by (simp add: demo_image_params)
qed

section \<open>Properties of the validation\<close>

lemma validatePredictor_facts:
  assumes "result (validatePredictor A E L K c) s = Inr ()"
  shows "\<exists>cmp params s1 s2. gget (cx_components c) ComponentPredictor = Some cmp \<and>
     resolveCatalogModel K (co_modelServer cmp) = Inr params \<and>
     lib_isDNS1035Label L (cx_name c) = [] \<and>
     predictorModelChecks L cmp params = None \<and>
     predictorAccessChecks E cmp (cx_predictorTopology c) params = None \<and>
     predictorFinalChecks L c (cx_predictorTopology c) params = None \<and>
     (pred_UsesAIGateway (cx_predictorTopology c) \<longrightarrow> result (validateAIGatewayAccess A E L c (cx_name c)
        ''the predictor serves the model under the Instance name, so use another Instance name'') s1 = Inr ()) \<and>
     (ms_config params \<noteq> [] \<longrightarrow> result (validatePredictorConfig A E L K c) s2 = Inr ())"
  using assms
  by (auto simp: validatePredictor_def Let_def result_seqP result_bindP whenP_def
      simp del: first_error_None split: option.splits sum.splits if_splits; blast)

lemma component_of: "gget (cx_components c) n = Some cmp \<Longrightarrow> cx_component c n = cmp"
  by (simp add: cx_component_def ggetd_def)

text \<open>The replica floor the Instance sets: the parameter, or else the component's replicas.\<close>

definition replicaFloor :: "component \<Rightarrow> modelServerCustomSpec \<Rightarrow> int option" where
  "replicaFloor cmp params = (case ms_minReplicas params of Some n \<Rightarrow> Some n | None \<Rightarrow> co_replicas cmp)"

lemma built_floor:
  assumes "buildInferenceService E L K c = Inr isvc"
    and "resolveCatalogModel K (co_modelServer (cx_component c ComponentPredictor)) = Inr params"
    and "replicaFloor (cx_component c ComponentPredictor) params = Some n"
  shows "nestedField isvc [''spec'', ''predictor'', ''minReplicas''] = Inr (Some (JInt n))"
proof -
  have "pd_minReplicas (predictorOf E L c (cx_component c ComponentPredictor) params) = Some n"
    using assms(3) by (auto simp: replicaFloor_def predictorOf_def Let_def zero_predictorSpec_def split: option.splits)
  then have "gget (predictorJSON L (predictorOf E L c (cx_component c ComponentPredictor) params)) ''minReplicas'' = Some (JInt n)"
    by (simp add: predictorJSON_get predictorFields_def)
  from built_field [OF assms(1,2) this] show ?thesis by auto
qed

lemma built_no_floor:
  assumes "buildInferenceService E L K c = Inr isvc"
    and "resolveCatalogModel K (co_modelServer (cx_component c ComponentPredictor)) = Inr params"
    and "replicaFloor (cx_component c ComponentPredictor) params = None" "ms_config params = []"
  shows "nestedField isvc [''spec'', ''predictor'', ''minReplicas''] = Inr None"
proof -
  let ?p = "predictorOf E L c (cx_component c ComponentPredictor) params"
  have "pd_minReplicas ?p = None"
    using assms(3) by (auto simp: replicaFloor_def predictorOf_def Let_def zero_predictorSpec_def split: option.splits)
  then have "gget (predictorJSON L ?p) ''minReplicas'' = None"
    by (simp add: predictorJSON_get predictorFields_def)
  moreover have "isvc = inferenceServiceObject (inferenceServiceMeta c params) [(''predictor'', JObj (predictorJSON L ?p))]"
    using assms(1,2,4) by (auto simp: buildInferenceService_def Let_def split: if_splits option.splits)
  ultimately show ?thesis by (simp add: inferenceServiceObject_def unstrObject_def)
qed


lemma demo_image_valid: "result (validatePredictor A (\<lambda>_. []) demo_lib no_catalogs demo_image_ctx) s = Inr ()"
proof -
  let ?p = "co_modelServer demo_image"
  have c1: "predictorModelChecks demo_lib demo_image ?p = None"
    by (simp add: predictorModelChecks_def validateCustomContainer_def demo_image_params demo_lib_answers)
      (simp add: demo_image_def zero_modelServer_def zero_component_def runtimeOnlyFields_def ggetd_def gkeys_def)
  have topo: "cx_predictorTopology demo_image_ctx = zero_predictorTopology"
    by (simp add: demo_image_ctx_def demo_ctx_def)
  have gw: "\<not> pred_UsesAIGateway zero_predictorTopology"
    by (simp add: pred_UsesAIGateway_def zero_predictorTopology_def externalAccess_defs)
  have c2: "predictorAccessChecks (\<lambda>_. []) demo_image zero_predictorTopology ?p = None"
    using gw by (simp add: predictorAccessChecks_def)
      (simp add: demo_image_def zero_component_def zero_predictorTopology_def)
  have c3: "predictorFinalChecks demo_lib demo_image_ctx zero_predictorTopology ?p = None"
    by (simp add: predictorFinalChecks_def validatePredictorMetadata_def)
      (simp add: demo_image_def zero_modelServer_def zero_predictorTopology_def sorted_keys_def gkeys_def)
  have more: "ms_storageContainer ?p = []" "gget (cx_components demo_image_ctx) ComponentPredictor = Some demo_image"
    by (simp_all add: demo_image_def zero_modelServer_def demo_image_ctx_def)
  show ?thesis
    by (simp add: validatePredictor_def more topo Let_def result_seqP result_bindP demo_lib_answers demo_image_params
        c1 c2 c3 whenP_def gw check_def)
qed


text \<open>
  KServe's rule for one URI format: a prefix, if there is one, decides alone; otherwise a regular
  expression decides; a format with neither supports nothing. A malformed expression is neither an
  acceptance nor a refusal.
\<close>

definition acceptsURI :: "lib \<Rightarrow> string \<Rightarrow> supportedURIFormat \<Rightarrow> bool" where
  "acceptsURI L uri f \<longleftrightarrow>
     uf_prefix f \<noteq> [] \<and> (\<exists>rest. uri = uf_prefix f @ rest) \<or>
     uf_prefix f = [] \<and> uf_regex f \<noteq> [] \<and> lib_regexMatch L (uf_regex f) uri = Inr True"

definition refusesURI :: "lib \<Rightarrow> string \<Rightarrow> supportedURIFormat \<Rightarrow> bool" where
  "refusesURI L uri f \<longleftrightarrow>
     uf_prefix f \<noteq> [] \<and> (\<nexists>rest. uri = uf_prefix f @ rest) \<or>
     uf_prefix f = [] \<and> (uf_regex f = [] \<or> lib_regexMatch L (uf_regex f) uri = Inr False)"

lemma supports_one:
  "acceptsURI L uri f \<Longrightarrow> supports L (f # fs) uri = Inr True"
  "refusesURI L uri f \<Longrightarrow> supports L (f # fs) uri = supports L fs uri"
  "\<not> acceptsURI L uri f \<Longrightarrow> \<not> refusesURI L uri f \<Longrightarrow> \<exists>e. supports L (f # fs) uri = Inl e"
  "acceptsURI L uri f \<Longrightarrow> \<not> refusesURI L uri f"
  by (auto simp: acceptsURI_def refusesURI_def hasPrefix_iff split: sum.split)

lemma supports_exact:
  "supports L fs uri = Inr True \<longleftrightarrow>
     (\<exists>before f after. fs = before @ f # after \<and> list_all (refusesURI L uri) before \<and> acceptsURI L uri f)"
proof (induction fs)
  case Nil
  then show ?case by simp
next
  case (Cons f fs)
  have split: "(\<exists>before g after. f # fs = before @ g # after \<and> list_all (refusesURI L uri) before \<and> acceptsURI L uri g) \<longleftrightarrow>
      acceptsURI L uri f \<or> refusesURI L uri f \<and>
        (\<exists>before g after. fs = before @ g # after \<and> list_all (refusesURI L uri) before \<and> acceptsURI L uri g)"
    (is "?all \<longleftrightarrow> ?first \<or> ?rest")
  proof
    assume ?all
    then obtain before g after where g: "f # fs = before @ g # after" "list_all (refusesURI L uri) before" "acceptsURI L uri g"
      by blast
    then show "?first \<or> ?rest" by (cases before) auto
  next
    assume "?first \<or> ?rest"
    then show ?all
    proof
      assume ?first
      then show ?all by (intro exI [of _ "[]"] exI [of _ f] exI [of _ fs]) simp
    next
      assume ?rest
      then obtain before g after where "refusesURI L uri f" "fs = before @ g # after"
        "list_all (refusesURI L uri) before" "acceptsURI L uri g" by blast
      then show ?all by (intro exI [of _ "f # before"] exI [of _ g] exI [of _ after]) simp
    qed
  qed
  show ?case
    unfolding split Cons.IH [symmetric]
    using supports_one(1-3) [of L uri f fs] supports_one(4) [of L uri f] 
    by (cases "acceptsURI L uri f"; cases "refusesURI L uri f") (auto simp del: supports.simps)
qed

text \<open>
  C32: A named storage container is checked the way KServe will. validateStorageContainer succeeds
  if and only if the name is valid, the ClusterStorageContainer exists and decodes, is not
  disabled, runs as an init container, and in the order of its URI formats one accepts the model's
  URI (by its prefix, or by its regular expression when it has no prefix) and all before it refuse;
  it writes nothing.
\<close>

theorem storage_container_check_exact:
  "(result (validateStorageContainer A L name uri) s = Inr ()) =
     (lib_isDNS1123Subdomain L name = [] \<and>
      (case api_get A s (storageContainerRef name) of
         Inl _ \<Rightarrow> False
       | Inr obj \<Rightarrow> (case lib_decodeStorageContainer L (unstrOf obj) of
           Inl _ \<Rightarrow> False
         | Inr csc \<Rightarrow> \<not> cs_disabled csc = Some True \<and>
             cs_workloadType csc \<in> {[], ''initContainer''} \<and>
             (\<exists>before f after. cs_supportedUriFormats csc = before @ f # after \<and>
                list_all (refusesURI L uri) before \<and> acceptsURI L uri f)))) \<and>
   writes (validateStorageContainer A L name uri) s = []"
  unfolding supports_exact [symmetric]
  by (auto simp: validateStorageContainer_def checkStorageContainer_def storageContainerWorkloadInitContainer_def
      run_writes split: sum.splits api_error.splits option.splits)

text \<open>
  Flags the user sets win. The arguments of a serving runtime are the user's, unchanged and in
  order, with provider flags only around them, and none of a name the user gave; a Hugging Face
  runtime without a GPU always ends up with a backend, so it does not start vLLM.
\<close>

theorem user_flags_win:
  "(\<exists>pre post. predictorArgs params res = pre @ ms_args params @ post \<and>
      list_all (\<lambda>flag. (if hasFlag (ms_args params) flag then \<not> hasFlag (pre @ post) flag else True))
        [''--task'', ''--backend'', ''--runner'']) \<and>
   (if equalFold (ms_modelFormat params) huggingFaceModelFormat \<and> \<not> requestsGPU res
    then hasFlag (predictorArgs params res) ''--backend'' else True)"
proof
  have append: "hasFlag (xs @ ys) f = (hasFlag xs f \<or> hasFlag ys f)" for xs ys f
    by (auto simp: hasFlag_def)
  have flags: "\<not> hasFlag [''--task='' @ t] ''--backend''" "\<not> hasFlag [''--task='' @ t] ''--runner''"
    "\<not> hasFlag [''--backend=huggingface''] ''--task''" "\<not> hasFlag [''--backend=huggingface''] ''--runner''"
    "\<not> hasFlag [''--runner=pooling''] ''--task''" "\<not> hasFlag [''--runner=pooling''] ''--backend''"
    "hasFlag [''--backend=huggingface''] ''--backend''" for t
    by (simp_all add: hasFlag_def)
  let ?setTask = "ms_task params \<noteq> [] \<and> \<not> hasFlag (ms_args params) ''--task''"
  let ?pre = "if equalFold (ms_modelFormat params) huggingFaceModelFormat \<and> ?setTask then [''--task='' @ ms_task params] else []"
  have pre: "hasFlag (?pre @ ms_args params) ''--backend'' = hasFlag (ms_args params) ''--backend''"
    "hasFlag (?pre @ ms_args params) ''--runner'' = hasFlag (ms_args params) ''--runner''"
    using flags by (simp_all add: append) (simp_all add: hasFlag_def)
  let ?post = "if \<not> equalFold (ms_modelFormat params) huggingFaceModelFormat then []
     else if \<not> requestsGPU res then (if hasFlag (ms_args params) ''--backend'' then [] else [''--backend=huggingface''])
     else if ?setTask \<and> ms_task params = textEmbeddingTask \<and> \<not> hasFlag (ms_args params) ''--runner''
     then [''--runner=pooling''] else []"
  have args: "predictorArgs params res = ?pre @ ms_args params @ ?post"
    using pre by (auto simp: predictorArgs_def Let_def)
  show "\<exists>pre post. predictorArgs params res = pre @ ms_args params @ post \<and>
      list_all (\<lambda>flag. (if hasFlag (ms_args params) flag then \<not> hasFlag (pre @ post) flag else True))
        [''--task'', ''--backend'', ''--runner'']"
    by (intro exI [of _ ?pre] exI [of _ ?post] conjI, rule args)
      (use flags in \<open>auto simp: append hasFlag_def\<close>)
  show "if equalFold (ms_modelFormat params) huggingFaceModelFormat \<and> \<not> requestsGPU res
    then hasFlag (predictorArgs params res) ''--backend'' else True"
    using flags(7) by (simp add: args append)
qed

end
