(* ===== verification/PredictorSync.thy ===== *)
theory PredictorSync
  imports Predictor
begin

text \<open>
  \<open>internal/provider/inferenceservice.go\<close>, continued: the reconcile of an Instance of the predictor
  topology, its registration on the AI Gateway, and the translation of the InferenceService status.
\<close>

section \<open>AI Gateway\<close>

definition predictorAIBackendRef :: "string \<Rightarrow> string \<Rightarrow> modelServerCustomSpec \<Rightarrow> json" where
  "predictorAIBackendRef backendName instanceName params =
     JObj ((''name'', JStr backendName) #
       (if ms_servedModelName params \<noteq> [] \<and> ms_servedModelName params \<noteq> instanceName
        then [(''modelNameOverride'', JStr (ms_servedModelName params))] else []))"

definition predictorHost :: "ctx \<Rightarrow> string" where
  "predictorHost c = cx_name c @ ''-predictor.'' @ cx_namespace c @ ''.svc.cluster.local''"

text \<open>The blank second result: without a schema the code goes on with the zero value.\<close>

definition schemaOrZero :: "modelServerCustomSpec \<Rightarrow> aiGatewaySchema" where
  "schemaOrZero params =
     (case predictorGatewaySchema params of Some s \<Rightarrow> s | None \<Rightarrow> \<lparr>as_name = [], as_prefix = []\<rparr>)"

definition predictorBackends :: "lib \<Rightarrow> ctx \<Rightarrow> modelServerCustomSpec \<Rightarrow> (gvk \<times> json) list" where
  "predictorBackends L c params =
     (case buildServiceBackends L (cx_name c) (cx_namespace c) (predictorHost c) predictorServicePort
             (schemaOrZero params) of
        (backend, aiBackend) \<Rightarrow>
          [(envoyBackendGVK, backend), (aiServiceBackendGVK, aiBackend)] @
          (if ms_backendAPIKeySecret params \<noteq> []
           then [(backendSecurityPolicyGVK,
                  buildBackendAPIKeyPolicy L (cx_name c) (cx_namespace c) (ms_backendAPIKeySecret params))]
           else []))"

definition syncPredictorAIGateway ::
    "'s api \<Rightarrow> env \<Rightarrow> lib \<Rightarrow> ctx \<Rightarrow> predictorTopologyParameters \<Rightarrow> modelServerCustomSpec \<Rightarrow> ('s, unit) prog" where
  "syncPredictorAIGateway A E L c topo params =
     (if \<not> pred_UsesAIGateway topo then
        (if \<not> AIGatewayEnabled E then ret ()
         else seqP (cleanupAIGateway A L c)
              (seqP (deleteAIGatewayObject A L c backendSecurityPolicyGVK aiGatewayRouteSuffix)
              (seqP (deleteAIGatewayObject A L c aiServiceBackendGVK aiGatewayRouteSuffix)
                    (deleteAIGatewayObject A L c envoyBackendGVK aiGatewayRouteSuffix))))
      else
        seqP (whenP (ms_backendAPIKeySecret params = [])
                (deleteAIGatewayObject A L c backendSecurityPolicyGVK aiGatewayRouteSuffix))
          (syncAIGateway A E L c (cx_name c) (pt_tokenLimitPerHour topo)
             (predictorAIBackendRef (aiGatewayRouteName L (cx_name c)) (cx_name c) params)
             (predictorBackends L c params)))"

section \<open>Sync\<close>

definition predictorServiceType :: "ctx \<Rightarrow> string" where
  "predictorServiceType c =
     resolveServiceType (pred_ResolvedServiceType (cx_predictorTopology c))
       (co_service (cx_component c ComponentPredictor))"

definition predictorPodMonitor :: "env \<Rightarrow> lib \<Rightarrow> ctx \<Rightarrow> json" where
  "predictorPodMonitor E L c =
     buildPredictorPodMonitor L (cx_name c) (cx_namespace c) (cx_podLabels c ComponentPredictor) (PodMonitorInterval E)"

definition syncPredictor :: "'s api \<Rightarrow> env \<Rightarrow> lib \<Rightarrow> catalogs \<Rightarrow> ctx \<Rightarrow> ('s, unit) prog" where
  "syncPredictor A E L K c =
     (let cmp = cx_component c ComponentPredictor; topo = cx_predictorTopology c in
      bindP (liftR (resolveCatalogModel K (co_modelServer cmp))) (\<lambda>params.
      seqP (whenP (usesHFTokenServiceAccount E params) (ensureModelPullerServiceAccount A E L c))
      (bindP (liftR (buildInferenceService E L K c)) (\<lambda>isvc.
       seqP (Apply A L (cx_ref c) (KUnstr inferenceServiceGVK isvc))
       (seqP (syncPodMonitor A E L c (pred_MetricsEnabled topo) (predictorPodMonitor E L c))
       (seqP (syncPredictorAIGateway A E L c topo params)
         (reconcileExternalService A L c (co_service cmp) (predictorServiceType c)
            (cx_podLabels c ComponentPredictor) predictorServicePort (predictorTargetPort isvc))))))))"

section \<open>Status\<close>

definition predictorClientBasePath :: "ctx \<Rightarrow> string" where
  "predictorClientBasePath c =
     (case predictorGatewaySchema (co_modelServer (cx_component c ComponentPredictor)) of
        Some apiSchema \<Rightarrow> clientBasePath apiSchema
      | None \<Rightarrow> openAIBasePath)"

definition predictorServedModelName :: "ctx \<Rightarrow> string" where
  "predictorServedModelName c =
     (let params = co_modelServer (cx_component c ComponentPredictor) in
      if UsesCustomContainer params then ms_servedModelName params else cx_name c)"

definition predictorConnectionDetails ::
    "'s api \<Rightarrow> ctx \<Rightarrow> inferenceServiceStatus \<Rightarrow> ('s, connectionDetails option) prog" where
  "predictorConnectionDetails A c status =
     (if predictorServiceType c \<noteq> ClusterIP
      then externalServiceConnectionDetails A c (predictorServiceType c) predictorServicePort
      else case is_address status of
          Some u \<Rightarrow> ret (Some (urlConnectionDetails u))
        | None \<Rightarrow> ret (Some (kserveConnectionDetails (predictorHost c) (itoa predictorServicePort))))"

definition inferenceServiceRef :: "ctx \<Rightarrow> objref" where
  "inferenceServiceRef c = mkref inferenceServiceGVK (cx_namespace c) (cx_name c)"

definition decodeStatus :: "lib \<Rightarrow> json \<Rightarrow> string + inferenceServiceStatus" where
  "decodeStatus L obj =
     (case jindex (asObj obj) ''status'' of
        JObj raw \<Rightarrow> lib_decodeStatus L (JObj raw)
      | _ \<Rightarrow> Inr \<lparr>is_ready = None, is_address = None\<rparr>)"

definition readyPredictor :: "'s api \<Rightarrow> env \<Rightarrow> lib \<Rightarrow> ctx \<Rightarrow> inferenceServiceStatus \<Rightarrow> ('s, status) prog" where
  "readyPredictor A E L c status =
     (if pred_UsesAIGateway (cx_predictorTopology c)
      then bindP (aiGatewayConnectionDetails A E L c (cx_name c) (predictorClientBasePath c))
             (\<lambda>(details, waiting).
                if waiting \<noteq> [] then ret (Provisioning waiting) else ret (ReadyWith details))
      else bindP (predictorConnectionDetails A c status)
             (\<lambda>d. case d of
                 None \<Rightarrow> ret Ready
               | Some details \<Rightarrow>
                   (let model = predictorServedModelName c in
                    ret (ReadyWith (if model \<noteq> [] then details\<lparr>cn_additional := [(''model'', model)]\<rparr>
                                    else details)))))"

definition statusPredictor :: "'s api \<Rightarrow> env \<Rightarrow> lib \<Rightarrow> ctx \<Rightarrow> ('s, status) prog" where
  "statusPredictor A E L c =
     bindP (getP A (inferenceServiceRef c))
       (\<lambda>r. case r of
           Inl _ \<Rightarrow> ret (Provisioning ''Waiting for InferenceService'')
         | Inr obj \<Rightarrow>
           (case decodeStatus L (unstrOf obj) of
              Inl e \<Rightarrow> failP (Wrap (ContMsg DecodingStatus) [] (LibErr e))
            | Inr status \<Rightarrow>
              if condTrue (is_ready status) then readyPredictor A E L c status
              else ret (Provisioning (conditionMessage (is_ready status) ''InferenceService is being created''))))"

section \<open>Properties of Sync\<close>

lemma opens_deleteObject: "emits (\<lambda>e. \<not> opens_wrong gw e) (deleteAIGatewayObject A L c g suffix)"
  by (simp add: deleteAIGatewayObject_def emits_delete opens_wrong_def)

lemma opens_predictorGateway:
  "emits (\<lambda>e. \<not> opens_wrong (pred_UsesAIGateway topo) e) (syncPredictorAIGateway A E L c topo params)"
proof (cases "pred_UsesAIGateway topo")
  case True
  then show ?thesis
    by (auto simp: syncPredictorAIGateway_def intro!: emits_intros opens_syncAIGateway opens_deleteObject)
next
  case False
  then show ?thesis
    by (auto simp: syncPredictorAIGateway_def intro!: emits_intros opens_cleanup opens_deleteObject)
qed

text \<open>With the gateway, the resolved Service type is ClusterIP: the Service is only ever deleted.\<close>

lemma gateway_clusterIP: "pred_UsesAIGateway (cx_predictorTopology c) \<Longrightarrow> predictorServiceType c = ClusterIP"
  using pred_access.explicit_gateway [of "cx_predictorTopology c"]
  by (simp add: predictorServiceType_def resolveServiceType_def pred_UsesAIGateway_def ClusterIP_def)

lemma opens_predictorService:
  "emits (\<lambda>e. \<not> opens_wrong (pred_UsesAIGateway (cx_predictorTopology c)) e)
     (reconcileExternalService A L c spec (predictorServiceType c) sel port tgt)"
proof (cases "pred_UsesAIGateway (cx_predictorTopology c)")
  case True
  then show ?thesis by (simp add: gateway_clusterIP reconcileExternalService_def opens_deleteService)
next
  case False
  then show ?thesis using opens_reconcileService by simp
qed

lemma isvc_not_route [simp]: "inferenceServiceGVK \<noteq> aiGatewayRouteGVK"
  by (simp add: inferenceServiceGVK_def aiGatewayRouteGVK_def mkgvk_def)

lemma opens_syncPredictor:
  "emits (\<lambda>e. \<not> opens_wrong (pred_UsesAIGateway (cx_predictorTopology c)) e) (syncPredictor A E L K c)"
  unfolding syncPredictor_def Let_def
  by (intro emits_intros opens_serviceAccount opens_syncPodMonitor opens_predictorGateway opens_predictorService)
    (simp add: opens_wrong_def)

definition predictorSAEvents :: "env \<Rightarrow> ctx \<Rightarrow> modelServerCustomSpec \<Rightarrow> event list" where
  "predictorSAEvents E c params =
     (if usesHFTokenServiceAccount E params
      then [EvPatch (ServerSideApply (cx_ref c) (KServiceAccount (modelPullerServiceAccount E c))) None] else [])"

lemma predictorSA_success:
  assumes "result (whenP (usesHFTokenServiceAccount E params) (ensureModelPullerServiceAccount A E L c)) s = Inr ()"
  shows "writes (whenP (usesHFTokenServiceAccount E params) (ensureModelPullerServiceAccount A E L c)) s =
    predictorSAEvents E c params"
  using assms Apply_success
  by (auto simp: whenP_def predictorSAEvents_def ensureModelPullerServiceAccount_def split: if_splits)

lemma predictor_writes:
  assumes "result (syncPredictor A E L K c) s = Inr ()"
  shows "\<exists>params isvc s1 s2 s3.
     resolveCatalogModel K (co_modelServer (cx_component c ComponentPredictor)) = Inr params \<and>
     buildInferenceService E L K c = Inr isvc \<and>
     writes (syncPredictor A E L K c) s =
       predictorSAEvents E c params @
       [EvPatch (ServerSideApply (cx_ref c) (KUnstr inferenceServiceGVK isvc)) None] @
       writes (syncPodMonitor A E L c (pred_MetricsEnabled (cx_predictorTopology c)) (predictorPodMonitor E L c)) s1 @
       writes (syncPredictorAIGateway A E L c (cx_predictorTopology c) params) s2 @
       writes (reconcileExternalService A L c (co_service (cx_component c ComponentPredictor))
         (predictorServiceType c) (cx_podLabels c ComponentPredictor) predictorServicePort (predictorTargetPort isvc)) s3"
proof -
  let ?topo = "cx_predictorTopology c"
  from runs_result [OF assms] obtain params isvc s0 s1 s2 s3 w1 w2 w3 w4 w5 where
    built: "resolveCatalogModel K (co_modelServer (cx_component c ComponentPredictor)) = Inr params"
      "buildInferenceService E L K c = Inr isvc"
    and steps: "runs (whenP (usesHFTokenServiceAccount E params) (ensureModelPullerServiceAccount A E L c)) s () s0 w1"
      "runs (Apply A L (cx_ref c) (KUnstr inferenceServiceGVK isvc)) s0 () s1 w2"
      "runs (syncPodMonitor A E L c (pred_MetricsEnabled ?topo) (predictorPodMonitor E L c)) s1 () s2 w3"
      "runs (syncPredictorAIGateway A E L c ?topo params) s2 () s3 w4"
      "runs (reconcileExternalService A L c (co_service (cx_component c ComponentPredictor)) (predictorServiceType c)
         (cx_podLabels c ComponentPredictor) predictorServicePort (predictorTargetPort isvc)) s3 ()
         (final (syncPredictor A E L K c) s) w5"
    and w: "writes (syncPredictor A E L K c) s = w1 @ w2 @ w3 @ w4 @ w5"
    unfolding syncPredictor_def Let_def by (auto simp only: runs_parts append_Nil)
  have "w1 = predictorSAEvents E c params" "w2 = [EvPatch (ServerSideApply (cx_ref c) (KUnstr inferenceServiceGVK isvc)) None]"
    using steps(1) predictorSA_success runs_Apply [OF steps(2)] by (auto simp: runs_def)
  with w steps(3-5) built show ?thesis
    by (intro exI [of _ params] exI [of _ isvc] exI [of _ s1] exI [of _ s2] exI [of _ s3]) (simp add: runs_def)
qed

text \<open>
  C15: A predictor is deployed before it is exposed. When syncPredictor succeeds, its writes are, in
  this order: the ServiceAccount with the Hugging Face token (for an hf:// model without an account
  of its own), the InferenceService that was built, the PodMonitor, the gateway objects and the
  external Service, whose target port is read from that InferenceService; the first two were
  accepted. In every run, whatever the API answers and wherever it stops, an Instance behind the
  gateway never gets a Service of the provider, and one without it never gets a route.
\<close>

theorem predictor_sync_order:
  "(result (syncPredictor A E L K c) s = Inr () \<longrightarrow>
    (\<exists>params isvc s1 s2 s3.
     resolveCatalogModel K (co_modelServer (cx_component c ComponentPredictor)) = Inr params \<and>
     buildInferenceService E L K c = Inr isvc \<and>
     writes (syncPredictor A E L K c) s =
       predictorSAEvents E c params @
       [EvPatch (ServerSideApply (cx_ref c) (KUnstr inferenceServiceGVK isvc)) None] @
       writes (syncPodMonitor A E L c (pred_MetricsEnabled (cx_predictorTopology c)) (predictorPodMonitor E L c)) s1 @
       writes (syncPredictorAIGateway A E L c (cx_predictorTopology c) params) s2 @
       writes (reconcileExternalService A L c (co_service (cx_component c ComponentPredictor))
         (predictorServiceType c) (cx_podLabels c ComponentPredictor) predictorServicePort (predictorTargetPort isvc)) s3)) \<and>
   emits (\<lambda>e. if pred_UsesAIGateway (cx_predictorTopology c) then \<not> opensService e else \<not> opensRoute e)
     (syncPredictor A E L K c)"
proof
  show "emits (\<lambda>e. if pred_UsesAIGateway (cx_predictorTopology c) then \<not> opensService e else \<not> opensRoute e)
      (syncPredictor A E L K c)"
    using opens_syncPredictor [of c A E L K]
    by (cases "pred_UsesAIGateway (cx_predictorTopology c)") (simp_all add: opens_wrong_def)
qed (rule impI, rule predictor_writes)

lemma demo_predictor_sync: "result (syncPredictor mem_api (\<lambda>_. []) demo_lib no_catalogs demo_image_ctx) ([], 0) = Inr ()"
proof -
  obtain isvc where isvc: "buildInferenceService (\<lambda>_. []) demo_lib no_catalogs demo_image_ctx = Inr isvc"
    using demo_isvc by blast
  have topo: "cx_predictorTopology demo_image_ctx = zero_predictorTopology"
    by (simp add: demo_image_ctx_def demo_ctx_def)
  have type: "predictorServiceType demo_image_ctx = ClusterIP"
    by (simp add: predictorServiceType_def topo pred_ResolvedServiceType_def zero_predictorTopology_def
        externalAccess_defs resolveServiceType_def demo_image_component)
      (simp add: demo_image_def zero_component_def)
  show ?thesis
    by (simp add: syncPredictor_def Let_def demo_image_component demo_image_params run_writes isvc mem_answers
        usesHFTokenServiceAccount_def HFTokenSecretName_def whenP_def syncPodMonitor_def PodMonitorEnabled_def
        syncPredictorAIGateway_def topo pred_UsesAIGateway_def zero_predictorTopology_def externalAccess_defs
        AIGatewayEnabled_def reconcileExternalService_def deleteExternalService_def type)
qed

theorem predictor_sync_order_witness:
  "\<exists>isvc. EvPatch (ServerSideApply (cx_ref demo_image_ctx) (KUnstr inferenceServiceGVK isvc)) None \<in>
     set (writes (syncPredictor mem_api (\<lambda>_. []) demo_lib no_catalogs demo_image_ctx) ([], 0))"
  using predictor_sync_order [THEN conjunct1, THEN mp, OF demo_predictor_sync] by force

section \<open>Properties of Status\<close>

lemma statusPredictor_readOnly: "readOnly (statusPredictor A E L c)"
  using gatewayDetails_readOnly [of A E L c] serviceDetails_readOnly [of A c]
  by (auto simp: statusPredictor_def readyPredictor_def readOnly_def predictorConnectionDetails_def Let_def
      intro!: emits_intros split: sum.split option.split prod.split)

text \<open>
  C19: A predictor that is not ready is never reported ready, nor failed. When statusPredictor
  reports Ready, with or without details, the InferenceService was read, its status decoded and
  its Ready condition is true; behind the AI Gateway the details are the published ones for the
  Instance's name. It never reports Failed, and writes nothing.
\<close>

theorem predictor_ready_means_serving:
  assumes "result (statusPredictor A E L c) s = Inr st"
  shows "(if st = Ready \<or> (\<exists>d. st = ReadyWith d)
      then \<exists>obj ps. api_get A s (inferenceServiceRef c) = Inr obj \<and> decodeStatus L (unstrOf obj) = Inr ps \<and>
        condTrue (is_ready ps) \<and>
        (if pred_UsesAIGateway (cx_predictorTopology c)
         then \<exists>d. st = ReadyWith d \<and> published A E L c (cx_name c) s d else True)
      else \<exists>m. st = Provisioning m) \<and>
    writes (statusPredictor A E L c) s = []"
proof
  show "writes (statusPredictor A E L c) s = []" by (rule readOnly_writes [OF statusPredictor_readOnly])
  show "if st = Ready \<or> (\<exists>d. st = ReadyWith d)
      then \<exists>obj ps. api_get A s (inferenceServiceRef c) = Inr obj \<and> decodeStatus L (unstrOf obj) = Inr ps \<and>
        condTrue (is_ready ps) \<and>
        (if pred_UsesAIGateway (cx_predictorTopology c)
         then \<exists>d. st = ReadyWith d \<and> published A E L c (cx_name c) s d else True)
      else \<exists>m. st = Provisioning m"
    using assms details_published [of A E L c "cx_name c" "predictorClientBasePath c" s]
    by (auto simp: statusPredictor_def readyPredictor_def run_bind Let_def
        split: sum.splits if_splits prod.splits option.splits)
qed

definition ready_lib :: lib where
  "ready_lib = demo_lib\<lparr>lib_decodeStatus := (\<lambda>_. Inr \<lparr>is_ready = Some \<lparr>cd_isTrue = True, cd_message = [], cd_reason = []\<rparr>,
     is_address = None\<rparr>)\<rparr>"

definition ready_isvc :: json where
  "ready_isvc = JObj [(''metadata'', JObj (nameMeta ''demo'' ''ns'')), (''status'', JObj [])]"

theorem predictor_ready_means_serving_witness:
  "\<exists>obj ps. api_get mem_api ([(inferenceServiceRef demo_image_ctx, KUnstr inferenceServiceGVK ready_isvc)], 0)
       (inferenceServiceRef demo_image_ctx) = Inr obj \<and> decodeStatus ready_lib (unstrOf obj) = Inr ps \<and> condTrue (is_ready ps)"
proof -
  let ?s = "([(inferenceServiceRef demo_image_ctx, KUnstr inferenceServiceGVK ready_isvc)], 0) :: mem_state"
  have "uName ready_isvc = ''demo''" "uNamespace ready_isvc = ''ns''"
    unfolding uName_def uNamespace_def by (simp_all add: ready_isvc_def metaStr_def jindex_def ggetd_def nameMeta_def)
  then have ref: "mkref inferenceServiceGVK (uNamespace ready_isvc) (uName ready_isvc) = inferenceServiceRef demo_image_ctx"
    by (simp add: inferenceServiceRef_def demo_image_ctx_def demo_ctx_def)
  have gw: "\<not> pred_UsesAIGateway (cx_predictorTopology demo_image_ctx)"
    by (simp add: demo_image_ctx_def demo_ctx_def pred_UsesAIGateway_def zero_predictorTopology_def externalAccess_defs)
  have dec: "decodeStatus ready_lib ready_isvc =
      Inr \<lparr>is_ready = Some \<lparr>cd_isTrue = True, cd_message = [], cd_reason = []\<rparr>, is_address = None\<rparr>"
    by (simp add: decodeStatus_def ready_isvc_def jindex_def ggetd_def ready_lib_def)
  have type: "predictorServiceType demo_image_ctx = ClusterIP"
    by (simp add: predictorServiceType_def pred_ResolvedServiceType_def zero_predictorTopology_def
        externalAccess_defs resolveServiceType_def demo_image_component demo_image_ctx_def demo_ctx_def)
      (simp add: demo_image_def zero_component_def cx_component_def ggetd_def)
  have "\<exists>d. result (statusPredictor mem_api (\<lambda>_. []) ready_lib demo_image_ctx) ?s = Inr (ReadyWith d)"
    by (simp add: statusPredictor_def run_bind mem_answers ref dec condTrue_def readyPredictor_def gw
        predictorConnectionDetails_def type Let_def)
  then obtain d where "result (statusPredictor mem_api (\<lambda>_. []) ready_lib demo_image_ctx) ?s = Inr (ReadyWith d)" by blast
  from predictor_ready_means_serving [OF this] show ?thesis by auto
qed

end
