(* ===== verification/GatewayAuth.thy ===== *)
theory GatewayAuth
  imports AIGateway "HOL-Library.Multiset"
begin

text \<open>
  \<open>internal/provider/gatewayauth.go\<close>: the controller that renders every API key Secret of the
  cluster into one credentials Secret and one SecurityPolicy on the shared gateway. The heart is
  \<open>resolveGatewayKeys\<close>, which decides which key may call which model and fails closed.
\<close>

section \<open>Keys and what they may call\<close>

definition gatewayAuthControllerName :: string where "gatewayAuthControllerName = ''ai-gateway-auth''"
definition gatewayAuthSuffix :: string where "gatewayAuthSuffix = ''-api-keys''"
definition gatewayCredentialsLabel :: string where
  "gatewayCredentialsLabel = ''openeverest.io/ai-gateway-credentials''"
definition gatewayPlaceholderClientID :: string where "gatewayPlaceholderClientID = ''placeholder''"
definition securityPolicyGVK :: gvk where
  "securityPolicyGVK = mkgvk ''gateway.envoyproxy.io'' ''v1alpha1'' ''SecurityPolicy''"

record gatewayKey =
  gk_id :: string
  gk_value :: string
  gk_models :: "string list"

text \<open>The log lines, with what they interpolate.\<close>

datatype key_warning =
    InvalidKeyID string string
  | EmptyKey string
  | InvalidModelRef string string
  | ForeignNamespace string string
  | AmbiguousModel string string
  | SharedKeyID string string
  | SharedKeyValue string

definition qualifiedName :: "string \<Rightarrow> string \<Rightarrow> string" where
  "qualifiedName ns n = ns @ ''/'' @ n"

definition secretRef :: "secret \<Rightarrow> string" where
  "secretRef s = qualifiedName (om_namespace (se_meta s)) (om_name (se_meta s))"

definition routeRef :: "json \<Rightarrow> string" where
  "routeRef r = qualifiedName (uNamespace r) (uName r)"

text \<open>\<open>for _, x := range xs { m[x]++ }\<close>\<close>

fun tally :: "string list \<Rightarrow> nat gmap \<Rightarrow> nat gmap" where
  "tally [] m = m"
| "tally (x # xs) m = tally xs (gset x (ggetd 0 m x + 1) m)"

text \<open>The models of each attached route, and how many attached routes serve a model.\<close>

fun indexRoutes ::
    "string \<Rightarrow> string \<Rightarrow> json list \<Rightarrow> string list gmap \<times> nat gmap \<Rightarrow> string list gmap \<times> nat gmap" where
  "indexRoutes gw gns [] (routeModels, servedBy) = (routeModels, servedBy)"
| "indexRoutes gw gns (route # routes) (routeModels, servedBy) =
     (if \<not> routeAttachedToGateway route gw gns then indexRoutes gw gns routes (routeModels, servedBy)
      else let models = sort_compact (aiGatewayRouteModels route) in
        indexRoutes gw gns routes (gset (routeRef route) models routeModels, tally models servedBy))"

text \<open>One entry of the ai-gateway-models annotation: warnings, and the models it grants.\<close>

definition resolveRef ::
    "lib \<Rightarrow> string list gmap \<times> nat gmap \<Rightarrow> secret \<Rightarrow> string \<Rightarrow> key_warning list \<times> string list" where
  "resolveRef L tables secret modelRef =
     (case cut ''/'' modelRef of (namespace, instance, ok) \<Rightarrow>
        if \<not> ok \<or> namespace = [] \<or> instance = []
        then ([InvalidModelRef (secretRef secret) modelRef], [])
        else if namespace \<noteq> om_namespace (se_meta secret)
        then ([ForeignNamespace (secretRef secret) modelRef], [])
        else let models = ggetd [] (fst tables) (qualifiedName namespace (aiGatewayRouteName L instance))
          in (map (AmbiguousModel (secretRef secret)) (filter (\<lambda>m. ggetd 0 (snd tables) m > 1) models),
              filter (\<lambda>m. \<not> ggetd 0 (snd tables) m > 1) models))"

definition candidateKey ::
    "lib \<Rightarrow> string list gmap \<times> nat gmap \<Rightarrow> secret \<Rightarrow> key_warning list \<times> gatewayKey option" where
  "candidateKey L tables secret =
     (if \<not> validAPIKeyID (secretID secret)
      then ([InvalidKeyID (secretRef secret) (secretID secret)], None)
      else if secretKey secret = [] then ([EmptyKey (secretRef secret)], None)
      else let rs = map (resolveRef L tables secret)
                      (parseModelRefs (secretAnnotation secret aiGatewayModelsAnnotation));
               models = concat (map snd rs)
        in (concat (map fst rs),
            if models = [] then None
            else Some \<lparr>gk_id = secretID secret, gk_value = secretKey secret,
                       gk_models = sort_compact models\<rparr>))"

text \<open>The candidates in order, each with the reference of its Secret.\<close>

fun candidates ::
    "lib \<Rightarrow> string list gmap \<times> nat gmap \<Rightarrow> secret list \<Rightarrow> key_warning list \<times> (gatewayKey \<times> string) list" where
  "candidates L tables [] = ([], [])"
| "candidates L tables (secret # secrets) =
     (case candidateKey L tables secret of (ws, k) \<Rightarrow>
      case candidates L tables secrets of (ws', ks) \<Rightarrow>
        (ws @ ws', (case k of None \<Rightarrow> ks | Some key \<Rightarrow> (key, secretRef secret) # ks)))"

text \<open>Every key involved in a collision of identifiers or values is left out.\<close>

fun dropCollisions ::
    "nat gmap \<Rightarrow> nat gmap \<Rightarrow> (gatewayKey \<times> string) list \<Rightarrow> key_warning list \<times> gatewayKey list" where
  "dropCollisions ids values [] = ([], [])"
| "dropCollisions ids values ((key, ref) # rest) =
     (case dropCollisions ids values rest of (ws, ks) \<Rightarrow>
        if ggetd 0 ids (gk_id key) > 1 then (SharedKeyID ref (gk_id key) # ws, ks)
        else if ggetd 0 values (gk_value key) > 1 then (SharedKeyValue ref # ws, ks)
        else (ws, key # ks))"

definition resolveGatewayKeys ::
    "lib \<Rightarrow> secret list \<Rightarrow> json list \<Rightarrow> string \<Rightarrow> string \<Rightarrow> gatewayKey list \<times> key_warning list" where
  "resolveGatewayKeys L secrets routes gatewayName gatewayNamespace =
     (let tables = indexRoutes gatewayName gatewayNamespace routes ([], []);
          (ws, cands) = candidates L tables (sort_key secretRef secrets);
          (ws', keys) = dropCollisions (tally (map (gk_id \<circ> fst) cands) [])
                          (tally (map (gk_value \<circ> fst) cands) []) cands
      in (keys, ws @ ws'))"

section \<open>Rendering\<close>

definition buildGatewayCredentials :: "string \<Rightarrow> string \<Rightarrow> string \<Rightarrow> gatewayKey list \<Rightarrow> secret" where
  "buildGatewayCredentials name namespace placeholder keys =
     \<lparr>se_meta = \<lparr>om_name = name, om_namespace = namespace,
        om_labels = [(managedByLabel, ProviderName), (gatewayCredentialsLabel, ''true'')],
        om_annotations = []\<rparr>,
      se_type = SecretTypeOpaque,
      se_data = foldl (\<lambda>m key. gset (gk_id key) (gk_value key) m)
                  [(gatewayPlaceholderClientID, placeholder)] keys\<rparr>"

definition authRule :: "gatewayKey \<Rightarrow> json" where
  "authRule key =
     JObj [(''action'', JStr ''Allow''),
           (''principal'', JObj [(''headers'', JArr
              [JObj [(''name'', JStr aiGatewayKeyIDHeader), (''values'', JArr [JStr (gk_id key)])],
               JObj [(''name'', JStr aiGatewayModelHeader),
                     (''values'', JArr (map JStr (gk_models key)))]])])]"

definition buildGatewayAuthPolicy ::
    "env \<Rightarrow> string \<Rightarrow> string \<Rightarrow> string \<Rightarrow> gatewayKey list \<Rightarrow> json" where
  "buildGatewayAuthPolicy E name gatewayName namespace keys =
     (let rules = map authRule keys;
          authorization = (''defaultAction'', JStr ''Deny'')
            # (if rules \<noteq> [] then [(''rules'', JArr rules)] else []);
          target = [(''group'', JStr (gv_group gatewayGVK)), (''kind'', JStr (gv_kind gatewayGVK)),
                    (''name'', JStr gatewayName)]
            @ (if AIGatewayListenerName E \<noteq> []
               then [(''sectionName'', JStr (AIGatewayListenerName E))] else [])
      in unstrObject securityPolicyGVK (nameMeta name namespace)
           [(''targetRefs'', JArr [JObj target]),
            (''apiKeyAuth'', JObj
               [(''credentialRefs'', JArr [JObj [(''name'', JStr name)]]),
                (''extractFrom'', JArr [JObj [(''headers'', JArr [JStr ''Authorization'', JStr ''x-api-key''])]]),
                (''forwardClientIDHeader'', JStr aiGatewayKeyIDHeader),
                (''sanitize'', JBool True)]),
            (''authorization'', JObj authorization)])"

section \<open>The reconciler\<close>

record gatewayAuthReconciler =
  gr_gatewayName :: string
  gr_gatewayNamespace :: string

definition outputName :: "gatewayAuthReconciler \<Rightarrow> string" where
  "outputName r = gr_gatewayName r @ gatewayAuthSuffix"

text \<open>The watch predicates, on the namespace and the name of an object.\<close>

definition isGateway :: "gatewayAuthReconciler \<Rightarrow> string \<Rightarrow> string \<Rightarrow> bool" where
  "isGateway r ns n \<longleftrightarrow> ns = gr_gatewayNamespace r \<and> n = gr_gatewayName r"

definition isOutput :: "gatewayAuthReconciler \<Rightarrow> string \<Rightarrow> string \<Rightarrow> bool" where
  "isOutput r ns n \<longleftrightarrow> ns = gr_gatewayNamespace r \<and> n = outputName r"

definition outputRef :: "gvk \<Rightarrow> gatewayAuthReconciler \<Rightarrow> objref" where
  "outputRef g r = mkref g (gr_gatewayNamespace r) (outputName r)"

definition placeholderKey :: "'s api \<Rightarrow> gatewayAuthReconciler \<Rightarrow> ('s, string) prog" where
  "placeholderKey A r =
     bindP (getP A (outputRef secretGVK r))
       (\<lambda>res. case res of
           Inl NotFound \<Rightarrow> newAPIKey A
         | Inl e \<Rightarrow> failP (Wrap (AuthMsg ReadingCredentials) [] (ApiErr e))
         | Inr obj \<Rightarrow>
             (case asSecret obj of
                None \<Rightarrow> failP (LibErr ''not a Secret'')
              | Some existing \<Rightarrow>
                  (if secretData existing gatewayPlaceholderClientID \<noteq> []
                   then ret (secretData existing gatewayPlaceholderClientID)
                   else newAPIKey A)))"

definition deleteOutputs :: "'s api \<Rightarrow> gatewayAuthReconciler \<Rightarrow> ('s, unit) prog" where
  "deleteOutputs A r =
     bindP (clientDeleteP A (outputRef securityPolicyGVK r))
       (\<lambda>e. if e = None \<or> e = Some NotFound \<or> e = Some NoMatch
          then bindP (clientDeleteP A (outputRef secretGVK r))
                 (\<lambda>e. if e = None \<or> e = Some NotFound then ret ()
                    else failP (Wrap (AuthMsg DeletingCredentials) [] (ApiErr (the e))))
          else failP (Wrap (AuthMsg DeletingPolicy) [] (ApiErr (the e))))"

definition listOrFail ::
    "'s api \<Rightarrow> auth_msg \<Rightarrow> gvk \<Rightarrow> (string \<times> string) option \<Rightarrow> ('s, kobject list) prog" where
  "listOrFail A m g sel =
     bindP (listP A g sel)
       (\<lambda>res. case res of Inl e \<Rightarrow> failP (Wrap (AuthMsg m) [] (ApiErr e)) | Inr items \<Rightarrow> ret items)"

definition ReconcileAuth ::
    "'s api \<Rightarrow> env \<Rightarrow> lib \<Rightarrow> gatewayAuthReconciler \<Rightarrow> ('s, unit) prog" where
  "ReconcileAuth A E L r =
     (if \<not> AIGatewayAuthEnabled E then deleteOutputs A r
      else
        bindP (getP A (mkref gatewayGVK (gr_gatewayNamespace r) (gr_gatewayName r)))
        (\<lambda>res. case res of
           Inl e \<Rightarrow> failP (Wrap (AuthMsg ReadingGateway) [] (ApiErr e))
         | Inr gateway \<Rightarrow>
           bindP (listOrFail A ListingKeySecrets secretGVK (Some (aiGatewayKeyLabel, ''true'')))
           (\<lambda>secrets.
           bindP (listOrFail A ListingGatewayRoutes aiGatewayRouteGVK None)
           (\<lambda>routes.
            let keys = fst (resolveGatewayKeys L (List.map_filter asSecret secrets)
                         (map unstrOf routes) (gr_gatewayName r) (gr_gatewayNamespace r));
                owner = objRef gateway
            in bindP (placeholderKey A r)
               (\<lambda>placeholder.
                 seqP (wrapP (AuthMsg ApplyingCredentials) []
                   (Apply A L owner (KSecret
                      (buildGatewayCredentials (outputName r) (gr_gatewayNamespace r) placeholder keys))))
                 (wrapP (AuthMsg ApplyingPolicy) []
                   (Apply A L owner (KUnstr securityPolicyGVK
                      (buildGatewayAuthPolicy E (outputName r) (gr_gatewayName r)
                         (gr_gatewayNamespace r) keys)))))))))"

section \<open>The tables\<close>

lemma ggetd_tally: "ggetd 0 (tally xs m) k = ggetd 0 m k + count_list xs k"
  by (induction xs arbitrary: m) auto

text \<open>The attached routes that serve a model.\<close>

definition servingRoutes :: "string \<Rightarrow> string \<Rightarrow> json list \<Rightarrow> string \<Rightarrow> json list" where
  "servingRoutes gw gns routes m =
     filter (\<lambda>r. routeAttachedToGateway r gw gns \<and> m \<in> set (aiGatewayRouteModels r)) routes"

lemma count_list_distinct: "distinct xs \<Longrightarrow> count_list xs x = (if x \<in> set xs then 1 else 0)"
  by (induction xs) auto

lemma indexRoutes_served:
  "ggetd 0 (snd (indexRoutes gw gns routes (rm, sb))) m =
     ggetd 0 sb m + length (servingRoutes gw gns routes m)"
  by (induction routes arbitrary: rm sb)
    (auto simp: servingRoutes_def Let_def ggetd_tally count_list_distinct)

lemma indexRoutes_other:
  "k \<notin> routeRef ` set (filter (\<lambda>r. routeAttachedToGateway r gw gns) routes) \<Longrightarrow>
     gget (fst (indexRoutes gw gns routes (rm, sb))) k = gget rm k"
  by (induction routes arbitrary: rm sb) (auto simp: Let_def)

lemma indexRoutes_models:
  assumes "gget (fst (indexRoutes gw gns routes ([], []))) k = Some models"
  shows "\<exists>r \<in> set routes. routeAttachedToGateway r gw gns \<and> routeRef r = k \<and>
           models = sort_compact (aiGatewayRouteModels r)"
proof -
  have "gget (fst (indexRoutes gw gns routes (rm, sb))) k = Some models \<Longrightarrow>
      gget rm k = Some models \<or> (\<exists>r \<in> set routes. routeAttachedToGateway r gw gns \<and> routeRef r = k \<and>
           models = sort_compact (aiGatewayRouteModels r))" for rm sb
  proof (induction routes arbitrary: rm sb)
    case Nil
    then show ?case by simp
  next
    case (Cons r routes)
    then show ?case by (fastforce simp: Let_def split: if_splits)
  qed
  from this [OF assms] show ?thesis by simp
qed

lemma indexRoutes_lookup:
  assumes "distinct (map routeRef routes)" "r \<in> set routes" "routeAttachedToGateway r gw gns"
  shows "gget (fst (indexRoutes gw gns routes (rm, sb))) (routeRef r) =
           Some (sort_compact (aiGatewayRouteModels r))"
  using assms
proof (induction routes arbitrary: rm sb)
  case Nil
  then show ?case by simp
next
  case (Cons x routes)
  show ?case
  proof (cases "r = x")
    case True
    with Cons.prems have "routeRef r \<notin> routeRef ` set (filter (\<lambda>r. routeAttachedToGateway r gw gns) routes)"
      by auto
    with True Cons.prems show ?thesis by (simp add: Let_def indexRoutes_other)
  next
    case False
    with Cons show ?thesis by (simp add: Let_def)
  qed
qed

section \<open>What resolveGatewayKeys computes\<close>

text \<open>
  Names in the API: two routes differ in namespace or name, and a namespace has no slash. The same
  for Secrets, for the properties that need it.
\<close>

definition routes_ok :: "json list \<Rightarrow> bool" where
  "routes_ok routes \<longleftrightarrow>
     distinct (map routeRef routes) \<and> (\<forall>r \<in> set routes. CHR ''/'' \<notin> set (uNamespace r))"

definition secretNamespace :: "secret \<Rightarrow> string" where
  "secretNamespace sec = om_namespace (se_meta sec)"

text \<open>
  The rule the controller implements: a Secret grants a model when it names an Instance of its own
  namespace, that Instance's route on the gateway serves the model, and no other attached route
  serves it.
\<close>

definition grants :: "lib \<Rightarrow> string \<Rightarrow> string \<Rightarrow> json list \<Rightarrow> secret \<Rightarrow> string \<Rightarrow> bool" where
  "grants L gw gns routes sec m \<longleftrightarrow>
     (\<exists>inst r. secretNamespace sec \<noteq> [] \<and> inst \<noteq> [] \<and>
        qualifiedName (secretNamespace sec) inst \<in>
          set (parseModelRefs (secretAnnotation sec aiGatewayModelsAnnotation)) \<and>
        CHR ''/'' \<notin> set (secretNamespace sec) \<and>
        servingRoutes gw gns routes m = [r] \<and>
        uNamespace r = secretNamespace sec \<and> uName r = aiGatewayRouteName L inst)"

definition usableKey :: "secret \<Rightarrow> bool" where
  "usableKey sec \<longleftrightarrow> validAPIKeyID (secretID sec) \<and> secretKey sec \<noteq> []"

lemma qualifiedName_inject:
  assumes "CHR ''/'' \<notin> set ns" "CHR ''/'' \<notin> set ns'"
  shows "qualifiedName ns n = qualifiedName ns' n' \<longleftrightarrow> ns = ns' \<and> n = n'"
proof
  assume eq: "qualifiedName ns n = qualifiedName ns' n'"
  have "cut ''/'' (qualifiedName ns n) = (ns, n, True)"
    and "cut ''/'' (qualifiedName ns' n') = (ns', n', True)"
    using assms by (simp_all add: qualifiedName_def cut_append)
  with eq have "(ns, n, True) = (ns', n', True)" by metis
  then show "ns = ns' \<and> n = n'" by simp
qed simp

lemma cut_qualifiedName:
  "cut ''/'' ref = (ns, n, True) \<longleftrightarrow> ref = qualifiedName ns n \<and> CHR ''/'' \<notin> set ns"
  by (auto simp: qualifiedName_def cut_append dest: cut_found)

lemma mem_servingRoutes:
  "r \<in> set (servingRoutes gw gns routes m) \<longleftrightarrow>
     r \<in> set routes \<and> routeAttachedToGateway r gw gns \<and> m \<in> set (aiGatewayRouteModels r)"
  by (simp add: servingRoutes_def conj_assoc)

lemma singleton_list: "x \<in> set xs \<Longrightarrow> \<not> length xs > 1 \<Longrightarrow> xs = [x]"
  by (cases xs) auto

lemma resolveRef_sound:
  assumes "\<forall>r \<in> set routes. CHR ''/'' \<notin> set (uNamespace r)"
    and "m \<in> set (snd (resolveRef L (indexRoutes gw gns routes ([], [])) sec ref))"
  shows "\<exists>inst r. ref = qualifiedName (secretNamespace sec) inst \<and> secretNamespace sec \<noteq> [] \<and> inst \<noteq> [] \<and>
           CHR ''/'' \<notin> set (secretNamespace sec) \<and> servingRoutes gw gns routes m = [r] \<and>
           uNamespace r = secretNamespace sec \<and> uName r = aiGatewayRouteName L inst"
proof -
  let ?T = "indexRoutes gw gns routes ([], [])"
  obtain ns inst ok where cut: "cut ''/'' ref = (ns, inst, ok)" by (cases "cut ''/'' ref")
  with assms(2) have ok: "ok" "ns \<noteq> []" "inst \<noteq> []" "ns = secretNamespace sec"
    and m: "m \<in> set (ggetd [] (fst ?T) (qualifiedName ns (aiGatewayRouteName L inst)))"
    and once: "\<not> ggetd 0 (snd ?T) m > 1"
    by (auto simp: resolveRef_def Let_def secretNamespace_def split: if_splits)
  from cut ok have ref: "ref = qualifiedName ns inst" "CHR ''/'' \<notin> set ns"
    by (simp_all add: cut_qualifiedName)
  from m obtain models where "gget (fst ?T) (qualifiedName ns (aiGatewayRouteName L inst)) = Some models"
    and "m \<in> set models"
    by (cases "gget (fst ?T) (qualifiedName ns (aiGatewayRouteName L inst))") (auto simp: ggetd_def)
  from indexRoutes_models [OF this(1)] this(2) obtain r where r: "r \<in> set routes"
    "routeAttachedToGateway r gw gns" "routeRef r = qualifiedName ns (aiGatewayRouteName L inst)"
    "m \<in> set (aiGatewayRouteModels r)"
    by auto
  have "servingRoutes gw gns routes m = [r]"
    using r once by (intro singleton_list) (simp_all add: mem_servingRoutes indexRoutes_served)
  moreover have "uNamespace r = ns \<and> uName r = aiGatewayRouteName L inst"
    using r(3) ref(2) assms(1) r(1) by (simp add: routeRef_def qualifiedName_inject)
  ultimately show ?thesis using ok ref by (intro exI [of _ inst] exI [of _ r]) simp
qed

lemma resolveRef_complete:
  assumes "routes_ok routes" "secretNamespace sec \<noteq> []" "inst \<noteq> []"
    "CHR ''/'' \<notin> set (secretNamespace sec)" "servingRoutes gw gns routes m = [r]"
    "uNamespace r = secretNamespace sec" "uName r = aiGatewayRouteName L inst"
  shows "m \<in> set (snd (resolveRef L (indexRoutes gw gns routes ([], [])) sec
            (qualifiedName (secretNamespace sec) inst)))"
proof -
  let ?T = "indexRoutes gw gns routes ([], [])"
  have r: "r \<in> set routes" "routeAttachedToGateway r gw gns" "m \<in> set (aiGatewayRouteModels r)"
    using assms(5) mem_servingRoutes [of r gw gns routes m] by auto
  have "gget (fst ?T) (qualifiedName (secretNamespace sec) (aiGatewayRouteName L inst)) =
      Some (sort_compact (aiGatewayRouteModels r))"
    using indexRoutes_lookup [of routes r gw gns] r assms by (simp add: routes_ok_def routeRef_def)
  then show ?thesis
    using assms r
    by (simp add: resolveRef_def qualifiedName_def cut_append secretNamespace_def ggetd_def [of "[]"]
        indexRoutes_served Let_def)
qed

lemma candidateKey_models:
  "snd (candidateKey L T sec) = Some key \<Longrightarrow>
     usableKey sec \<and> gk_id key = secretID sec \<and> gk_value key = secretKey sec \<and> gk_models key \<noteq> [] \<and>
     sorted (gk_models key) \<and> distinct (gk_models key) \<and>
     set (gk_models key) = (\<Union>ref \<in> set (parseModelRefs (secretAnnotation sec aiGatewayModelsAnnotation)).
        set (snd (resolveRef L T sec ref)))"
  by (auto simp: candidateKey_def usableKey_def Let_def split: if_splits)

lemma candidateKey_None:
  "snd (candidateKey L T sec) = None \<longleftrightarrow>
     \<not> usableKey sec \<or>
     (\<forall>ref \<in> set (parseModelRefs (secretAnnotation sec aiGatewayModelsAnnotation)).
        snd (resolveRef L T sec ref) = [])"
  by (auto simp: candidateKey_def usableKey_def Let_def)

lemma candidateKey_grants:
  assumes "routes_ok routes" "snd (candidateKey L (indexRoutes gw gns routes ([], [])) sec) = Some key"
  shows "m \<in> set (gk_models key) \<longleftrightarrow> grants L gw gns routes sec m"
proof
  assume "m \<in> set (gk_models key)"
  with candidateKey_models [OF assms(2)] obtain ref where
    "ref \<in> set (parseModelRefs (secretAnnotation sec aiGatewayModelsAnnotation))"
    "m \<in> set (snd (resolveRef L (indexRoutes gw gns routes ([], [])) sec ref))" by auto
  with resolveRef_sound [of routes m L gw gns sec ref] assms(1) show "grants L gw gns routes sec m"
    unfolding grants_def routes_ok_def by blast
next
  assume "grants L gw gns routes sec m"
  then obtain inst r where g: "secretNamespace sec \<noteq> []" "inst \<noteq> []"
    "CHR ''/'' \<notin> set (secretNamespace sec)" "servingRoutes gw gns routes m = [r]"
    "uNamespace r = secretNamespace sec" "uName r = aiGatewayRouteName L inst"
    and ref: "qualifiedName (secretNamespace sec) inst \<in>
      set (parseModelRefs (secretAnnotation sec aiGatewayModelsAnnotation))"
    unfolding grants_def by blast
  from resolveRef_complete [OF assms(1) g] ref candidateKey_models [OF assms(2)]
  show "m \<in> set (gk_models key)" by auto
qed

lemma candidateKey_exists:
  assumes "routes_ok routes" "usableKey sec" "grants L gw gns routes sec m"
  shows "snd (candidateKey L (indexRoutes gw gns routes ([], [])) sec) \<noteq> None"
proof -
  obtain inst r where g: "secretNamespace sec \<noteq> []" "inst \<noteq> []"
    "CHR ''/'' \<notin> set (secretNamespace sec)" "servingRoutes gw gns routes m = [r]"
    "uNamespace r = secretNamespace sec" "uName r = aiGatewayRouteName L inst"
    and ref: "qualifiedName (secretNamespace sec) inst \<in>
      set (parseModelRefs (secretAnnotation sec aiGatewayModelsAnnotation))"
    using assms(3) unfolding grants_def by blast
  have "snd (resolveRef L (indexRoutes gw gns routes ([], [])) sec
      (qualifiedName (secretNamespace sec) inst)) \<noteq> []"
    using resolveRef_complete [OF assms(1) g] by force
  then show ?thesis using ref assms(2) unfolding candidateKey_None by blast
qed

lemma candidates_map_filter:
  "snd (candidates L T ss) =
     List.map_filter (\<lambda>s. map_option (\<lambda>k. (k, secretRef s)) (snd (candidateKey L T s))) ss"
  by (induction ss) (auto simp: map_filter_simps split: prod.splits option.splits)

lemma mem_candidates:
  "(key, ref) \<in> set (snd (candidates L T ss)) \<longleftrightarrow>
     (\<exists>s \<in> set ss. snd (candidateKey L T s) = Some key \<and> ref = secretRef s)"
  by (auto simp: candidates_map_filter List.map_filter_def image_iff)

lemma dropCollisions_filter:
  "snd (dropCollisions ids values cands) =
     filter (\<lambda>k. ggetd 0 ids (gk_id k) \<le> 1 \<and> ggetd 0 values (gk_value k) \<le> 1) (map fst cands)"
  by (induction cands) (auto split: prod.splits)

lemma resolve_eq:
  "fst (resolveGatewayKeys L secrets routes gw gns) =
     (let cands = map fst (snd (candidates L (indexRoutes gw gns routes ([], [])) (sort_key secretRef secrets)))
      in filter (\<lambda>k. count_list (map gk_id cands) (gk_id k) \<le> 1 \<and>
                     count_list (map gk_value cands) (gk_value k) \<le> 1) cands)"
  by (simp add: resolveGatewayKeys_def Let_def split_beta dropCollisions_filter ggetd_tally)

subsection \<open>Collisions\<close>

lemma distinct_kept:
  "(\<And>y. count_list (map f xs) y \<le> c y) \<Longrightarrow> distinct (map f (filter (\<lambda>x. c (f x) \<le> (1::nat) \<and> P x) xs))"
proof (induction xs)
  case Nil
  then show ?case by simp
next
  case (Cons x xs)
  have IH: "distinct (map f (filter (\<lambda>x. c (f x) \<le> 1 \<and> P x) xs))"
  proof (rule Cons.IH)
    fix y
    show "count_list (map f xs) y \<le> c y" using Cons.prems [of y] by (simp split: if_splits)
  qed
  have "f x \<notin> set (map f xs)" if "c (f x) \<le> 1"
    using Cons.prems [of "f x"] that by (simp add: count_list_0_iff [symmetric] del: set_map)
  with IH show ?case by auto
qed

text \<open>A Secret takes part in the resolution when it is well formed and grants some model.\<close>

definition contender :: "lib \<Rightarrow> string \<Rightarrow> string \<Rightarrow> json list \<Rightarrow> secret \<Rightarrow> bool" where
  "contender L gw gns routes sec \<longleftrightarrow> snd (candidateKey L (indexRoutes gw gns routes ([], [])) sec) \<noteq> None"

lemma contender_iff:
  assumes "routes_ok routes"
  shows "contender L gw gns routes sec \<longleftrightarrow> usableKey sec \<and> (\<exists>m. grants L gw gns routes sec m)"
proof
  assume "contender L gw gns routes sec"
  then obtain key where key: "snd (candidateKey L (indexRoutes gw gns routes ([], [])) sec) = Some key"
    by (auto simp: contender_def)
  obtain m where "m \<in> set (gk_models key)"
    using candidateKey_models [OF key] by (cases "gk_models key") auto
  then show "usableKey sec \<and> (\<exists>m. grants L gw gns routes sec m)"
    using candidateKey_models [OF key] candidateKey_grants [OF assms key] by blast
next
  assume "usableKey sec \<and> (\<exists>m. grants L gw gns routes sec m)"
  then show "contender L gw gns routes sec"
    using candidateKey_exists [OF assms] unfolding contender_def by blast
qed

lemma candidates_Cons:
  "snd (candidates L T (s # ss)) =
     (case snd (candidateKey L T s) of None \<Rightarrow> snd (candidates L T ss)
      | Some k \<Rightarrow> (k, secretRef s) # snd (candidates L T ss))"
  by (simp add: split_beta)

lemma mem_map_fst: "k \<in> set (map fst xs) \<longleftrightarrow> (\<exists>y. (k, y) \<in> set xs)"
  by force

lemma count_candidates:
  assumes "\<And>s k. snd (candidateKey L T s) = Some k \<Longrightarrow> f k = g s"
  shows "count_list (map f (map fst (snd (candidates L T ss)))) x =
     length (filter (\<lambda>s. snd (candidateKey L T s) \<noteq> None \<and> g s = x) ss)"
proof (induction ss)
  case Nil
  show ?case by simp
next
  case (Cons s ss)
  show ?case
  proof (cases "snd (candidateKey L T s)")
    case None
    with Cons.IH show ?thesis by (simp add: candidates_Cons del: candidates.simps)
  next
    case (Some k)
    with Cons.IH assms [OF Some] show ?thesis by (simp add: candidates_Cons del: candidates.simps)
  qed
qed

lemma length_filter_sort: "length (filter P (sort_key f xs)) = length (filter P xs)"
  by (metis filter_sort length_sort)

text \<open>Which keys survive, in terms of the Secrets.\<close>

lemma mem_resolve:
  "key \<in> set (fst (resolveGatewayKeys L secrets routes gw gns)) \<longleftrightarrow>
     (\<exists>sec \<in> set secrets. snd (candidateKey L (indexRoutes gw gns routes ([], [])) sec) = Some key \<and>
        length (filter (\<lambda>s. contender L gw gns routes s \<and> secretID s = secretID sec) secrets) \<le> 1 \<and>
        length (filter (\<lambda>s. contender L gw gns routes s \<and> secretKey s = secretKey sec) secrets) \<le> 1)"
proof -
  let ?T = "indexRoutes gw gns routes ([], [])"
  let ?c = "snd (candidates L ?T (sort_key secretRef secrets))"
  have ids: "count_list (map gk_id (map fst ?c)) x =
      length (filter (\<lambda>s. contender L gw gns routes s \<and> secretID s = x) secrets)" for x
    using count_candidates [where f = gk_id and g = secretID and L = L and T = ?T]
      candidateKey_models [of L ?T] by (simp add: length_filter_sort contender_def)
  have vals: "count_list (map gk_value (map fst ?c)) x =
      length (filter (\<lambda>s. contender L gw gns routes s \<and> secretKey s = x) secrets)" for x
    using count_candidates [where f = gk_value and g = secretKey and L = L and T = ?T]
      candidateKey_models [of L ?T] by (simp add: length_filter_sort contender_def)
  have mem: "k \<in> set (map fst ?c) \<longleftrightarrow> (\<exists>s \<in> set secrets. snd (candidateKey L ?T s) = Some k)" for k
    unfolding mem_map_fst mem_candidates by auto
  have key: "snd (candidateKey L ?T s) = Some key \<Longrightarrow> gk_id key = secretID s \<and> gk_value key = secretKey s" for s
    using candidateKey_models [of L ?T s key] by simp
  have eq: "(\<exists>s \<in> S. C s) \<and> P (gk_id key) \<and> Q (gk_value key) \<longleftrightarrow> (\<exists>s \<in> S. C s \<and> P (secretID s) \<and> Q (secretKey s))"
    if "\<And>s. C s \<Longrightarrow> gk_id key = secretID s \<and> gk_value key = secretKey s" for S C P Q
    using that by auto
  show ?thesis
    unfolding resolve_eq Let_def set_filter mem_Collect_eq ids vals mem
    by (rule eq) (rule key)
qed

section \<open>Properties of the resolution\<close>

text \<open>A key the gateway can enforce.\<close>

definition enforceable :: "gatewayKey \<Rightarrow> bool" where
  "enforceable k \<longleftrightarrow> validAPIKeyID (gk_id k) \<and> gk_id k \<noteq> gatewayPlaceholderClientID \<and> gk_value k \<noteq> [] \<and>
     gk_models k \<noteq> [] \<and> sorted (gk_models k) \<and> distinct (gk_models k)"

lemma valid_not_placeholder: "validAPIKeyID x \<Longrightarrow> x \<noteq> gatewayPlaceholderClientID"
  by (auto simp: validAPIKeyID_def gatewayPlaceholderClientID_def)

lemma resolved_key_enforceable:
  "key \<in> set (fst (resolveGatewayKeys L secrets routes gw gns)) \<Longrightarrow> enforceable key"
  unfolding mem_resolve
  by (auto dest!: candidateKey_models dest: valid_not_placeholder simp: enforceable_def usableKey_def)

lemma resolved_ids_distinct:
  "distinct (map gk_id (fst (resolveGatewayKeys L secrets routes gw gns)))"
  unfolding resolve_eq Let_def
  by (rule distinct_kept [where P = "\<lambda>k. count_list (map gk_value _) (gk_value k) \<le> 1"]) simp

lemma resolved_values_distinct:
  "distinct (map gk_value (fst (resolveGatewayKeys L secrets routes gw gns)))"
  unfolding resolve_eq Let_def
  by (subst conj_commute)
    (rule distinct_kept [where P = "\<lambda>k. count_list (map gk_id _) (gk_id k) \<le> 1"], simp)

text \<open>
  The gateway never sees an ambiguous key. Whatever Secrets and routes exist, the keys that
  resolveGatewayKeys returns have pairwise different identifiers and pairwise different values,
  every identifier matches the pattern and is not the placeholder's, and every key has a value
  and a sorted, duplicate-free, non-empty list of models.
\<close>

theorem resolved_keys_unambiguous:
  "distinct (map gk_id (fst (resolveGatewayKeys L secrets routes gw gns))) \<and>
   distinct (map gk_value (fst (resolveGatewayKeys L secrets routes gw gns))) \<and>
   list_all enforceable (fst (resolveGatewayKeys L secrets routes gw gns))"
  by (simp add: resolved_ids_distinct resolved_values_distinct list_all_iff resolved_key_enforceable)

text \<open>The specification: a Secret contends when it is usable and grants something.\<close>

definition contends :: "lib \<Rightarrow> string \<Rightarrow> string \<Rightarrow> json list \<Rightarrow> secret \<Rightarrow> bool" where
  "contends L gw gns routes sec \<longleftrightarrow> usableKey sec \<and> (\<exists>m. grants L gw gns routes sec m)"

definition sole :: "(secret \<Rightarrow> string) \<Rightarrow> (secret \<Rightarrow> bool) \<Rightarrow> secret list \<Rightarrow> secret \<Rightarrow> bool" where
  "sole f C secrets sec \<longleftrightarrow> length (filter (\<lambda>s. C s \<and> f s = f sec) secrets) \<le> 1"

definition effective :: "lib \<Rightarrow> string \<Rightarrow> string \<Rightarrow> json list \<Rightarrow> secret list \<Rightarrow> secret \<Rightarrow> bool" where
  "effective L gw gns routes secrets sec \<longleftrightarrow>
     sec \<in> set secrets \<and> contends L gw gns routes sec \<and>
     sole secretID (contends L gw gns routes) secrets sec \<and>
     sole secretKey (contends L gw gns routes) secrets sec"

definition keyOf :: "lib \<Rightarrow> string \<Rightarrow> string \<Rightarrow> json list \<Rightarrow> secret \<Rightarrow> gatewayKey \<Rightarrow> bool" where
  "keyOf L gw gns routes sec key \<longleftrightarrow>
     gk_id key = secretID sec \<and> gk_value key = secretKey sec \<and>
     set (gk_models key) = {m. grants L gw gns routes sec m} \<and>
     sorted (gk_models key) \<and> distinct (gk_models key)"

lemma contender_contends: "routes_ok routes \<Longrightarrow> contender L gw gns routes = contends L gw gns routes"
  by (rule ext) (simp add: contender_iff contends_def)

lemma candidateKey_keyOf:
  assumes "routes_ok routes"
  shows "snd (candidateKey L (indexRoutes gw gns routes ([], [])) sec) = Some key \<longleftrightarrow>
     contends L gw gns routes sec \<and> keyOf L gw gns routes sec key"
proof
  assume key: "snd (candidateKey L (indexRoutes gw gns routes ([], [])) sec) = Some key"
  then have "contender L gw gns routes sec" by (simp add: contender_def)
  then show "contends L gw gns routes sec \<and> keyOf L gw gns routes sec key"
    using candidateKey_models [OF key] candidateKey_grants [OF assms key]
    by (auto simp: keyOf_def contender_contends [OF assms])
next
  assume r: "contends L gw gns routes sec \<and> keyOf L gw gns routes sec key"
  then obtain k where k: "snd (candidateKey L (indexRoutes gw gns routes ([], [])) sec) = Some k"
    using contender_contends [OF assms] by (metis contender_def not_None_eq)
  have "gk_models k = gk_models key"
    using r candidateKey_models [OF k] candidateKey_grants [OF assms k]
    by (intro sorted_distinct_set_unique) (auto simp: keyOf_def)
  moreover have "gk_id k = gk_id key" "gk_value k = gk_value key"
    using r candidateKey_models [OF k] by (simp_all add: keyOf_def)
  ultimately show "snd (candidateKey L (indexRoutes gw gns routes ([], [])) sec) = Some key"
    using k by simp
qed

lemma resolve_effective:
  assumes "routes_ok routes"
  shows "key \<in> set (fst (resolveGatewayKeys L secrets routes gw gns)) \<longleftrightarrow>
     (\<exists>sec. effective L gw gns routes secrets sec \<and> keyOf L gw gns routes sec key)"
  unfolding mem_resolve candidateKey_keyOf [OF assms] contender_contends [OF assms]
  by (auto simp: effective_def sole_def)

text \<open>A cluster with one published Instance and two key Secrets, for the witnesses.\<close>

definition key_secret :: "string \<Rightarrow> string \<Rightarrow> string \<Rightarrow> string \<Rightarrow> secret" where
  "key_secret n kid value refs =
     \<lparr>se_meta = \<lparr>om_name = n, om_namespace = ''ns'', om_labels = [],
        om_annotations = [(aiGatewayKeyIDAnnotation, kid), (aiGatewayModelsAnnotation, refs)]\<rparr>,
      se_type = SecretTypeOpaque, se_data = [(aiGatewayKeyDataKey, value)]\<rparr>"

definition demo_route :: "string \<Rightarrow> json" where
  "demo_route model =
     buildAIGatewayRoute gateway_env demo_lib ''demo'' ''ns'' model ''gw'' ''infra'' JNull"

lemma demo_routes_ok: "routes_ok [demo_route model]"
  by (simp add: routes_ok_def demo_route_def buildAIGatewayRoute_def unstrObject_def nameMeta_def
      uNamespace_def metaStr_def demo_lib_def Let_def)

lemma demo_refs: "parseModelRefs ''ns/demo'' = [''ns/demo'']"
  by (simp add: parseModelRefs_def trimSpace_printable printable_def sort_compact_def compact_def)

lemmas demo_route_reads =
  built_route_models built_route_attached built_route_name

lemma demo_granted:
  assumes "m \<noteq> []"
  shows "grants demo_lib ''gw'' ''infra'' [demo_route m] (key_secret n kid v ''ns/demo'') m"
proof -
  have "servingRoutes ''gw'' ''infra'' [demo_route m] m = [demo_route m]"
    using assms by (simp add: servingRoutes_def demo_route_def demo_route_reads)
  then show ?thesis
    by (intro grants_def [THEN iffD2] exI [of _ "''demo''"] exI [of _ "demo_route m"])
      (simp add: demo_route_def demo_route_reads key_secret_def secretNamespace_def secretAnnotation_def
        demo_refs qualifiedName_def aiGatewayModelsAnnotation_def aiGatewayKeyIDAnnotation_def ggetd_def)
qed

lemma demo_usable: "usableKey (key_secret n ''k_a'' ''v'' refs)"
  by (simp add: usableKey_def key_secret_def secretID_def secretKey_def secretAnnotation_def
      secretData_def ggetd_def validAPIKeyID_def keyIDChars_def)

text \<open>
  C3: The controller implements its rule exactly. For routes with distinct names, a key is
  rendered if and only if it comes from a Secret that is usable, grants at least one model, and
  shares neither its identifier nor its value with another such Secret; the key then carries the
  identifier and value of the Secret and exactly the models it grants: those an Instance of the
  Secret's own namespace serves alone on this gateway.
\<close>

theorem resolve_exact:
  assumes "routes_ok routes"
  shows "key \<in> set (fst (resolveGatewayKeys L secrets routes gw gns)) \<longleftrightarrow>
     (\<exists>sec. effective L gw gns routes secrets sec \<and> keyOf L gw gns routes sec key)"
  using resolve_effective [OF assms] .

theorem resolve_exact_witness:
  "\<exists>key \<in> set (fst (resolveGatewayKeys demo_lib [key_secret ''a'' ''k_a'' ''v'' ''ns/demo'']
      [demo_route ''m''] ''gw'' ''infra'')). ''m'' \<in> set (gk_models key)"
proof -
  let ?s = "key_secret ''a'' ''k_a'' ''v'' ''ns/demo''" and ?r = "[demo_route ''m'']"
  have g: "grants demo_lib ''gw'' ''infra'' ?r ?s ''m''" by (rule demo_granted) simp
  then have c: "contends demo_lib ''gw'' ''infra'' ?r ?s" using demo_usable unfolding contends_def by blast
  then obtain key where "snd (candidateKey demo_lib (indexRoutes ''gw'' ''infra'' ?r ([], [])) ?s) = Some key"
    by (metis contender_contends contender_def demo_routes_ok not_None_eq)
  then have key: "keyOf demo_lib ''gw'' ''infra'' ?r ?s key"
    using candidateKey_keyOf [OF demo_routes_ok] by blast
  have "effective demo_lib ''gw'' ''infra'' ?r [?s] ?s" using c by (simp add: effective_def sole_def)
  with key have "key \<in> set (fst (resolveGatewayKeys demo_lib [?s] ?r ''gw'' ''infra''))"
    using resolve_exact [OF demo_routes_ok] by blast
  with g key show ?thesis by (auto simp: keyOf_def)
qed

section \<open>Independence of the listing order and of the key values\<close>

text \<open>The tables of two listings of the same routes answer every lookup alike.\<close>

definition same_tables :: "string list gmap \<times> nat gmap \<Rightarrow> string list gmap \<times> nat gmap \<Rightarrow> bool" where
  "same_tables T T' \<longleftrightarrow>
     (\<forall>k. ggetd [] (fst T) k = ggetd [] (fst T') k) \<and> (\<forall>m. ggetd 0 (snd T) m = ggetd 0 (snd T') m)"

lemma same_tables_candidates:
  assumes "same_tables T T'"
  shows "candidates L T ss = candidates L T' ss"
proof -
  have "resolveRef L T sec ref = resolveRef L T' sec ref" for sec ref
    using assms by (simp add: resolveRef_def same_tables_def Let_def split: prod.split)
  then have "resolveRef L T = resolveRef L T'" by (intro ext)
  then have "candidateKey L T = candidateKey L T'" by (intro ext) (simp add: candidateKey_def)
  then show ?thesis by (induction ss) simp_all
qed

lemma servingRoutes_mset:
  "mset routes = mset routes' \<Longrightarrow> length (servingRoutes gw gns routes m) = length (servingRoutes gw gns routes' m)"
proof -
  assume "mset routes = mset routes'"
  then have "size (mset (servingRoutes gw gns routes m)) = size (mset (servingRoutes gw gns routes' m))"
    by (simp only: servingRoutes_def mset_filter)
  then show ?thesis by simp
qed

lemma indexRoutes_missing:
  assumes "k \<notin> routeRef ` {r \<in> set routes. routeAttachedToGateway r gw gns}"
  shows "gget (fst (indexRoutes gw gns routes ([], []))) k = None"
  using assms indexRoutes_other [of k gw gns routes "[]" "[]"] by simp

lemma indexRoutes_mset:
  assumes "mset routes = mset routes'" "routes_ok routes"
  shows "same_tables (indexRoutes gw gns routes ([], [])) (indexRoutes gw gns routes' ([], []))"
proof -
  have set: "set routes' = set routes" using assms(1) by (metis set_mset_mset)
  have d: "distinct (map routeRef routes)" "distinct (map routeRef routes')"
    using assms by (auto simp: routes_ok_def distinct_map set dest: mset_eq_imp_distinct_iff)
  have "gget (fst (indexRoutes gw gns routes ([], []))) k = gget (fst (indexRoutes gw gns routes' ([], []))) k" for k
  proof (cases "k \<in> routeRef ` {r \<in> set routes. routeAttachedToGateway r gw gns}")
    case True
    then obtain r where r: "r \<in> set routes" "routeAttachedToGateway r gw gns" "k = routeRef r" by auto
    then show ?thesis using indexRoutes_lookup [of routes r gw gns] indexRoutes_lookup [of routes' r gw gns]
      by (simp add: d set)
  next
    case False
    then show ?thesis by (simp add: indexRoutes_missing set)
  qed
  then show ?thesis
    by (simp add: same_tables_def ggetd_def [of "[]"] indexRoutes_served servingRoutes_mset [OF assms(1)])
qed

lemma sort_secrets_mset:
  assumes "mset secrets = mset secrets'" "distinct (map secretRef secrets)"
  shows "sort_key secretRef secrets = sort_key secretRef secrets'"
proof (rule sort_key_inj_key_eq)
  show "mset secrets = mset (sort_key secretRef secrets')" using assms(1) by simp
  show "inj_on secretRef (set secrets)" using assms(2) by (simp add: distinct_map)
  show "sorted (map secretRef (sort_key secretRef secrets'))" by simp
qed

text \<open>
  C27: The result does not depend on the order in which the API lists its objects. Two listings of
  the same Secrets and the same routes, with unique names, give the same keys in the same order
  and the same warnings.
\<close>

theorem resolve_listing_order:
  assumes "mset secrets = mset secrets'" "distinct (map secretRef secrets)"
    and "mset routes = mset routes'" "routes_ok routes"
  shows "resolveGatewayKeys L secrets routes gw gns = resolveGatewayKeys L secrets' routes' gw gns"
  using same_tables_candidates [OF indexRoutes_mset [OF assms(3,4)]] sort_secrets_mset [OF assms(1,2)]
  by (simp add: resolveGatewayKeys_def Let_def)

theorem resolve_listing_order_witness:
  "resolveGatewayKeys demo_lib [key_secret ''a'' ''k_a'' ''v'' [], key_secret ''b'' ''k_b'' ''w'' []]
       [demo_route ''m''] ''gw'' ''infra'' =
     resolveGatewayKeys demo_lib [key_secret ''b'' ''k_b'' ''w'' [], key_secret ''a'' ''k_a'' ''v'' []]
       [demo_route ''m''] ''gw'' ''infra''"
  by (rule resolve_listing_order)
    (simp_all add: demo_routes_ok key_secret_def secretRef_def qualifiedName_def)

text \<open>The value of a key rewritten by \<open>v\<close>, in a Secret and in a rendered key.\<close>

definition rekeyed :: "(string \<Rightarrow> string) \<Rightarrow> secret \<Rightarrow> secret" where
  "rekeyed v sec = sec\<lparr>se_data := gset aiGatewayKeyDataKey (v (secretKey sec)) (se_data sec)\<rparr>"

lemma rekeyed_reads [simp]:
  "secretRef (rekeyed v sec) = secretRef sec"
  "secretID (rekeyed v sec) = secretID sec"
  "secretKey (rekeyed v sec) = v (secretKey sec)"
  "se_meta (rekeyed v sec) = se_meta sec"
  "secretAnnotation (rekeyed v sec) a = secretAnnotation sec a"
  by (simp_all add: rekeyed_def secretRef_def secretID_def secretKey_def secretData_def secretAnnotation_def)

lemma resolveRef_rekeyed: "resolveRef L T (rekeyed v sec) = resolveRef L T sec"
  by (rule ext) (simp add: resolveRef_def split: prod.split)

lemma candidateKey_rekeyed:
  assumes "inj v" "v [] = []"
  shows "candidateKey L T (rekeyed v sec) =
     (fst (candidateKey L T sec), map_option (gk_value_update v) (snd (candidateKey L T sec)))"
proof -
  have "v x = [] \<longleftrightarrow> x = []" for x using assms by (metis injD)
  then show ?thesis by (simp add: candidateKey_def resolveRef_rekeyed Let_def)
qed

lemma candidates_rekeyed:
  assumes "inj v" "v [] = []"
  shows "candidates L T (map (rekeyed v) ss) =
     (fst (candidates L T ss), map (\<lambda>(k, r). (gk_value_update v k, r)) (snd (candidates L T ss)))"
  by (induction ss) (simp_all add: candidateKey_rekeyed [OF assms] split_beta split: option.split)

lemma dropCollisions_rekeyed:
  assumes "\<And>x. ggetd 0 values' (v x) = ggetd 0 values x"
  shows "dropCollisions ids values' (map (\<lambda>(k, r). (gk_value_update v k, r)) cands) =
     (fst (dropCollisions ids values cands), map (gk_value_update v) (snd (dropCollisions ids values cands)))"
  by (induction cands) (auto simp: assms split: prod.splits)

lemma count_list_inj: "inj v \<Longrightarrow> count_list (map v xs) (v x) = count_list xs x"
  by (induction xs) (auto dest: injD)

lemma sort_key_map: "(\<And>x. f (g x) = f x) \<Longrightarrow> sort_key f (map g xs) = map g (sort_key f xs)"
proof (induction xs)
  case Nil
  then show ?case by simp
next
  case (Cons x xs)
  have "insort_key f (g x) (map g ys) = map g (insort_key f x ys)" for ys
    using Cons.prems by (induction ys) simp_all
  with Cons show ?case by simp
qed

text \<open>
  C28: The log never discloses a key. Replacing every key value by another (injectively, so that
  equal values stay equal) changes nothing but the values of the rendered keys: the warnings are
  the same, so they carry no information about the values beyond which of them coincide.
\<close>

theorem warnings_hide_values:
  assumes "inj v" "v [] = []"
  shows "resolveGatewayKeys L (map (rekeyed v) secrets) routes gw gns =
     (map (gk_value_update v) (fst (resolveGatewayKeys L secrets routes gw gns)),
      snd (resolveGatewayKeys L secrets routes gw gns))"
proof -
  let ?T = "indexRoutes gw gns routes ([], [])"
  let ?c = "snd (candidates L ?T (sort_key secretRef secrets))"
  have "ggetd 0 (tally (map (gk_value \<circ> fst \<circ> (\<lambda>(k, r). (gk_value_update v k, r))) ?c) []) (v x) =
      ggetd 0 (tally (map (gk_value \<circ> fst) ?c) []) x" for x
  proof -
    have "map (gk_value \<circ> fst \<circ> (\<lambda>(k, r). (gk_value_update v k, r))) ?c = map v (map (gk_value \<circ> fst) ?c)"
      by auto
    then show ?thesis by (simp only: ggetd_tally ggetd_simps count_list_inj [OF assms(1)])
  qed
  note drop = dropCollisions_rekeyed [of "tally (map (gk_value \<circ> fst \<circ> (\<lambda>(k, r). (gk_value_update v k, r))) ?c) []" v,
      OF this]
  have ids: "gk_id \<circ> fst \<circ> (\<lambda>(k, r). (gk_value_update v k, r)) = gk_id \<circ> fst" by auto
  show ?thesis
    by (simp add: resolveGatewayKeys_def Let_def sort_key_map candidates_rekeyed [OF assms] split_beta
        drop ids comp_assoc [symmetric])
qed

theorem warnings_hide_values_witness:
  "snd (resolveGatewayKeys demo_lib (map (rekeyed rev) [key_secret ''a'' ''k_a'' ''secret'' ''ns/demo'',
       key_secret ''b'' ''k_a'' ''secret'' ''ns/demo'']) [demo_route ''m''] ''gw'' ''infra'') =
     snd (resolveGatewayKeys demo_lib [key_secret ''a'' ''k_a'' ''secret'' ''ns/demo'',
       key_secret ''b'' ''k_a'' ''secret'' ''ns/demo''] [demo_route ''m''] ''gw'' ''infra'')"
proof -
  have "inj (rev :: string \<Rightarrow> string)" by (simp add: inj_def)
  from warnings_hide_values [OF this, of demo_lib "[key_secret ''a'' ''k_a'' ''secret'' ''ns/demo'',
      key_secret ''b'' ''k_a'' ''secret'' ''ns/demo'']" "[demo_route ''m'']" "''gw''" "''infra''"]
  show ?thesis by simp
qed

end
