(* ===== verification/GatewayPolicy.thy ===== *)
theory GatewayPolicy
  imports GatewayAuth
begin

text \<open>
  \<open>internal/provider/gatewayauth.go\<close>, continued: what the rendered credentials and SecurityPolicy
  admit, and the order in which the controller writes and removes them.
\<close>

section \<open>Reading the rendered objects\<close>

text \<open>
  The authorization section of a SecurityPolicy, by its documentation: a request is allowed when
  all header conditions of some Allow rule match, a condition matching when the header has one of
  the listed values; otherwise the default action applies.
\<close>

definition conditionHolds :: "string \<Rightarrow> string \<Rightarrow> json \<Rightarrow> bool" where
  "conditionHolds kid m cond \<longleftrightarrow>
     (let name = asStr (jindex (asObj cond) ''name'');
          vals = (case jindex (asObj cond) ''values'' of JArr vs \<Rightarrow> vs | _ \<Rightarrow> [])
      in name = aiGatewayKeyIDHeader \<and> JStr kid \<in> set vals \<or>
         name = aiGatewayModelHeader \<and> JStr m \<in> set vals)"

definition ruleAllows :: "string \<Rightarrow> string \<Rightarrow> json \<Rightarrow> bool" where
  "ruleAllows kid m rule \<longleftrightarrow>
     jindex (asObj rule) ''action'' = JStr ''Allow'' \<and>
     list_all (conditionHolds kid m) (sliceOrNil rule [''principal'', ''headers''])"

definition policyAllows :: "json \<Rightarrow> string \<Rightarrow> string \<Rightarrow> bool" where
  "policyAllows policy kid m \<longleftrightarrow>
     list_ex (ruleAllows kid m) (sliceOrNil policy [''spec'', ''authorization'', ''rules''])"

definition policyDefault :: "json \<Rightarrow> unit + json option" where
  "policyDefault policy = nestedField policy [''spec'', ''authorization'', ''defaultAction'']"

text \<open>A request with an API key: the key is looked up in the credentials, which gives the client
  identifier the policy is asked about.\<close>

definition admits :: "secret \<Rightarrow> json \<Rightarrow> string \<Rightarrow> string \<Rightarrow> bool" where
  "admits creds policy token m \<longleftrightarrow>
     (\<exists>cid. gget (se_data creds) cid = Some token \<and> policyAllows policy cid m)"

lemma ruleAllows_authRule: "ruleAllows kid m (authRule key) \<longleftrightarrow> kid = gk_id key \<and> m \<in> set (gk_models key)"
  by (auto simp: ruleAllows_def authRule_def sliceOrNil_def nestedSlice_def conditionHolds_def Let_def
      aiGatewayKeyIDHeader_def aiGatewayModelHeader_def)

lemma built_policy_rules:
  "sliceOrNil (buildGatewayAuthPolicy E name gw ns keys) [''spec'', ''authorization'', ''rules''] = map authRule keys"
  "policyDefault (buildGatewayAuthPolicy E name gw ns keys) = Inr (Some (JStr ''Deny''))"
  by (simp_all add: buildGatewayAuthPolicy_def sliceOrNil_def nestedSlice_def unstrObject_def Let_def policyDefault_def)

lemma built_policy_allows:
  "policyAllows (buildGatewayAuthPolicy E name gw ns keys) kid m \<longleftrightarrow>
     (\<exists>key \<in> set keys. gk_id key = kid \<and> m \<in> set (gk_models key))"
  by (auto simp: policyAllows_def built_policy_rules list_ex_iff ruleAllows_authRule)

lemma credentials_fold:
  "distinct (map gk_id keys) \<Longrightarrow>
     gget (foldl (\<lambda>m key. gset (gk_id key) (gk_value key) m) m0 keys) cid = Some v \<longleftrightarrow>
       (\<exists>k \<in> set keys. gk_id k = cid \<and> gk_value k = v) \<or> (cid \<notin> gk_id ` set keys \<and> gget m0 cid = Some v)"
proof (induction keys arbitrary: m0)
  case Nil
  then show ?case by simp
next
  case (Cons k keys)
  then show ?case by (cases "gk_id k = cid") auto
qed

lemma credentials_lookup:
  assumes "distinct (map gk_id keys)" "list_all enforceable keys"
  shows "gget (se_data (buildGatewayCredentials name ns ph keys)) cid = Some v \<longleftrightarrow>
     cid = gatewayPlaceholderClientID \<and> v = ph \<or> (\<exists>k \<in> set keys. gk_id k = cid \<and> gk_value k = v)"
  using assms(2)
  by (auto simp: buildGatewayCredentials_def credentials_fold [OF assms(1)] list_all_iff enforceable_def)

section \<open>Admission\<close>

lemma resolved_all_enforceable: "list_all enforceable (fst (resolveGatewayKeys L secrets routes gw gns))"
  by (simp add: list_all_iff resolved_key_enforceable)

lemma admits_resolved:
  assumes "routes_ok routes"
  shows "admits (buildGatewayCredentials name ns ph (fst (resolveGatewayKeys L secrets routes gw gns)))
        (buildGatewayAuthPolicy E name gw' ns' (fst (resolveGatewayKeys L secrets routes gw gns))) token m \<longleftrightarrow>
      (\<exists>sec. effective L gw gns routes secrets sec \<and> secretKey sec = token \<and> grants L gw gns routes sec m)"
proof -
  let ?keys = "fst (resolveGatewayKeys L secrets routes gw gns)"
  have unique: "k \<in> set ?keys \<Longrightarrow> k' \<in> set ?keys \<Longrightarrow> gk_id k = gk_id k' \<Longrightarrow> k = k'" for k k'
    using resolved_ids_distinct [of L secrets routes gw gns] by (auto simp: distinct_map inj_on_def)
  have not_placeholder: "k \<in> set ?keys \<Longrightarrow> gk_id k \<noteq> gatewayPlaceholderClientID" for k
    using resolved_key_enforceable [of k] by (simp add: enforceable_def)
  have "admits (buildGatewayCredentials name ns ph ?keys) (buildGatewayAuthPolicy E name gw' ns' ?keys) token m \<longleftrightarrow>
      (\<exists>k \<in> set ?keys. gk_value k = token \<and> m \<in> set (gk_models k))"
    unfolding admits_def built_policy_allows
      credentials_lookup [OF resolved_ids_distinct resolved_all_enforceable]
    using unique not_placeholder by blast
  also have "\<dots> \<longleftrightarrow> (\<exists>sec. effective L gw gns routes secrets sec \<and> secretKey sec = token \<and> grants L gw gns routes sec m)"
  proof
    assume "\<exists>k \<in> set ?keys. gk_value k = token \<and> m \<in> set (gk_models k)"
    then obtain k where k: "k \<in> set ?keys" "gk_value k = token" "m \<in> set (gk_models k)" by auto
    from k(1) obtain sec where sec: "effective L gw gns routes secrets sec" "keyOf L gw gns routes sec k"
      unfolding resolve_effective [OF assms] by auto
    with k(2,3) have "secretKey sec = token \<and> grants L gw gns routes sec m" by (auto simp: keyOf_def)
    with sec(1) show "\<exists>sec. effective L gw gns routes secrets sec \<and> secretKey sec = token \<and> grants L gw gns routes sec m"
      by blast
  next
    assume "\<exists>sec. effective L gw gns routes secrets sec \<and> secretKey sec = token \<and> grants L gw gns routes sec m"
    then obtain sec where sec: "effective L gw gns routes secrets sec" "secretKey sec = token" "grants L gw gns routes sec m"
      by blast
    then have "contends L gw gns routes sec" by (simp add: effective_def)
    then obtain k where k: "keyOf L gw gns routes sec k"
      using contender_contends [OF assms] candidateKey_keyOf [OF assms] by (metis contender_def not_None_eq)
    then have "k \<in> set ?keys" using sec(1) resolve_effective [OF assms] by blast
    then show "\<exists>k \<in> set ?keys. gk_value k = token \<and> m \<in> set (gk_models k)"
      using k sec by (auto simp: keyOf_def)
  qed
  finally show ?thesis .
qed

text \<open>
  C1: A key opens exactly the models it was issued for. With the credentials and the policy
  rendered for the resolved keys, everything is denied by default, and a request that presents a
  key value for a model is admitted if and only if some effective Secret holds that value and
  grants that model; the placeholder credential opens nothing.
\<close>

theorem gateway_admission:
  assumes "routes_ok routes"
  shows "policyDefault (buildGatewayAuthPolicy E name gw ns
       (fst (resolveGatewayKeys L secrets routes gw gns))) = Inr (Some (JStr ''Deny'')) \<and>
     (admits (buildGatewayCredentials name ns ph (fst (resolveGatewayKeys L secrets routes gw gns)))
        (buildGatewayAuthPolicy E name gw ns (fst (resolveGatewayKeys L secrets routes gw gns))) token m \<longleftrightarrow>
      (\<exists>sec. effective L gw gns routes secrets sec \<and> secretKey sec = token \<and> grants L gw gns routes sec m))"
  by (simp only: built_policy_rules admits_resolved [OF assms] simp_thms)

lemma demo_effective:
  "effective demo_lib ''gw'' ''infra'' [demo_route ''m''] [key_secret ''a'' ''k_a'' ''v'' ''ns/demo'']
     (key_secret ''a'' ''k_a'' ''v'' ''ns/demo'')"
  using demo_granted [of "''m''" "''a''" "''k_a''" "''v''"] demo_usable [of "''a''" "''ns/demo''"]
  by (auto simp: effective_def sole_def contends_def)

theorem gateway_admission_witness:
  "admits (buildGatewayCredentials ''gw-api-keys'' ''infra'' ''ph'' (fst (resolveGatewayKeys demo_lib
         [key_secret ''a'' ''k_a'' ''v'' ''ns/demo''] [demo_route ''m''] ''gw'' ''infra'')))
     (buildGatewayAuthPolicy gateway_env ''gw-api-keys'' ''gw'' ''infra'' (fst (resolveGatewayKeys demo_lib
         [key_secret ''a'' ''k_a'' ''v'' ''ns/demo''] [demo_route ''m''] ''gw'' ''infra''))) ''v'' ''m''"
proof -
  have "secretKey (key_secret ''a'' ''k_a'' ''v'' ''ns/demo'') = ''v''"
    by (simp add: key_secret_def secretKey_def secretData_def ggetd_def)
  then show ?thesis
    using gateway_admission [OF demo_routes_ok] demo_effective demo_granted [of "''m''"] by blast
qed

section \<open>The reconciler\<close>

text \<open>
  The write sequences the controller may issue: with authentication on, the credentials Secret
  and then, once that was accepted, the policy that refers to it; with authentication off, the
  policy is removed and then the credentials.
\<close>

fun credentials_first :: "gatewayAuthReconciler \<Rightarrow> event list \<Rightarrow> bool" where
  "credentials_first r [] = True"
| "credentials_first r (EvPatch (ServerSideApply owner (KSecret cred)) e # rest) =
     (objRef (KSecret cred) = outputRef secretGVK r \<and>
      (rest = [] \<or>
        e = None \<and> (\<exists>p e'. rest = [EvPatch (ServerSideApply owner (KUnstr securityPolicyGVK p)) e'] \<and>
          objRef (KUnstr securityPolicyGVK p) = outputRef securityPolicyGVK r)))"
| "credentials_first r _ = False"

fun policy_removed_first :: "gatewayAuthReconciler \<Rightarrow> event list \<Rightarrow> bool" where
  "policy_removed_first r (EvDelete ref e # rest) =
     (ref = outputRef securityPolicyGVK r \<and>
      (rest = [] \<and> e \<noteq> None \<and> e \<noteq> Some NotFound \<and> e \<noteq> Some NoMatch \<or>
       (e = None \<or> e = Some NotFound \<or> e = Some NoMatch) \<and> (\<exists>e'. rest = [EvDelete (outputRef secretGVK r) e'])))"
| "policy_removed_first r _ = False"

lemma output_refs [simp]:
  "metaRef secretGVK (se_meta (buildGatewayCredentials (outputName r) (gr_gatewayNamespace r) ph keys)) =
     outputRef secretGVK r"
  "mkref securityPolicyGVK
       (uNamespace (buildGatewayAuthPolicy E (outputName r) gw (gr_gatewayNamespace r) keys))
       (uName (buildGatewayAuthPolicy E (outputName r) gw (gr_gatewayNamespace r) keys)) =
     outputRef securityPolicyGVK r"
  by (simp_all add: buildGatewayCredentials_def metaRef_def outputRef_def buildGatewayAuthPolicy_def Let_def)

lemma newAPIKey_writes [simp]: "writes (newAPIKey A) s = []"
  by (auto simp: newAPIKey_def run_writes split: sum.split)

lemma placeholderKey_writes [simp]: "writes (placeholderKey A r) s = []"
  by (auto simp: placeholderKey_def run_writes split: sum.split option.split api_error.split)

lemma listOrFail_run [simp]:
  "writes (listOrFail A m g sel) s = []"
  "final (listOrFail A m g sel) s = s"
  "result (listOrFail A m g sel) s =
     (case api_list A s g sel of Inl e \<Rightarrow> Inl (Wrap (AuthMsg m) [] (ApiErr e)) | Inr items \<Rightarrow> Inr items)"
  by (auto simp: listOrFail_def run_writes split: sum.split)

text \<open>The two writes for given keys, with whatever the API answers.\<close>

definition renderP :: "'s api \<Rightarrow> env \<Rightarrow> lib \<Rightarrow> gatewayAuthReconciler \<Rightarrow> objref \<Rightarrow> gatewayKey list \<Rightarrow> string \<Rightarrow> ('s, unit) prog" where
  "renderP A E L r owner keys ph =
     seqP (wrapP (AuthMsg ApplyingCredentials) [] (Apply A L owner (KSecret
             (buildGatewayCredentials (outputName r) (gr_gatewayNamespace r) ph keys))))
          (wrapP (AuthMsg ApplyingPolicy) [] (Apply A L owner (KUnstr securityPolicyGVK
             (buildGatewayAuthPolicy E (outputName r) (gr_gatewayName r) (gr_gatewayNamespace r) keys))))"

definition credPatch :: "gatewayAuthReconciler \<Rightarrow> objref \<Rightarrow> gatewayKey list \<Rightarrow> string \<Rightarrow> patch" where
  "credPatch r owner keys ph = ServerSideApply owner (KSecret
     (buildGatewayCredentials (outputName r) (gr_gatewayNamespace r) ph keys))"

definition policyPatch :: "env \<Rightarrow> gatewayAuthReconciler \<Rightarrow> objref \<Rightarrow> gatewayKey list \<Rightarrow> patch" where
  "policyPatch E r owner keys = ServerSideApply owner (KUnstr securityPolicyGVK
     (buildGatewayAuthPolicy E (outputName r) (gr_gatewayName r) (gr_gatewayNamespace r) keys))"

lemma renderP_run:
  "writes (renderP A E L r owner keys ph) s = [] \<and> result (renderP A E L r owner keys ph) s \<noteq> Inr () \<or>
   (\<exists>e. writes (renderP A E L r owner keys ph) s = [EvPatch (credPatch r owner keys ph) e] \<and>
      result (renderP A E L r owner keys ph) s \<noteq> Inr ()) \<or>
   (\<exists>e. writes (renderP A E L r owner keys ph) s =
        [EvPatch (credPatch r owner keys ph) None, EvPatch (policyPatch E r owner keys) e] \<and>
      (result (renderP A E L r owner keys ph) s = Inr () \<longleftrightarrow> e = None))"
  by (auto simp: renderP_def run_writes credPatch_def policyPatch_def split: option.splits sum.splits)

lemma renderP_order: "credentials_first r (writes (renderP A E L r owner keys ph) s)"
  using renderP_run [of A E L r owner keys ph s] by (auto simp: credPatch_def policyPatch_def)

lemma ReconcileAuth_on:
  assumes "AIGatewayAuthEnabled E"
  shows "ReconcileAuth A E L r =
    bindP (getP A (mkref gatewayGVK (gr_gatewayNamespace r) (gr_gatewayName r)))
      (\<lambda>res. case res of
         Inl e \<Rightarrow> failP (Wrap (AuthMsg ReadingGateway) [] (ApiErr e))
       | Inr gateway \<Rightarrow>
         bindP (listOrFail A ListingKeySecrets secretGVK (Some (aiGatewayKeyLabel, ''true''))) (\<lambda>secrets.
         bindP (listOrFail A ListingGatewayRoutes aiGatewayRouteGVK None) (\<lambda>routes.
         bindP (placeholderKey A r)
           (renderP A E L r (objRef gateway) (fst (resolveGatewayKeys L (List.map_filter asSecret secrets)
              (map unstrOf routes) (gr_gatewayName r) (gr_gatewayNamespace r)))))))"
  unfolding ReconcileAuth_def renderP_def Let_def using assms by simp

lemma Reconcile_on:
  assumes "AIGatewayAuthEnabled E"
  shows "(result (ReconcileAuth A E L r) s \<noteq> Inr () \<and> writes (ReconcileAuth A E L r) s = []) \<or>
    (\<exists>gateway secrets routes ph s'.
       api_get A s (mkref gatewayGVK (gr_gatewayNamespace r) (gr_gatewayName r)) = Inr gateway \<and>
       api_list A s secretGVK (Some (aiGatewayKeyLabel, ''true'')) = Inr secrets \<and>
       api_list A s aiGatewayRouteGVK None = Inr routes \<and>
       result (placeholderKey A r) s = Inr ph \<and>
       (let keys = fst (resolveGatewayKeys L (List.map_filter asSecret secrets) (map unstrOf routes)
               (gr_gatewayName r) (gr_gatewayNamespace r));
            m = renderP A E L r (objRef gateway) keys ph
        in result (ReconcileAuth A E L r) s = result m s' \<and> writes (ReconcileAuth A E L r) s = writes m s'))"
proof (cases "api_get A s (mkref gatewayGVK (gr_gatewayNamespace r) (gr_gatewayName r))")
  case (Inl e)
  then show ?thesis by (simp add: ReconcileAuth_on [OF assms] run_writes)
next
  case get: (Inr gateway)
  show ?thesis
  proof (cases "api_list A s secretGVK (Some (aiGatewayKeyLabel, ''true''))")
    case (Inl e)
    with get show ?thesis by (simp add: ReconcileAuth_on [OF assms] run_writes)
  next
    case secrets: (Inr secrets)
    show ?thesis
    proof (cases "api_list A s aiGatewayRouteGVK None")
      case (Inl e)
      with get secrets show ?thesis by (simp add: ReconcileAuth_on [OF assms] run_writes)
    next
      case routes: (Inr routes)
      show ?thesis
        by (cases "result (placeholderKey A r) s")
          (auto simp: ReconcileAuth_on [OF assms] run_writes get secrets routes Let_def)
    qed
  qed
qed

lemma deleteOutputs_order: "policy_removed_first r (writes (deleteOutputs A r) s)"
  by (auto simp: deleteOutputs_def run_writes)

text \<open>
  C24: The gateway is never opened by a half-done update. Whatever the API answers, with
  authentication enabled the controller writes at most the credentials and then, only after they
  were accepted, the policy; with authentication disabled it removes the policy before the
  credentials it refers to; and it writes nothing else.
\<close>

theorem reconcile_write_order:
  "if AIGatewayAuthEnabled E then credentials_first r (writes (ReconcileAuth A E L r) s)
   else policy_removed_first r (writes (ReconcileAuth A E L r) s)"
proof (cases "AIGatewayAuthEnabled E")
  case True
  from Reconcile_on [OF True, of A L r s] renderP_order show ?thesis
    by (auto simp: True Let_def)
next
  case False
  then show ?thesis by (simp add: ReconcileAuth_def deleteOutputs_order)
qed

lemma reconcile_writes:
  assumes "AIGatewayAuthEnabled E" "result (ReconcileAuth A E L r) s = Inr ()"
  shows "\<exists>gateway secrets routes ph keys.
     api_get A s (mkref gatewayGVK (gr_gatewayNamespace r) (gr_gatewayName r)) = Inr gateway \<and>
     api_list A s secretGVK (Some (aiGatewayKeyLabel, ''true'')) = Inr secrets \<and>
     api_list A s aiGatewayRouteGVK None = Inr routes \<and>
     keys = fst (resolveGatewayKeys L (List.map_filter asSecret secrets) (map unstrOf routes)
       (gr_gatewayName r) (gr_gatewayNamespace r)) \<and>
     (\<forall>old. api_get A s (outputRef secretGVK r) = Inr (KSecret old) \<longrightarrow>
        secretData old gatewayPlaceholderClientID \<noteq> [] \<longrightarrow> ph = secretData old gatewayPlaceholderClientID) \<and>
     writes (ReconcileAuth A E L r) s =
       [EvPatch (ServerSideApply (objRef gateway) (KSecret
          (buildGatewayCredentials (outputName r) (gr_gatewayNamespace r) ph keys))) None,
        EvPatch (ServerSideApply (objRef gateway) (KUnstr securityPolicyGVK
          (buildGatewayAuthPolicy E (outputName r) (gr_gatewayName r) (gr_gatewayNamespace r) keys))) None]"
proof -
  obtain gateway secrets routes ph s' where reads:
    "api_get A s (mkref gatewayGVK (gr_gatewayNamespace r) (gr_gatewayName r)) = Inr gateway"
    "api_list A s secretGVK (Some (aiGatewayKeyLabel, ''true'')) = Inr secrets"
    "api_list A s aiGatewayRouteGVK None = Inr routes"
    and ph: "result (placeholderKey A r) s = Inr ph"
    and run: "result (ReconcileAuth A E L r) s = result (renderP A E L r (objRef gateway)
        (fst (resolveGatewayKeys L (List.map_filter asSecret secrets) (map unstrOf routes)
          (gr_gatewayName r) (gr_gatewayNamespace r))) ph) s'"
      "writes (ReconcileAuth A E L r) s = writes (renderP A E L r (objRef gateway)
        (fst (resolveGatewayKeys L (List.map_filter asSecret secrets) (map unstrOf routes)
          (gr_gatewayName r) (gr_gatewayNamespace r))) ph) s'"
    using Reconcile_on [OF assms(1), of A L r s] assms(2) by (auto simp: Let_def)
  have kept: "ph = secretData old gatewayPlaceholderClientID"
    if "api_get A s (outputRef secretGVK r) = Inr (KSecret old)"
      "secretData old gatewayPlaceholderClientID \<noteq> []" for old
    using that ph by (simp add: placeholderKey_def run_writes)
  show ?thesis
    using reads run assms(2) kept renderP_run [of A E L r "objRef gateway" _ ph s']
    by (intro exI [of _ gateway] exI [of _ secrets] exI [of _ routes] exI [of _ ph] exI conjI refl)
      (auto simp: credPatch_def policyPatch_def)
qed

text \<open>
  C22: A successful reconcile publishes what the API listed. With authentication enabled and
  ReconcileAuth successful, the reads of the Gateway, of the key Secrets and of the routes all
  succeeded, and the writes are the credentials and the policy rendered from the same resolved
  keys, owned by the Gateway. The placeholder credential is kept when there is one.
\<close>

theorem reconcile_publishes:
  assumes "AIGatewayAuthEnabled E" "result (ReconcileAuth A E L r) s = Inr ()"
  shows "\<exists>gateway secrets routes ph keys.
     api_get A s (mkref gatewayGVK (gr_gatewayNamespace r) (gr_gatewayName r)) = Inr gateway \<and>
     api_list A s secretGVK (Some (aiGatewayKeyLabel, ''true'')) = Inr secrets \<and>
     api_list A s aiGatewayRouteGVK None = Inr routes \<and>
     keys = fst (resolveGatewayKeys L (List.map_filter asSecret secrets) (map unstrOf routes)
       (gr_gatewayName r) (gr_gatewayNamespace r)) \<and>
     (\<forall>old. api_get A s (outputRef secretGVK r) = Inr (KSecret old) \<longrightarrow>
        secretData old gatewayPlaceholderClientID \<noteq> [] \<longrightarrow> ph = secretData old gatewayPlaceholderClientID) \<and>
     writes (ReconcileAuth A E L r) s =
       [EvPatch (ServerSideApply (objRef gateway) (KSecret
          (buildGatewayCredentials (outputName r) (gr_gatewayNamespace r) ph keys))) None,
        EvPatch (ServerSideApply (objRef gateway) (KUnstr securityPolicyGVK
          (buildGatewayAuthPolicy E (outputName r) (gr_gatewayName r) (gr_gatewayNamespace r) keys))) None]"
  using assms by (rule reconcile_writes)

definition demo_gateway :: mem_state where
  "demo_gateway = ([(mkref gatewayGVK ''infra'' ''gw'',
     KUnstr gatewayGVK (unstrObject gatewayGVK (nameMeta ''gw'' ''infra'') []))], 0)"

theorem reconcile_publishes_witness:
  "length (writes (ReconcileAuth mem_api gateway_env demo_lib
      \<lparr>gr_gatewayName = ''gw'', gr_gatewayNamespace = ''infra''\<rparr>) demo_gateway) = 2"
proof -
  have on: "AIGatewayAuthEnabled gateway_env"
    by (simp add: AIGatewayAuthEnabled_def AIGatewayEnabled_def gateway_env_def)
  have "result (ReconcileAuth mem_api gateway_env demo_lib
      \<lparr>gr_gatewayName = ''gw'', gr_gatewayNamespace = ''infra''\<rparr>) demo_gateway = Inr ()"
    by (simp add: ReconcileAuth_def on run_writes mem_answers demo_gateway_def placeholderKey_def
        newAPIKey_def outputRef_def gateway_gvk_defs core_gvk_defs Let_def)
  from reconcile_publishes [OF on this] show ?thesis by auto
qed

end
