(* ===== verification/Provider.thy ===== *)
theory Provider
  imports LlmSync PredictorSync GatewayPolicy
begin

text \<open>
  \<open>internal/provider/provider.go\<close>: what the provider watches, and its four handlers, which dispatch
  on the topology, and \<open>SetupGatewayAuth\<close> of \<open>gatewayauth.go\<close>.
\<close>

section \<open>Watches\<close>

text \<open>
  A watched kind and the predicate that decides which changes of its objects start a reconcile:
  all of them, or what \<open>predicate.NewPredicateFuncs\<close> of controller-runtime makes of a filter on an
  object's reference and labels.
\<close>

record watch =
  wt_gvk :: gvk
  wt_predicate :: "change \<Rightarrow> bool"

definition WatchOwned :: "gvk \<Rightarrow> watch" where
  "WatchOwned g = \<lparr>wt_gvk = g, wt_predicate = (\<lambda>_. True)\<rparr>"

definition watchFiltered :: "lib \<Rightarrow> gvk \<Rightarrow> (objref \<Rightarrow> string gmap \<Rightarrow> bool) \<Rightarrow> watch" where
  "watchFiltered L g p = \<lparr>wt_gvk = g, wt_predicate = lib_NewPredicateFuncs L p\<rparr>"

definition New :: "env \<Rightarrow> lib \<Rightarrow> watch list" where
  "New E L =
     [WatchOwned llmGVK, WatchOwned llmConfigGVK, WatchOwned inferenceServiceGVK, WatchOwned serviceGVK] @
     (if AIGatewayEnabled E
      then [WatchOwned aiGatewayRouteGVK, watchFiltered L secretGVK (\<lambda>_ labels. isAIGatewayKeySecret labels)]
      else [])"

definition refIs :: "(gatewayAuthReconciler \<Rightarrow> string \<Rightarrow> string \<Rightarrow> bool) \<Rightarrow> gatewayAuthReconciler \<Rightarrow> objref \<Rightarrow> bool" where
  "refIs p r ref = p r (or_namespace ref) (or_name ref)"

text \<open>
  Nothing is registered without the gateway; the reconciler reads its names from the chart. Every
  change that passes a predicate enqueues the one request of this controller.
\<close>

definition SetupGatewayAuth :: "env \<Rightarrow> lib \<Rightarrow> (gatewayAuthReconciler \<times> watch list) option" where
  "SetupGatewayAuth E L =
     (if \<not> AIGatewayEnabled E then None
      else
       let r = \<lparr>gr_gatewayName = AIGatewayName E, gr_gatewayNamespace = AIGatewayNamespace E\<rparr>
       in Some (r,
         [watchFiltered L secretGVK (\<lambda>ref labels. isAIGatewayKeySecret labels \<or> refIs isOutput r ref),
          WatchOwned aiGatewayRouteGVK,
          watchFiltered L securityPolicyGVK (\<lambda>ref _. refIs isOutput r ref),
          watchFiltered L gatewayGVK (\<lambda>ref _. refIs isGateway r ref)]))"

section \<open>The handlers\<close>

definition unsupported :: "ctx \<Rightarrow> kerror" where
  "unsupported c = Err UnsupportedTopology [cx_topologyType c]"

definition Validate :: "'s api \<Rightarrow> env \<Rightarrow> lib \<Rightarrow> catalogs \<Rightarrow> ctx \<Rightarrow> ('s, unit) prog" where
  "Validate A E L K c =
     (if cx_topologyType c = TopologyLLM then validateLLM A E L K c
      else if cx_topologyType c = TopologyPredictor then validatePredictor A E L K c
      else failP (unsupported c))"

definition Sync :: "'s api \<Rightarrow> env \<Rightarrow> lib \<Rightarrow> catalogs \<Rightarrow> ctx \<Rightarrow> ('s, unit) prog" where
  "Sync A E L K c =
     (if cx_topologyType c = TopologyLLM then syncLLM A E L K c
      else if cx_topologyType c = TopologyPredictor then syncPredictor A E L K c
      else failP (unsupported c))"

definition Status :: "'s api \<Rightarrow> env \<Rightarrow> lib \<Rightarrow> ctx \<Rightarrow> ('s, status) prog" where
  "Status A E L c =
     (if cx_topologyType c = TopologyLLM then statusLLM A E L c
      else if cx_topologyType c = TopologyPredictor then statusPredictor A E L c
      else ret (FailedStatus (''unsupported topology '' @ goQuote (lib_isPrint L) (cx_topologyType c))))"

definition deleteKeySecret :: "'s api \<Rightarrow> ctx \<Rightarrow> ('s, unit) prog" where
  "deleteKeySecret A c = deleteP A (metaRef secretGVK (cx_objectMeta c (aiGatewayKeySecretName (cx_name c))))"

definition Cleanup :: "'s api \<Rightarrow> ctx \<Rightarrow> ('s, unit) prog" where
  "Cleanup A c =
     (if cx_topologyType c = TopologyLLM then
        seqP (deleteP A (metaRef llmGVK (cx_objectMeta c (cx_name c))))
        (seqP (deleteP A (metaRef llmConfigGVK (cx_objectMeta c (instanceConfigName (cx_name c)))))
              (deleteKeySecret A c))
      else if cx_topologyType c = TopologyPredictor then
        seqP (deleteP A (inferenceServiceRef c)) (deleteKeySecret A c)
      else ret ())"

lemma metaRef_parts [simp]:
  "or_gvk (metaRef g m) = g" "or_namespace (metaRef g m) = om_namespace m" "or_name (metaRef g m) = om_name m"
  by (simp_all add: metaRef_def)

section \<open>The contract of a topology\<close>

text \<open>
  What the dispatch relies on, of each topology: its Status only reads, and reports an Instance as
  ready or provisioning, never as failed.
\<close>

locale topology_status =
  fixes status :: "'s api \<Rightarrow> env \<Rightarrow> lib \<Rightarrow> ctx \<Rightarrow> ('s, status) prog"
  assumes reads: "readOnly (status A E L c)"
    and never_failed: "result (status A E L c) s = Inr st \<Longrightarrow> st \<noteq> FailedStatus m"
begin

lemma status_quiet: "writes (status A E L c) s = [] \<and> result (status A E L c) s \<noteq> Inr (FailedStatus m)"
  using readOnly_writes [OF reads] never_failed by blast

end

interpretation llm_status: topology_status statusLLM
proof (unfold_locales, rule statusLLM_readOnly)
  fix A :: "'s api" and E L c s st m
  assume "result (statusLLM A E L c) s = Inr st"
  then show "st \<noteq> FailedStatus m"
    by (auto simp: statusLLM_def run_bind Let_def split: sum.splits option.splits prod.splits if_splits)
qed

interpretation predictor_status: topology_status statusPredictor
proof (unfold_locales, rule statusPredictor_readOnly)
  fix A :: "'s api" and E L c s st m
  assume "result (statusPredictor A E L c) s = Inr st"
  then show "st \<noteq> FailedStatus m"
    by (auto simp: statusPredictor_def readyPredictor_def run_bind Let_def split: sum.splits option.splits prod.splits if_splits)
qed

definition supported :: "ctx \<Rightarrow> bool" where
  "supported c \<longleftrightarrow> cx_topologyType c = TopologyLLM \<or> cx_topologyType c = TopologyPredictor"

text \<open>A call that leaves the cluster as it is: a read, or an apply in dry-run mode.\<close>

fun harmless :: "event \<Rightarrow> bool" where
  "harmless (EvPatch (DryRunApply _) _) = True"
| "harmless e = (\<not> isWrite e)"

lemma harmless_access [emits_intros]: "emits harmless (validateAIGatewayAccess A E L c m fix)"
  unfolding validateAIGatewayAccess_def by (intro emits_intros emits_list) simp

lemma harmless_validate [emits_intros]:
  "emits harmless (validateLLM A E L K c)"
  "emits harmless (validatePredictor A E L K c)"
proof -
  have config: "emits harmless (validatePredictorConfig A E L K c)"
    unfolding validatePredictorConfig_def Let_def by (auto intro!: emits_intros emits_patch split: option.split)
  have storage: "emits harmless (validateStorageContainer A L n u)" for n u
    unfolding validateStorageContainer_def by (auto intro!: emits_intros emits_get split: sum.split api_error.split)
  show "emits harmless (validateLLM A E L K c)" unfolding validateLLM_def Let_def by (intro emits_intros)
  show "emits harmless (validatePredictor A E L K c)"
    unfolding validatePredictor_def Let_def by (intro emits_intros config storage)
qed

text \<open>
  C16: Validate and Status change nothing, and only an unsupported topology fails. Whatever the API
  answers, Validate only reads or applies in dry-run mode and Status only reads. Status reports
  Failed exactly for an Instance whose topology is neither llm nor predictor, with the topology
  quoted as Go quotes it in the message; on such an Instance Validate and Sync are refused with
  the topology's name, and no handler calls the API at all.
\<close>

theorem dispatch:
  "emits harmless (Validate A E L K c) \<and> writes (Status A E L c) s = [] \<and>
   (if supported c
    then \<forall>m. result (Status A E L c) s \<noteq> Inr (FailedStatus m)
    else result (Status A E L c) s = Inr (FailedStatus (''unsupported topology '' @ goQuote (lib_isPrint L) (cx_topologyType c))) \<and>
      result (Validate A E L K c) s = Inl (unsupported c) \<and> result (Sync A E L K c) s = Inl (unsupported c) \<and>
      effects (Validate A E L K c) s @ effects (Sync A E L K c) s @ effects (Status A E L c) s @ effects (Cleanup A c) s = [])"
  by (simp add: harmless_validate emits_fail Status_def Validate_def Sync_def Cleanup_def supported_def
      llm_status.status_quiet predictor_status.status_quiet)

section \<open>The controller watches what it reads\<close>

definition starts :: "watch list \<Rightarrow> change \<Rightarrow> bool" where
  "starts ws ch \<longleftrightarrow> list_ex (\<lambda>w. wt_gvk w = or_gvk (changedRef ch) \<and> wt_predicate w ch) ws"

text \<open>
  \<open>affects e ch\<close>: the change \<open>ch\<close> concerns what the call \<open>e\<close> read, listed or wrote. A listing is
  affected by an object it contains before or after the change.
\<close>

fun selects :: "(string \<times> string) option \<Rightarrow> string gmap \<Rightarrow> bool" where
  "selects None labels = True"
| "selects (Some (k, v)) labels = (gget labels k = Some v)"

fun listed :: "(string \<times> string) option \<Rightarrow> change \<Rightarrow> bool" where
  "listed sel (Created _ labels) = selects sel labels"
| "listed sel (Updated _ before after) = (selects sel before \<or> selects sel after)"
| "listed sel (Deleted _ labels) = selects sel labels"

fun affects :: "event \<Rightarrow> change \<Rightarrow> bool" where
  "affects (EvGet ref _) ch = (changedRef ch = ref)"
| "affects (EvList g sel _) ch = (or_gvk (changedRef ch) = g \<and> listed sel ch)"
| "affects (EvPatch (ServerSideApply _ ob) _) ch = (changedRef ch = objRef ob)"
| "affects (EvPatch (DryRunApply ob) _) ch = (changedRef ch = objRef ob)"
| "affects (EvPatch (MergePatch _ ob) _) ch = (changedRef ch = objRef ob)"
| "affects (EvCreate _ ob _) ch = (changedRef ch = objRef ob)"
| "affects (EvDelete ref _) ch = (changedRef ch = ref)"

text \<open>The one change that is missed: an update that takes the key label off a Secret.\<close>

fun losesKeyLabel :: "gatewayAuthReconciler \<Rightarrow> change \<Rightarrow> bool" where
  "losesKeyLabel r (Updated ref before after) =
     (or_gvk ref = secretGVK \<and> isAIGatewayKeySecret before \<and> \<not> isAIGatewayKeySecret after \<and> \<not> refIs isOutput r ref)"
| "losesKeyLabel r _ = False"

definition noticed :: "watch list \<Rightarrow> gatewayAuthReconciler \<Rightarrow> event \<Rightarrow> bool" where
  "noticed ws r e \<longleftrightarrow> (\<forall>ch. affects e ch \<longrightarrow> starts ws ch \<noteq> losesKeyLabel r ch)"

lemma keySecret_selects: "selects (Some (aiGatewayKeyLabel, ''true'')) labels = isAIGatewayKeySecret labels"
  by (auto simp: isAIGatewayKeySecret_def ggetd_def split: option.split)

lemma gvks_watched [simp]:
  "aiGatewayRouteGVK \<noteq> secretGVK" "securityPolicyGVK \<noteq> secretGVK" "gatewayGVK \<noteq> secretGVK"
  "secretGVK \<noteq> aiGatewayRouteGVK" "secretGVK \<noteq> securityPolicyGVK" "secretGVK \<noteq> gatewayGVK"
  by (simp_all add: gateway_gvk_defs core_gvk_defs securityPolicyGVK_def mkgvk_def)

lemma starts_setup:
  assumes "filters_new_object L" "SetupGatewayAuth E L = Some (r, ws)"
  shows "starts ws ch \<longleftrightarrow>
    or_gvk (changedRef ch) = aiGatewayRouteGVK \<or>
    or_gvk (changedRef ch) = securityPolicyGVK \<and> refIs isOutput r (changedRef ch) \<or>
    or_gvk (changedRef ch) = gatewayGVK \<and> refIs isGateway r (changedRef ch) \<or>
    or_gvk (changedRef ch) = secretGVK \<and>
      (refIs isOutput r (changedRef ch) \<or>
       isAIGatewayKeySecret (case ch of Created _ l \<Rightarrow> l | Updated _ _ l \<Rightarrow> l | Deleted _ l \<Rightarrow> l))"
  using assms(2) filters_new_object_def [THEN iffD1, OF assms(1)]
  by (cases ch) (auto simp: SetupGatewayAuth_def starts_def watchFiltered_def WatchOwned_def Let_def split: if_splits)

lemma noticed_setup:
  assumes "filters_new_object L" "SetupGatewayAuth E L = Some (r, ws)"
  shows "noticed ws r (EvGet (mkref gatewayGVK (gr_gatewayNamespace r) (gr_gatewayName r)) err)"
    and "noticed ws r (EvGet (outputRef secretGVK r) err)"
    and "noticed ws r (EvDelete (outputRef secretGVK r) err)"
    and "noticed ws r (EvDelete (outputRef securityPolicyGVK r) err)"
    and "noticed ws r (EvList aiGatewayRouteGVK None err)"
    and "noticed ws r (EvList secretGVK (Some (aiGatewayKeyLabel, ''true'')) err)"
    and "objRef ob = outputRef secretGVK r \<Longrightarrow> noticed ws r (EvPatch (ServerSideApply owner ob) err)"
    and "objRef ob = outputRef securityPolicyGVK r \<Longrightarrow> noticed ws r (EvPatch (ServerSideApply owner ob) err)"
  unfolding noticed_def starts_setup [OF assms]
  by (auto simp: refIs_def isGateway_def isOutput_def outputRef_def keySecret_selects
      elim!: losesKeyLabel.elims listed.elims split: change.split simp del: selects.simps)

text \<open>
  C20: The gateway controller notices every change but one. When the chart enables the gateway,
  SetupGatewayAuth registers a reconciler with the chart's names. A change of an object that a
  reconcile reads, lists, applies or deletes (the gateway, any route, every Secret that has or had
  the key label, both outputs), whoever makes it, starts a new reconcile, except exactly an update
  that takes the key label off a Secret: the predicate sees the new object only, so a key revoked
  that way stays in force until something else starts a reconcile.
\<close>

theorem controller_watches_what_it_reads:
  assumes "filters_new_object L" "SetupGatewayAuth E L = Some (r, ws)"
  shows "emits (\<lambda>e. \<forall>ch. affects e ch \<longrightarrow> (starts ws ch \<longleftrightarrow> \<not> losesKeyLabel r ch)) (ReconcileAuth A E L r) \<and>
    gr_gatewayName r = AIGatewayName E \<and> gr_gatewayNamespace r = AIGatewayNamespace E"
proof
  note w = noticed_setup [OF assms]
  have "emits (noticed ws r) (ReconcileAuth A E L r)"
    unfolding ReconcileAuth_def deleteOutputs_def listOrFail_def placeholderKey_def newAPIKey_def Let_def
    by (auto simp: w intro!: emits_intros emits_get emits_list emits_clientDelete
        split: sum.split option.split api_error.split)
  then show "emits (\<lambda>e. \<forall>ch. affects e ch \<longrightarrow> (starts ws ch \<longleftrightarrow> \<not> losesKeyLabel r ch)) (ReconcileAuth A E L r)"
    by (simp add: emits_def noticed_def)
  show "gr_gatewayName r = AIGatewayName E \<and> gr_gatewayNamespace r = AIGatewayNamespace E"
    using assms(2) by (auto simp: SetupGatewayAuth_def Let_def split: if_splits)
qed

text \<open>Such an update exists, and it does change what a reconcile lists.\<close>

definition unlabelled :: change where
  "unlabelled = Updated (mkref secretGVK ''ns'' ''a-ai-gateway-key'') [(aiGatewayKeyLabel, ''true'')] []"

theorem controller_watches_what_it_reads_witness:
  "\<exists>r ws. SetupGatewayAuth gateway_env demo_lib = Some (r, ws) \<and> gr_gatewayName r = ''gw'' \<and>
     \<not> starts ws unlabelled \<and> starts ws (Deleted (mkref secretGVK ''ns'' ''a-ai-gateway-key'') [(aiGatewayKeyLabel, ''true'')])"
proof -
  obtain r ws where registered: "SetupGatewayAuth gateway_env demo_lib = Some (r, ws)"
    by (simp add: SetupGatewayAuth_def gateway_env_settings Let_def)
  have r: "gr_gatewayName r = ''gw''" "gr_gatewayNamespace r = ''infra''"
    using controller_watches_what_it_reads [OF demo_filters_new_object registered, of mem_api]
    by (simp_all add: gateway_env_settings)
  let ?key = "mkref secretGVK ''ns'' ''a-ai-gateway-key''"
  let ?list = "EvList secretGVK (Some (aiGatewayKeyLabel, ''true'')) None"
  have "?list \<in> set (effects (ReconcileAuth mem_api gateway_env demo_lib r) demo_gateway)"
    by (simp add: ReconcileAuth_def gateway_env_settings listOrFail_def run_bind mem_answers demo_gateway_def
        r errOf_def gateway_gvk_defs core_gvk_defs)
  then have w: "affects ?list ch \<Longrightarrow> starts ws ch \<longleftrightarrow> \<not> losesKeyLabel r ch" for ch
    using controller_watches_what_it_reads [OF demo_filters_new_object registered, of mem_api] unfolding emits_def by blast
  have "\<not> starts ws unlabelled"
    using w [of unlabelled] by (simp add: unlabelled_def refIs_def isOutput_def r isAIGatewayKeySecret_def ggetd_def)
  moreover have "starts ws (Deleted ?key [(aiGatewayKeyLabel, ''true'')])"
    using w [of "Deleted ?key [(aiGatewayKeyLabel, ''true'')]"] by simp
  ultimately show ?thesis using registered r by blast
qed

section \<open>A reconcile stays in its namespace\<close>

text \<open>
  What a call of Sync may touch: objects of the Instance's namespace, applied with the Instance as
  their controller; of the objects it creates (with that owner too) or patches directly only the key
  Secret.
\<close>

fun home :: "ctx \<Rightarrow> event \<Rightarrow> bool" where
  "home c (EvPatch (ServerSideApply owner ob) _) = (owner = cx_ref c \<and> or_namespace (objRef ob) = cx_namespace c)"
| "home c (EvPatch (MergePatch old new) _) = (objRef old = keySecretRef c \<and> objRef new = keySecretRef c)"
| "home c (EvPatch (DryRunApply ob) _) = False"
| "home c (EvCreate owner ob _) = (owner = cx_ref c \<and> objRef ob = keySecretRef c)"
| "home c (EvDelete ref _) = (or_namespace ref = cx_namespace c)"
| "home c _ = True"

lemma emits_get_bind:
  assumes "\<And>r. P (EvGet ref r)" "\<And>s. emits P (f (api_get A s ref))"
  shows "emits P (bindP (getP A ref) f)"
  using assms by (auto simp: emits_def effects_bindP)

lemma home_ensureKey:
  assumes "named_reads A" "meta_ok c"
  shows "emits (home c) (ensureAIGatewayKey A L c)"
  unfolding ensureAIGatewayKey_def
proof (rule emits_get_bind, goal_cases)
  case (1 r)
  show ?case by simp
next
  case (2 s)
  have create: "emits (home c) (createAIGatewayKey A L c)"
    unfolding createAIGatewayKey_def
  proof (rule emits_setKeyFields, goal_cases)
    case (1 s d)
    then have "objRef (KSecret d) = keySecretRef c"
      using setKeyFields_spec(3,4) [OF 1] assms(2) by (simp add: metaRef_def keySecretRef_def meta_ok_def)
    then show ?case by (auto intro!: emits_intros emits_create split: option.split api_error.split)
  qed
  have patch: "emits (home c)
      (bindP (setAIGatewayKeyFields A c old)
        (\<lambda>new. if old = new then ret ()
          else bindP (patchP A (MergePatch (KSecret old) (KSecret new)))
            (\<lambda>r. case r of None \<Rightarrow> ret ()
              | Some e \<Rightarrow> failP (Wrap (KeyMsg UpdatingKeySecret) [] (ApiErr e)))))"
    if "objRef (KSecret old) = keySecretRef c" for old
  proof (rule emits_setKeyFields, goal_cases)
    case (1 s new)
    then have "objRef (KSecret new) = keySecretRef c"
      using setKeyFields_spec(3,4) [OF 1] that by (simp add: metaRef_def)
    with that show ?case by (auto intro!: emits_intros emits_patch split: option.split)
  qed
  show ?case
  proof (cases "api_get A s (keySecretRef c)")
    case (Inl e)
    then show ?thesis by (cases e) (simp_all add: create emits_fail)
  next
    case (Inr obj)
    with assms(1) have ref: "objRef obj = keySecretRef c" unfolding named_reads_def by blast
    with Inr patch show ?thesis by (cases obj) (simp_all add: emits_fail)
  qed
qed

lemma built_object_namespace [simp]:
  "uNamespace (buildTokenRateLimitPolicy E L i ns m limit) = ns"
  "uNamespace (buildPodMonitor L i ns sel tp path iv) = ns"
  "uNamespace (buildPredictorPodMonitor L i ns sel iv) = ns"
  "uNamespace (buildBackendAPIKeyPolicy L i ns k) = ns"
  by (simp_all add: buildTokenRateLimitPolicy_def buildPodMonitor_def buildPredictorPodMonitor_def
      newPodMonitor_def buildBackendAPIKeyPolicy_def nameMeta_def Let_def)

lemma service_backends_namespace:
  "buildServiceBackends L i ns host port sch = (b, ab) \<Longrightarrow> uNamespace b = ns \<and> uNamespace ab = ns"
  by (auto simp: buildServiceBackends_def nameMeta_def Let_def)

lemma home_Apply: "or_namespace (objRef ob) = cx_namespace c \<Longrightarrow> emits (home c) (Apply A L (cx_ref c) ob)"
  by (simp add: emits_Apply)

lemma home_deleteAIGatewayObject: "emits (home c) (deleteAIGatewayObject A L c g suffix)"
  by (simp add: deleteAIGatewayObject_def emits_delete)

lemma home_syncAIGateway:
  assumes "named_reads A" "meta_ok c" "\<And>g j. (g, j) \<in> set backends \<Longrightarrow> uNamespace j = cx_namespace c"
  shows "emits (home c) (syncAIGateway A E L c m quota ref backends)"
  unfolding syncAIGateway_def
  by (intro emits_intros home_deleteAIGatewayObject home_ensureKey assms(1,2))
    (auto intro!: emits_intros dest: assms(3) simp: built_route_name split: prod.split)

lemma home_parts:
  assumes "meta_ok c"
  shows "emits (home c) (cleanupAIGateway A L c)"
    and "emits (home c) (deleteExternalService A c)"
    and "emits (home c) (reconcileExternalService A L c spec t sel p tp)"
    and "emits (home c) (ensureModelPullerServiceAccount A E L c)"
    and "emits (home c) (ensureLLMConfig A L c)"
proof -
  show d: "emits (home c) (deleteExternalService A c)"
    using assms by (simp add: deleteExternalService_def emits_delete externalServiceRef_def meta_ok_def)
  show "emits (home c) (cleanupAIGateway A L c)"
    unfolding cleanupAIGateway_def by (intro emits_intros home_deleteAIGatewayObject)
  show "emits (home c) (reconcileExternalService A L c spec t sel p tp)"
    unfolding reconcileExternalService_def using assms
    by (intro emits_intros d home_Apply) (simp add: buildExternalService_def Let_def meta_ok_def split: option.split)
  show "emits (home c) (ensureModelPullerServiceAccount A E L c)"
    unfolding ensureModelPullerServiceAccount_def using assms
    by (intro home_Apply) (simp add: modelPullerServiceAccount_def meta_ok_def)
  show "emits (home c) (ensureLLMConfig A L c)"
    unfolding ensureLLMConfig_def Let_def using assms
    by (intro emits_intros home_Apply) (simp add: llmConfigMeta_def meta_ok_def)
qed

lemma home_podMonitor: "uNamespace pm = cx_namespace c \<Longrightarrow> emits (home c) (syncPodMonitor A E L c en pm)"
  using home_Apply [of "KUnstr podMonitorGVK pm" c A L] by (simp add: emits_def syncPodMonitor_def podMonitorRef_def)

lemma home_readOnly: "readOnly m \<Longrightarrow> emits (home c) m"
proof -
  have "\<not> isWrite e \<Longrightarrow> home c e" for e by (cases e rule: isWrite.cases) simp_all
  then show "readOnly m \<Longrightarrow> ?thesis" unfolding readOnly_def emits_def by blast
qed

lemma emits_buildLLM:
  assumes "emits P (buildLLMInferenceService A E L K c)" "\<And>spec. emits P (f (KLLM (cx_objectMeta c (cx_name c)) spec new_llm_status))"
  shows "emits P (bindP (buildLLMInferenceService A E L K c) f)"
  unfolding emits_def
proof
  fix s
  show "\<forall>e \<in> set (effects (bindP (buildLLMInferenceService A E L K c) f) s). P e"
  proof (cases "result (buildLLMInferenceService A E L K c) s")
    case (Inl err)
    with assms(1) show ?thesis by (simp add: effects_bindP emits_def)
  next
    case (Inr x)
    from buildLLM_kind [OF Inr] Inr assms show ?thesis by (auto simp: effects_bindP emits_def)
  qed
qed

lemma home_syncLLM:
  assumes "named_reads A" "meta_ok c"
  shows "emits (home c) (syncLLM A E L K c)"
  unfolding syncLLM_def llmAccess_def ensureExternalService_def Let_def using assms
  by (intro emits_intros emits_buildLLM home_readOnly [OF buildLLM_readOnly] home_parts home_podMonitor home_syncAIGateway home_Apply)
    (simp_all add: meta_ok_def llmPodMonitor_def)

lemma built_isvc_namespace:
  assumes "buildInferenceService E L K c = Inr isvc" "meta_ok c"
  shows "uNamespace isvc = cx_namespace c"
proof -
  obtain params spec where "isvc = inferenceServiceObject (inferenceServiceMeta c params) spec"
    using tryR_build [OF assms(1)] by blast
  then show ?thesis
    using assms(2) by (simp add: inferenceServiceObject_def inferenceServiceMeta_def nameMeta_def meta_ok_def Let_def)
qed

lemma emits_liftR:
  "(\<And>x. r = Inr x \<Longrightarrow> emits P (f x)) \<Longrightarrow> emits P (bindP (liftR r) f)"
  by (auto simp: emits_def effects_bindP split: sum.split)

lemma home_predictorGateway:
  assumes "named_reads A" "meta_ok c"
  shows "emits (home c) (syncPredictorAIGateway A E L c topo params)"
  unfolding syncPredictorAIGateway_def using assms
  by (intro emits_intros home_parts home_deleteAIGatewayObject home_syncAIGateway)
    (auto simp: predictorBackends_def split: prod.splits if_splits
      dest: service_backends_namespace [OF sym])

lemma home_syncPredictor:
  assumes "named_reads A" "meta_ok c"
  shows "emits (home c) (syncPredictor A E L K c)"
  unfolding syncPredictor_def Let_def using assms
  by (intro emits_liftR emits_seq emits_when home_parts home_podMonitor home_predictorGateway home_Apply)
    (simp_all add: predictorPodMonitor_def built_isvc_namespace)

text \<open>
  C12: A reconcile stays in its namespace. When the API answers a read with the object asked for,
  every call Sync makes on an Instance of either topology applies an object of the Instance's
  namespace with the Instance as its controller, creates or patches the Instance's own key Secret,
  or deletes an object of that namespace; everything else it does is a read.
\<close>

theorem sync_stays_in_namespace:
  assumes "named_reads A" "meta_ok c"
  shows "emits (home c) (Sync A E L K c)"
  unfolding Sync_def by (intro emits_intros home_syncLLM home_syncPredictor assms)

theorem sync_stays_in_namespace_witness: "emits (home demo_ctx) (Sync mem_api gateway_env demo_lib no_catalogs demo_ctx)"
  by (rule sync_stays_in_namespace [OF mem_named_reads demo_meta_ok])

end
