(* ===== verification/Rbac.thy ===== *)
theory Rbac
  imports Provider
begin

text \<open>
  \<open>internal/provider/rbac.go\<close>: the role the provider runs under, as its markers grant it, with the
  proof that it permits every call of the handlers and of the gateway controller.
\<close>

section \<open>The role\<close>

datatype verb = VGet | VList | VWatch | VCreate | VUpdate | VPatch | VDelete

definition allVerbs :: "verb list" where
  "allVerbs = [VGet, VList, VWatch, VCreate, VUpdate, VPatch, VDelete]"

text \<open>The markers: API group, resource and verbs.\<close>

definition rbacRules :: "(string \<times> string \<times> verb list) list" where
  "rbacRules =
     [(''core.openeverest.io'', ''instances'', [VGet, VList, VWatch, VUpdate, VPatch]),
      (''core.openeverest.io'', ''instances/status'', [VGet, VUpdate, VPatch]),
      (''core.openeverest.io'', ''instances/finalizers'', [VUpdate]),
      (''core.openeverest.io'', ''providers'', [VGet, VList, VWatch]),
      (''coordination.k8s.io'', ''leases'', [VGet, VList, VWatch, VCreate, VUpdate, VPatch, VDelete]),
      ([], ''events'', [VCreate, VPatch]),
      ([], ''pods'', [VGet, VList, VWatch]),
      (''serving.kserve.io'', ''llminferenceservices'', allVerbs),
      (''serving.kserve.io'', ''llminferenceservices/status'', [VGet]),
      (''serving.kserve.io'', ''llminferenceservices/finalizers'', [VUpdate]),
      (''serving.kserve.io'', ''llminferenceserviceconfigs'', allVerbs),
      (''serving.kserve.io'', ''inferenceservices'', allVerbs),
      (''serving.kserve.io'', ''inferenceservices/status'', [VGet]),
      (''serving.kserve.io'', ''inferenceservices/finalizers'', [VUpdate]),
      (''serving.kserve.io'', ''clusterstoragecontainers'', [VGet, VList, VWatch]),
      (''aigateway.envoyproxy.io'', ''aigatewayroutes'', allVerbs),
      (''aigateway.envoyproxy.io'', ''aigatewayroutes/status'', [VGet]),
      (''aigateway.envoyproxy.io'', ''aiservicebackends'', allVerbs),
      (''aigateway.envoyproxy.io'', ''backendsecuritypolicies'', allVerbs),
      (''gateway.envoyproxy.io'', ''backends'', allVerbs),
      (''gateway.envoyproxy.io'', ''backendtrafficpolicies'', allVerbs),
      (''gateway.envoyproxy.io'', ''securitypolicies'', allVerbs),
      (''gateway.networking.k8s.io'', ''gateways'', [VGet, VList, VWatch]),
      (''gateway.networking.k8s.io'', ''httproutes'', [VGet, VList, VWatch]),
      (''monitoring.coreos.com'', ''podmonitors'', allVerbs),
      ([], ''secrets'', allVerbs),
      ([], ''configmaps'', [VGet, VList, VWatch]),
      ([], ''services'', allVerbs),
      ([], ''nodes'', [VGet, VList, VWatch]),
      ([], ''serviceaccounts'', allVerbs)]"

text \<open>The plural resource name under which the API serves each kind the provider uses.\<close>

definition resourceNames :: "(string \<times> string) list" where
  "resourceNames =
     [(''LLMInferenceService'', ''llminferenceservices''),
      (''LLMInferenceServiceConfig'', ''llminferenceserviceconfigs''),
      (''InferenceService'', ''inferenceservices''),
      (''ClusterStorageContainer'', ''clusterstoragecontainers''),
      (''AIGatewayRoute'', ''aigatewayroutes''), (''AIServiceBackend'', ''aiservicebackends''),
      (''BackendSecurityPolicy'', ''backendsecuritypolicies''), (''Backend'', ''backends''),
      (''BackendTrafficPolicy'', ''backendtrafficpolicies''), (''SecurityPolicy'', ''securitypolicies''),
      (''Gateway'', ''gateways''), (''PodMonitor'', ''podmonitors''), (''Secret'', ''secrets''),
      (''Service'', ''services''), (''Node'', ''nodes''), (''ServiceAccount'', ''serviceaccounts'')]"

definition allowed :: "verb list \<Rightarrow> gvk \<Rightarrow> bool" where
  "allowed vs g \<longleftrightarrow>
     list_ex (\<lambda>(group, resource, verbs).
        group = gv_group g \<and> map_of resourceNames (gv_kind g) = Some resource \<and> list_all (\<lambda>v. v \<in> set verbs) vs)
       rbacRules"

fun kindOfObject :: "kobject \<Rightarrow> gvk" where
  "kindOfObject (KUnstr g _) = g"
| "kindOfObject ob = or_gvk (objRef ob)"

text \<open>
  The verbs a call needs. The manager reads through a cache that lists and watches every kind it
  is asked for; a server-side apply may create the object.
\<close>

fun permitted :: "event \<Rightarrow> bool" where
  "permitted (EvGet ref _) = allowed [VGet, VList, VWatch] (or_gvk ref)"
| "permitted (EvList g _ _) = allowed [VGet, VList, VWatch] g"
| "permitted (EvPatch (ServerSideApply _ ob) _) = allowed [VCreate, VPatch] (kindOfObject ob)"
| "permitted (EvPatch (DryRunApply ob) _) = allowed [VCreate, VPatch] (kindOfObject ob)"
| "permitted (EvPatch (MergePatch _ ob) _) = allowed [VPatch] (kindOfObject ob)"
| "permitted (EvCreate _ ob _) = allowed [VCreate] (kindOfObject ob)"
| "permitted (EvDelete ref _) = allowed [VDelete] (or_gvk ref)"

lemmas provider_gvks = core_gvk_defs gateway_gvk_defs securityPolicyGVK_def inferenceServiceGVK_def
  clusterStorageContainerGVK_def podMonitorGVK_def mkgvk_def

lemma allowed_all [simp]:
  "list_all (\<lambda>g. allowed [VGet, VList, VWatch] g \<and> allowed [VCreate, VPatch] g \<and> allowed [VCreate] g \<and> allowed [VPatch] g \<and> allowed [VDelete] g)
     [llmGVK, llmConfigGVK, inferenceServiceGVK, aiGatewayRouteGVK, aiServiceBackendGVK, backendSecurityPolicyGVK,
      envoyBackendGVK, backendTrafficPolicyGVK, securityPolicyGVK, podMonitorGVK, secretGVK, serviceGVK, serviceAccountGVK]"
  by code_simp

lemma allowed_read [simp]:
  "allowed [VGet, VList, VWatch] clusterStorageContainerGVK" "allowed [VGet, VList, VWatch] gatewayGVK"
  "allowed [VGet, VList, VWatch] nodeGVK"
  by code_simp+

lemmas allowed_simps [simp] = allowed_all [simplified]

section \<open>Every call is permitted\<close>

lemma permitted_key: "keeps_key c e \<Longrightarrow> permitted e"
  by (cases e rule: permitted.cases) (auto simp: keySecretRef_def elim!: keeps_key.elims)

lemma role_ensureKey [emits_intros]: "emits permitted (ensureAIGatewayKey A L c)"
  using ensure_key_calls permitted_key unfolding emits_def by metis

lemma role_Apply_unstr: "allowed [VCreate, VPatch] g \<Longrightarrow> emits permitted (Apply A L owner (KUnstr g j))"
  by (simp add: emits_Apply)

lemma role_deleteAIGatewayObject:
  "allowed [VDelete] g \<Longrightarrow> emits permitted (deleteAIGatewayObject A L c g suffix)"
  by (simp add: deleteAIGatewayObject_def emits_delete)

lemma role_cleanup [emits_intros]: "emits permitted (cleanupAIGateway A L c)"
  unfolding cleanupAIGateway_def by (intro emits_intros role_deleteAIGatewayObject) simp_all

lemma role_syncAIGateway:
  assumes "\<And>g j. (g, j) \<in> set backends \<Longrightarrow> allowed [VCreate, VPatch] g"
  shows "emits permitted (syncAIGateway A E L c m quota ref backends)"
  unfolding syncAIGateway_def
  by (intro emits_intros role_deleteAIGatewayObject)
    (auto intro!: emits_intros dest: assms split: prod.split)

lemma role_access [emits_intros]: "emits permitted (validateAIGatewayAccess A E L c m fix)"
  unfolding validateAIGatewayAccess_def by (intro emits_intros emits_list) simp

lemma role_podMonitor [emits_intros]: "emits permitted (syncPodMonitor A E L c en pm)"
  using role_Apply_unstr [of podMonitorGVK A L "cx_ref c" pm]
  by (simp add: emits_def syncPodMonitor_def podMonitorRef_def)

lemma role_serviceAccount [emits_intros]: "emits permitted (ensureModelPullerServiceAccount A E L c)"
  unfolding ensureModelPullerServiceAccount_def by (intro emits_intros) simp

lemma role_service [emits_intros]:
  "emits permitted (deleteExternalService A c)"
  "emits permitted (reconcileExternalService A L c spec t sel p tp)"
  unfolding reconcileExternalService_def deleteExternalService_def
  by (intro emits_intros emits_delete; simp add: externalServiceRef_def metaRef_def)+

text \<open>Programs that only read need \<open>permitted\<close> of their reads.\<close>

lemma role_readKey [emits_intros]: "emits permitted (readAIGatewayKey A c)"
  unfolding readAIGatewayKey_def
  by (intro emits_intros emits_get) (auto simp: keySecretRef_def intro!: emits_intros split: kobject.split api_error.split)

lemma role_gatewayDetails [emits_intros]: "emits permitted (aiGatewayConnectionDetails A E L c m base)"
  unfolding aiGatewayConnectionDetails_def Let_def
  by (auto intro!: emits_intros emits_get split: sum.split prod.split nested.split list.split json.split)

lemma role_serviceDetails [emits_intros]: "emits permitted (externalServiceConnectionDetails A c t port)"
  unfolding externalServiceConnectionDetails_def firstNodeAddress_def Let_def
  by (auto intro!: emits_intros emits_get emits_list split: sum.split option.split)

lemma role_getLLMConfigIn: "emits permitted (getLLMConfigIn A name nss)"
  by (induction nss) (auto intro!: emits_intros emits_get split: api_error.split option.split)

lemma role_inheritedArgs: "emits permitted (resolveInheritedArgs A E c refs inline i)"
proof (induction refs arbitrary: i)
  case Nil
  then show ?case by (simp add: emits_ret)
next
  case (Cons ref refs)
  then show ?case
    using role_getLLMConfigIn by (auto simp: getLLMConfig_def intro!: emits_intros split: option.split)
qed

subsection \<open>The llm topology\<close>

lemma role_validateLLM [emits_intros]: "emits permitted (validateLLM A E L K c)"
  unfolding validateLLM_def Let_def by (intro emits_intros)

lemma role_buildLLM: "emits permitted (buildLLMInferenceService A E L K c)"
  using role_inheritedArgs
  by (auto simp: buildLLMInferenceService_def Let_def intro!: emits_intros split: sum.split option.split)

lemma role_ensureLLMConfig: "emits permitted (ensureLLMConfig A L c)"
  unfolding ensureLLMConfig_def Let_def by (intro emits_intros) simp

lemma role_llmAccess: "emits permitted (llmAccess A E L c)"
  unfolding llmAccess_def ensureExternalService_def Let_def by (intro emits_intros role_syncAIGateway) simp

lemma role_syncLLM [emits_intros]: "emits permitted (syncLLM A E L K c)"
  unfolding syncLLM_def
  by (intro emits_intros emits_buildLLM role_buildLLM role_ensureLLMConfig role_llmAccess) simp

lemma role_statusLLM [emits_intros]: "emits permitted (statusLLM A E L c)"
  unfolding statusLLM_def llmConnectionDetails_def Let_def
  by (auto intro!: emits_intros emits_get split: sum.split option.split prod.split)

subsection \<open>The predictor topology\<close>

lemma role_checkStorageContainer [emits_intros]: "emits permitted (validateStorageContainer A L uri name)"
  unfolding validateStorageContainer_def
  by (auto simp: storageContainerRef_def intro!: emits_intros emits_get split: sum.split api_error.split)

lemma role_validateConfig [emits_intros]: "emits permitted (validatePredictorConfig A E L K c)"
  unfolding validatePredictorConfig_def Let_def
  by (auto intro!: emits_intros emits_patch split: option.split)

lemma role_validatePredictor [emits_intros]: "emits permitted (validatePredictor A E L K c)"
  unfolding validatePredictor_def Let_def by (intro emits_intros)

lemma role_predictorGateway: "emits permitted (syncPredictorAIGateway A E L c topo params)"
  unfolding syncPredictorAIGateway_def predictorBackends_def
  by (intro emits_intros role_deleteAIGatewayObject role_syncAIGateway)
    (auto split: prod.splits if_splits)

lemma role_syncPredictor [emits_intros]: "emits permitted (syncPredictor A E L K c)"
  unfolding syncPredictor_def Let_def
  by (intro emits_intros role_predictorGateway) simp

lemma role_statusPredictor [emits_intros]: "emits permitted (statusPredictor A E L c)"
  unfolding statusPredictor_def readyPredictor_def predictorConnectionDetails_def Let_def
  by (auto simp: inferenceServiceRef_def intro!: emits_intros emits_get split: sum.split option.split prod.split)

subsection \<open>The gateway controller\<close>

lemma role_ReconcileAuth: "emits permitted (ReconcileAuth A E L r)"
  unfolding ReconcileAuth_def deleteOutputs_def listOrFail_def placeholderKey_def newAPIKey_def Let_def
  by (auto simp: outputRef_def buildGatewayCredentials_def intro!: emits_intros emits_get emits_list emits_clientDelete split: sum.split option.split api_error.split)

lemma role_Cleanup: "emits permitted (Cleanup A c)"
  unfolding Cleanup_def deleteKeySecret_def
  by (intro emits_intros emits_delete; simp add: inferenceServiceRef_def)

text \<open>
  C11: The role suffices. Whatever the API answers, every call that Validate, Sync, Status, Cleanup
  and the gateway key controller make is permitted by the role of rbac.go, counting the list and
  watch behind each cached read and the create behind each server-side apply.
\<close>

theorem role_suffices:
  "emits permitted (Validate A E L K c) \<and> emits permitted (Sync A E L K c) \<and>
   emits permitted (Status A E L c) \<and> emits permitted (Cleanup A c) \<and>
   emits permitted (ReconcileAuth A E L r)"
  unfolding Validate_def Sync_def Status_def
  by (intro conjI emits_intros role_Cleanup role_ReconcileAuth)

end
