(* ===== verification/Publication.thy ===== *)
theory Publication
  imports Provider
begin

text \<open>
  The components together: the uniqueness check of a model name, the route an Instance publishes,
  the Secret with its key, and the gateway controller. A client that uses the disclosed key on
  the published model gets in.
\<close>

section \<open>The models an Instance's own key grants\<close>

text \<open>Kubernetes names: not empty, printable, without a comma or a slash.\<close>

definition kube_name :: "string \<Rightarrow> bool" where
  "kube_name n \<longleftrightarrow> n \<noteq> [] \<and> list_all (\<lambda>ch. printable ch \<and> ch \<noteq> CHR '','' \<and> ch \<noteq> CHR ''/'') n"

lemma splitOn_absent: "sep \<notin> set s \<Longrightarrow> splitOn sep s = [s]"
  by (induction s) auto

lemma distinct_single: "distinct xs \<Longrightarrow> set xs = {x} \<Longrightarrow> xs = [x]"
proof (cases xs)
  case (Cons y ys)
  moreover assume "distinct xs" "set xs = {x}"
  ultimately show ?thesis by (cases ys) auto
qed simp

lemma sole_mono: "sole f (\<lambda>_. True) xs x \<Longrightarrow> sole f C xs x"
proof -
  have "length (filter (\<lambda>s. C s \<and> f s = f x) xs) \<le> length (filter (\<lambda>s. f s = f x) xs)"
    by (induction xs) auto
  then show "sole f (\<lambda>_. True) xs x \<Longrightarrow> ?thesis" by (simp add: sole_def)
qed

lemma own_model_refs:
  assumes "kube_name ns" "kube_name n"
  shows "parseModelRefs (instanceModelRef ns n) = [qualifiedName ns n]"
proof -
  have "CHR '','' \<notin> set (instanceModelRef ns n)" and p: "list_all printable (instanceModelRef ns n)"
    using assms by (auto simp: kube_name_def instanceModelRef_def list_all_iff printable_def)
  then show ?thesis
    by (simp add: parseModelRefs_def splitOn_absent trimSpace_printable sort_compact_def compact_def)
      (simp add: instanceModelRef_def qualifiedName_def)
qed

text \<open>The Instance's own route as the API lists it: attached to the gateway and serving the model.\<close>

definition ownRoute :: "env \<Rightarrow> lib \<Rightarrow> ctx \<Rightarrow> string \<Rightarrow> json \<Rightarrow> bool" where
  "ownRoute E L c m route \<longleftrightarrow>
     uNamespace route = cx_namespace c \<and> uName route = aiGatewayRouteName L (cx_name c) \<and>
     routeAttachedToGateway route (AIGatewayName E) (AIGatewayNamespace E) \<and> m \<in> set (aiGatewayRouteModels route)"

lemma built_route_own:
  "m \<noteq> [] \<Longrightarrow> AIGatewayNamespace E \<noteq> [] \<Longrightarrow>
     ownRoute E L c m (buildAIGatewayRoute E L (cx_name c) (cx_namespace c) m (AIGatewayName E) (AIGatewayNamespace E) b)"
  by (simp add: ownRoute_def built_route_models built_route_attached built_route_name)

lemma own_route_serves_alone:
  assumes "routes_ok routes" "route \<in> set routes" "ownRoute E L c m route" "\<not> list_ex (foreignServer E L c m) routes"
  shows "servingRoutes (AIGatewayName E) (AIGatewayNamespace E) routes m = [route]"
proof -
  let ?s = "servingRoutes (AIGatewayName E) (AIGatewayNamespace E) routes m"
  have same: "r = route" if "r \<in> set ?s" for r
  proof -
    have "\<not> foreignServer E L c m r" using that assms(4) by (auto simp: mem_servingRoutes list_ex_iff)
    with that have "routeRef r = routeRef route"
      using assms(3) by (simp add: mem_servingRoutes foreignServer_def ownRoute_def routeRef_def)
    moreover have "inj_on routeRef (set routes)" "r \<in> set routes"
      using that assms(1) by (simp_all add: mem_servingRoutes routes_ok_def distinct_map)
    ultimately show ?thesis using assms(2) by (blast dest: inj_onD)
  qed
  have "distinct ?s" using assms(1) by (simp add: servingRoutes_def routes_ok_def distinct_map)
  moreover have "route \<in> set ?s" using assms(2,3) by (simp add: mem_servingRoutes ownRoute_def)
  with same have "set ?s = {route}" by blast
  ultimately show ?thesis by (rule distinct_single)
qed

lemma own_key_grants:
  assumes "key_metadata_ok c sec" "secretNamespace sec = cx_namespace c"
    and "kube_name (cx_namespace c)" "kube_name (cx_name c)"
    and "routes_ok routes" "route \<in> set routes" "ownRoute E L c m route" "\<not> list_ex (foreignServer E L c m) routes"
  shows "grants L (AIGatewayName E) (AIGatewayNamespace E) routes sec m"
  unfolding grants_def
proof (intro exI conjI)
  show "servingRoutes (AIGatewayName E) (AIGatewayNamespace E) routes m = [route]"
    by (rule own_route_serves_alone [OF assms(5-8)])
  show "qualifiedName (secretNamespace sec) (cx_name c) \<in> set (parseModelRefs (secretAnnotation sec aiGatewayModelsAnnotation))"
    using assms(1,2) own_model_refs [OF assms(3,4)] by (simp add: key_metadata_ok_def)
  show "uNamespace route = secretNamespace sec" "uName route = aiGatewayRouteName L (cx_name c)"
    using assms(2,7) by (simp_all add: ownRoute_def)
  show "secretNamespace sec \<noteq> []" "cx_name c \<noteq> []" "CHR ''/'' \<notin> set (secretNamespace sec)"
    using assms(2-4) by (auto simp: kube_name_def list_all_iff)
qed

lemma access_free:
  "result (validateAIGatewayAccess A E L c m fix) s = Inr () \<Longrightarrow>
     \<exists>items. api_list A s aiGatewayRouteGVK None = Inr items \<and> \<not> list_ex (foreignServer E L c m) (map unstrOf items)"
  by (auto simp: validateAIGatewayAccess_def run_writes routeTaking_None [symmetric]
      split: sum.splits option.splits if_splits)

text \<open>
  C2: The key a client is given opens the model it was given for. Suppose the model name passed
  validateAIGatewayAccess, the API lists the Instance's route for it and its key Secret with the
  provider's metadata, whose identifier and key no other listed Secret shares, and the details of
  aiGatewayConnectionDetails were disclosed to a client. Then a successful ReconcileAuth writes
  credentials and a policy that admit the disclosed password on that model.
\<close>

theorem disclosed_key_opens_model:
  assumes names: "named_reads A" "kube_name (cx_namespace c)" "kube_name (cx_name c)"
    and details: "AIGatewayAuthEnabled E" "result (aiGatewayConnectionDetails A E L c m base) s = Inr (d, [])"
    and key: "api_get A s (keySecretRef c) = Inr (KSecret sec)" "key_metadata_ok c sec" "validAPIKeyID (secretID sec)"
    and secrets: "api_list A s secretGVK (Some (aiGatewayKeyLabel, ''true'')) = Inr secrets" "KSecret sec \<in> set secrets"
      "sole secretID (\<lambda>_. True) (List.map_filter asSecret secrets) sec"
      "sole secretKey (\<lambda>_. True) (List.map_filter asSecret secrets) sec"
    and access: "result (validateAIGatewayAccess A E L c m fix) s = Inr ()"
    and routes: "api_list A s aiGatewayRouteGVK None = Inr routes" "routes_ok (map unstrOf routes)"
      "list_ex (ownRoute E L c m) (map unstrOf routes)"
    and reconcile: "gr_gatewayName r = AIGatewayName E" "gr_gatewayNamespace r = AIGatewayNamespace E"
      "result (ReconcileAuth A E L r) s = Inr ()"
  shows "\<exists>owner creds policy.
    writes (ReconcileAuth A E L r) s =
      [EvPatch (ServerSideApply owner (KSecret creds)) None,
       EvPatch (ServerSideApply owner (KUnstr securityPolicyGVK policy)) None] \<and>
    admits creds policy (cn_password d) m"
proof -
  let ?gw = "AIGatewayName E" and ?gns = "AIGatewayNamespace E"
  let ?routes = "map unstrOf routes" and ?secrets = "List.map_filter asSecret secrets"
  have pw: "cn_password d = secretKey sec" "secretKey sec \<noteq> []"
    using details_published [OF details(2)] details(1) key(1)
    by (auto simp: published_def readAIGatewayKey_def run_bind secretKey_def split: if_splits)
  have "objRef (KSecret sec) = keySecretRef c" using names(1) key(1) unfolding named_reads_def by blast
  then have ns: "secretNamespace sec = cx_namespace c"
    by (simp add: keySecretRef_def metaRef_def secretNamespace_def)
  obtain route where route: "route \<in> set ?routes" "ownRoute E L c m route"
    using routes(3) by (auto simp: list_ex_iff)
  have "\<not> list_ex (foreignServer E L c m) ?routes" using access_free [OF access] routes(1) by simp
  with own_key_grants [OF key(2) ns names(2,3) routes(2) route]
  have grant: "grants L ?gw ?gns ?routes sec m" .
  then have contends: "contends L ?gw ?gns ?routes sec"
    using key(3) pw(2) by (auto simp: contends_def usableKey_def)
  have "sec \<in> set ?secrets"
    using secrets(2) by (force simp: List.map_filter_def)
  with contends secrets(3,4) have eff: "effective L ?gw ?gns ?routes ?secrets sec"
    by (simp add: effective_def sole_mono)
  let ?keys = "fst (resolveGatewayKeys L ?secrets ?routes ?gw ?gns)"
  from reconcile_writes [OF details(1) reconcile(3)] obtain gateway ph where w:
    "writes (ReconcileAuth A E L r) s =
       [EvPatch (ServerSideApply (objRef gateway) (KSecret (buildGatewayCredentials (outputName r) ?gns ph ?keys))) None,
        EvPatch (ServerSideApply (objRef gateway) (KUnstr securityPolicyGVK
          (buildGatewayAuthPolicy E (outputName r) ?gw ?gns ?keys))) None]"
    using secrets(1) routes(1) reconcile(1,2) by auto
  have "admits (buildGatewayCredentials (outputName r) ?gns ph ?keys)
      (buildGatewayAuthPolicy E (outputName r) ?gw ?gns ?keys) (secretKey sec) m"
    unfolding admits_resolved [OF routes(2)] using eff grant by blast
  with w pw(1) show ?thesis by auto
qed

text \<open>The demo Instance, published, with its key and the gateway.\<close>

definition own_secret :: secret where
  "own_secret = refreshed demo_ctx (key_secret ''demo-ai-gateway-key'' ''k_a'' ''v'' [])"

definition own_route :: json where
  "own_route = JObj (asObj (demo_route ''m'') @
     [(''status'', JObj [(''conditions'', JArr [JObj [(''type'', JStr ''Accepted''), (''status'', JStr ''True'')]])])])"

definition own_gateway :: json where
  "own_gateway = JObj [(''metadata'', JObj (nameMeta ''gw'' ''infra'')),
     (''status'', JObj [(''addresses'', JArr [JObj [(''value'', JStr ''10.0.0.1'')]])])]"

definition own_state :: mem_state where
  "own_state =
     ([(mkref aiGatewayRouteGVK ''ns'' ''demo-ai-gateway'', KUnstr aiGatewayRouteGVK own_route),
       (mkref gatewayGVK ''infra'' ''gw'', KUnstr gatewayGVK own_gateway),
       (mkref secretGVK ''ns'' ''demo-ai-gateway-key'', KSecret own_secret)], 0)"

lemma own_names [simp]: "cx_name demo_ctx = ''demo''" "cx_namespace demo_ctx = ''ns''"
  by (simp_all add: demo_ctx_def)

lemma own_route_fields:
  "nestedField own_route [''spec'', k] = nestedField (demo_route ''m'') [''spec'', k]"
  "uName own_route = uName (demo_route ''m'')" "uNamespace own_route = uNamespace (demo_route ''m'')"
  by (simp_all add: own_route_def demo_route_def buildAIGatewayRoute_def unstrObject_def Let_def
      uName_def uNamespace_def metaStr_def jindex_def ggetd_def)

lemma own_route_reads [simp]:
  "uName own_route = ''demo-ai-gateway''" "uNamespace own_route = ''ns''"
  "routeAttachedToGateway own_route ''gw'' ''infra''" "aiGatewayRouteModels own_route = [''m'']"
  "routeAcceptance own_route = (True, [])"
proof -
  show "uName own_route = ''demo-ai-gateway''" and ns: "uNamespace own_route = ''ns''"
    by (simp_all add: own_route_fields demo_route_def demo_route_reads aiGatewayRouteName_def
        aiGatewayRouteSuffix_def demo_lib_answers)
  have slice: "sliceOrNil own_route [''spec'', k] = sliceOrNil (demo_route ''m'') [''spec'', k]" for k
    by (simp add: sliceOrNil_def nestedSlice_def own_route_fields)
  have "routeAttachedToGateway own_route gw gns = routeAttachedToGateway (demo_route ''m'') gw gns" for gw gns
    by (simp only: routeAttachedToGateway_def slice own_route_fields)
  then show "routeAttachedToGateway own_route ''gw'' ''infra''"
    by (simp add: demo_route_def built_route_attached)
  have "aiGatewayRouteModels own_route = aiGatewayRouteModels (demo_route ''m'')"
    by (simp only: aiGatewayRouteModels_def slice)
  then show "aiGatewayRouteModels own_route = [''m'']"
    by (simp add: demo_route_def built_route_models)
  show "routeAcceptance own_route = (True, [])"
    unfolding routeAcceptance_def nestedSlice_def own_route_def demo_route_def buildAIGatewayRoute_def unstrObject_def Let_def
    by simp
qed

lemma own_gateway_reads [simp]:
  "uName own_gateway = ''gw''" "uNamespace own_gateway = ''infra''"
  "nestedSlice own_gateway [''status'', ''addresses''] = Slice [JObj [(''value'', JStr ''10.0.0.1'')]]"
  by (simp_all add: own_gateway_def uName_def uNamespace_def metaStr_def nestedSlice_def)

lemma own_secret_reads [simp]:
  "secretID own_secret = ''k_a''" "secretKey own_secret = ''v''" "key_metadata_ok demo_ctx own_secret"
  "om_name (se_meta own_secret) = ''demo-ai-gateway-key''" "om_namespace (se_meta own_secret) = ''ns''"
  by (simp_all add: own_secret_def key_metadata_refreshed)
    (simp_all add: key_secret_def secretID_def secretKey_def secretAnnotation_def secretData_def ggetd_def)

lemma own_label: "gget (om_labels (se_meta own_secret)) aiGatewayKeyLabel = Some ''true''"
  by (simp add: own_secret_def refreshed_def withAnnotation_def setKeyLabels_def key_label_defs)

lemma own_answers:
  "api_get mem_api own_state (keySecretRef demo_ctx) = Inr (KSecret own_secret)"
  "api_get mem_api own_state (mkref aiGatewayRouteGVK ''ns'' (aiGatewayRouteName demo_lib ''demo'')) = Inr (KUnstr aiGatewayRouteGVK own_route)"
  "api_get mem_api own_state (mkref gatewayGVK ''infra'' ''gw'') = Inr (KUnstr gatewayGVK own_gateway)"
  "api_get mem_api own_state (mkref secretGVK ''infra'' ''gw-api-keys'') = Inl NotFound"
  "api_list mem_api own_state aiGatewayRouteGVK None = Inr [KUnstr aiGatewayRouteGVK own_route]"
  "api_list mem_api own_state secretGVK (Some (aiGatewayKeyLabel, ''true'')) = Inr [KSecret own_secret]"
  by (simp_all add: mem_answers own_state_def keySecretRef_def aiGatewayKeySecretName_def aiGatewayKeySecretSuffix_def
      metaRef_def aiGatewayRouteName_def aiGatewayRouteSuffix_def demo_lib_answers own_label gateway_gvk_defs core_gvk_defs)

theorem disclosed_key_opens_model_witness:
  "\<exists>owner creds policy.
    writes (ReconcileAuth mem_api gateway_env demo_lib \<lparr>gr_gatewayName = ''gw'', gr_gatewayNamespace = ''infra''\<rparr>) own_state =
      [EvPatch (ServerSideApply owner (KSecret creds)) None,
       EvPatch (ServerSideApply owner (KUnstr securityPolicyGVK policy)) None] \<and>
    admits creds policy ''v'' ''m''"
proof -
  let ?r = "\<lparr>gr_gatewayName = ''gw'', gr_gatewayNamespace = ''infra''\<rparr>"
  have names: "kube_name (cx_namespace demo_ctx)" "kube_name (cx_name demo_ctx)"
    by (simp_all add: kube_name_def printable_def)
  have key: "result (readAIGatewayKey mem_api demo_ctx) own_state = Inr (''k_a'', ''v'')"
    using own_secret_reads(1,2) by (simp add: readAIGatewayKey_def run_bind own_answers secretID_def secretKey_def)
  have "\<exists>d. result (aiGatewayConnectionDetails mem_api gateway_env demo_lib demo_ctx ''m'' openAIBasePath) own_state = Inr (d, [])
      \<and> cn_password d = ''v''"
    unfolding aiGatewayConnectionDetails_def own_names gateway_env_settings
    by (simp add: run_bind key own_answers gateway_env_settings Let_def)
  then obtain d where details: "cn_password d = ''v''"
    "result (aiGatewayConnectionDetails mem_api gateway_env demo_lib demo_ctx ''m'' openAIBasePath) own_state = Inr (d, [])"
    by blast
  have access: "result (validateAIGatewayAccess mem_api gateway_env demo_lib demo_ctx ''m'' ''fix'') own_state = Inr ()"
    by (simp add: validateAIGatewayAccess_def run_bind gateway_env_settings routeTaking_def own_answers
        aiGatewayRouteName_def aiGatewayRouteSuffix_def demo_lib_answers)
  have rec: "result (ReconcileAuth mem_api gateway_env demo_lib ?r) own_state = Inr ()"
    by (simp add: ReconcileAuth_def gateway_env_settings run_writes placeholderKey_def newAPIKey_def outputRef_def
        own_answers outputName_def gatewayAuthSuffix_def Let_def)
      (simp add: mem_answers run_writes)
  have "validAPIKeyID (secretID own_secret)" by (simp add: validAPIKeyID_def keyIDChars_def)
  from disclosed_key_opens_model [OF mem_named_reads names gateway_env_settings(2) details(2) own_answers(1) own_secret_reads(3)
      this own_answers(6) _ _ _ access own_answers(5) _ _ _ _ rec] details(1)
  show ?thesis
    by (simp add: sole_def map_filter_simps routes_ok_def ownRoute_def gateway_env_settings
        aiGatewayRouteName_def aiGatewayRouteSuffix_def demo_lib_answers)
qed

end
