(* ===== verification/TopologyJSON.thy ===== *)
theory TopologyJSON
  imports MemStore JsonFields
begin

text \<open>
  \<open>definition/topologies/*/types.go\<close>: the JSON decoding of the topology parameters. Flags are
  accepted as booleans and as the strings an older UI stored. Decoding assigns into an existing
  value, field by field; an error stops it where it happens and leaves the fields assigned so far.
\<close>

section \<open>Decoding one value: encoding/json\<close>

definition decodeStr :: "json \<Rightarrow> string + string" where
  "decodeStr v = (case v of JStr s \<Rightarrow> Inr s | _ \<Rightarrow> Inl ''cannot unmarshal into string'')"

definition decodeBool :: "json \<Rightarrow> string + bool" where
  "decodeBool v = (case v of JBool b \<Rightarrow> Inr b | _ \<Rightarrow> Inl ''cannot unmarshal into bool'')"

definition decodeInt32 :: "json \<Rightarrow> string + int" where
  "decodeInt32 v =
     (case v of
        JInt n \<Rightarrow> if int32_ok n then Inr n else Inl ''number out of range''
      | _ \<Rightarrow> Inl ''cannot unmarshal into int32'')"

definition fieldError :: "string \<Rightarrow> string \<Rightarrow> kerror" where
  "fieldError key e = Wrap (TopoMsg FieldInvalid) [key] (LibErr e)"

section \<open>LlmTopologyParameters.UnmarshalJSON\<close>

text \<open>\<open>raw[key]\<close> when it is there and not null.\<close>

definition present :: "json gmap \<Rightarrow> string \<Rightarrow> json option" where
  "present raw key = (case gget raw key of Some JNull \<Rightarrow> None | r \<Rightarrow> r)"

text \<open>A flag and an optional flag: a boolean, or one of the accepted strings.\<close>

definition flagWord :: "string \<Rightarrow> bool option" where
  "flagWord s =
     (let w = toLower (trimSpace s) in
      if w \<in> {''true'', ''1'', ''enabled'', ''yes''} then Some True
      else if w \<in> {''false'', ''0'', ''disabled'', ''no'', []} then Some False
      else None)"

definition unmarshalBoolFlag :: "json gmap \<Rightarrow> string \<Rightarrow> kerror + bool" where
  "unmarshalBoolFlag raw key =
     (case present raw key of
        None \<Rightarrow> Inr False
      | Some v \<Rightarrow>
         (case decodeBool v of
            Inr b \<Rightarrow> Inr b
          | Inl _ \<Rightarrow>
             (case decodeStr v of
                Inl e \<Rightarrow> Inl (fieldError key e)
              | Inr s \<Rightarrow>
                 (case flagWord s of
                    Some b \<Rightarrow> Inr b
                  | None \<Rightarrow> Inl (Err (TopoMsg BooleanInvalid) [key, s])))))"

definition unmarshalOptionalBoolFlag :: "json gmap \<Rightarrow> string \<Rightarrow> kerror + bool option" where
  "unmarshalOptionalBoolFlag raw key =
     (case present raw key of
        None \<Rightarrow> Inr None
      | Some _ \<Rightarrow> tryR (unmarshalBoolFlag raw key) (\<lambda>b. Inr (Some b)))"

text \<open>
  One \<open>if\<close> block of the function: the updated value, and the error it returns. A pointer or string
  field is assigned only when decoding succeeds; a flag is assigned in any case, its zero value
  with the error.
\<close>

type_synonym step = "llmTopologyParameters \<Rightarrow> kerror option \<times> llmTopologyParameters"

definition fieldStep ::
    "(json \<Rightarrow> string + 'a) \<Rightarrow> ('a \<Rightarrow> llmTopologyParameters \<Rightarrow> llmTopologyParameters) \<Rightarrow> json gmap \<Rightarrow> string \<Rightarrow> step" where
  "fieldStep decode assign raw key t =
     (case present raw key of
        None \<Rightarrow> (None, t)
      | Some v \<Rightarrow>
         (case decode v of
            Inl e \<Rightarrow> (Some (fieldError key e), t)
          | Inr x \<Rightarrow> (None, assign x t)))"

definition flagStep ::
    "(json gmap \<Rightarrow> string \<Rightarrow> kerror + 'a) \<Rightarrow> 'a \<Rightarrow> ('a \<Rightarrow> llmTopologyParameters \<Rightarrow> llmTopologyParameters) \<Rightarrow>
       json gmap \<Rightarrow> string \<Rightarrow> step" where
  "flagStep decode zero assign raw key t =
     (case decode raw key of
        Inl e \<Rightarrow> (Some e, assign zero t)
      | Inr x \<Rightarrow> (None, assign x t))"

fun runSteps :: "step list \<Rightarrow> step" where
  "runSteps [] t = (None, t)"
| "runSteps (st # sts) t =
     (case st t of (Some e, t') \<Rightarrow> (Some e, t') | (None, t') \<Rightarrow> runSteps sts t')"

definition llmSteps :: "lib \<Rightarrow> json gmap \<Rightarrow> step list" where
  "llmSteps L raw =
     [fieldStep decodeStr (\<lambda>x t. t\<lparr>lp_externalAccess := x\<rparr>) raw ''externalAccess'',
      fieldStep decodeInt32 (\<lambda>x t. t\<lparr>lp_tokenLimitPerHour := Some x\<rparr>) raw ''tokenLimitPerHour'',
      fieldStep decodeInt32 (\<lambda>x t. t\<lparr>lp_prefillReplicas := Some x\<rparr>) raw ''prefillReplicas'',
      fieldStep decodeInt32 (\<lambda>x t. t\<lparr>lp_prefillMinReplicas := Some x\<rparr>) raw ''prefillMinReplicas'',
      fieldStep decodeInt32 (\<lambda>x t. t\<lparr>lp_prefillMaxReplicas := Some x\<rparr>) raw ''prefillMaxReplicas'',
      fieldStep decodeStr (\<lambda>x t. t\<lparr>lp_prefillScalingActuator := x\<rparr>) raw ''prefillScalingActuator'',
      fieldStep decodeInt32 (\<lambda>x t. t\<lparr>lp_prefillPipelineParallelSize := Some x\<rparr>) raw ''prefillPipelineParallelSize'',
      fieldStep decodeInt32 (\<lambda>x t. t\<lparr>lp_prefillWorkerCount := Some x\<rparr>) raw ''prefillWorkerCount'',
      fieldStep (lib_decodeResources L) (\<lambda>x t. t\<lparr>lp_prefillWorkerResources := Some x\<rparr>) raw ''prefillWorkerResources'',
      fieldStep decodeStr (\<lambda>x t. t\<lparr>lp_tracingEndpoint := x\<rparr>) raw ''tracingEndpoint'',
      flagStep unmarshalBoolFlag False (\<lambda>x t. t\<lparr>lp_enableGatewayRouting := x\<rparr>) raw ''enableGatewayRouting'',
      flagStep unmarshalBoolFlag False (\<lambda>x t. t\<lparr>lp_enableAIGateway := x\<rparr>) raw ''enableAIGateway'',
      flagStep unmarshalBoolFlag False (\<lambda>x t. t\<lparr>lp_enablePrefill := x\<rparr>) raw ''enablePrefill'',
      flagStep unmarshalOptionalBoolFlag None (\<lambda>x t. t\<lparr>lp_enableMetrics := x\<rparr>) raw ''enableMetrics'',
      flagStep unmarshalBoolFlag False (\<lambda>x t. t\<lparr>lp_enableTracing := x\<rparr>) raw ''enableTracing'']"

definition llm_UnmarshalJSON :: "lib \<Rightarrow> json \<Rightarrow> step" where
  "llm_UnmarshalJSON L v t =
     (case v of
        JObj raw \<Rightarrow> runSteps (llmSteps L raw) t
      | JNull \<Rightarrow> runSteps (llmSteps L []) t
      | _ \<Rightarrow> (Some (LibErr ''cannot unmarshal into map''), t))"

section \<open>PredictorTopologyParameters.UnmarshalJSON\<close>

text \<open>
  The fields other than enableMetrics are decoded by encoding/json into the struct: each member of
  the object in order, a name matched up to case; a value of the wrong type is skipped and the
  first such error reported at the end. enableMetrics is kept as raw JSON.
\<close>

record predictorAux =
  ax_plain :: predictorTopologyParameters
  ax_enableMetrics :: "json option"
  ax_error :: "string option"

definition note_error :: "string \<Rightarrow> predictorAux \<Rightarrow> predictorAux" where
  "note_error e a = (case ax_error a of None \<Rightarrow> a\<lparr>ax_error := Some e\<rparr> | Some _ \<Rightarrow> a)"

definition auxMember :: "string \<times> json \<Rightarrow> predictorAux \<Rightarrow> predictorAux" where
  "auxMember kv a =
     (let (key, v) = kv; t = ax_plain a in
      if equalFold key ''externalAccess'' then
        (if v = JNull then a
         else case decodeStr v of
             Inr x \<Rightarrow> a\<lparr>ax_plain := t\<lparr>pt_externalAccess := x\<rparr>\<rparr>
           | Inl e \<Rightarrow> note_error e a)
      else if equalFold key ''tokenLimitPerHour'' then
        (if v = JNull then a\<lparr>ax_plain := t\<lparr>pt_tokenLimitPerHour := None\<rparr>\<rparr>
         else case decodeInt32 v of
             Inr x \<Rightarrow> a\<lparr>ax_plain := t\<lparr>pt_tokenLimitPerHour := Some x\<rparr>\<rparr>
           | Inl e \<Rightarrow> note_error e a)
      else if equalFold key ''enableMetrics'' then a\<lparr>ax_enableMetrics := Some v\<rparr>
      else a)"

text \<open>\<open>strconv.ParseBool\<close>\<close>

definition parseBool :: "string \<Rightarrow> bool option" where
  "parseBool s =
     (if s \<in> {''1'', ''t'', ''T'', ''TRUE'', ''true'', ''True''} then Some True
      else if s \<in> {''0'', ''f'', ''F'', ''FALSE'', ''false'', ''False''} then Some False
      else None)"

definition predictor_UnmarshalJSON ::
    "json \<Rightarrow> predictorTopologyParameters \<Rightarrow> kerror option \<times> predictorTopologyParameters" where
  "predictor_UnmarshalJSON v t =
     (let start = \<lparr>ax_plain = t, ax_enableMetrics = None, ax_error = None\<rparr>;
          aux = (case v of
              JObj raw \<Rightarrow> fold auxMember raw start
            | JNull \<Rightarrow> start
            | _ \<Rightarrow> note_error ''cannot unmarshal into struct'' start);
          t1 = ax_plain aux;
          t2 = t1\<lparr>pt_enableMetrics := None\<rparr>
      in case ax_error aux of
          Some e \<Rightarrow> (Some (LibErr e), t1)
        | None \<Rightarrow>
          (if ax_enableMetrics aux = None \<or> ax_enableMetrics aux = Some JNull then (None, t2)
           else
            let m = the (ax_enableMetrics aux) in
            case decodeBool m of
              Inr b \<Rightarrow> (None, t2\<lparr>pt_enableMetrics := Some b\<rparr>)
            | Inl _ \<Rightarrow>
              (case decodeStr m of
                 Inl e \<Rightarrow> (Some (fieldError ''enableMetrics'' e), t2)
               | Inr s \<Rightarrow>
                 (case parseBool s of
                    None \<Rightarrow> (Some (fieldError ''enableMetrics'' ''invalid syntax''), t2)
                  | Some b \<Rightarrow> (None, t2\<lparr>pt_enableMetrics := Some b\<rparr>)))))"

section \<open>The JSON form of the parameters\<close>

text \<open>
  The form in which parameters are stored, which the round trips start from: what encoding/json
  writes for the struct tags. The repository has no encoder of its own. \<open>encode\<close> is the form of
  core/v1 resources.
\<close>

definition llm_fields :: "(resources \<Rightarrow> json) \<Rightarrow> llmTopologyParameters \<Rightarrow> (string \<times> json option) list" where
  "llm_fields encode t =
     [(''externalAccess'', omitStr (lp_externalAccess t)),
      (''enableGatewayRouting'', omitFalse (lp_enableGatewayRouting t)),
      (''enableAIGateway'', omitFalse (lp_enableAIGateway t)),
      (''tokenLimitPerHour'', map_option JInt (lp_tokenLimitPerHour t)),
      (''enablePrefill'', omitFalse (lp_enablePrefill t)),
      (''prefillReplicas'', map_option JInt (lp_prefillReplicas t)),
      (''prefillMinReplicas'', map_option JInt (lp_prefillMinReplicas t)),
      (''prefillMaxReplicas'', map_option JInt (lp_prefillMaxReplicas t)),
      (''prefillScalingActuator'', omitStr (lp_prefillScalingActuator t)),
      (''prefillPipelineParallelSize'', map_option JInt (lp_prefillPipelineParallelSize t)),
      (''prefillWorkerCount'', map_option JInt (lp_prefillWorkerCount t)),
      (''prefillWorkerResources'', map_option encode (lp_prefillWorkerResources t)),
      (''enableMetrics'', map_option JBool (lp_enableMetrics t)),
      (''enableTracing'', omitFalse (lp_enableTracing t)),
      (''tracingEndpoint'', omitStr (lp_tracingEndpoint t))]"

definition llm_MarshalJSON :: "(resources \<Rightarrow> json) \<Rightarrow> llmTopologyParameters \<Rightarrow> json" where
  "llm_MarshalJSON encode t = JObj (optFields (llm_fields encode t))"

definition llm_params_ok :: "llmTopologyParameters \<Rightarrow> bool" where
  "llm_params_ok t \<longleftrightarrow>
     int32_opt (lp_tokenLimitPerHour t) \<and> int32_opt (lp_prefillReplicas t) \<and>
     int32_opt (lp_prefillMinReplicas t) \<and> int32_opt (lp_prefillMaxReplicas t) \<and>
     int32_opt (lp_prefillPipelineParallelSize t) \<and> int32_opt (lp_prefillWorkerCount t)"

definition resources_codec :: "lib \<Rightarrow> (resources \<Rightarrow> json) \<Rightarrow> bool" where
  "resources_codec L encode \<longleftrightarrow> (\<forall>r. encode r \<noteq> JNull \<and> lib_decodeResources L (encode r) = Inr r)"

lemma llm_fields_distinct: "distinct (map fst (llm_fields encode t))"
  by (simp add: llm_fields_def)

lemma present_fields:
  "distinct (map fst fs) \<Longrightarrow> present (optFields fs) key =
     (case map_of fs key of Some (Some JNull) \<Rightarrow> None | Some v \<Rightarrow> v | None \<Rightarrow> None)"
  by (simp add: present_def gget_optFields split: option.split json.split)

lemma omit_present:
  "(case omitStr s of Some JNull \<Rightarrow> None | v \<Rightarrow> v) = omitStr s"
  "(case omitFalse b of Some JNull \<Rightarrow> None | v \<Rightarrow> v) = omitFalse b"
  "(case map_option JInt n of Some JNull \<Rightarrow> None | v \<Rightarrow> v) = map_option JInt n"
  "(case map_option JBool m of Some JNull \<Rightarrow> None | v \<Rightarrow> v) = map_option JBool m"
  by (cases n; cases m; simp add: omitStr_def omitFalse_def)+

lemma field_Str:
  "present raw key = omitStr s \<Longrightarrow> (s = [] \<Longrightarrow> upd [] t = t) \<Longrightarrow>
     fieldStep decodeStr upd raw key t = (None, upd s t)"
  by (auto simp: fieldStep_def omitStr_def decodeStr_def)

lemma field_Int:
  "present raw key = map_option JInt n \<Longrightarrow> int32_opt n \<Longrightarrow> (n = None \<Longrightarrow> upd None t = t) \<Longrightarrow>
     fieldStep decodeInt32 (\<lambda>i. upd (Some i)) raw key t = (None, upd n t)"
  by (auto simp: fieldStep_def decodeInt32_def int32_opt_def split: option.split)

lemma field_res:
  "present raw key = map_option encode r \<Longrightarrow> resources_codec L encode \<Longrightarrow> (r = None \<Longrightarrow> upd None t = t) \<Longrightarrow>
     fieldStep (lib_decodeResources L) (\<lambda>i. upd (Some i)) raw key t = (None, upd r t)"
  by (auto simp: fieldStep_def resources_codec_def split: option.split)

lemma field_flag:
  "present raw key = omitFalse b \<Longrightarrow> flagStep unmarshalBoolFlag z assign raw key t = (None, assign b t)"
  by (simp add: flagStep_def unmarshalBoolFlag_def omitFalse_def decodeBool_def split: if_splits)

lemma field_optflag:
  "present raw key = map_option JBool b \<Longrightarrow>
     flagStep unmarshalOptionalBoolFlag z assign raw key t = (None, assign b t)"
  by (cases b) (simp_all add: flagStep_def unmarshalOptionalBoolFlag_def unmarshalBoolFlag_def decodeBool_def)

lemma runSteps_ok: "st t = (None, t') \<Longrightarrow> runSteps (st # sts) t = runSteps sts t'"
  by simp

lemma llm_decode_fields:
  assumes "llm_params_ok t" "resources_codec L encode"
  shows "runSteps (llmSteps L (optFields (llm_fields encode t))) zero_llmTopology = (None, t)"
proof -
  let ?raw = "optFields (llm_fields encode t)"
  have p: "present ?raw key = (case map_of (llm_fields encode t) key of
      Some (Some JNull) \<Rightarrow> None | Some v \<Rightarrow> v | None \<Rightarrow> None)" for key
    by (rule present_fields [OF llm_fields_distinct])
  have str: "present ?raw ''externalAccess'' = omitStr (lp_externalAccess t)"
    "present ?raw ''prefillScalingActuator'' = omitStr (lp_prefillScalingActuator t)"
    "present ?raw ''tracingEndpoint'' = omitStr (lp_tracingEndpoint t)"
    unfolding p by (simp_all add: llm_fields_def omitStr_def)
  have flag: "present ?raw ''enableGatewayRouting'' = omitFalse (lp_enableGatewayRouting t)"
    "present ?raw ''enableAIGateway'' = omitFalse (lp_enableAIGateway t)"
    "present ?raw ''enablePrefill'' = omitFalse (lp_enablePrefill t)"
    "present ?raw ''enableTracing'' = omitFalse (lp_enableTracing t)"
    unfolding p by (simp_all add: llm_fields_def omitFalse_def)
  have int: "present ?raw ''tokenLimitPerHour'' = map_option JInt (lp_tokenLimitPerHour t)"
    "present ?raw ''prefillReplicas'' = map_option JInt (lp_prefillReplicas t)"
    "present ?raw ''prefillMinReplicas'' = map_option JInt (lp_prefillMinReplicas t)"
    "present ?raw ''prefillMaxReplicas'' = map_option JInt (lp_prefillMaxReplicas t)"
    "present ?raw ''prefillPipelineParallelSize'' = map_option JInt (lp_prefillPipelineParallelSize t)"
    "present ?raw ''prefillWorkerCount'' = map_option JInt (lp_prefillWorkerCount t)"
    unfolding p by (simp_all add: llm_fields_def split: option.split)
  have opt: "present ?raw ''enableMetrics'' = map_option JBool (lp_enableMetrics t)"
    unfolding p by (simp add: llm_fields_def split: option.split)
  have res: "present ?raw ''prefillWorkerResources'' = map_option encode (lp_prefillWorkerResources t)"
    unfolding p using assms(2)
    by (auto simp: llm_fields_def resources_codec_def split: option.split json.split)
  note steps = field_Str [OF str(1)] field_Str [OF str(2)] field_Str [OF str(3)]
    field_flag [OF flag(1)] field_flag [OF flag(2)] field_flag [OF flag(3)] field_flag [OF flag(4)]
    field_Int [OF int(1), where upd = "\<lambda>n t. t\<lparr>lp_tokenLimitPerHour := n\<rparr>"]
    field_Int [OF int(2), where upd = "\<lambda>n t. t\<lparr>lp_prefillReplicas := n\<rparr>"]
    field_Int [OF int(3), where upd = "\<lambda>n t. t\<lparr>lp_prefillMinReplicas := n\<rparr>"]
    field_Int [OF int(4), where upd = "\<lambda>n t. t\<lparr>lp_prefillMaxReplicas := n\<rparr>"]
    field_Int [OF int(5), where upd = "\<lambda>n t. t\<lparr>lp_prefillPipelineParallelSize := n\<rparr>"]
    field_Int [OF int(6), where upd = "\<lambda>n t. t\<lparr>lp_prefillWorkerCount := n\<rparr>"]
    field_res [OF res assms(2), where upd = "\<lambda>n t. t\<lparr>lp_prefillWorkerResources := n\<rparr>"]
    field_optflag [OF opt]
  show ?thesis
    using assms(1) by (simp add: llmSteps_def steps llm_params_ok_def zero_llmTopology_def)
qed

text \<open>
  C38: Topology parameters survive storage. Every value of the llm topology parameters whose
  numbers fit their 32-bit fields is read back unchanged from the JSON written for it, given that
  the resource type of core/v1 has that property itself.
\<close>

theorem llm_parameters_round_trip:
  assumes "llm_params_ok t" "resources_codec L encode"
  shows "llm_UnmarshalJSON L (llm_MarshalJSON encode t) zero_llmTopology = (None, t)"
  using llm_decode_fields [OF assms] by (simp add: llm_UnmarshalJSON_def llm_MarshalJSON_def)

text \<open>A codec for the witness: resources as a pair of lists of rationals.\<close>

fun quantitiesJSON :: "quantity gmap \<Rightarrow> json" where
  "quantitiesJSON m = JObj (map (\<lambda>(k, q). (k, JFloat (amount q))) m)"

fun jsonQuantities :: "json \<Rightarrow> quantity gmap" where
  "jsonQuantities (JObj m) = map (\<lambda>(k, v). (k, case v of JFloat x \<Rightarrow> Quantity x | _ \<Rightarrow> 0)) m"
| "jsonQuantities _ = []"

definition demo_encode :: "resources \<Rightarrow> json" where
  "demo_encode r = JArr [quantitiesJSON (rq_limits r), quantitiesJSON (rq_requests r), JArr (rq_claims r)]"

fun demo_decode :: "json \<Rightarrow> string + resources" where
  "demo_decode (JArr [l, r, JArr c]) = Inr \<lparr>rq_limits = jsonQuantities l, rq_requests = jsonQuantities r, rq_claims = c\<rparr>"
| "demo_decode _ = Inl ''invalid''"

definition codec_lib :: lib where
  "codec_lib = demo_lib\<lparr>lib_decodeResources := demo_decode\<rparr>"

lemma jsonQuantities_inverse: "jsonQuantities (quantitiesJSON m) = m"
  by (induction m) (auto simp: split_beta)

lemma codec_lib_ok: "resources_codec codec_lib demo_encode"
  by (simp add: resources_codec_def codec_lib_def demo_encode_def jsonQuantities_inverse del: quantitiesJSON.simps)

theorem llm_parameters_round_trip_witness:
  "llm_UnmarshalJSON codec_lib (llm_MarshalJSON demo_encode (zero_llmTopology
       \<lparr>lp_externalAccess := ''EnvoyAIGateway'', lp_tokenLimitPerHour := Some 500, lp_enableMetrics := Some False\<rparr>))
     zero_llmTopology =
   (None, zero_llmTopology
       \<lparr>lp_externalAccess := ''EnvoyAIGateway'', lp_tokenLimitPerHour := Some 500, lp_enableMetrics := Some False\<rparr>)"
  by (rule llm_parameters_round_trip [OF _ codec_lib_ok])
    (simp add: llm_params_ok_def int32_opt_def zero_llmTopology_def int32_ok_def)

section \<open>Legacy flag strings\<close>

text \<open>An object in which every boolean is spelled as a string.\<close>

definition spelled :: "(bool \<Rightarrow> string) \<Rightarrow> json gmap \<Rightarrow> json gmap" where
  "spelled spell raw = map (\<lambda>(k, v). (k, case v of JBool b \<Rightarrow> JStr (spell b) | _ \<Rightarrow> v)) raw"

definition llm_flags :: "string list" where
  "llm_flags = [''enableGatewayRouting'', ''enableAIGateway'', ''enablePrefill'', ''enableMetrics'', ''enableTracing'']"

definition only_flags_bool :: "json gmap \<Rightarrow> bool" where
  "only_flags_bool raw \<longleftrightarrow>
     list_all (\<lambda>(k, v). case v of JBool _ \<Rightarrow> k \<in> set llm_flags | _ \<Rightarrow> True) raw"

lemma gget_spelled:
  "gget (spelled spell raw) k = map_option (\<lambda>v. case v of JBool b \<Rightarrow> JStr (spell b) | _ \<Rightarrow> v) (gget raw k)"
  by (induction raw) (auto simp: spelled_def)

lemma present_spelled:
  "present (spelled spell raw) k = map_option (\<lambda>v. case v of JBool b \<Rightarrow> JStr (spell b) | _ \<Rightarrow> v) (present raw k)"
  by (auto simp: present_def gget_spelled split: option.split json.split)

lemma flag_spelled:
  assumes "\<And>b. flagWord (spell b) = Some b"
  shows "unmarshalBoolFlag (spelled spell raw) = unmarshalBoolFlag raw"
    and "unmarshalOptionalBoolFlag (spelled spell raw) = unmarshalOptionalBoolFlag raw"
proof -
  show *: "unmarshalBoolFlag (spelled spell raw) = unmarshalBoolFlag raw"
    by (rule ext) (auto simp: unmarshalBoolFlag_def present_spelled decodeBool_def decodeStr_def assms
        split: option.split json.split)
  show "unmarshalOptionalBoolFlag (spelled spell raw) = unmarshalOptionalBoolFlag raw"
    by (rule ext) (simp add: unmarshalOptionalBoolFlag_def present_spelled * split: option.split)
qed

lemma field_spelled:
  assumes "only_flags_bool raw" "k \<notin> set llm_flags"
  shows "fieldStep d a (spelled spell raw) k = fieldStep d a raw k"
proof -
  have "gget raw k \<noteq> Some (JBool b)" for b
  proof
    assume "gget raw k = Some (JBool b)"
    then have "(k, JBool b) \<in> set raw" by (rule gget_mem)
    with assms show False by (force simp: only_flags_bool_def list_all_iff)
  qed
  then have "present (spelled spell raw) k = present raw k"
    by (cases "gget raw k") (auto simp: present_def gget_spelled split: json.split)
  then show ?thesis by (intro ext) (simp add: fieldStep_def)
qed

lemma flagStep_spelled:
  assumes "\<And>b. flagWord (spell b) = Some b"
  shows "flagStep unmarshalBoolFlag z a (spelled spell raw) k = flagStep unmarshalBoolFlag z a raw k"
    and "flagStep unmarshalOptionalBoolFlag y a' (spelled spell raw) k = flagStep unmarshalOptionalBoolFlag y a' raw k"
  by (intro ext, simp add: flagStep_def flag_spelled [OF assms])+

text \<open>
  C39: Instances stored by the old UI keep their meaning. If every boolean of the stored llm
  parameters is spelled as a string the decoder accepts for it, the result, errors included, is
  the one of the booleans.
\<close>

theorem legacy_flags_decode_alike:
  assumes "flagWord (spell True) = Some True" "flagWord (spell False) = Some False" "only_flags_bool raw"
  shows "llm_UnmarshalJSON L (JObj (spelled spell raw)) t = llm_UnmarshalJSON L (JObj raw) t"
proof -
  have flag: "flagWord (spell b) = Some b" for b using assms(1,2) by (cases b) simp_all
  show ?thesis
    by (simp only: llm_UnmarshalJSON_def json.case llmSteps_def flagStep_spelled [OF flag]
        field_spelled [OF assms(3)] llm_flags_def set_simps insert_iff empty_iff list.inject char.inject
        simp_thms)
qed

theorem legacy_flags_decode_alike_witness:
  "llm_UnmarshalJSON demo_lib (JObj [(''enablePrefill'', JStr ''enabled''), (''enableMetrics'', JStr ''no'')]) zero_llmTopology =
     llm_UnmarshalJSON demo_lib (JObj [(''enablePrefill'', JBool True), (''enableMetrics'', JBool False)]) zero_llmTopology"
proof -
  have words: "flagWord ''enabled'' = Some True" "flagWord ''no'' = Some False"
    by (simp_all add: flagWord_def trimSpace_printable toLower_printable printable_def lower_char_def Let_def
      del: toLower.simps)
  have "spelled (\<lambda>b. if b then ''enabled'' else ''no'') [(''enablePrefill'', JBool True), (''enableMetrics'', JBool False)] =
      [(''enablePrefill'', JStr ''enabled''), (''enableMetrics'', JStr ''no'')]"
    by (simp add: spelled_def)
  moreover have "only_flags_bool [(''enablePrefill'', JBool True), (''enableMetrics'', JBool False)]"
    by (simp add: only_flags_bool_def llm_flags_def)
  ultimately show ?thesis
    using legacy_flags_decode_alike [of "\<lambda>b. if b then ''enabled'' else ''no''"] words by metis
qed

section \<open>The predictor topology\<close>

text \<open>Stored predictor parameters, with the flag as a boolean or, in older Instances, as a string.\<close>

definition predictor_stored :: "bool \<Rightarrow> predictorTopologyParameters \<Rightarrow> json" where
  "predictor_stored legacy t = JObj (optFields
     [(''externalAccess'', omitStr (pt_externalAccess t)),
      (''tokenLimitPerHour'', map_option JInt (pt_tokenLimitPerHour t)),
      (''enableMetrics'', map_option (\<lambda>b. if legacy then JStr (if b then ''true'' else ''false'') else JBool b)
         (pt_enableMetrics t))])"

lemma predictor_names:
  "equalFold ''externalAccess'' ''externalAccess''"
  "\<not> equalFold ''tokenLimitPerHour'' ''externalAccess''"
  "\<not> equalFold ''enableMetrics'' ''externalAccess''"
  "\<not> equalFold ''enableMetrics'' ''tokenLimitPerHour''"
  by (simp_all add: equalFold_def foldCase_printable printable_def lower_char_def Let_def del: foldCase.simps)

text \<open>
  Predictor parameters survive storage. They are read back unchanged from their JSON form,
  whether enableMetrics is stored as a boolean or as the string older Instances hold.
\<close>

theorem predictor_parameters_round_trip:
  assumes "int32_opt (pt_tokenLimitPerHour t)"
  shows "predictor_UnmarshalJSON (predictor_stored legacy t) zero_predictorTopology = (None, t)"
proof -
  obtain a l m where t: "t = \<lparr>pt_externalAccess = a, pt_tokenLimitPerHour = l, pt_enableMetrics = m\<rparr>"
    by (cases t)
  have l: "l = Some n \<Longrightarrow> int32_ok n" for n using assms by (simp add: t int32_opt_def)
  show ?thesis
    using l
    by (cases m; cases l; cases "a = []")
      (simp_all add: t predictor_UnmarshalJSON_def predictor_stored_def auxMember_def predictor_names
        equalFold_refl decodeStr_def decodeInt32_def decodeBool_def parseBool_def omitStr_def zero_predictorTopology_def)
qed

theorem predictor_parameters_round_trip_witness:
  "predictor_UnmarshalJSON (predictor_stored True
       \<lparr>pt_externalAccess = ''NodePort'', pt_tokenLimitPerHour = Some 7, pt_enableMetrics = Some False\<rparr>)
     zero_predictorTopology =
   (None, \<lparr>pt_externalAccess = ''NodePort'', pt_tokenLimitPerHour = Some 7, pt_enableMetrics = Some False\<rparr>)"
  by (rule predictor_parameters_round_trip) (simp add: int32_opt_def int32_ok_def)

end
