(* ===== verification/Spec2Isabelle.thy ===== *)
theory Spec2Isabelle
  imports KeyLifecycle Rbac Publication TopologyJSON
begin

text \<open>
  Verification library of the KServe provider for OpenEverest.

  \<^bold>\<open>The program.\<close> The provider is a Kubernetes controller. For an Instance of the \<open>llm\<close> topology it
  builds an LLMInferenceService, for one of the \<open>predictor\<close> topology an InferenceService, and around
  it what makes the model reachable: an external Service or a route on a shared Envoy AI Gateway,
  an API key, a PodMonitor, a ServiceAccount. A second controller renders all keys of the cluster
  into one SecurityPolicy of the gateway. The runtime calls \<open>Validate\<close>, \<open>Sync\<close>, \<open>Status\<close> and
  \<open>Cleanup\<close> with a context that holds the Instance.

  \<^bold>\<open>How the code is modelled.\<close> A Go struct is a record, a Go map an association list in the order of
  insertion (\<open>'a gmap\<close>, read by \<open>gget\<close>, written by \<open>gset\<close>), \<open>sort.Strings\<close> over its keys
  \<open>sorted_keys\<close>; a string is a list of bytes; \<open>int32\<close> is \<open>int\<close> with \<open>wrap32\<close> where the code computes;
  a quantity is the exact rational of \<open>resource.Quantity\<close>; an unstructured object is a JSON value. An
  error is a value of \<open>kerror\<close>: a constructor for every message of the code, its arguments, and the
  error it wraps. A function that talks to the API is a program over an unknown API state
  (\<open>Cluster\<close>): it returns a result or an error, the list of calls it made with their answers, and
  the next state. \<open>emits P m\<close> states that every call of every run of \<open>m\<close>, whatever the API answers,
  satisfies \<open>P\<close>; \<open>writes m s\<close> are the writes of the run from \<open>s\<close>; \<open>runs m s x s' ws\<close> is a successful run,
  which its equations take apart along the program.

  \<^bold>\<open>Parameters.\<close> The API server is the record \<open>api\<close>; the provider runtime, apimachinery, knative,
  controller-runtime, KServe, YAML, \<open>regexp\<close>, \<open>net/url\<close> and the tables of \<open>unicode\<close> are the record
  \<open>lib\<close> (\<open>crypto/rand\<close> is part of \<open>api\<close>, since each reading changes its state); the environment is a
  function; the runtime's decoding of component and topology parameters is part of the context.
  Properties that need documented behaviour of these name it as a hypothesis: \<open>reads_own_writes\<close>,
  \<open>named_reads\<close>, \<open>rand_ok\<close>, \<open>meta_ok\<close>, \<open>filters_new_object\<close> (\<open>Cluster\<close>), \<open>atomic_writes\<close> (\<open>KeyLifecycle\<close>), \<open>routes_ok\<close> (distinct routes, no slash in a
  namespace), \<open>container_json_ok\<close> (the JSON form of a container), \<open>kube_name\<close>. \<open>MemStore\<close> is a concrete
  instance of all of them: an in-memory API on which the witnesses run the handlers.

  \<^bold>\<open>Theories and the code they model\<close> (under \<open>src/\<close>):
    \<^item> \<open>Prelude\<close>, \<open>KubeTypes\<close>, \<open>JsonFields\<close>: Go maps, strings, quantities, Kubernetes and KServe types.
    \<^item> \<open>Components\<close>, \<open>TopologyJSON\<close>: \<open>definition/components/types.go\<close>, \<open>definition/topologies/*/types.go\<close>
      with their \<open>UnmarshalJSON\<close>: the legacy flags, round trips and equivalent spellings.
    \<^item> \<open>Errors\<close>, \<open>Cluster\<close>: messages, programs over the API, \<open>internal/common/apply.go\<close>.
    \<^item> \<open>Config\<close>: \<open>internal/common/spec.go\<close> and the two catalogs.
    \<^item> \<open>Encoding\<close>, \<open>ApiKeys\<close>: \<open>internal/provider/apikey.go\<close>: generation, storage, refresh of keys; a key
      is never rewritten, and a second run changes nothing.
    \<^item> \<open>KeyLifecycle\<close>: the same operations as two transition systems with changes by others: while the
      key is left alone it survives (\<open>key_step\<close>); when others also delete, create and edit the Secret
      (\<open>secret_step\<close>), no failure leaves half a key and a successful run stores a usable one.
    \<^item> \<open>AIGateway\<close>: \<open>aigateway.go\<close>: route, backends, token limit, uniqueness of model names, connection
      details; what is built is what is read back.
    \<^item> \<open>GatewayAuth\<close>, \<open>GatewayPolicy\<close>: \<open>gatewayauth.go\<close>: \<open>resolveGatewayKeys\<close> against its specification
      (\<open>grants\<close>, \<open>effective\<close>), what the rendered policy admits, and the order of writes.
    \<^item> \<open>Resources\<close>, \<open>ExternalService\<close>, \<open>PodMonitor\<close>, \<open>Shared\<close>: resources and tolerations,
      \<open>externalservice.go\<close>, \<open>podmonitor.go\<close>, and what both topologies share. Tolerations are judged by
      the scheduler's rule (\<open>tolerates\<close>), not by the provider's.
    \<^item> \<open>VllmEngine\<close>, \<open>LlmModel\<close>, \<open>LlmService\<close>, \<open>LlmSync\<close>: \<open>vllm_engine.go\<close>, \<open>llm_model_source.go\<close>,
      \<open>llminferenceservice.go\<close>: validation, the build, reconcile and status. The specification is what
      KServe's admission accepts (\<open>admissible\<close>); a validated Instance builds, and what is built is
      admissible.
    \<^item> \<open>InferenceTypes\<close>, \<open>PredictorConfig\<close>, \<open>Predictor\<close>, \<open>PredictorSync\<close>: \<open>inferenceservice.go\<close> and
      \<open>predictor_config.go\<close>: the merge of an inline configuration (\<open>objectMerged\<close> says what it is,
      as a relation without the loops of the code, \<open>kept\<close> what it must not change), validation, the
      build, reconcile and status.
    \<^item> \<open>Provider\<close>, \<open>Rbac\<close>, \<open>Publication\<close>: \<open>provider.go\<close>, the watches of \<open>gatewayauth.go\<close>, \<open>rbac.go\<close>, and the
      properties across components: a reconcile stays in its namespace, the role permits every call,
      the gateway controller notices every change but one of what it reads (watches are predicates
      on changes, updates with the labels before and after), and the key a client is given opens the
      model it was given for.

  \<^bold>\<open>Interfaces.\<close> The locales state what components rely on and are interpreted on the model:
  \<open>base_encoding\<close> on base32 and base64url (\<open>Encoding\<close>), \<open>access_topology\<close> on both topologies
  (\<open>Components\<close>), \<open>catalog\<close> on both catalogs (\<open>Config\<close>), \<open>pod_patch\<close> on the two edits of every model
  pod (\<open>VllmEngine\<close>), \<open>topology_status\<close> on the Status handlers of both topologies (\<open>Provider\<close>).

  \<^bold>\<open>Termination.\<close> Every function is total. The merge of inline configurations recurses on the
  generated value (a measure on its size); everything else is structural. No fuel is used.

  \<^bold>\<open>Not modelled.\<close> \<open>cmd/provider/main.go\<close> (flags and wiring), \<open>gen.go\<close>, \<open>definition/types.go\<close> (empty),
  generated manifests, charts, examples and tests; log lines, except the warnings of the key
  renderer; caching and concurrency of the controller runtime: the model has one run at a time over
  an arbitrary API state. Values the provider passes through without looking at them (affinity,
  security contexts, environment variables) are opaque.
\<close>

end
